(* ===== verification/Prelude.thy ===== *)
theory Prelude
  imports Main "HOL-Library.Word" "HOL-Library.Monad_Syntax"
begin

text \<open>
  Shared material of the development: the machine integers of the C code, the byte order
  macros and the memory image of integers (the host is little endian, network order is big
  endian), fixed width codecs as an interface, and the total correctness predicate \<open>ok\<close>
  with which the component proofs run a handler symbolically.

  A C function that may crash (NULL dereference, access to freed memory, access outside an
  allocation, taking a mutex twice, \<open>BUG()\<close>) is a function into \<open>option\<close>: \<open>None\<close> is the crash.
  \<open>ok m Q\<close> says that \<open>m\<close> does not crash and that its result satisfies \<open>Q\<close>.
\<close>

unbundle bit_operations_syntax

section \<open>Machine integers\<close>

type_synonym u8 = "8 word"
type_synonym u16 = "16 word"
type_synonym u32 = "32 word"
type_synonym u64 = "64 word"

named_theorems wp \<open>introduction rules that run one operation under ok\<close>

section \<open>Byte order and memory images\<close>

text \<open>The macros \<open>__cpu_to_be16\<close>, \<open>__be16_to_cpu\<close>, \<open>ntohs\<close> (and the 32 bit ones) on a little
  endian host: the bytes of the integer in reverse order.\<close>

definition swab16 :: "u16 \<Rightarrow> u16" where
  "swab16 w = push_bit 8 w OR drop_bit 8 w"

abbreviation cpu_to_be16 :: "u16 \<Rightarrow> u16" where "cpu_to_be16 \<equiv> swab16"
abbreviation be16_to_cpu :: "u16 \<Rightarrow> u16" where "be16_to_cpu \<equiv> swab16"
abbreviation ntohs :: "u16 \<Rightarrow> u16" where "ntohs \<equiv> swab16"

text \<open>The bytes of an integer in memory, lowest address first, and the load back.\<close>

definition mem16 :: "u16 \<Rightarrow> u8 list" where
  "mem16 w = [ucast w, ucast (drop_bit 8 w)]"

definition mem32 :: "u32 \<Rightarrow> u8 list" where
  "mem32 w = [ucast w, ucast (drop_bit 8 w), ucast (drop_bit 16 w), ucast (drop_bit 24 w)]"

definition ld16 :: "u8 list \<Rightarrow> u16" where
  "ld16 bs = ucast (bs ! 0) OR push_bit 8 (ucast (bs ! 1))"

definition ld32 :: "u8 list \<Rightarrow> u32" where
  "ld32 bs = ucast (bs ! 0) OR push_bit 8 (ucast (bs ! 1)) OR
     push_bit 16 (ucast (bs ! 2)) OR push_bit 24 (ucast (bs ! 3))"

definition swab32 :: "u32 \<Rightarrow> u32" where
  "swab32 w = ld32 (rev (mem32 w))"

abbreviation cpu_to_be32 :: "u32 \<Rightarrow> u32" where "cpu_to_be32 \<equiv> swab32"
abbreviation be32_to_cpu :: "u32 \<Rightarrow> u32" where "be32_to_cpu \<equiv> swab32"

lemma swab16_swab16 [simp]: "swab16 (swab16 w) = w"
  by (rule bit_word_eqI) (auto simp: swab16_def bit_simps)

lemma swab16_inj [simp]: "swab16 v = swab16 w \<longleftrightarrow> v = w"
  by (metis swab16_swab16)

lemma length_mem16 [simp]: "length (mem16 w) = 2"
  by (simp add: mem16_def)

lemma length_mem32 [simp]: "length (mem32 w) = 4"
  by (simp add: mem32_def)

lemma ld16_mem16 [simp]: "ld16 (mem16 w @ rest) = w"
  unfolding ld16_def mem16_def
  by (rule bit_word_eqI) (auto simp: bit_simps)

lemma ld16_mem16' [simp]: "ld16 (mem16 w) = w"
  using ld16_mem16 [of w "[]"] by simp

lemma ld32_mem32 [simp]: "ld32 (mem32 w @ rest) = w"
proof (rule bit_word_eqI)
  fix n :: nat
  assume "n < LENGTH(32)"
  then consider "n < 8" | "8 \<le> n" "n < 16" | "16 \<le> n" "n < 24" | "24 \<le> n" "n < 32"
    by fastforce
  then show "bit (ld32 (mem32 w @ rest)) n = bit w n"
    by cases (auto simp: ld32_def mem32_def bit_simps)
qed

lemma ld32_mem32' [simp]: "ld32 (mem32 w) = w"
  using ld32_mem32 [of w "[]"] by simp

lemma bit_u8_beyond [simp]: "8 \<le> n \<Longrightarrow> \<not> bit (a :: u8) n"
  using bit_imp_le_length [of a n] by auto

lemma mem32_ld32: "mem32 (ld32 [a, b, c, d]) = [a, b, c, d]"
  unfolding ld32_def mem32_def
  by (auto intro!: bit_word_eqI simp: bit_simps)

lemma swab32_swab32 [simp]: "swab32 (swab32 w) = w"
proof -
  have "rev (mem32 (swab32 w)) = mem32 w"
    unfolding swab32_def by (subst (2 3) mem32_def) (simp add: mem32_ld32)
  then show ?thesis
    by (simp add: swab32_def [of "swab32 w"])
qed

lemma mem16_cpu_to_be16:
  "mem16 (cpu_to_be16 w) = [ucast (drop_bit 8 w), ucast w]"
  unfolding mem16_def swab16_def
  by (auto intro!: bit_word_eqI simp: bit_simps)

section \<open>Fixed width codecs\<close>

text \<open>The interface between a struct and its bytes on the wire: an encoding of a fixed
  length that can be read back at the head of any longer buffer.\<close>

locale codec =
  fixes valid :: "'a \<Rightarrow> bool"
    and enc :: "'a \<Rightarrow> u8 list"
    and dec :: "u8 list \<Rightarrow> 'a"
    and width :: nat
  assumes enc_length: "valid x \<Longrightarrow> length (enc x) = width"
    and dec_enc_append: "valid x \<Longrightarrow> dec (enc x @ rest) = x"
begin

lemma dec_enc: "valid x \<Longrightarrow> dec (enc x) = x"
  using dec_enc_append [of x "[]"] by simp

lemma enc_inj: "valid x \<Longrightarrow> valid y \<Longrightarrow> enc x = enc y \<longleftrightarrow> x = y"
  by (metis dec_enc)

lemma dec_at: "valid x \<Longrightarrow> length pre = n \<Longrightarrow> dec (drop n (pre @ enc x @ rest)) = x"
  by (simp add: dec_enc_append)

lemma drop_enc: "valid x \<Longrightarrow> drop width (enc x @ rest) = rest"
  by (simp add: enc_length)

end

interpretation be16: codec "\<lambda>_. True" "\<lambda>w. mem16 (cpu_to_be16 w)" "\<lambda>bs. be16_to_cpu (ld16 bs)" 2
  by unfold_locales simp_all

interpretation be32: codec "\<lambda>_. True" "\<lambda>w. mem32 (cpu_to_be32 w)" "\<lambda>bs. be32_to_cpu (ld32 bs)" 4
  by unfold_locales simp_all

section \<open>Running partial operations\<close>

definition ok :: "'a option \<Rightarrow> ('a \<Rightarrow> bool) \<Rightarrow> bool" where
  "ok m Q \<longleftrightarrow> (\<exists>x. m = Some x \<and> Q x)"

lemma ok_Some [simp]: "ok (Some x) Q = Q x"
  by (simp add: ok_def)

lemma ok_None [simp]: "ok None Q = False"
  by (simp add: ok_def)

lemma ok_bind [simp]: "ok (m \<bind> f) Q = ok m (\<lambda>x. ok (f x) Q)"
  by (cases m) simp_all

lemma ok_if [simp]: "ok (if b then m else n) Q = (if b then ok m Q else ok n Q)"
  by simp

lemma ok_mono: "ok m P \<Longrightarrow> (\<And>x. P x \<Longrightarrow> Q x) \<Longrightarrow> ok m Q"
  by (auto simp: ok_def)

lemma okD: "ok m Q \<Longrightarrow> \<exists>x. m = Some x \<and> Q x"
  by (simp add: ok_def)

lemma ok_SomeD: "ok m Q \<Longrightarrow> m = Some x \<Longrightarrow> Q x"
  by (simp add: ok_def)

lemma ok_conj: "ok m P \<Longrightarrow> ok m Q \<Longrightarrow> ok m (\<lambda>x. P x \<and> Q x)"
  by (auto simp: ok_def)

lemma ok_not_None: "ok m Q \<Longrightarrow> m \<noteq> None"
  by (auto simp: ok_def)

end
