(* ===== verification/Mrp_Types.thy ===== *)
theory Mrp_Types
  imports Prelude
begin

text \<open>
  The enumerations of \<^verbatim>\<open>include/uapi/linux/mrp_bridge.h\<close>, \<^verbatim>\<open>utils.h\<close> and \<^verbatim>\<open>server_cmds.h\<close>,
  with the numbers they have on the wire and in control messages, and the functions that
  print them.  An enumeration that is read from a frame or a control message gets one extra
  constructor, which stands for every number the header does not name: the C code stores
  such a number without complaint.
\<close>

section \<open>Constants of mrp_bridge.h\<close>

definition MRP_MAX_FRAME_LENGTH :: u32 where [simp]: "MRP_MAX_FRAME_LENGTH = 200"
definition MRP_DEFAULT_PRIO :: u16 where "MRP_DEFAULT_PRIO = 0x8000"
definition MRP_DOMAIN_UUID_LENGTH :: nat where [simp]: "MRP_DOMAIN_UUID_LENGTH = 16"
definition MRP_VERSION :: u16 where "MRP_VERSION = 1"
definition MRP_OUI_LENGTH :: nat where [simp]: "MRP_OUI_LENGTH = 3"
definition MRP_MANUFACTURE_DATA_LENGTH :: nat where [simp]: "MRP_MANUFACTURE_DATA_LENGTH = 2"
definition ETH_P_MRP :: u16 where "ETH_P_MRP = 0x88E3"

section \<open>Roles and states of the kernel interface\<close>

datatype br_mrp_ring_role_type =
    BR_MRP_RING_ROLE_DISABLED | BR_MRP_RING_ROLE_MRC | BR_MRP_RING_ROLE_MRM | BR_MRP_RING_ROLE_MRA

datatype br_mrp_in_role_type =
    BR_MRP_IN_ROLE_DISABLED | BR_MRP_IN_ROLE_MIC | BR_MRP_IN_ROLE_MIM

datatype br_mrp_ring_state_type = BR_MRP_RING_STATE_OPEN | BR_MRP_RING_STATE_CLOSED

datatype br_mrp_in_state_type = BR_MRP_IN_STATE_OPEN | BR_MRP_IN_STATE_CLOSED

datatype br_mrp_port_state_type =
    BR_MRP_PORT_STATE_DISABLED | BR_MRP_PORT_STATE_BLOCKED
  | BR_MRP_PORT_STATE_FORWARDING | BR_MRP_PORT_STATE_NOT_CONNECTED

datatype br_mrp_port_role_type =
    BR_MRP_PORT_ROLE_PRIMARY | BR_MRP_PORT_ROLE_SECONDARY | BR_MRP_PORT_ROLE_INTER

datatype br_mrp_tlv_header_type =
    BR_MRP_TLV_HEADER_END | BR_MRP_TLV_HEADER_COMMON
  | BR_MRP_TLV_HEADER_RING_TEST | BR_MRP_TLV_HEADER_RING_TOPO
  | BR_MRP_TLV_HEADER_RING_LINK_DOWN | BR_MRP_TLV_HEADER_RING_LINK_UP
  | BR_MRP_TLV_HEADER_IN_TEST | BR_MRP_TLV_HEADER_IN_TOPO
  | BR_MRP_TLV_HEADER_IN_LINK_DOWN | BR_MRP_TLV_HEADER_IN_LINK_UP
  | BR_MRP_TLV_HEADER_IN_LINK_STATUS | BR_MRP_TLV_HEADER_OPTION
  | BR_MRP_TLV_HEADER_OTHER u8

datatype br_mrp_sub_tlv_header_type =
    BR_MRP_SUB_TLV_HEADER_TEST_MGR_NACK | BR_MRP_SUB_TLV_HEADER_TEST_PROPAGATE
  | BR_MRP_SUB_TLV_HEADER_TEST_AUTO_MGR

fun ring_role_code :: "br_mrp_ring_role_type \<Rightarrow> u32" where
  "ring_role_code BR_MRP_RING_ROLE_DISABLED = 0"
| "ring_role_code BR_MRP_RING_ROLE_MRC = 1"
| "ring_role_code BR_MRP_RING_ROLE_MRM = 2"
| "ring_role_code BR_MRP_RING_ROLE_MRA = 3"

fun in_role_code :: "br_mrp_in_role_type \<Rightarrow> u32" where
  "in_role_code BR_MRP_IN_ROLE_DISABLED = 0"
| "in_role_code BR_MRP_IN_ROLE_MIC = 1"
| "in_role_code BR_MRP_IN_ROLE_MIM = 2"

fun ring_state_code :: "br_mrp_ring_state_type \<Rightarrow> u16" where
  "ring_state_code BR_MRP_RING_STATE_OPEN = 0"
| "ring_state_code BR_MRP_RING_STATE_CLOSED = 1"

fun in_state_code :: "br_mrp_in_state_type \<Rightarrow> u16" where
  "in_state_code BR_MRP_IN_STATE_OPEN = 0"
| "in_state_code BR_MRP_IN_STATE_CLOSED = 1"

fun port_state_code :: "br_mrp_port_state_type \<Rightarrow> u32" where
  "port_state_code BR_MRP_PORT_STATE_DISABLED = 0"
| "port_state_code BR_MRP_PORT_STATE_BLOCKED = 1"
| "port_state_code BR_MRP_PORT_STATE_FORWARDING = 2"
| "port_state_code BR_MRP_PORT_STATE_NOT_CONNECTED = 3"

fun port_role_code :: "br_mrp_port_role_type \<Rightarrow> u16" where
  "port_role_code BR_MRP_PORT_ROLE_PRIMARY = 0"
| "port_role_code BR_MRP_PORT_ROLE_SECONDARY = 1"
| "port_role_code BR_MRP_PORT_ROLE_INTER = 2"

fun tlv_code :: "br_mrp_tlv_header_type \<Rightarrow> u8" where
  "tlv_code BR_MRP_TLV_HEADER_END = 0x0"
| "tlv_code BR_MRP_TLV_HEADER_COMMON = 0x1"
| "tlv_code BR_MRP_TLV_HEADER_RING_TEST = 0x2"
| "tlv_code BR_MRP_TLV_HEADER_RING_TOPO = 0x3"
| "tlv_code BR_MRP_TLV_HEADER_RING_LINK_DOWN = 0x4"
| "tlv_code BR_MRP_TLV_HEADER_RING_LINK_UP = 0x5"
| "tlv_code BR_MRP_TLV_HEADER_IN_TEST = 0x6"
| "tlv_code BR_MRP_TLV_HEADER_IN_TOPO = 0x7"
| "tlv_code BR_MRP_TLV_HEADER_IN_LINK_DOWN = 0x8"
| "tlv_code BR_MRP_TLV_HEADER_IN_LINK_UP = 0x9"
| "tlv_code BR_MRP_TLV_HEADER_IN_LINK_STATUS = 0xa"
| "tlv_code BR_MRP_TLV_HEADER_OPTION = 0x7f"
| "tlv_code (BR_MRP_TLV_HEADER_OTHER n) = n"

definition tlv_of :: "u8 \<Rightarrow> br_mrp_tlv_header_type" where
  "tlv_of n =
    (if n = 0x0 then BR_MRP_TLV_HEADER_END
     else if n = 0x1 then BR_MRP_TLV_HEADER_COMMON
     else if n = 0x2 then BR_MRP_TLV_HEADER_RING_TEST
     else if n = 0x3 then BR_MRP_TLV_HEADER_RING_TOPO
     else if n = 0x4 then BR_MRP_TLV_HEADER_RING_LINK_DOWN
     else if n = 0x5 then BR_MRP_TLV_HEADER_RING_LINK_UP
     else if n = 0x6 then BR_MRP_TLV_HEADER_IN_TEST
     else if n = 0x7 then BR_MRP_TLV_HEADER_IN_TOPO
     else if n = 0x8 then BR_MRP_TLV_HEADER_IN_LINK_DOWN
     else if n = 0x9 then BR_MRP_TLV_HEADER_IN_LINK_UP
     else if n = 0xa then BR_MRP_TLV_HEADER_IN_LINK_STATUS
     else if n = 0x7f then BR_MRP_TLV_HEADER_OPTION
     else BR_MRP_TLV_HEADER_OTHER n)"

fun sub_tlv_code :: "br_mrp_sub_tlv_header_type \<Rightarrow> u8" where
  "sub_tlv_code BR_MRP_SUB_TLV_HEADER_TEST_MGR_NACK = 0x1"
| "sub_tlv_code BR_MRP_SUB_TLV_HEADER_TEST_PROPAGATE = 0x2"
| "sub_tlv_code BR_MRP_SUB_TLV_HEADER_TEST_AUTO_MGR = 0x3"

section \<open>Enumerations of utils.h\<close>

datatype mrp_ring_recovery_type =
    MRP_RING_RECOVERY_500 | MRP_RING_RECOVERY_200 | MRP_RING_RECOVERY_30 | MRP_RING_RECOVERY_10
  | MRP_RING_RECOVERY_OTHER u8

datatype mrp_in_recovery_type =
    MRP_IN_RECOVERY_500 | MRP_IN_RECOVERY_200 | MRP_IN_RECOVERY_OTHER u8

datatype mrp_mrm_state_type =
    MRP_MRM_STATE_AC_STAT1 | MRP_MRM_STATE_PRM_UP | MRP_MRM_STATE_CHK_RO | MRP_MRM_STATE_CHK_RC

datatype mrp_mrc_state_type =
    MRP_MRC_STATE_AC_STAT1 | MRP_MRC_STATE_DE_IDLE | MRP_MRC_STATE_PT | MRP_MRC_STATE_DE
  | MRP_MRC_STATE_PT_IDLE

datatype mrp_mim_state_type =
    MRP_MIM_STATE_AC_STAT1 | MRP_MIM_STATE_CHK_IO | MRP_MIM_STATE_CHK_IC

datatype mrp_mic_state_type =
    MRP_MIC_STATE_AC_STAT1 | MRP_MIC_STATE_PT | MRP_MIC_STATE_IP_IDLE

datatype mrp_in_mode_type = MRP_IN_MODE_RC | MRP_IN_MODE_LC | MRP_IN_MODE_OTHER u32

definition ring_recv_of :: "u8 \<Rightarrow> mrp_ring_recovery_type" where
  "ring_recv_of n =
    (if n = 0 then MRP_RING_RECOVERY_500 else if n = 1 then MRP_RING_RECOVERY_200
     else if n = 2 then MRP_RING_RECOVERY_30 else if n = 3 then MRP_RING_RECOVERY_10
     else MRP_RING_RECOVERY_OTHER n)"

fun ring_recv_code :: "mrp_ring_recovery_type \<Rightarrow> u8" where
  "ring_recv_code MRP_RING_RECOVERY_500 = 0"
| "ring_recv_code MRP_RING_RECOVERY_200 = 1"
| "ring_recv_code MRP_RING_RECOVERY_30 = 2"
| "ring_recv_code MRP_RING_RECOVERY_10 = 3"
| "ring_recv_code (MRP_RING_RECOVERY_OTHER n) = n"

definition in_recv_of :: "u8 \<Rightarrow> mrp_in_recovery_type" where
  "in_recv_of n =
    (if n = 0 then MRP_IN_RECOVERY_500 else if n = 1 then MRP_IN_RECOVERY_200
     else MRP_IN_RECOVERY_OTHER n)"

fun in_recv_code :: "mrp_in_recovery_type \<Rightarrow> u8" where
  "in_recv_code MRP_IN_RECOVERY_500 = 0"
| "in_recv_code MRP_IN_RECOVERY_200 = 1"
| "in_recv_code (MRP_IN_RECOVERY_OTHER n) = n"

definition in_mode_of :: "u32 \<Rightarrow> mrp_in_mode_type" where
  "in_mode_of n =
    (if n = 0 then MRP_IN_MODE_RC else if n = 1 then MRP_IN_MODE_LC else MRP_IN_MODE_OTHER n)"

fun in_mode_code :: "mrp_in_mode_type \<Rightarrow> u32" where
  "in_mode_code MRP_IN_MODE_RC = 0"
| "in_mode_code MRP_IN_MODE_LC = 1"
| "in_mode_code (MRP_IN_MODE_OTHER n) = n"

fun mrm_state_code :: "mrp_mrm_state_type \<Rightarrow> int" where
  "mrm_state_code MRP_MRM_STATE_AC_STAT1 = 0"
| "mrm_state_code MRP_MRM_STATE_PRM_UP = 1"
| "mrm_state_code MRP_MRM_STATE_CHK_RO = 2"
| "mrm_state_code MRP_MRM_STATE_CHK_RC = 3"

fun mrc_state_code :: "mrp_mrc_state_type \<Rightarrow> int" where
  "mrc_state_code MRP_MRC_STATE_AC_STAT1 = 0"
| "mrc_state_code MRP_MRC_STATE_DE_IDLE = 1"
| "mrc_state_code MRP_MRC_STATE_PT = 2"
| "mrc_state_code MRP_MRC_STATE_DE = 3"
| "mrc_state_code MRP_MRC_STATE_PT_IDLE = 4"

fun mim_state_code :: "mrp_mim_state_type \<Rightarrow> int" where
  "mim_state_code MRP_MIM_STATE_AC_STAT1 = 0"
| "mim_state_code MRP_MIM_STATE_CHK_IO = 1"
| "mim_state_code MRP_MIM_STATE_CHK_IC = 2"

fun mic_state_code :: "mrp_mic_state_type \<Rightarrow> int" where
  "mic_state_code MRP_MIC_STATE_AC_STAT1 = 0"
| "mic_state_code MRP_MIC_STATE_PT = 1"
| "mic_state_code MRP_MIC_STATE_IP_IDLE = 2"

section \<open>Operational states of an interface\<close>

definition IF_OPER_UNKNOWN :: u8 where "IF_OPER_UNKNOWN = 0"
definition IF_OPER_NOTPRESENT :: u8 where "IF_OPER_NOTPRESENT = 1"
definition IF_OPER_DOWN :: u8 where "IF_OPER_DOWN = 2"
definition IF_OPER_LOWERLAYERDOWN :: u8 where "IF_OPER_LOWERLAYERDOWN = 3"
definition IF_OPER_TESTING :: u8 where "IF_OPER_TESTING = 4"
definition IF_OPER_DORMANT :: u8 where "IF_OPER_DORMANT = 5"
definition IF_OPER_UP :: u8 where "IF_OPER_UP = 6"

lemmas oper_defs = IF_OPER_UNKNOWN_def IF_OPER_NOTPRESENT_def IF_OPER_DOWN_def
  IF_OPER_LOWERLAYERDOWN_def IF_OPER_TESTING_def IF_OPER_DORMANT_def IF_OPER_UP_def

lemma oper_up_neq_down [simp]: "IF_OPER_UP \<noteq> IF_OPER_DOWN" "IF_OPER_DOWN \<noteq> IF_OPER_UP"
  by (simp_all add: oper_defs)

section \<open>Printing\<close>

fun mrp_get_mrm_state :: "mrp_mrm_state_type \<Rightarrow> string" where
  "mrp_get_mrm_state MRP_MRM_STATE_AC_STAT1 = ''AC_STAT1''"
| "mrp_get_mrm_state MRP_MRM_STATE_PRM_UP = ''PRM_UP''"
| "mrp_get_mrm_state MRP_MRM_STATE_CHK_RO = ''CHK_RO''"
| "mrp_get_mrm_state MRP_MRM_STATE_CHK_RC = ''CHK_RC''"

fun mrp_get_mrc_state :: "mrp_mrc_state_type \<Rightarrow> string" where
  "mrp_get_mrc_state MRP_MRC_STATE_AC_STAT1 = ''AC_STAT1''"
| "mrp_get_mrc_state MRP_MRC_STATE_DE_IDLE = ''DE_IDLE''"
| "mrp_get_mrc_state MRP_MRC_STATE_PT = ''PT''"
| "mrp_get_mrc_state MRP_MRC_STATE_DE = ''DE''"
| "mrp_get_mrc_state MRP_MRC_STATE_PT_IDLE = ''PT_IDLE''"

fun mrp_get_mim_state :: "mrp_mim_state_type \<Rightarrow> string" where
  "mrp_get_mim_state MRP_MIM_STATE_AC_STAT1 = ''AC_STAT1''"
| "mrp_get_mim_state MRP_MIM_STATE_CHK_IO = ''CHK_IO''"
| "mrp_get_mim_state MRP_MIM_STATE_CHK_IC = ''CHK_IC''"

fun mrp_get_mic_state :: "mrp_mic_state_type \<Rightarrow> string" where
  "mrp_get_mic_state MRP_MIC_STATE_AC_STAT1 = ''AC_STAT1''"
| "mrp_get_mic_state MRP_MIC_STATE_PT = ''PT''"
| "mrp_get_mic_state MRP_MIC_STATE_IP_IDLE = ''IP_IDLE''"

fun ring_role_str :: "br_mrp_ring_role_type \<Rightarrow> string" where
  "ring_role_str BR_MRP_RING_ROLE_DISABLED = ''Disabled''"
| "ring_role_str BR_MRP_RING_ROLE_MRC = ''MRC''"
| "ring_role_str BR_MRP_RING_ROLE_MRM = ''MRM''"
| "ring_role_str BR_MRP_RING_ROLE_MRA = ''MRA''"

fun in_role_str :: "br_mrp_in_role_type \<Rightarrow> string" where
  "in_role_str BR_MRP_IN_ROLE_DISABLED = ''Disabled''"
| "in_role_str BR_MRP_IN_ROLE_MIC = ''MIC''"
| "in_role_str BR_MRP_IN_ROLE_MIM = ''MIM''"

section \<open>Numbers and enumerators agree\<close>

lemma tlv_of_code: "(\<And>n. t \<noteq> BR_MRP_TLV_HEADER_OTHER n) \<Longrightarrow> tlv_of (tlv_code t) = t"
  by (cases t) (simp_all add: tlv_of_def)

lemma tlv_code_of [simp]: "tlv_code (tlv_of n) = n"
  by (simp add: tlv_of_def)

lemma ring_recv_code_of [simp]: "ring_recv_code (ring_recv_of n) = n"
  by (simp add: ring_recv_of_def)

lemma in_recv_code_of [simp]: "in_recv_code (in_recv_of n) = n"
  by (simp add: in_recv_of_def)

lemma in_mode_code_of [simp]: "in_mode_code (in_mode_of n) = n"
  by (simp add: in_mode_of_def)

end
