(* ===== verification/Utils.thy ===== *)
theory Utils
  imports Mrp_Types
begin

text \<open>
  \<^verbatim>\<open>utils.c\<close>: Ethernet addresses (copied and compared as three 16 bit words, ordered as a
  48 bit number), the frame buffers in which frames are composed, and the rate limiter of
  the log macros.  A \<open>frame_buf\<close> is the block it owns (\<open>start\<close>), the offset of \<open>data\<close> in it
  and \<open>size\<close>; \<open>fb_store\<close> is the memory write behind an assignment through the pointer that
  \<open>fb_put\<close> returned, and is a crash outside the block.
\<close>

section \<open>Ethernet addresses\<close>

type_synonym ether = "u8 list"

definition ETH_ALEN :: nat where [simp]: "ETH_ALEN = 6"

definition ether_addr_copy :: "ether \<Rightarrow> ether" where
  "ether_addr_copy src =
     mem16 (ld16 src) @ mem16 (ld16 (drop 2 src)) @ mem16 (ld16 (drop 4 src))"

definition ether_addr_equal :: "ether \<Rightarrow> ether \<Rightarrow> bool" where
  "ether_addr_equal a b \<longleftrightarrow>
     (ld16 a XOR ld16 b) OR (ld16 (drop 2 a) XOR ld16 (drop 2 b)) OR
     (ld16 (drop 4 a) XOR ld16 (drop 4 b)) = 0"

fun u64_loop :: "nat \<Rightarrow> ether \<Rightarrow> u64 \<Rightarrow> u64" where
  "u64_loop 0 addr u = u"
| "u64_loop (Suc n) addr u = u64_loop n (tl addr) (push_bit 8 u OR ucast (hd addr))"

definition ether_addr_to_u64 :: "ether \<Rightarrow> u64" where
  "ether_addr_to_u64 addr = u64_loop ETH_ALEN addr 0"

section \<open>Frame buffers\<close>

record frame_buf =
  fb_start :: "u8 list"
  fb_data :: nat
  fb_size :: u32

definition sizeof_frame_buf :: nat where "sizeof_frame_buf = 24"

text \<open>\<open>fb_alloc\<close> returns NULL (\<open>None\<close>) when one of its two \<open>malloc\<close>s does.\<close>

definition fb_alloc :: "(nat \<Rightarrow> bool) \<Rightarrow> u32 \<Rightarrow> frame_buf option" where
  "fb_alloc malloc_ok sz =
    (if \<not> malloc_ok sizeof_frame_buf then None
     else if \<not> malloc_ok (unat sz) then None
     else Some \<lparr>fb_start = replicate (unat sz) 0, fb_data = 0, fb_size = 0\<rparr>)"

definition fb_put :: "frame_buf \<Rightarrow> u32 \<Rightarrow> nat \<times> frame_buf" where
  "fb_put fb sz =
     (fb_data fb, fb\<lparr>fb_data := fb_data fb + unat sz, fb_size := fb_size fb + sz\<rparr>)"

definition fb_store :: "nat \<Rightarrow> u8 list \<Rightarrow> frame_buf \<Rightarrow> frame_buf option" where
  "fb_store off bs fb =
    (if off + length bs \<le> length (fb_start fb)
     then Some (fb\<lparr>fb_start := take off (fb_start fb) @ bs @ drop (off + length bs) (fb_start fb)\<rparr>)
     else None)"

text \<open>\<open>p = fb_put(fb, sizeof( *p))\<close> followed by assignments to every member of \<open>*p\<close>.\<close>

definition fb_put_struct :: "u8 list \<Rightarrow> frame_buf \<Rightarrow> frame_buf option" where
  "fb_put_struct bs fb =
     (let (res, fb') = fb_put fb (of_nat (length bs)) in fb_store res bs fb')"

section \<open>Rate limiting of log messages\<close>

record timespec =
  tv_sec :: int
  tv_nsec :: int

record ratelimit_state =
  interval_s :: int
  burst :: int
  printed :: int
  missed :: int
  begin_t :: timespec

definition DEFAULT_RATELIMIT_INTERVAL :: int where "DEFAULT_RATELIMIT_INTERVAL = 5"
definition DEFAULT_RATELIMIT_BURST :: int where "DEFAULT_RATELIMIT_BURST = 10"

definition RATELIMIT_STATE_INIT :: "int \<Rightarrow> int \<Rightarrow> ratelimit_state" where
  "RATELIMIT_STATE_INIT iv b =
     \<lparr>interval_s = iv, burst = b, printed = 0, missed = 0, begin_t = \<lparr>tv_sec = 0, tv_nsec = 0\<rparr>\<rparr>"

definition time_is_before :: "timespec \<Rightarrow> int \<Rightarrow> timespec \<Rightarrow> bool" where
  "time_is_before t0 iv t =
    (let sec = tv_sec t0 + iv in
     if sec = tv_sec t then tv_nsec t0 < tv_nsec t else sec < tv_sec t)"

text \<open>\<open>ratelimit\<close> reads the clock up to three times (\<open>t1\<close> for a fresh state, \<open>t2\<close> in
  \<open>time_is_before\<close>, \<open>t3\<close> for a new window).  The last component of the result is the number
  in the line \<open>messages suppressed\<close> when it prints one.\<close>

definition ratelimit ::
  "ratelimit_state \<Rightarrow> timespec \<Rightarrow> timespec \<Rightarrow> timespec \<Rightarrow> bool \<times> ratelimit_state \<times> int option" where
  "ratelimit rs t1 t2 t3 =
    (if interval_s rs = 0 then (True, rs, None)
     else
       let rs = (if tv_sec (begin_t rs) = 0 then rs\<lparr>begin_t := t1\<rparr> else rs);
           (rs, msg) =
             (if time_is_before (begin_t rs) (interval_s rs) t2
              then (rs\<lparr>missed := 0, begin_t := t3, printed := 0\<rparr>,
                    if missed rs \<noteq> 0 then Some (missed rs) else None)
              else (rs, None))
       in if burst rs \<noteq> 0 \<and> burst rs > printed rs
          then (True, rs\<lparr>printed := printed rs + 1\<rparr>, msg)
          else (False, rs\<lparr>missed := missed rs + 1\<rparr>, msg))"

section \<open>Lemmas\<close>

lemma list6_cases:
  assumes "length xs = 6"
  obtains a b c d e f where "xs = [a, b, c, d, e, f]"
proof -
  from assms have "\<exists>a b c d e f. xs = [a, b, c, d, e, f]"
    by (auto simp: numeral_eq_Suc length_Suc_conv)
  then show thesis using that by blast
qed

lemma mem16_ld16: "mem16 (ld16 (a # b # cs)) = [a, b]"
  unfolding mem16_def ld16_def
  by (auto intro!: bit_word_eqI simp: bit_simps)

lemma ld16_inj: "ld16 (a # b # cs) = ld16 (a' # b' # cs') \<longleftrightarrow> a = a' \<and> b = b'"
proof
  assume "ld16 (a # b # cs) = ld16 (a' # b' # cs')"
  then have "mem16 (ld16 (a # b # cs)) = mem16 (ld16 (a' # b' # cs'))"
    by (rule arg_cong)
  then show "a = a' \<and> b = b'"
    unfolding mem16_ld16 by simp
qed (simp add: ld16_def)

lemma ld16_append: "length xs = 2 \<Longrightarrow> ld16 (xs @ ys) = ld16 xs"
  by (simp add: ld16_def nth_append)

lemma ether_addr_copy_id [simp]: "length a = 6 \<Longrightarrow> ether_addr_copy a = a"
  by (erule list6_cases) (simp add: ether_addr_copy_def mem16_ld16)

lemma length_ether_addr_copy [simp]: "length (ether_addr_copy a) = 6"
  by (simp add: ether_addr_copy_def)

lemma or_word_eq_0_iff: "(v :: 'a::len word) OR w = 0 \<longleftrightarrow> v = 0 \<and> w = 0"
  by (auto simp: bit_eq_iff bit_simps)

lemma xor_word_eq_0_iff: "(v :: 'a::len word) XOR w = 0 \<longleftrightarrow> v = w"
  by (auto simp: bit_eq_iff bit_simps)

lemma ether_addr_equal_iff:
  assumes "length a = 6" and "length b = 6"
  shows "ether_addr_equal a b \<longleftrightarrow> a = b"
proof -
  obtain a0 a1 a2 a3 a4 a5 where a: "a = [a0, a1, a2, a3, a4, a5]"
    using assms(1) by (rule list6_cases)
  obtain b0 b1 b2 b3 b4 b5 where b: "b = [b0, b1, b2, b3, b4, b5]"
    using assms(2) by (rule list6_cases)
  show ?thesis
    by (simp add: a b ether_addr_equal_def or_word_eq_0_iff xor_word_eq_0_iff ld16_inj)
qed

lemma ether_addr_equal_refl [simp]: "ether_addr_equal a a"
  by (simp add: ether_addr_equal_def)

text \<open>The number of an address determines its bytes.\<close>

lemma ether_addr_to_u64_unroll:
  "ether_addr_to_u64 [a, b, c, d, e, f] =
     push_bit 8 (push_bit 8 (push_bit 8 (push_bit 8 (push_bit 8 (push_bit 8 0 OR ucast a)
       OR ucast b) OR ucast c) OR ucast d) OR ucast e) OR ucast f"
proof -
  have six: "(6 :: nat) = Suc (Suc (Suc (Suc (Suc (Suc 0)))))" by simp
  show ?thesis
    unfolding ether_addr_to_u64_def ETH_ALEN_def six
    by (simp only: u64_loop.simps list.sel)
qed

lemma ether_addr_to_u64_bytes:
  fixes a b c d e f :: u8
  defines "u \<equiv> ether_addr_to_u64 [a, b, c, d, e, f]"
  shows "ucast u = f" and "ucast (drop_bit 8 u) = e" and "ucast (drop_bit 16 u) = d"
    and "ucast (drop_bit 24 u) = c" and "ucast (drop_bit 32 u) = b" and "ucast (drop_bit 40 u) = a"
  unfolding u_def ether_addr_to_u64_unroll
  by (rule bit_word_eqI; auto simp: bit_simps)+

lemma ether_addr_to_u64_inj:
  assumes "length x = 6" and "length y = 6" and eq: "ether_addr_to_u64 x = ether_addr_to_u64 y"
  shows "x = y"
proof -
  obtain a b c d e f where x: "x = [a, b, c, d, e, f]"
    using assms(1) by (rule list6_cases)
  obtain a' b' c' d' e' f' where y: "y = [a', b', c', d', e', f']"
    using assms(2) by (rule list6_cases)
  note bx = ether_addr_to_u64_bytes [of a b c d e f, folded x, unfolded eq]
  note by' = ether_addr_to_u64_bytes [of a' b' c' d' e' f', folded y]
  from bx by' show ?thesis unfolding x y by simp
qed

text \<open>Composing into a fresh buffer: as long as the block is large enough, the structs that
  are put one after another lie one after another at its start.\<close>

definition fb_holds :: "frame_buf \<Rightarrow> u8 list \<Rightarrow> bool" where
  "fb_holds fb bs \<longleftrightarrow>
     length bs \<le> 200 \<and> fb_start fb = bs @ replicate (200 - length bs) 0 \<and>
     fb_data fb = length bs \<and> fb_size fb = of_nat (length bs)"

lemma fb_alloc_holds:
  "fb_alloc malloc_ok MRP_MAX_FRAME_LENGTH = Some fb \<Longrightarrow> fb_holds fb []"
  by (auto simp: fb_alloc_def fb_holds_def split: if_splits)

lemma fb_alloc_None_iff:
  "fb_alloc malloc_ok MRP_MAX_FRAME_LENGTH = None \<longleftrightarrow>
     \<not> malloc_ok sizeof_frame_buf \<or> \<not> malloc_ok 200"
  by (auto simp: fb_alloc_def)

lemma fb_put_struct_holds:
  assumes "fb_holds fb bs" and "length bs + length xs \<le> 200"
  shows "ok (fb_put_struct xs fb) (\<lambda>fb'. fb_holds fb' (bs @ xs))"
proof -
  have u: "unat (of_nat (length xs) :: u32) = length xs"
    using assms(2) by (simp add: unat_of_nat)
  show ?thesis
    using assms
    by (auto simp: fb_put_struct_def fb_put_def fb_store_def fb_holds_def u min_def)
qed

lemma fb_holds_size: "fb_holds fb bs \<Longrightarrow> unat (fb_size fb) = length bs"
  by (auto simp: fb_holds_def unat_of_nat)

end
