(* ===== verification/Mrp_State.thy ===== *)
theory Mrp_State
  imports Utils
begin

text \<open>
  The state of one MRP instance (\<^verbatim>\<open>state_machine.h\<close>) and the elementary operations of
  \<^verbatim>\<open>state_machine.c\<close> on it.

  \<^item> \<open>mrp_port\<close> and \<open>mrp\<close> are the structs.  An instance owns at most three port objects, one
    per role given to \<open>mrp_port_init\<close>; a \<open>port_ref\<close> is the address of such an object and
    \<open>port\<close> is the memory they live in, so that \<open>p_port\<close>, \<open>s_port\<close> and \<open>i_port\<close> are pointers
    (\<open>None\<close> is NULL) that can be exchanged, as the code does when the primary port fails.
    \<open>pmrp\<close> says that the back pointer \<open>p->mrp\<close> is not NULL.
  \<^item> the mutex is a flag: the daemon has one thread, and taking a held mutex again would
    block for ever (a crash here).
  \<^item> \<open>effect\<close> records the calls that leave the daemon (sockets, the interface driver, DBus,
    CFM, the allocation of a port); \<open>log\<close> is the sequence of them.
  \<^item> \<open>env\<close> holds what the code calls and does not define: \<open>malloc\<close>, the monotonic clock, the
    kernel's interface tables, the result codes of the interface driver, libev's
    \<open>ev_init\<close>, \<open>ev_timer_again\<close> and \<open>ev_timer_stop\<close>, the contents of uninitialised stack memory, and
    the command line option \<open>time_factor\<close>.  The oracles see the log, so that two calls of
    them may give different answers.
\<close>

section \<open>Structs\<close>

datatype port_ref = PORT_PRIMARY | PORT_SECONDARY | PORT_INTER

record mrp_port =
  pmrp :: bool
  pstate :: br_mrp_port_state_type
  prole :: br_mrp_port_role_type
  pifindex :: u32
  pifname :: string
  pmacaddr :: ether
  poperstate :: u8

text \<open>A libev timer: the member \<open>repeat\<close> (in microseconds, the unit the code divides by
  1000000) and what \<open>ev_is_active\<close> reports.\<close>

record ev_timer =
  repeat :: u32
  active :: bool

record mrp =
  lock :: bool
  ifindex :: u32
  ifname :: string
  macaddr :: ether
  p_port :: "port_ref option"
  s_port :: "port_ref option"
  i_port :: "port_ref option"
  ring_prio :: u16
  ring_mac :: ether
  ring_nr :: u32
  in_id :: u16
  mra_support :: bool
  ring_role :: br_mrp_ring_role_type
  ring_recv :: mrp_ring_recovery_type
  in_role :: br_mrp_in_role_type
  in_mode :: mrp_in_mode_type
  in_recv :: mrp_in_recovery_type
  mrm_state :: mrp_mrm_state_type
  mrc_state :: mrp_mrc_state_type
  mim_state :: mrp_mim_state_type
  mic_state :: mrp_mic_state_type
  add_test :: bool
  no_tc :: bool
  ring_transitions :: u16
  in_transitions :: u16
  seq_id :: u16
  prio :: u16
  domain :: "u8 list"
  clear_fdb_work :: ev_timer
  ring_test_work :: ev_timer
  ring_test_conf_short :: u32
  ring_test_conf_interval :: u32
  ring_test_conf_max :: u32
  ring_test_conf_ext_max :: u32
  ring_test_curr :: u32
  ring_test_curr_max :: u32
  ring_mon_curr :: u32
  ring_mon_curr_max :: u32
  ring_topo_work :: ev_timer
  ring_topo_conf_interval :: u32
  ring_topo_conf_max :: u32
  ring_topo_curr_max :: u32
  ring_topo_running :: bool
  ring_link_up_work :: ev_timer
  ring_link_down_work :: ev_timer
  ring_link_conf_interval :: u32
  ring_link_conf_max :: u32
  ring_link_curr_max :: u32
  in_test_work :: ev_timer
  in_test_conf_short :: u32
  in_test_conf_interval :: u32
  in_test_conf_max :: u32
  in_test_conf_ext_max :: u32
  in_test_curr :: u32
  in_test_curr_max :: u32
  in_topo_work :: ev_timer
  in_topo_conf_interval :: u32
  in_topo_conf_max :: u32
  in_topo_curr_max :: u32
  in_link_up_work :: ev_timer
  in_link_down_work :: ev_timer
  in_link_conf_interval :: u32
  in_link_conf_max :: u32
  in_link_curr_max :: u32
  in_link_status_work :: ev_timer
  in_link_status_conf_interval :: u32
  in_link_status_conf_max :: u32
  in_link_status_curr_max :: u32
  blocked :: u32
  react_on_link_change :: u32
  cfm_ccm_work :: ev_timer
  cfm_ccm_period :: u32
  cfm_instance :: u32
  cfm_mepid :: u32
  cfm_peer_mepid :: u32
  cfm_ccm_dmac :: ether

section \<open>Effects and environment\<close>

datatype effect =
    Packet_send u32 "u8 list"
  | Ifdriver_port_set_state mrp_port br_mrp_port_state_type
  | Ifdriver_set_ring_role mrp br_mrp_ring_role_type
  | Ifdriver_set_in_role mrp mrp_port br_mrp_in_role_type
  | Ifdriver_flush mrp mrp_port mrp_port "mrp_port option"
  | Dbus_port_state_changed mrp_port br_mrp_port_state_type
  | Cfm_offload_mep_create u32 u32 u32
  | Cfm_offload_mep_config u32 u32 ether u32 u32
  | Cfm_offload_cc_config u32 u32 "u8 list"
  | Cfm_offload_cc_peer u32 u32 u32
  | Cfm_offload_cc_ccm_tx u32 u32 ether u32
  | Cfm_offload_mep_delete u32 u32
  | Malloc_port br_mrp_port_role_type

record env =
  malloc_ok :: "effect list \<Rightarrow> nat \<Rightarrow> bool"
  sizeof_mrp :: nat
  sizeof_mrp_port :: nat
  sizeof_maid_data :: nat
  clock :: "effect list \<Rightarrow> timespec"
  if_indextoname :: "u32 \<Rightarrow> string option"
  ioctl_hwaddr :: "effect list \<Rightarrow> string \<Rightarrow> ether option"
  ioctl_flags :: "effect list \<Rightarrow> string \<Rightarrow> u16 option"
  drv_ret :: "effect list \<Rightarrow> effect \<Rightarrow> int"
  ev_init :: "ev_timer \<Rightarrow> ev_timer"
  ev_timer_again :: "ev_timer \<Rightarrow> ev_timer"
  ev_timer_stop :: "ev_timer \<Rightarrow> ev_timer"
  stack_byte :: "nat \<Rightarrow> u8"
  time_factor :: u32

text \<open>What libev documents of the three calls the daemon makes: \<open>ev_init\<close> leaves an inactive
  timer; \<open>ev_timer_again\<close> (re)starts a repeating timer and stops one whose \<open>repeat\<close> is zero;
  \<open>ev_timer_stop\<close> stops it.\<close>

definition libev_timers :: "env \<Rightarrow> bool" where
  "libev_timers e \<longleftrightarrow>
     (\<forall>w. \<not> active (ev_init e w)) \<and>
     (\<forall>w. active (ev_timer_again e w) = (repeat w \<noteq> 0)) \<and>
     (\<forall>w. \<not> active (ev_timer_stop e w))"

record st =
  mrp :: mrp
  port :: "port_ref \<Rightarrow> mrp_port option"
  log :: "effect list"

section \<open>Reading and writing the state\<close>

text \<open>Dereferencing a port pointer: NULL and freed objects are a crash.\<close>

definition deref :: "port_ref option \<Rightarrow> st \<Rightarrow> mrp_port option" where
  "deref p s = (case p of None \<Rightarrow> None | Some r \<Rightarrow> port s r)"

text \<open>\<open>p->mrp\<close> for a port in hand: the instance the port belongs to.\<close>

definition deref_mrp :: "port_ref option \<Rightarrow> st \<Rightarrow> mrp_port option" where
  "deref_mrp p s = do { q \<leftarrow> deref p s; if pmrp q then Some q else None }"

definition upd_port :: "port_ref option \<Rightarrow> (mrp_port \<Rightarrow> mrp_port) \<Rightarrow> st \<Rightarrow> st option" where
  "upd_port p f s =
    (case p of None \<Rightarrow> None
     | Some r \<Rightarrow> (case port s r of None \<Rightarrow> None
                 | Some q \<Rightarrow> Some (s\<lparr>port := (port s)(r \<mapsto> f q)\<rparr>)))"

definition emit :: "effect \<Rightarrow> st \<Rightarrow> st" where
  "emit x s = s\<lparr>log := log s @ [x]\<rparr>"

definition mrp_lock :: "st \<Rightarrow> st option" where
  "mrp_lock s = (if lock (mrp s) then None else Some (s\<lparr>mrp := (mrp s)\<lparr>lock := True\<rparr>\<rparr>))"

definition mrp_unlock :: "st \<Rightarrow> st" where
  "mrp_unlock s = s\<lparr>mrp := (mrp s)\<lparr>lock := False\<rparr>\<rparr>"

section \<open>Interface queries of utils.c\<close>

text \<open>\<open>if_get_mac\<close> leaves the destination alone when the interface is unknown or the
  \<open>ioctl\<close> fails.\<close>

definition if_get_mac :: "env \<Rightarrow> effect list \<Rightarrow> u32 \<Rightarrow> ether \<Rightarrow> ether" where
  "if_get_mac e l idx mac =
    (case if_indextoname e idx of None \<Rightarrow> mac
     | Some name \<Rightarrow> (case ioctl_hwaddr e l name of None \<Rightarrow> mac | Some m \<Rightarrow> m))"

definition IFF_RUNNING :: u16 where "IFF_RUNNING = 0x40"

definition if_get_link :: "env \<Rightarrow> effect list \<Rightarrow> u32 \<Rightarrow> u16" where
  "if_get_link e l idx =
    (case if_indextoname e idx of None \<Rightarrow> 0
     | Some name \<Rightarrow> (case ioctl_flags e l name of None \<Rightarrow> 0 | Some fl \<Rightarrow> fl AND IFF_RUNNING))"

section \<open>Ports\<close>

definition mrp_is_port_up :: "env \<Rightarrow> port_ref option \<Rightarrow> st \<Rightarrow> bool option" where
  "mrp_is_port_up e p s = map_option (\<lambda>q. if_get_link e (log s) (pifindex q) \<noteq> 0) (deref p s)"

definition mrp_is_ring_port :: "mrp_port \<Rightarrow> bool" where
  "mrp_is_ring_port q \<longleftrightarrow>
     prole q = BR_MRP_PORT_ROLE_PRIMARY \<or> prole q = BR_MRP_PORT_ROLE_SECONDARY"

definition mrp_is_in_port :: "mrp_port \<Rightarrow> bool" where
  "mrp_is_in_port q \<longleftrightarrow> prole q = BR_MRP_PORT_ROLE_INTER"

definition mrp_is_mrp_port :: "mrp_port \<Rightarrow> bool" where
  "mrp_is_mrp_port q \<longleftrightarrow> pmrp q"

text \<open>\<open>mrp_port_set_state\<close>, with the driver's result code; no caller uses it, and
  \<open>set_port\<close> is the call with the result dropped.\<close>

definition mrp_port_set_state ::
  "env \<Rightarrow> port_ref option \<Rightarrow> br_mrp_port_state_type \<Rightarrow> st \<Rightarrow> (int \<times> st) option" where
  "mrp_port_set_state e p x s = do {
     s \<leftarrow> upd_port p (\<lambda>q. q\<lparr>pstate := x\<rparr>) s;
     q \<leftarrow> deref p s;
     let ret = drv_ret e (log s) (Ifdriver_port_set_state q x);
     let s = emit (Ifdriver_port_set_state q x) s;
     let s = emit (Dbus_port_state_changed q x) s;
     Some (ret, s)
   }"

definition set_port :: "env \<Rightarrow> port_ref option \<Rightarrow> br_mrp_port_state_type \<Rightarrow> st \<Rightarrow> st option" where
  "set_port e p x s = map_option snd (mrp_port_set_state e p x s)"

text \<open>\<open>ifdriver_flush\<close>: both drivers read the two ring ports and, when there is one, the
  interconnection port.\<close>

definition ifdriver_flush :: "st \<Rightarrow> st option" where
  "ifdriver_flush s = do {
     p \<leftarrow> deref (p_port (mrp s)) s;
     q \<leftarrow> deref (s_port (mrp s)) s;
     i \<leftarrow> (case i_port (mrp s) of None \<Rightarrow> Some None | Some r \<Rightarrow> map_option Some (port s r));
     Some (emit (Ifdriver_flush (mrp s) p q i) s)
   }"

section \<open>Roles and state variables\<close>

definition mrp_set_ring_role ::
  "env \<Rightarrow> br_mrp_ring_role_type \<Rightarrow> st \<Rightarrow> int \<times> st" where
  "mrp_set_ring_role e role s =
    (let s = s\<lparr>mrp := (mrp s)\<lparr>ring_role := role\<rparr>\<rparr>;
         x = Ifdriver_set_ring_role (mrp s) role
     in (drv_ret e (log s) x, emit x s))"

definition mrp_set_in_role ::
  "env \<Rightarrow> br_mrp_in_role_type \<Rightarrow> st \<Rightarrow> (int \<times> st) option" where
  "mrp_set_in_role e role s = do {
     let s = s\<lparr>mrp := (mrp s)\<lparr>in_role := role\<rparr>\<rparr>;
     q \<leftarrow> deref (i_port (mrp s)) s;
     let x = Ifdriver_set_in_role (mrp s) q role;
     Some (drv_ret e (log s) x, emit x s)
   }"

definition mrp_set_mrm_init :: "st \<Rightarrow> st" where
  "mrp_set_mrm_init s =
     s\<lparr>mrp := (mrp s)\<lparr>add_test := False, no_tc := False, ring_test_curr := 0\<rparr>\<rparr>"

definition mrp_set_mrc_init :: "st \<Rightarrow> st" where
  "mrp_set_mrc_init s =
     s\<lparr>mrp := (mrp s)\<lparr>ring_link_curr_max := ring_link_conf_max (mrp s), ring_mon_curr := 0\<rparr>\<rparr>"

definition mrp_set_mrm_state :: "mrp_mrm_state_type \<Rightarrow> st \<Rightarrow> st" where
  "mrp_set_mrm_state x s = s\<lparr>mrp := (mrp s)\<lparr>mrm_state := x, no_tc := False\<rparr>\<rparr>"

definition mrp_set_mrc_state :: "mrp_mrc_state_type \<Rightarrow> st \<Rightarrow> st" where
  "mrp_set_mrc_state x s = s\<lparr>mrp := (mrp s)\<lparr>mrc_state := x\<rparr>\<rparr>"

definition mrp_set_mim_state :: "mrp_mim_state_type \<Rightarrow> st \<Rightarrow> st" where
  "mrp_set_mim_state x s = s\<lparr>mrp := (mrp s)\<lparr>mim_state := x\<rparr>\<rparr>"

definition mrp_set_mic_state :: "mrp_mic_state_type \<Rightarrow> st \<Rightarrow> st" where
  "mrp_set_mic_state x s = s\<lparr>mrp := (mrp s)\<lparr>mic_state := x\<rparr>\<rparr>"

text \<open>Every frame carries a new sequence number, modulo 65536.\<close>

definition mrp_next_seq :: "st \<Rightarrow> u16 \<times> st" where
  "mrp_next_seq s =
    (let s = s\<lparr>mrp := (mrp s)\<lparr>seq_id := seq_id (mrp s) + 1\<rparr>\<rparr> in (seq_id (mrp s), s))"

lemmas set_defs = mrp_set_mrm_init_def mrp_set_mrc_init_def mrp_set_mrm_state_def
  mrp_set_mrc_state_def mrp_set_mim_state_def mrp_set_mic_state_def

end
