(* ===== verification/Mrp_Timer.thy ===== *)
theory Mrp_Timer
  imports Mrp_State
begin

text \<open>
  The timer operations of \<^verbatim>\<open>timer.c\<close>: every timer is started by writing its \<open>repeat\<close> member and
  calling \<open>ev_timer_again\<close>, and stopped by \<open>ev_timer_stop\<close>.  The expiry handlers, which the
  same file holds, call back into the state machine and are in \<open>Mrp_Expire\<close>.
\<close>

section \<open>Starting and stopping\<close>

definition mrp_ring_test_start :: "env \<Rightarrow> u32 \<Rightarrow> st \<Rightarrow> st" where
  "mrp_ring_test_start e iv s =
     s\<lparr>mrp := (mrp s)\<lparr>ring_test_work :=
       ev_timer_again e ((ring_test_work (mrp s))\<lparr>repeat := iv\<rparr>)\<rparr>\<rparr>"

definition mrp_ring_test_stop :: "env \<Rightarrow> st \<Rightarrow> st" where
  "mrp_ring_test_stop e s =
     s\<lparr>mrp := (mrp s)\<lparr>ring_test_work := ev_timer_stop e (ring_test_work (mrp s))\<rparr>\<rparr>"

definition mrp_ring_topo_start :: "env \<Rightarrow> u32 \<Rightarrow> st \<Rightarrow> st" where
  "mrp_ring_topo_start e iv s =
     s\<lparr>mrp := (mrp s)\<lparr>ring_topo_running := True, ring_topo_work :=
       ev_timer_again e ((ring_topo_work (mrp s))\<lparr>repeat := iv\<rparr>)\<rparr>\<rparr>"

definition mrp_ring_topo_stop :: "env \<Rightarrow> st \<Rightarrow> st" where
  "mrp_ring_topo_stop e s =
     s\<lparr>mrp := (mrp s)\<lparr>ring_topo_running := False, ring_topo_work := ev_timer_stop e (ring_topo_work (mrp s))\<rparr>\<rparr>"

definition mrp_ring_link_up_start :: "env \<Rightarrow> u32 \<Rightarrow> st \<Rightarrow> st" where
  "mrp_ring_link_up_start e iv s =
     s\<lparr>mrp := (mrp s)\<lparr>ring_link_up_work :=
       ev_timer_again e ((ring_link_up_work (mrp s))\<lparr>repeat := iv\<rparr>)\<rparr>\<rparr>"

definition mrp_ring_link_up_stop :: "env \<Rightarrow> st \<Rightarrow> st" where
  "mrp_ring_link_up_stop e s =
     s\<lparr>mrp := (mrp s)\<lparr>ring_link_up_work := ev_timer_stop e (ring_link_up_work (mrp s))\<rparr>\<rparr>"

definition mrp_ring_link_down_start :: "env \<Rightarrow> u32 \<Rightarrow> st \<Rightarrow> st" where
  "mrp_ring_link_down_start e iv s =
     s\<lparr>mrp := (mrp s)\<lparr>ring_link_down_work :=
       ev_timer_again e ((ring_link_down_work (mrp s))\<lparr>repeat := iv\<rparr>)\<rparr>\<rparr>"

definition mrp_ring_link_down_stop :: "env \<Rightarrow> st \<Rightarrow> st" where
  "mrp_ring_link_down_stop e s =
     s\<lparr>mrp := (mrp s)\<lparr>ring_link_down_work := ev_timer_stop e (ring_link_down_work (mrp s))\<rparr>\<rparr>"

definition mrp_in_test_start :: "env \<Rightarrow> u32 \<Rightarrow> st \<Rightarrow> st" where
  "mrp_in_test_start e iv s =
     s\<lparr>mrp := (mrp s)\<lparr>in_test_work :=
       ev_timer_again e ((in_test_work (mrp s))\<lparr>repeat := iv\<rparr>)\<rparr>\<rparr>"

definition mrp_in_test_stop :: "env \<Rightarrow> st \<Rightarrow> st" where
  "mrp_in_test_stop e s =
     s\<lparr>mrp := (mrp s)\<lparr>in_test_work := ev_timer_stop e (in_test_work (mrp s))\<rparr>\<rparr>"

definition mrp_in_topo_start :: "env \<Rightarrow> u32 \<Rightarrow> st \<Rightarrow> st" where
  "mrp_in_topo_start e iv s =
     s\<lparr>mrp := (mrp s)\<lparr>in_topo_work :=
       ev_timer_again e ((in_topo_work (mrp s))\<lparr>repeat := iv\<rparr>)\<rparr>\<rparr>"

definition mrp_in_topo_stop :: "env \<Rightarrow> st \<Rightarrow> st" where
  "mrp_in_topo_stop e s =
     s\<lparr>mrp := (mrp s)\<lparr>in_topo_work := ev_timer_stop e (in_topo_work (mrp s))\<rparr>\<rparr>"

definition mrp_in_link_up_start :: "env \<Rightarrow> u32 \<Rightarrow> st \<Rightarrow> st" where
  "mrp_in_link_up_start e iv s =
     s\<lparr>mrp := (mrp s)\<lparr>in_link_up_work :=
       ev_timer_again e ((in_link_up_work (mrp s))\<lparr>repeat := iv\<rparr>)\<rparr>\<rparr>"

definition mrp_in_link_up_stop :: "env \<Rightarrow> st \<Rightarrow> st" where
  "mrp_in_link_up_stop e s =
     s\<lparr>mrp := (mrp s)\<lparr>in_link_up_work := ev_timer_stop e (in_link_up_work (mrp s))\<rparr>\<rparr>"

definition mrp_in_link_down_start :: "env \<Rightarrow> u32 \<Rightarrow> st \<Rightarrow> st" where
  "mrp_in_link_down_start e iv s =
     s\<lparr>mrp := (mrp s)\<lparr>in_link_down_work :=
       ev_timer_again e ((in_link_down_work (mrp s))\<lparr>repeat := iv\<rparr>)\<rparr>\<rparr>"

definition mrp_in_link_down_stop :: "env \<Rightarrow> st \<Rightarrow> st" where
  "mrp_in_link_down_stop e s =
     s\<lparr>mrp := (mrp s)\<lparr>in_link_down_work := ev_timer_stop e (in_link_down_work (mrp s))\<rparr>\<rparr>"

definition mrp_in_link_status_start :: "env \<Rightarrow> u32 \<Rightarrow> st \<Rightarrow> st" where
  "mrp_in_link_status_start e iv s =
     s\<lparr>mrp := (mrp s)\<lparr>in_link_status_work :=
       ev_timer_again e ((in_link_status_work (mrp s))\<lparr>repeat := iv\<rparr>)\<rparr>\<rparr>"

definition mrp_in_link_status_stop :: "env \<Rightarrow> st \<Rightarrow> st" where
  "mrp_in_link_status_stop e s =
     s\<lparr>mrp := (mrp s)\<lparr>in_link_status_work := ev_timer_stop e (in_link_status_work (mrp s))\<rparr>\<rparr>"

definition mrp_cfm_ccm_start :: "env \<Rightarrow> u32 \<Rightarrow> st \<Rightarrow> st" where
  "mrp_cfm_ccm_start e iv s =
     s\<lparr>mrp := (mrp s)\<lparr>cfm_ccm_work :=
       ev_timer_again e ((cfm_ccm_work (mrp s))\<lparr>repeat := iv\<rparr>)\<rparr>\<rparr>"

definition mrp_cfm_ccm_stop :: "env \<Rightarrow> st \<Rightarrow> st" where
  "mrp_cfm_ccm_stop e s =
     s\<lparr>mrp := (mrp s)\<lparr>cfm_ccm_work := ev_timer_stop e (cfm_ccm_work (mrp s))\<rparr>\<rparr>"

definition mrp_clear_fdb_start :: "env \<Rightarrow> u32 \<Rightarrow> st \<Rightarrow> st option" where
  "mrp_clear_fdb_start e iv s = do {
     let s = s\<lparr>mrp := (mrp s)\<lparr>clear_fdb_work :=
       ev_timer_again e ((clear_fdb_work (mrp s))\<lparr>repeat := iv\<rparr>)\<rparr>\<rparr>;
     if iv = 0 then ifdriver_flush s else Some s
   }"

definition mrp_clear_fdb_stop :: "env \<Rightarrow> st \<Rightarrow> st" where
  "mrp_clear_fdb_stop e s =
     s\<lparr>mrp := (mrp s)\<lparr>clear_fdb_work := ev_timer_stop e (clear_fdb_work (mrp s))\<rparr>\<rparr>"

text \<open>\<open>mrp_timer_stop\<close> stops the ring timers always, the interconnection timers only when the
  instance has an interconnection role, and of the last three those of its mode.\<close>

definition mrp_timer_stop :: "env \<Rightarrow> st \<Rightarrow> st" where
  "mrp_timer_stop e s =
    (let s = mrp_clear_fdb_stop e s;
         s = mrp_ring_topo_stop e s;
         s = mrp_ring_link_up_stop e s;
         s = mrp_ring_link_down_stop e s;
         s = mrp_ring_test_stop e s
     in if in_role (mrp s) \<noteq> BR_MRP_IN_ROLE_DISABLED then
          let s = mrp_in_topo_stop e s;
              s = mrp_in_link_up_stop e s;
              s = mrp_in_link_down_stop e s
          in if in_mode (mrp s) = MRP_IN_MODE_RC then mrp_in_test_stop e s
             else mrp_cfm_ccm_stop e (mrp_in_link_status_stop e s)
        else s)"

definition mrp_timer_init :: "env \<Rightarrow> st \<Rightarrow> st" where
  "mrp_timer_init e s =
     s\<lparr>mrp := (mrp s)\<lparr>
       clear_fdb_work := ev_init e (clear_fdb_work (mrp s)),
       ring_topo_work := ev_init e (ring_topo_work (mrp s)),
       ring_test_work := ev_init e (ring_test_work (mrp s)),
       ring_link_up_work := ev_init e (ring_link_up_work (mrp s)),
       ring_link_down_work := ev_init e (ring_link_down_work (mrp s)),
       in_test_work := ev_init e (in_test_work (mrp s)),
       in_topo_work := ev_init e (in_topo_work (mrp s)),
       in_link_up_work := ev_init e (in_link_up_work (mrp s)),
       in_link_down_work := ev_init e (in_link_down_work (mrp s)),
       in_link_status_work := ev_init e (in_link_status_work (mrp s)),
       cfm_ccm_work := ev_init e (cfm_ccm_work (mrp s))\<rparr>\<rparr>"

text \<open>\<open>mrp_reset_ring_state\<close> of \<^verbatim>\<open>state_machine.c\<close>.\<close>

definition mrp_reset_ring_state :: "env \<Rightarrow> st \<Rightarrow> st" where
  "mrp_reset_ring_state e s =
    (let s = mrp_timer_stop e s
     in s\<lparr>mrp := (mrp s)\<lparr>mrm_state := MRP_MRM_STATE_AC_STAT1, mrc_state := MRP_MRC_STATE_AC_STAT1\<rparr>\<rparr>)"

lemmas timer_defs =
  mrp_ring_test_start_def mrp_ring_test_stop_def
  mrp_ring_topo_start_def mrp_ring_topo_stop_def
  mrp_ring_link_up_start_def mrp_ring_link_up_stop_def
  mrp_ring_link_down_start_def mrp_ring_link_down_stop_def
  mrp_in_test_start_def mrp_in_test_stop_def
  mrp_in_topo_start_def mrp_in_topo_stop_def
  mrp_in_link_up_start_def mrp_in_link_up_stop_def
  mrp_in_link_down_start_def mrp_in_link_down_stop_def
  mrp_in_link_status_start_def mrp_in_link_status_stop_def
  mrp_cfm_ccm_start_def mrp_cfm_ccm_stop_def
  mrp_clear_fdb_stop_def

end
