(* ===== verification/Mrp_Pdu.thy ===== *)
theory Mrp_Pdu
  imports Utils
begin

text \<open>
  \<^verbatim>\<open>pdu.h\<close>: the headers of MRP frames and their memory layout.  A \<open>__be16\<close> or \<open>__be32\<close> member is
  the number the host loads from memory, before the code converts it from network order.
  None of the structs has padding.  Each header is a codec: it has a fixed size, and it is
  read back from the head of any buffer it was written to.
\<close>

section \<open>Structs and layouts\<close>

record br_mrp_tlv_hdr =
  tlv_type :: u8
  tlv_length :: u8

definition enc_tlv :: "br_mrp_tlv_hdr \<Rightarrow> u8 list" where
  "enc_tlv h = [tlv_type h] @ [tlv_length h]"

definition dec_tlv :: "u8 list \<Rightarrow> br_mrp_tlv_hdr" where
  "dec_tlv bs = \<lparr>tlv_type = bs ! 0,
     tlv_length = bs ! 1\<rparr>"

definition wf_tlv :: "br_mrp_tlv_hdr \<Rightarrow> bool" where
  "wf_tlv h \<longleftrightarrow> True"

record br_mrp_sub_tlv_hdr =
  stlv_type :: u8
  stlv_length :: u8

definition enc_stlv :: "br_mrp_sub_tlv_hdr \<Rightarrow> u8 list" where
  "enc_stlv h = [stlv_type h] @ [stlv_length h]"

definition dec_stlv :: "u8 list \<Rightarrow> br_mrp_sub_tlv_hdr" where
  "dec_stlv bs = \<lparr>stlv_type = bs ! 0,
     stlv_length = bs ! 1\<rparr>"

definition wf_stlv :: "br_mrp_sub_tlv_hdr \<Rightarrow> bool" where
  "wf_stlv h \<longleftrightarrow> True"

record br_mrp_common_hdr =
  com_seq_id :: u16
  com_domain :: "u8 list"

definition enc_com :: "br_mrp_common_hdr \<Rightarrow> u8 list" where
  "enc_com h = mem16 (com_seq_id h) @ com_domain h"

definition dec_com :: "u8 list \<Rightarrow> br_mrp_common_hdr" where
  "dec_com bs = \<lparr>com_seq_id = ld16 bs,
     com_domain = take 16 (drop 2 bs)\<rparr>"

definition wf_com :: "br_mrp_common_hdr \<Rightarrow> bool" where
  "wf_com h \<longleftrightarrow> length (com_domain h) = 16"

record br_mrp_ring_test_hdr =
  rt_prio :: u16
  rt_sa :: ether
  rt_port_role :: u16
  rt_state :: u16
  rt_transitions :: u16
  rt_timestamp :: u32

definition enc_rt :: "br_mrp_ring_test_hdr \<Rightarrow> u8 list" where
  "enc_rt h = mem16 (rt_prio h) @ rt_sa h @ mem16 (rt_port_role h) @ mem16 (rt_state h) @ mem16 (rt_transitions h) @ mem32 (rt_timestamp h)"

definition dec_rt :: "u8 list \<Rightarrow> br_mrp_ring_test_hdr" where
  "dec_rt bs = \<lparr>rt_prio = ld16 bs,
     rt_sa = take 6 (drop 2 bs),
     rt_port_role = ld16 (drop 8 bs),
     rt_state = ld16 (drop 10 bs),
     rt_transitions = ld16 (drop 12 bs),
     rt_timestamp = ld32 (drop 14 bs)\<rparr>"

definition wf_rt :: "br_mrp_ring_test_hdr \<Rightarrow> bool" where
  "wf_rt h \<longleftrightarrow> length (rt_sa h) = 6"

record br_mrp_ring_topo_hdr =
  rtopo_prio :: u16
  rtopo_sa :: ether
  rtopo_interval :: u16

definition enc_rtopo :: "br_mrp_ring_topo_hdr \<Rightarrow> u8 list" where
  "enc_rtopo h = mem16 (rtopo_prio h) @ rtopo_sa h @ mem16 (rtopo_interval h)"

definition dec_rtopo :: "u8 list \<Rightarrow> br_mrp_ring_topo_hdr" where
  "dec_rtopo bs = \<lparr>rtopo_prio = ld16 bs,
     rtopo_sa = take 6 (drop 2 bs),
     rtopo_interval = ld16 (drop 8 bs)\<rparr>"

definition wf_rtopo :: "br_mrp_ring_topo_hdr \<Rightarrow> bool" where
  "wf_rtopo h \<longleftrightarrow> length (rtopo_sa h) = 6"

record br_mrp_ring_link_hdr =
  rlink_sa :: ether
  rlink_port_role :: u16
  rlink_interval :: u16
  rlink_blocked :: u16

definition enc_rlink :: "br_mrp_ring_link_hdr \<Rightarrow> u8 list" where
  "enc_rlink h = rlink_sa h @ mem16 (rlink_port_role h) @ mem16 (rlink_interval h) @ mem16 (rlink_blocked h)"

definition dec_rlink :: "u8 list \<Rightarrow> br_mrp_ring_link_hdr" where
  "dec_rlink bs = \<lparr>rlink_sa = take 6 bs,
     rlink_port_role = ld16 (drop 6 bs),
     rlink_interval = ld16 (drop 8 bs),
     rlink_blocked = ld16 (drop 10 bs)\<rparr>"

definition wf_rlink :: "br_mrp_ring_link_hdr \<Rightarrow> bool" where
  "wf_rlink h \<longleftrightarrow> length (rlink_sa h) = 6"

record br_mrp_sub_opt_hdr =
  sopt_type :: u8
  sopt_manufacture_data :: "u8 list"

definition enc_sopt :: "br_mrp_sub_opt_hdr \<Rightarrow> u8 list" where
  "enc_sopt h = [sopt_type h] @ sopt_manufacture_data h"

definition dec_sopt :: "u8 list \<Rightarrow> br_mrp_sub_opt_hdr" where
  "dec_sopt bs = \<lparr>sopt_type = bs ! 0,
     sopt_manufacture_data = take 2 (drop 1 bs)\<rparr>"

definition wf_sopt :: "br_mrp_sub_opt_hdr \<Rightarrow> bool" where
  "wf_sopt h \<longleftrightarrow> length (sopt_manufacture_data h) = 2"

record br_mrp_test_mgr_nack_hdr =
  nack_prio :: u16
  nack_sa :: ether
  nack_other_prio :: u16
  nack_other_sa :: ether

definition enc_nack :: "br_mrp_test_mgr_nack_hdr \<Rightarrow> u8 list" where
  "enc_nack h = mem16 (nack_prio h) @ nack_sa h @ mem16 (nack_other_prio h) @ nack_other_sa h"

definition dec_nack :: "u8 list \<Rightarrow> br_mrp_test_mgr_nack_hdr" where
  "dec_nack bs = \<lparr>nack_prio = ld16 bs,
     nack_sa = take 6 (drop 2 bs),
     nack_other_prio = ld16 (drop 8 bs),
     nack_other_sa = take 6 (drop 10 bs)\<rparr>"

definition wf_nack :: "br_mrp_test_mgr_nack_hdr \<Rightarrow> bool" where
  "wf_nack h \<longleftrightarrow> length (nack_sa h) = 6 \<and> length (nack_other_sa h) = 6"

record br_mrp_test_prop_hdr =
  tprop_prio :: u16
  tprop_sa :: ether
  tprop_other_prio :: u16
  tprop_other_sa :: ether

definition enc_tprop :: "br_mrp_test_prop_hdr \<Rightarrow> u8 list" where
  "enc_tprop h = mem16 (tprop_prio h) @ tprop_sa h @ mem16 (tprop_other_prio h) @ tprop_other_sa h"

definition dec_tprop :: "u8 list \<Rightarrow> br_mrp_test_prop_hdr" where
  "dec_tprop bs = \<lparr>tprop_prio = ld16 bs,
     tprop_sa = take 6 (drop 2 bs),
     tprop_other_prio = ld16 (drop 8 bs),
     tprop_other_sa = take 6 (drop 10 bs)\<rparr>"

definition wf_tprop :: "br_mrp_test_prop_hdr \<Rightarrow> bool" where
  "wf_tprop h \<longleftrightarrow> length (tprop_sa h) = 6 \<and> length (tprop_other_sa h) = 6"

record br_mrp_oui_hdr =
  oui_oui :: "u8 list"

definition enc_oui :: "br_mrp_oui_hdr \<Rightarrow> u8 list" where
  "enc_oui h = oui_oui h"

definition dec_oui :: "u8 list \<Rightarrow> br_mrp_oui_hdr" where
  "dec_oui bs = \<lparr>oui_oui = take 3 bs\<rparr>"

definition wf_oui :: "br_mrp_oui_hdr \<Rightarrow> bool" where
  "wf_oui h \<longleftrightarrow> length (oui_oui h) = 3"

record br_mrp_in_test_hdr =
  it_id :: u16
  it_sa :: ether
  it_port_role :: u16
  it_state :: u16
  it_transitions :: u16
  it_timestamp :: u32

definition enc_it :: "br_mrp_in_test_hdr \<Rightarrow> u8 list" where
  "enc_it h = mem16 (it_id h) @ it_sa h @ mem16 (it_port_role h) @ mem16 (it_state h) @ mem16 (it_transitions h) @ mem32 (it_timestamp h)"

definition dec_it :: "u8 list \<Rightarrow> br_mrp_in_test_hdr" where
  "dec_it bs = \<lparr>it_id = ld16 bs,
     it_sa = take 6 (drop 2 bs),
     it_port_role = ld16 (drop 8 bs),
     it_state = ld16 (drop 10 bs),
     it_transitions = ld16 (drop 12 bs),
     it_timestamp = ld32 (drop 14 bs)\<rparr>"

definition wf_it :: "br_mrp_in_test_hdr \<Rightarrow> bool" where
  "wf_it h \<longleftrightarrow> length (it_sa h) = 6"

record br_mrp_in_topo_hdr =
  itopo_sa :: ether
  itopo_id :: u16
  itopo_interval :: u16

definition enc_itopo :: "br_mrp_in_topo_hdr \<Rightarrow> u8 list" where
  "enc_itopo h = itopo_sa h @ mem16 (itopo_id h) @ mem16 (itopo_interval h)"

definition dec_itopo :: "u8 list \<Rightarrow> br_mrp_in_topo_hdr" where
  "dec_itopo bs = \<lparr>itopo_sa = take 6 bs,
     itopo_id = ld16 (drop 6 bs),
     itopo_interval = ld16 (drop 8 bs)\<rparr>"

definition wf_itopo :: "br_mrp_in_topo_hdr \<Rightarrow> bool" where
  "wf_itopo h \<longleftrightarrow> length (itopo_sa h) = 6"

record br_mrp_in_link_hdr =
  ilink_sa :: ether
  ilink_port_role :: u16
  ilink_id :: u16
  ilink_interval :: u16

definition enc_ilink :: "br_mrp_in_link_hdr \<Rightarrow> u8 list" where
  "enc_ilink h = ilink_sa h @ mem16 (ilink_port_role h) @ mem16 (ilink_id h) @ mem16 (ilink_interval h)"

definition dec_ilink :: "u8 list \<Rightarrow> br_mrp_in_link_hdr" where
  "dec_ilink bs = \<lparr>ilink_sa = take 6 bs,
     ilink_port_role = ld16 (drop 6 bs),
     ilink_id = ld16 (drop 8 bs),
     ilink_interval = ld16 (drop 10 bs)\<rparr>"

definition wf_ilink :: "br_mrp_in_link_hdr \<Rightarrow> bool" where
  "wf_ilink h \<longleftrightarrow> length (ilink_sa h) = 6"

record br_mrp_in_link_status_hdr =
  ils_sa :: ether
  ils_port_role :: u16
  ils_id :: u16

definition enc_ils :: "br_mrp_in_link_status_hdr \<Rightarrow> u8 list" where
  "enc_ils h = ils_sa h @ mem16 (ils_port_role h) @ mem16 (ils_id h)"

definition dec_ils :: "u8 list \<Rightarrow> br_mrp_in_link_status_hdr" where
  "dec_ils bs = \<lparr>ils_sa = take 6 bs,
     ils_port_role = ld16 (drop 6 bs),
     ils_id = ld16 (drop 8 bs)\<rparr>"

definition wf_ils :: "br_mrp_in_link_status_hdr \<Rightarrow> bool" where
  "wf_ils h \<longleftrightarrow> length (ils_sa h) = 6"

lemmas pdu_defs =
  enc_tlv_def dec_tlv_def wf_tlv_def
  enc_stlv_def dec_stlv_def wf_stlv_def
  enc_com_def dec_com_def wf_com_def
  enc_rt_def dec_rt_def wf_rt_def
  enc_rtopo_def dec_rtopo_def wf_rtopo_def
  enc_rlink_def dec_rlink_def wf_rlink_def
  enc_sopt_def dec_sopt_def wf_sopt_def
  enc_nack_def dec_nack_def wf_nack_def
  enc_tprop_def dec_tprop_def wf_tprop_def
  enc_oui_def dec_oui_def wf_oui_def
  enc_it_def dec_it_def wf_it_def
  enc_itopo_def dec_itopo_def wf_itopo_def
  enc_ilink_def dec_ilink_def wf_ilink_def
  enc_ils_def dec_ils_def wf_ils_def

section \<open>Every header is a codec\<close>

interpretation tlv: codec wf_tlv enc_tlv dec_tlv 2
  by unfold_locales (auto simp: enc_tlv_def dec_tlv_def wf_tlv_def)

interpretation stlv: codec wf_stlv enc_stlv dec_stlv 2
  by unfold_locales (auto simp: enc_stlv_def dec_stlv_def wf_stlv_def)

interpretation com: codec wf_com enc_com dec_com 18
  by unfold_locales (auto simp: enc_com_def dec_com_def wf_com_def)

interpretation rt: codec wf_rt enc_rt dec_rt 18
  by unfold_locales (auto simp: enc_rt_def dec_rt_def wf_rt_def)

interpretation rtopo: codec wf_rtopo enc_rtopo dec_rtopo 10
  by unfold_locales (auto simp: enc_rtopo_def dec_rtopo_def wf_rtopo_def)

interpretation rlink: codec wf_rlink enc_rlink dec_rlink 12
  by unfold_locales (auto simp: enc_rlink_def dec_rlink_def wf_rlink_def)

interpretation sopt: codec wf_sopt enc_sopt dec_sopt 3
  by unfold_locales (auto simp: enc_sopt_def dec_sopt_def wf_sopt_def)

interpretation nack: codec wf_nack enc_nack dec_nack 16
  by unfold_locales (auto simp: enc_nack_def dec_nack_def wf_nack_def)

interpretation tprop: codec wf_tprop enc_tprop dec_tprop 16
  by unfold_locales (auto simp: enc_tprop_def dec_tprop_def wf_tprop_def)

interpretation oui: codec wf_oui enc_oui dec_oui 3
  by unfold_locales (auto simp: enc_oui_def dec_oui_def wf_oui_def)

interpretation it: codec wf_it enc_it dec_it 18
  by unfold_locales (auto simp: enc_it_def dec_it_def wf_it_def)

interpretation itopo: codec wf_itopo enc_itopo dec_itopo 10
  by unfold_locales (auto simp: enc_itopo_def dec_itopo_def wf_itopo_def)

interpretation ilink: codec wf_ilink enc_ilink dec_ilink 12
  by unfold_locales (auto simp: enc_ilink_def dec_ilink_def wf_ilink_def)

interpretation ils: codec wf_ils enc_ils dec_ils 10
  by unfold_locales (auto simp: enc_ils_def dec_ils_def wf_ils_def)

section \<open>The common layout of MRP frames\<close>

text \<open>Version, first TLV with its header, common TLV, end TLV; after the Ethernet header.  This
  is the format the comments in \<^verbatim>\<open>state_machine.c\<close> describe; the composing functions are compared
  with it.\<close>

definition pdu :: "u8 \<Rightarrow> u8 \<Rightarrow> u8 list \<Rightarrow> u16 \<Rightarrow> u8 list \<Rightarrow> u8 list" where
  "pdu ty len body sq uuid =
     mem16 (cpu_to_be16 MRP_VERSION) @ [ty, len] @ body @
     [tlv_code BR_MRP_TLV_HEADER_COMMON, 18] @ mem16 (cpu_to_be16 sq) @ uuid @
     [tlv_code BR_MRP_TLV_HEADER_END, 0]"

definition eth :: "ether \<Rightarrow> ether \<Rightarrow> u8 list" where
  "eth src dst = dst @ src @ mem16 (cpu_to_be16 ETH_P_MRP)"

text \<open>Frames shorter than 60 octets are filled with zeros.\<close>

definition pad60 :: "u8 list \<Rightarrow> u8 list" where
  "pad60 fr = fr @ replicate (60 - length fr) 0"

lemma length_pdu: "length uuid = 16 \<Longrightarrow> length (pdu ty len body sq uuid) = 26 + length body"
  by (simp add: pdu_def)

lemma length_eth [simp]: "length src = 6 \<Longrightarrow> length dst = 6 \<Longrightarrow> length (eth src dst) = 14"
  by (simp add: eth_def)

end
