(* ===== verification/Mrp_Send.thy ===== *)
theory Mrp_Send
  imports Mrp_Timer Mrp_Pdu
begin

text \<open>
  Composing and sending frames, \<^verbatim>\<open>state_machine.c\<close>: the frame buffer is filled TLV by TLV as
  in the C code, the sequence number is taken while the common TLV is written, and the frame
  leaves through \<open>packet_send\<close> when the port is operational.  When an allocation fails the
  function returns without sending.  \<open>send_pdu\<close> is the specification: one frame in the
  layout of \<open>pdu\<close>, filled up to 60 octets.
\<close>

section \<open>Destination addresses\<close>

definition mrp_test_dmac :: ether where "mrp_test_dmac = [0x1, 0x15, 0x4e, 0x0, 0x0, 0x1]"
definition mrp_control_dmac :: ether where "mrp_control_dmac = [0x1, 0x15, 0x4e, 0x0, 0x0, 0x2]"
definition mrp_itest_dmac :: ether where "mrp_itest_dmac = [0x1, 0x15, 0x4e, 0x0, 0x0, 0x3]"
definition mrp_icontrol_dmac :: ether where "mrp_icontrol_dmac = [0x1, 0x15, 0x4e, 0x0, 0x0, 0x4]"

lemmas dmac_defs = mrp_test_dmac_def mrp_control_dmac_def mrp_itest_dmac_def mrp_icontrol_dmac_def

section \<open>Building blocks\<close>

definition sizeof_ethhdr :: nat where [simp]: "sizeof_ethhdr = 14"

text \<open>The inner \<open>None\<close> is the NULL that an exhausted \<open>malloc\<close> causes.\<close>

definition mrp_fb_alloc :: "env \<Rightarrow> effect list \<Rightarrow> frame_buf option option" where
  "mrp_fb_alloc e l =
    (case fb_alloc (malloc_ok e l) MRP_MAX_FRAME_LENGTH of
       None \<Rightarrow> Some None
     | Some fb \<Rightarrow> map_option Some (fb_put_struct (mem16 (cpu_to_be16 MRP_VERSION)) fb))"

definition mrp_eth_alloc :: "env \<Rightarrow> effect list \<Rightarrow> ether \<Rightarrow> ether \<Rightarrow> u8 list option" where
  "mrp_eth_alloc e l src dst =
    (if malloc_ok e l sizeof_ethhdr
     then Some (take ETH_ALEN dst @ take ETH_ALEN src @ mem16 (cpu_to_be16 ETH_P_MRP))
     else None)"

definition mrp_fb_tlv :: "br_mrp_tlv_header_type \<Rightarrow> u8 \<Rightarrow> frame_buf \<Rightarrow> frame_buf option" where
  "mrp_fb_tlv ty len fb = fb_put_struct (enc_tlv \<lparr>tlv_type = tlv_code ty, tlv_length = len\<rparr>) fb"

definition mrp_fb_sub_tlv :: "br_mrp_sub_tlv_header_type \<Rightarrow> u8 \<Rightarrow> frame_buf \<Rightarrow> frame_buf option" where
  "mrp_fb_sub_tlv ty len fb =
     fb_put_struct (enc_stlv \<lparr>stlv_type = sub_tlv_code ty, stlv_length = len\<rparr>) fb"

definition mrp_fb_common :: "frame_buf \<Rightarrow> st \<Rightarrow> (frame_buf \<times> st) option" where
  "mrp_fb_common fb s = do {
     fb \<leftarrow> mrp_fb_tlv BR_MRP_TLV_HEADER_COMMON 18 fb;
     let (sq, s) = mrp_next_seq s;
     fb \<leftarrow> fb_put_struct (enc_com \<lparr>com_seq_id = cpu_to_be16 sq, com_domain = domain (mrp s)\<rparr>) fb;
     Some (fb, s)
   }"

definition packet_send :: "u32 \<Rightarrow> u8 list \<Rightarrow> st \<Rightarrow> st" where
  "packet_send idx bytes s = emit (Packet_send idx bytes) s"

text \<open>\<open>mrp_send\<close> reads \<open>fb->size\<close> bytes of the block after it has raised a short \<open>size\<close>.\<close>

definition mrp_send :: "mrp_port \<Rightarrow> u8 list \<Rightarrow> frame_buf \<Rightarrow> st \<Rightarrow> st option" where
  "mrp_send q h fb s = do {
     let fb = (if sizeof_ethhdr + unat (fb_size fb) < 60
               then fb\<lparr>fb_size := fb_size fb + (60 - fb_size fb - of_nat sizeof_ethhdr)\<rparr> else fb);
     if unat (fb_size fb) > length (fb_start fb) then None
     else if poperstate q = IF_OPER_UP
     then Some (packet_send (pifindex q) (h @ take (unat (fb_size fb)) (fb_start fb)) s)
     else Some s
   }"

text \<open>The end of every composing function: common TLV, end TLV, Ethernet header, send.\<close>

definition mrp_finish :: "env \<Rightarrow> mrp_port \<Rightarrow> ether \<Rightarrow> frame_buf \<Rightarrow> st \<Rightarrow> st option" where
  "mrp_finish e q dmac fb s = do {
     (fb, s) \<leftarrow> mrp_fb_common fb s;
     fb \<leftarrow> mrp_fb_tlv BR_MRP_TLV_HEADER_END 0x0 fb;
     (case mrp_eth_alloc e (log s) (pmacaddr q) dmac of None \<Rightarrow> Some s | Some h \<Rightarrow> mrp_send q h fb s)
   }"

definition time_ms :: "timespec \<Rightarrow> u32" where
  "time_ms t = word_of_int (tv_sec t * 1000 + tv_nsec t div 1000000)"

text \<open>\<open>interval == 0 ? 0 : __cpu_to_be16(interval / 1000)\<close>, cut to 16 bits.\<close>

definition be_interval :: "u32 \<Rightarrow> u16" where
  "be_interval iv = (if iv = 0 then 0 else cpu_to_be16 (ucast (iv div 1000)))"

section \<open>Ring frames\<close>

definition mrp_send_ring_test :: "env \<Rightarrow> port_ref option \<Rightarrow> st \<Rightarrow> st option" where
  "mrp_send_ring_test e p s = do {
     q \<leftarrow> deref_mrp p s;
     let m = mrp s;
     let t = time_ms (clock e (log s));
     fbo \<leftarrow> mrp_fb_alloc e (log s);
     (case fbo of None \<Rightarrow> Some s | Some fb \<Rightarrow> do {
        fb \<leftarrow> mrp_fb_tlv BR_MRP_TLV_HEADER_RING_TEST 18 fb;
        fb \<leftarrow> fb_put_struct (enc_rt \<lparr>
          rt_prio = cpu_to_be16 (prio m),
          rt_sa = ether_addr_copy (macaddr m),
          rt_port_role = cpu_to_be16 (port_role_code (prole q)),
          rt_state = cpu_to_be16 (ring_state_code (if mrm_state m = MRP_MRM_STATE_CHK_RC
            then BR_MRP_RING_STATE_CLOSED else BR_MRP_RING_STATE_OPEN)),
          rt_transitions = cpu_to_be16 (ring_transitions m),
          rt_timestamp = cpu_to_be32 t\<rparr>) fb;
        mrp_finish e q mrp_test_dmac fb s
      })
   }"

definition mrp_ring_test_send :: "env \<Rightarrow> st \<Rightarrow> st option" where
  "mrp_ring_test_send e s = do {
     s \<leftarrow> mrp_send_ring_test e (p_port (mrp s)) s;
     mrp_send_ring_test e (s_port (mrp s)) s
   }"

definition mrp_ring_test_req :: "env \<Rightarrow> u32 \<Rightarrow> st \<Rightarrow> st option" where
  "mrp_ring_test_req e iv s = do {
     s \<leftarrow> mrp_ring_test_send e s;
     Some (mrp_ring_test_start e iv s)
   }"

definition mrp_send_ring_topo :: "env \<Rightarrow> port_ref option \<Rightarrow> u32 \<Rightarrow> st \<Rightarrow> st option" where
  "mrp_send_ring_topo e p iv s = do {
     q \<leftarrow> deref_mrp p s;
     let m = mrp s;
     fbo \<leftarrow> mrp_fb_alloc e (log s);
     (case fbo of None \<Rightarrow> Some s | Some fb \<Rightarrow> do {
        fb \<leftarrow> mrp_fb_tlv BR_MRP_TLV_HEADER_RING_TOPO 10 fb;
        fb \<leftarrow> fb_put_struct (enc_rtopo \<lparr>
          rtopo_prio = cpu_to_be16 (prio m),
          rtopo_sa = ether_addr_copy (macaddr m),
          rtopo_interval = be_interval iv\<rparr>) fb;
        mrp_finish e q mrp_control_dmac fb s
      })
   }"

definition mrp_ring_topo_send :: "env \<Rightarrow> u32 \<Rightarrow> st \<Rightarrow> st option" where
  "mrp_ring_topo_send e t s = do {
     s \<leftarrow> mrp_send_ring_topo e (p_port (mrp s)) t s;
     mrp_send_ring_topo e (s_port (mrp s)) t s
   }"

definition mrp_ring_topo_req :: "env \<Rightarrow> u32 \<Rightarrow> st \<Rightarrow> st option" where
  "mrp_ring_topo_req e t s = do {
     s \<leftarrow> mrp_ring_topo_send e (t * ring_topo_conf_max (mrp s)) s;
     if t = 0 then ifdriver_flush s
     else Some (mrp_ring_topo_start e (ring_topo_conf_interval (mrp s)) s)
   }"

definition mrp_send_ring_link :: "env \<Rightarrow> port_ref option \<Rightarrow> bool \<Rightarrow> u32 \<Rightarrow> st \<Rightarrow> st option" where
  "mrp_send_ring_link e p up iv s = do {
     q \<leftarrow> deref_mrp p s;
     let m = mrp s;
     fbo \<leftarrow> mrp_fb_alloc e (log s);
     (case fbo of None \<Rightarrow> Some s | Some fb \<Rightarrow> do {
        fb \<leftarrow> mrp_fb_tlv (if up then BR_MRP_TLV_HEADER_RING_LINK_UP
                         else BR_MRP_TLV_HEADER_RING_LINK_DOWN) 12 fb;
        fb \<leftarrow> fb_put_struct (enc_rlink \<lparr>
          rlink_sa = ether_addr_copy (macaddr m),
          rlink_port_role = cpu_to_be16 (port_role_code (prole q)),
          rlink_interval = be_interval iv,
          rlink_blocked = cpu_to_be16 (ucast (blocked m))\<rparr>) fb;
        mrp_finish e q mrp_control_dmac fb s
      })
   }"

definition mrp_ring_link_req :: "env \<Rightarrow> port_ref option \<Rightarrow> bool \<Rightarrow> u32 \<Rightarrow> st \<Rightarrow> st option" where
  "mrp_ring_link_req e p up iv s = mrp_send_ring_link e p up iv s"

section \<open>Option frames of the auto-manager\<close>

definition mrp_fb_option :: "frame_buf \<Rightarrow> frame_buf option" where
  "mrp_fb_option fb = do {
     fb \<leftarrow> mrp_fb_tlv BR_MRP_TLV_HEADER_OPTION (3 + 3 + 2 + 16) fb;
     fb \<leftarrow> fb_put_struct (enc_oui \<lparr>oui_oui = replicate MRP_OUI_LENGTH 0\<rparr>) fb;
     fb_put_struct (enc_sopt \<lparr>sopt_type = 0x0,
       sopt_manufacture_data = replicate MRP_MANUFACTURE_DATA_LENGTH 0\<rparr>) fb
   }"

definition mrp_send_test_mgr_nack :: "env \<Rightarrow> port_ref option \<Rightarrow> ether \<Rightarrow> st \<Rightarrow> st option" where
  "mrp_send_test_mgr_nack e p sa s = do {
     q \<leftarrow> deref_mrp p s;
     let m = mrp s;
     fbo \<leftarrow> mrp_fb_alloc e (log s);
     (case fbo of None \<Rightarrow> Some s | Some fb \<Rightarrow> do {
        fb \<leftarrow> mrp_fb_option fb;
        fb \<leftarrow> mrp_fb_sub_tlv BR_MRP_SUB_TLV_HEADER_TEST_MGR_NACK (16 + 2) fb;
        fb \<leftarrow> fb_put_struct (enc_nack \<lparr>
          nack_prio = cpu_to_be16 (prio m),
          nack_sa = ether_addr_copy (macaddr m),
          nack_other_prio = 0,
          nack_other_sa = ether_addr_copy sa\<rparr>) fb;
        let fb = snd (fb_put fb 2);
        mrp_finish e q mrp_test_dmac fb s
      })
   }"

definition mrp_test_mgr_nack_req :: "env \<Rightarrow> ether \<Rightarrow> st \<Rightarrow> st option" where
  "mrp_test_mgr_nack_req e sa s = do {
     s \<leftarrow> mrp_send_test_mgr_nack e (p_port (mrp s)) sa s;
     mrp_send_test_mgr_nack e (s_port (mrp s)) sa s
   }"

definition mrp_send_test_prop :: "env \<Rightarrow> port_ref option \<Rightarrow> st \<Rightarrow> st option" where
  "mrp_send_test_prop e p s = do {
     q \<leftarrow> deref_mrp p s;
     let m = mrp s;
     fbo \<leftarrow> mrp_fb_alloc e (log s);
     (case fbo of None \<Rightarrow> Some s | Some fb \<Rightarrow> do {
        fb \<leftarrow> mrp_fb_option fb;
        fb \<leftarrow> mrp_fb_sub_tlv BR_MRP_SUB_TLV_HEADER_TEST_PROPAGATE (16 + 2) fb;
        fb \<leftarrow> fb_put_struct (enc_tprop \<lparr>
          tprop_prio = cpu_to_be16 (prio m),
          tprop_sa = ether_addr_copy (macaddr m),
          tprop_other_prio = cpu_to_be16 (ring_prio m),
          tprop_other_sa = ether_addr_copy (ring_mac m)\<rparr>) fb;
        mrp_finish e q mrp_test_dmac fb s
      })
   }"

definition mrp_test_prop_req :: "env \<Rightarrow> st \<Rightarrow> st option" where
  "mrp_test_prop_req e s = do {
     s \<leftarrow> mrp_send_test_prop e (p_port (mrp s)) s;
     mrp_send_test_prop e (s_port (mrp s)) s
   }"

section \<open>Interconnection frames\<close>

definition mrp_send_in_test :: "env \<Rightarrow> port_ref option \<Rightarrow> st \<Rightarrow> st option" where
  "mrp_send_in_test e p s = do {
     q \<leftarrow> deref_mrp p s;
     let m = mrp s;
     let t = time_ms (clock e (log s));
     fbo \<leftarrow> mrp_fb_alloc e (log s);
     (case fbo of None \<Rightarrow> Some s | Some fb \<Rightarrow> do {
        fb \<leftarrow> mrp_fb_tlv BR_MRP_TLV_HEADER_IN_TEST 18 fb;
        fb \<leftarrow> fb_put_struct (enc_it \<lparr>
          it_id = cpu_to_be16 (in_id m),
          it_sa = ether_addr_copy (macaddr m),
          it_port_role = cpu_to_be16 (port_role_code (prole q)),
          it_state = cpu_to_be16 (in_state_code (if mim_state m = MRP_MIM_STATE_CHK_IC
            then BR_MRP_IN_STATE_CLOSED else BR_MRP_IN_STATE_OPEN)),
          it_transitions = cpu_to_be16 (in_transitions m),
          it_timestamp = cpu_to_be32 t\<rparr>) fb;
        mrp_finish e q mrp_itest_dmac fb s
      })
   }"

definition mrp_in_test_send :: "env \<Rightarrow> st \<Rightarrow> st option" where
  "mrp_in_test_send e s = do {
     s \<leftarrow> mrp_send_in_test e (p_port (mrp s)) s;
     s \<leftarrow> mrp_send_in_test e (s_port (mrp s)) s;
     mrp_send_in_test e (i_port (mrp s)) s
   }"

definition mrp_in_test_req :: "env \<Rightarrow> u32 \<Rightarrow> st \<Rightarrow> st option" where
  "mrp_in_test_req e iv s = do {
     s \<leftarrow> mrp_in_test_send e s;
     Some (mrp_in_test_start e iv s)
   }"

definition mrp_send_in_topo :: "env \<Rightarrow> port_ref option \<Rightarrow> u32 \<Rightarrow> st \<Rightarrow> st option" where
  "mrp_send_in_topo e p iv s = do {
     q \<leftarrow> deref_mrp p s;
     let m = mrp s;
     fbo \<leftarrow> mrp_fb_alloc e (log s);
     (case fbo of None \<Rightarrow> Some s | Some fb \<Rightarrow> do {
        fb \<leftarrow> mrp_fb_tlv BR_MRP_TLV_HEADER_IN_TOPO 10 fb;
        fb \<leftarrow> fb_put_struct (enc_itopo \<lparr>
          itopo_sa = ether_addr_copy (macaddr m),
          itopo_id = cpu_to_be16 (in_id m),
          itopo_interval = be_interval iv\<rparr>) fb;
        mrp_finish e q mrp_icontrol_dmac fb s
      })
   }"

definition mrp_in_topo_send :: "env \<Rightarrow> u32 \<Rightarrow> st \<Rightarrow> st option" where
  "mrp_in_topo_send e iv s = do {
     s \<leftarrow> mrp_send_in_topo e (p_port (mrp s)) iv s;
     s \<leftarrow> mrp_send_in_topo e (s_port (mrp s)) iv s;
     mrp_send_in_topo e (i_port (mrp s)) iv s
   }"

definition mrp_in_topo_req :: "env \<Rightarrow> u32 \<Rightarrow> st \<Rightarrow> st option" where
  "mrp_in_topo_req e t s = do {
     s \<leftarrow> mrp_in_topo_send e (t * in_topo_conf_max (mrp s)) s;
     if t = 0 then ifdriver_flush s
     else Some (mrp_in_topo_start e (in_topo_conf_interval (mrp s)) s)
   }"

definition mrp_send_in_link :: "env \<Rightarrow> port_ref option \<Rightarrow> bool \<Rightarrow> u32 \<Rightarrow> st \<Rightarrow> st option" where
  "mrp_send_in_link e p up iv s = do {
     q \<leftarrow> deref_mrp p s;
     let m = mrp s;
     fbo \<leftarrow> mrp_fb_alloc e (log s);
     (case fbo of None \<Rightarrow> Some s | Some fb \<Rightarrow> do {
        fb \<leftarrow> mrp_fb_tlv (if up then BR_MRP_TLV_HEADER_IN_LINK_UP
                         else BR_MRP_TLV_HEADER_IN_LINK_DOWN) 12 fb;
        fb \<leftarrow> fb_put_struct (enc_ilink \<lparr>
          ilink_sa = ether_addr_copy (macaddr m),
          ilink_port_role = cpu_to_be16 (port_role_code (prole q)),
          ilink_id = cpu_to_be16 (in_id m),
          ilink_interval = be_interval iv\<rparr>) fb;
        mrp_finish e q mrp_icontrol_dmac fb s
      })
   }"

definition mrp_in_link_req :: "env \<Rightarrow> bool \<Rightarrow> u32 \<Rightarrow> st \<Rightarrow> st option" where
  "mrp_in_link_req e up iv s = do {
     s \<leftarrow> mrp_send_in_link e (p_port (mrp s)) up iv s;
     s \<leftarrow> mrp_send_in_link e (s_port (mrp s)) up iv s;
     mrp_send_in_link e (i_port (mrp s)) up iv s
   }"

definition mrp_send_in_link_status :: "env \<Rightarrow> port_ref option \<Rightarrow> st \<Rightarrow> st option" where
  "mrp_send_in_link_status e p s = do {
     q \<leftarrow> deref_mrp p s;
     let m = mrp s;
     fbo \<leftarrow> mrp_fb_alloc e (log s);
     (case fbo of None \<Rightarrow> Some s | Some fb \<Rightarrow> do {
        fb \<leftarrow> mrp_fb_tlv BR_MRP_TLV_HEADER_IN_LINK_STATUS 10 fb;
        fb \<leftarrow> fb_put_struct (enc_ils \<lparr>
          ils_sa = ether_addr_copy (macaddr m),
          ils_port_role = cpu_to_be16 (port_role_code (prole q)),
          ils_id = cpu_to_be16 (in_id m)\<rparr>) fb;
        mrp_finish e q mrp_icontrol_dmac fb s
      })
   }"

definition mrp_in_link_status_req :: "env \<Rightarrow> u32 \<Rightarrow> st \<Rightarrow> st option" where
  "mrp_in_link_status_req e iv s = do {
     let delay = in_link_status_conf_interval (mrp s);
     s \<leftarrow> mrp_send_in_link_status e (p_port (mrp s)) s;
     s \<leftarrow> mrp_send_in_link_status e (s_port (mrp s)) s;
     if iv \<noteq> 0 then Some (mrp_in_link_status_start e delay s) else Some s
   }"

end
