(* ===== verification/Mrp_Send_Spec.thy ===== *)
theory Mrp_Send_Spec
  imports Mrp_Send
begin

text \<open>
  What the composing functions of \<open>Mrp_Send\<close> do, in closed form: each of them sends at most one
  frame, in the layout \<open>pdu\<close>, and changes nothing but the sequence number and the log.  The
  rules collected in \<open>wp\<close> run a send inside a longer handler.
\<close>

section \<open>Specification of a send\<close>

definition send_pdu ::
  "env \<Rightarrow> port_ref option \<Rightarrow> ether \<Rightarrow> br_mrp_tlv_header_type \<Rightarrow> u8 \<Rightarrow> (mrp_port \<Rightarrow> u8 list) \<Rightarrow> st \<Rightarrow> st option" where
  "send_pdu e p dmac ty len body s = do {
     q \<leftarrow> deref_mrp p s;
     if \<not> malloc_ok e (log s) sizeof_frame_buf \<or> \<not> malloc_ok e (log s) 200 then Some s
     else
       let s' = snd (mrp_next_seq s) in
       if malloc_ok e (log s) sizeof_ethhdr \<and> poperstate q = IF_OPER_UP
       then Some (packet_send (pifindex q)
              (pad60 (eth (pmacaddr q) dmac @
                 pdu (tlv_code ty) len (body q) (seq_id (mrp s')) (domain (mrp s)))) s')
       else Some s'
   }"

text \<open>A usable port: the object exists, belongs to the instance and has an address.\<close>

definition port_ok :: "port_ref option \<Rightarrow> st \<Rightarrow> bool" where
  "port_ok p s \<longleftrightarrow> (\<exists>q. deref p s = Some q \<and> pmrp q \<and> length (pmacaddr q) = 6)"

definition addr_ok :: "st \<Rightarrow> bool" where
  "addr_ok s \<longleftrightarrow> length (domain (mrp s)) = 16 \<and> length (macaddr (mrp s)) = 6 \<and>
     length (ring_mac (mrp s)) = 6"

section \<open>Composition\<close>

lemma replicate_split2: "n + 2 \<le> 200 \<Longrightarrow> replicate (200 - n) x = x # x # replicate (198 - n) x"
proof -
  assume "n + 2 \<le> 200"
  then have "200 - n = Suc (Suc (198 - n))" by simp
  then show ?thesis by simp
qed

lemma fb_put_2_holds:
  "fb_holds fb bs \<Longrightarrow> length bs + 2 \<le> 200 \<Longrightarrow> fb_holds (snd (fb_put fb 2)) (bs @ [0, 0])"
  unfolding fb_holds_def fb_put_def
  by (simp add: replicate_split2)

lemma fb_put_struct_Some:
  assumes "fb_holds fb bs" and "length bs + length xs \<le> 200"
  obtains fb' where "fb_put_struct xs fb = Some fb'" and "fb_holds fb' (bs @ xs)"
  using fb_put_struct_holds [OF assms] by (auto simp: ok_def)

lemma mrp_fb_tlv_Some:
  assumes "fb_holds fb bs" and "length bs + 2 \<le> 200"
  obtains fb' where "mrp_fb_tlv ty len fb = Some fb'" and "fb_holds fb' (bs @ [tlv_code ty, len])"
  using fb_put_struct_Some [of fb bs "[tlv_code ty, len]"] assms
  by (auto simp: mrp_fb_tlv_def enc_tlv_def)

lemma mrp_fb_sub_tlv_Some:
  assumes "fb_holds fb bs" and "length bs + 2 \<le> 200"
  obtains fb' where "mrp_fb_sub_tlv ty len fb = Some fb'"
    and "fb_holds fb' (bs @ [sub_tlv_code ty, len])"
  using fb_put_struct_Some [of fb bs "[sub_tlv_code ty, len]"] assms
  by (auto simp: mrp_fb_sub_tlv_def enc_stlv_def)

lemma mrp_send_eq:
  assumes fb: "fb_holds fb bs" and h: "length h = 14"
  shows "mrp_send q h fb s =
    Some (if poperstate q = IF_OPER_UP then packet_send (pifindex q) (pad60 (h @ bs)) s else s)"
proof -
  have sz: "unat (fb_size fb) = length bs" and le: "length bs \<le> 200"
    and st: "fb_start fb = bs @ replicate (200 - length bs) 0"
    using fb fb_holds_size [OF fb] by (auto simp: fb_holds_def)
  have grow: "fb_size fb + (60 - fb_size fb - of_nat sizeof_ethhdr) = 46"
    by (simp add: algebra_simps)
  show ?thesis
  proof (cases "length bs < 46")
    case True
    then have "take 46 (fb_start fb) = bs @ replicate (46 - length bs) 0"
      by (simp add: st)
    with True show ?thesis
      by (simp add: mrp_send_def sz grow st h pad60_def)
  next
    case False
    then show ?thesis
      using le by (simp add: mrp_send_def sz st h pad60_def)
  qed
qed

lemma mrp_finish_eq:
  assumes fb: "fb_holds fb bs" and len: "length bs \<le> 178"
    and dm: "length (domain (mrp s)) = 16" and mac: "length (pmacaddr q) = 6" "length dmac = 6"
  shows "mrp_finish e q dmac fb s =
    (let s' = snd (mrp_next_seq s) in
     if malloc_ok e (log s) sizeof_ethhdr \<and> poperstate q = IF_OPER_UP
     then Some (packet_send (pifindex q) (pad60 (eth (pmacaddr q) dmac @ bs @
            [tlv_code BR_MRP_TLV_HEADER_COMMON, 18] @ mem16 (cpu_to_be16 (seq_id (mrp s'))) @
            domain (mrp s) @ [tlv_code BR_MRP_TLV_HEADER_END, 0])) s')
     else Some s')"
proof -
  obtain fb1 where 1: "mrp_fb_tlv BR_MRP_TLV_HEADER_COMMON 18 fb = Some fb1"
    "fb_holds fb1 (bs @ [tlv_code BR_MRP_TLV_HEADER_COMMON, 18])"
    using mrp_fb_tlv_Some [OF fb] len by (auto simp del: tlv_code.simps)
  let ?com = "mem16 (cpu_to_be16 (seq_id (mrp s) + 1)) @ domain (mrp s)"
  have lc: "length ?com = 18" using dm by simp
  obtain fb2 where 2: "fb_put_struct ?com fb1 = Some fb2"
    "fb_holds fb2 ((bs @ [tlv_code BR_MRP_TLV_HEADER_COMMON, 18]) @ ?com)"
    using fb_put_struct_Some [OF 1(2), of ?com] len lc by auto
  obtain fb3 where 3: "mrp_fb_tlv BR_MRP_TLV_HEADER_END 0 fb2 = Some fb3"
    "fb_holds fb3 (((bs @ [tlv_code BR_MRP_TLV_HEADER_COMMON, 18]) @ ?com) @
       [tlv_code BR_MRP_TLV_HEADER_END, 0])"
    using mrp_fb_tlv_Some [OF 2(2)] len lc by (auto simp del: tlv_code.simps)
  show ?thesis
    using mac
    by (auto simp: mrp_finish_def mrp_fb_common_def mrp_next_seq_def 1 2 3 mrp_eth_alloc_def
        mrp_send_eq [OF 3(2)] eth_def enc_com_def Let_def)
qed

lemma mrp_fb_alloc_cases:
  "mrp_fb_alloc e l =
     (if \<not> malloc_ok e l sizeof_frame_buf \<or> \<not> malloc_ok e l 200 then Some None
      else mrp_fb_alloc e l)"
  by (auto simp: mrp_fb_alloc_def fb_alloc_def)

lemma mrp_fb_alloc_Some:
  assumes "malloc_ok e l sizeof_frame_buf" and "malloc_ok e l 200"
  obtains fb where "mrp_fb_alloc e l = Some (Some fb)"
    and "fb_holds fb (mem16 (cpu_to_be16 MRP_VERSION))"
proof -
  obtain fb0 where 0: "fb_alloc (malloc_ok e l) MRP_MAX_FRAME_LENGTH = Some fb0"
    using assms by (auto simp: fb_alloc_def)
  then have "fb_holds fb0 []" by (rule fb_alloc_holds)
  then obtain fb1 where "fb_put_struct (mem16 (cpu_to_be16 MRP_VERSION)) fb0 = Some fb1"
    "fb_holds fb1 (mem16 (cpu_to_be16 MRP_VERSION))"
    using fb_put_struct_Some [of fb0 "[]" "mem16 (cpu_to_be16 MRP_VERSION)"] by auto
  with 0 show thesis using that by (simp add: mrp_fb_alloc_def)
qed

text \<open>One TLV with a body, then the common end: the shape of seven of the nine frames.\<close>

lemma compose_eq:
  assumes q: "deref_mrp p s = Some q" "length (pmacaddr q) = 6" and dm: "length (domain (mrp s)) = 16"
    and d: "length dmac = 6" and b: "length body \<le> 174"
  shows "do {
      fbo \<leftarrow> mrp_fb_alloc e (log s);
      (case fbo of None \<Rightarrow> Some s | Some fb \<Rightarrow> do {
        fb \<leftarrow> mrp_fb_tlv ty len fb;
        fb \<leftarrow> fb_put_struct body fb;
        mrp_finish e q dmac fb s })
    } = send_pdu e p dmac ty len (\<lambda>_. body) s"
proof (cases "malloc_ok e (log s) sizeof_frame_buf \<and> malloc_ok e (log s) 200")
  case False
  then show ?thesis
    using mrp_fb_alloc_cases [of e "log s"] q by (auto simp: send_pdu_def)
next
  case True
  obtain fb where 0: "mrp_fb_alloc e (log s) = Some (Some fb)"
    "fb_holds fb (mem16 (cpu_to_be16 MRP_VERSION))"
    using True by (auto elim: mrp_fb_alloc_Some)
  obtain fb1 where 1: "mrp_fb_tlv ty len fb = Some fb1"
    "fb_holds fb1 (mem16 (cpu_to_be16 MRP_VERSION) @ [tlv_code ty, len])"
    using mrp_fb_tlv_Some [OF 0(2)] by auto
  obtain fb2 where 2: "fb_put_struct body fb1 = Some fb2"
    "fb_holds fb2 ((mem16 (cpu_to_be16 MRP_VERSION) @ [tlv_code ty, len]) @ body)"
    using fb_put_struct_Some [OF 1(2), of body] b by auto
  show ?thesis
    using True q
    by (simp add: 0 1 2 mrp_finish_eq [OF 2(2) _ dm q(2) d] b send_pdu_def pdu_def Let_def)
qed

lemma compose_option_eq:
  assumes q: "deref_mrp p s = Some q" "length (pmacaddr q) = 6" and dm: "length (domain (mrp s)) = 16"
    and b: "length body = 16"
    and pad: "\<And>fb bs. fb_holds fb bs \<Longrightarrow> length bs \<le> 100 \<Longrightarrow> fb_holds (pf fb) (bs @ fill)" "length fill \<le> 2"
  shows "do {
      fbo \<leftarrow> mrp_fb_alloc e (log s);
      (case fbo of None \<Rightarrow> Some s | Some fb \<Rightarrow> do {
        fb \<leftarrow> mrp_fb_option fb;
        fb \<leftarrow> mrp_fb_sub_tlv ty len fb;
        fb \<leftarrow> fb_put_struct body fb;
        mrp_finish e q mrp_test_dmac (pf fb) s })
    } = send_pdu e p mrp_test_dmac BR_MRP_TLV_HEADER_OPTION 24
          (\<lambda>_. [0, 0, 0, 0, 0, 0] @ [sub_tlv_code ty, len] @ body @ fill) s"
proof (cases "malloc_ok e (log s) sizeof_frame_buf \<and> malloc_ok e (log s) 200")
  case False
  then show ?thesis
    using mrp_fb_alloc_cases [of e "log s"] q by (auto simp: send_pdu_def)
next
  case True
  let ?v = "mem16 (cpu_to_be16 MRP_VERSION)"
  obtain fb where 0: "mrp_fb_alloc e (log s) = Some (Some fb)" "fb_holds fb ?v"
    using True by (auto elim: mrp_fb_alloc_Some)
  obtain fb1 where 1: "mrp_fb_tlv BR_MRP_TLV_HEADER_OPTION 24 fb = Some fb1"
    "fb_holds fb1 (?v @ [tlv_code BR_MRP_TLV_HEADER_OPTION, 24])"
    using mrp_fb_tlv_Some [OF 0(2)] by (auto simp del: tlv_code.simps)
  obtain fb2 where 2: "fb_put_struct [0, 0, 0] fb1 = Some fb2"
    "fb_holds fb2 ((?v @ [tlv_code BR_MRP_TLV_HEADER_OPTION, 24]) @ [0, 0, 0])"
    using fb_put_struct_Some [OF 1(2), of "[0, 0, 0]"] by (auto simp del: tlv_code.simps)
  obtain fb3 where 3: "fb_put_struct [0, 0, 0] fb2 = Some fb3"
    "fb_holds fb3 (((?v @ [tlv_code BR_MRP_TLV_HEADER_OPTION, 24]) @ [0, 0, 0]) @ [0, 0, 0])"
    using fb_put_struct_Some [OF 2(2), of "[0, 0, 0]"] by (auto simp del: tlv_code.simps)
  have opt: "mrp_fb_option fb = Some fb3"
    using 1 2 3 by (simp add: mrp_fb_option_def enc_oui_def enc_sopt_def numeral_3_eq_3 numeral_2_eq_2)
  obtain fb4 where 4: "mrp_fb_sub_tlv ty len fb3 = Some fb4"
    "fb_holds fb4 ((((?v @ [tlv_code BR_MRP_TLV_HEADER_OPTION, 24]) @ [0, 0, 0]) @ [0, 0, 0]) @
      [sub_tlv_code ty, len])"
    using mrp_fb_sub_tlv_Some [OF 3(2)] by (auto simp del: tlv_code.simps)
  obtain fb5 where 5: "fb_put_struct body fb4 = Some fb5"
    "fb_holds fb5 (((((?v @ [tlv_code BR_MRP_TLV_HEADER_OPTION, 24]) @ [0, 0, 0]) @ [0, 0, 0]) @
      [sub_tlv_code ty, len]) @ body)"
    using fb_put_struct_Some [OF 4(2), of body] b by (auto simp del: tlv_code.simps)
  have 6: "fb_holds (pf fb5) (((((?v @ [tlv_code BR_MRP_TLV_HEADER_OPTION, 24]) @ [0, 0, 0]) @
      [0, 0, 0]) @ [sub_tlv_code ty, len]) @ body @ fill)"
    using pad(1) [OF 5(2)] b by simp
  show ?thesis
    using True q pad(2)
    by (simp add: 0 opt 4 5 mrp_finish_eq [OF 6 _ dm q(2)] b dmac_defs send_pdu_def pdu_def Let_def)
qed

section \<open>The frames\<close>

text \<open>The header each function puts into its frame, as a function of the instance and of the port
  the frame leaves through.\<close>

definition ring_test_hdr :: "mrp \<Rightarrow> u32 \<Rightarrow> mrp_port \<Rightarrow> br_mrp_ring_test_hdr" where
  "ring_test_hdr m t q = \<lparr>
     rt_prio = cpu_to_be16 (prio m), rt_sa = ether_addr_copy (macaddr m),
     rt_port_role = cpu_to_be16 (port_role_code (prole q)),
     rt_state = cpu_to_be16 (ring_state_code (if mrm_state m = MRP_MRM_STATE_CHK_RC
       then BR_MRP_RING_STATE_CLOSED else BR_MRP_RING_STATE_OPEN)),
     rt_transitions = cpu_to_be16 (ring_transitions m), rt_timestamp = cpu_to_be32 t\<rparr>"

definition ring_topo_hdr :: "mrp \<Rightarrow> u32 \<Rightarrow> br_mrp_ring_topo_hdr" where
  "ring_topo_hdr m iv = \<lparr>
     rtopo_prio = cpu_to_be16 (prio m), rtopo_sa = ether_addr_copy (macaddr m),
     rtopo_interval = be_interval iv\<rparr>"

definition ring_link_hdr :: "mrp \<Rightarrow> u32 \<Rightarrow> mrp_port \<Rightarrow> br_mrp_ring_link_hdr" where
  "ring_link_hdr m iv q = \<lparr>
     rlink_sa = ether_addr_copy (macaddr m),
     rlink_port_role = cpu_to_be16 (port_role_code (prole q)),
     rlink_interval = be_interval iv, rlink_blocked = cpu_to_be16 (ucast (blocked m))\<rparr>"

definition nack_hdr :: "mrp \<Rightarrow> ether \<Rightarrow> br_mrp_test_mgr_nack_hdr" where
  "nack_hdr m sa = \<lparr>
     nack_prio = cpu_to_be16 (prio m), nack_sa = ether_addr_copy (macaddr m),
     nack_other_prio = 0, nack_other_sa = ether_addr_copy sa\<rparr>"

definition prop_hdr :: "mrp \<Rightarrow> br_mrp_test_prop_hdr" where
  "prop_hdr m = \<lparr>
     tprop_prio = cpu_to_be16 (prio m), tprop_sa = ether_addr_copy (macaddr m),
     tprop_other_prio = cpu_to_be16 (ring_prio m), tprop_other_sa = ether_addr_copy (ring_mac m)\<rparr>"

definition in_test_hdr :: "mrp \<Rightarrow> u32 \<Rightarrow> mrp_port \<Rightarrow> br_mrp_in_test_hdr" where
  "in_test_hdr m t q = \<lparr>
     it_id = cpu_to_be16 (in_id m), it_sa = ether_addr_copy (macaddr m),
     it_port_role = cpu_to_be16 (port_role_code (prole q)),
     it_state = cpu_to_be16 (in_state_code (if mim_state m = MRP_MIM_STATE_CHK_IC
       then BR_MRP_IN_STATE_CLOSED else BR_MRP_IN_STATE_OPEN)),
     it_transitions = cpu_to_be16 (in_transitions m), it_timestamp = cpu_to_be32 t\<rparr>"

definition in_topo_hdr :: "mrp \<Rightarrow> u32 \<Rightarrow> br_mrp_in_topo_hdr" where
  "in_topo_hdr m iv = \<lparr>
     itopo_sa = ether_addr_copy (macaddr m), itopo_id = cpu_to_be16 (in_id m),
     itopo_interval = be_interval iv\<rparr>"

definition in_link_hdr :: "mrp \<Rightarrow> u32 \<Rightarrow> mrp_port \<Rightarrow> br_mrp_in_link_hdr" where
  "in_link_hdr m iv q = \<lparr>
     ilink_sa = ether_addr_copy (macaddr m),
     ilink_port_role = cpu_to_be16 (port_role_code (prole q)),
     ilink_id = cpu_to_be16 (in_id m), ilink_interval = be_interval iv\<rparr>"

definition in_link_status_hdr :: "mrp \<Rightarrow> mrp_port \<Rightarrow> br_mrp_in_link_status_hdr" where
  "in_link_status_hdr m q = \<lparr>
     ils_sa = ether_addr_copy (macaddr m),
     ils_port_role = cpu_to_be16 (port_role_code (prole q)), ils_id = cpu_to_be16 (in_id m)\<rparr>"

lemmas hdr_defs = ring_test_hdr_def ring_topo_hdr_def ring_link_hdr_def nack_hdr_def prop_hdr_def
  in_test_hdr_def in_topo_hdr_def in_link_hdr_def in_link_status_hdr_def

lemma wf_hdrs [simp]:
  "wf_rt (ring_test_hdr m t q)" "wf_rtopo (ring_topo_hdr m iv)" "wf_rlink (ring_link_hdr m iv q)"
  "wf_nack (nack_hdr m sa)" "wf_tprop (prop_hdr m)" "wf_it (in_test_hdr m t q)"
  "wf_itopo (in_topo_hdr m iv)" "wf_ilink (in_link_hdr m iv q)" "wf_ils (in_link_status_hdr m q)"
  by (simp_all add: hdr_defs wf_rt_def wf_rtopo_def wf_rlink_def wf_nack_def wf_tprop_def wf_it_def
      wf_itopo_def wf_ilink_def wf_ils_def)

lemmas hdr_length [simp] = rt.enc_length rtopo.enc_length rlink.enc_length nack.enc_length
  tprop.enc_length it.enc_length itopo.enc_length ilink.enc_length ils.enc_length

lemma send_pdu_cong:
  "deref_mrp p s = Some q \<Longrightarrow> b q = b' q \<Longrightarrow> send_pdu e p d ty len b s = send_pdu e p d ty len b' s"
  by (simp add: send_pdu_def Let_def)

lemma port_okD: "port_ok p s \<Longrightarrow> \<exists>q. deref_mrp p s = Some q \<and> length (pmacaddr q) = 6"
  by (auto simp: port_ok_def deref_mrp_def)

lemma dmac_length [simp]: "length mrp_test_dmac = 6" "length mrp_control_dmac = 6"
  "length mrp_itest_dmac = 6" "length mrp_icontrol_dmac = 6"
  by (simp_all add: dmac_defs)

lemma mrp_send_ring_test_eq:
  assumes "port_ok p s" and "length (domain (mrp s)) = 16"
  shows "mrp_send_ring_test e p s =
    send_pdu e p mrp_test_dmac BR_MRP_TLV_HEADER_RING_TEST 18 (\<lambda>q. enc_rt (ring_test_hdr (mrp s) (time_ms (clock e (log s))) q)) s"
proof -
  obtain q where q: "deref_mrp p s = Some q" "length (pmacaddr q) = 6"
    using port_okD [OF assms(1)] by blast
  show ?thesis
    by (subst send_pdu_cong [OF q(1), of _ "\<lambda>_. enc_rt (ring_test_hdr (mrp s) (time_ms (clock e (log s))) q)"])
      (simp_all add: mrp_send_ring_test_def q(1) Let_def flip: hdr_defs compose_eq [OF q assms(2)])
qed

lemma mrp_send_ring_topo_eq:
  assumes "port_ok p s" and "length (domain (mrp s)) = 16"
  shows "mrp_send_ring_topo e p iv s =
    send_pdu e p mrp_control_dmac BR_MRP_TLV_HEADER_RING_TOPO 10 (\<lambda>q. enc_rtopo (ring_topo_hdr (mrp s) iv)) s"
proof -
  obtain q where q: "deref_mrp p s = Some q" "length (pmacaddr q) = 6"
    using port_okD [OF assms(1)] by blast
  show ?thesis
    by (subst send_pdu_cong [OF q(1), of _ "\<lambda>_. enc_rtopo (ring_topo_hdr (mrp s) iv)"])
      (simp_all add: mrp_send_ring_topo_def q(1) Let_def flip: hdr_defs compose_eq [OF q assms(2)])
qed

lemma mrp_send_ring_link_eq:
  assumes "port_ok p s" and "length (domain (mrp s)) = 16"
  shows "mrp_send_ring_link e p up iv s =
    send_pdu e p mrp_control_dmac (if up then BR_MRP_TLV_HEADER_RING_LINK_UP else BR_MRP_TLV_HEADER_RING_LINK_DOWN) 12 (\<lambda>q. enc_rlink (ring_link_hdr (mrp s) iv q)) s"
proof -
  obtain q where q: "deref_mrp p s = Some q" "length (pmacaddr q) = 6"
    using port_okD [OF assms(1)] by blast
  show ?thesis
    by (subst send_pdu_cong [OF q(1), of _ "\<lambda>_. enc_rlink (ring_link_hdr (mrp s) iv q)"])
      (simp_all add: mrp_send_ring_link_def q(1) Let_def flip: hdr_defs compose_eq [OF q assms(2)])
qed

lemma mrp_send_in_test_eq:
  assumes "port_ok p s" and "length (domain (mrp s)) = 16"
  shows "mrp_send_in_test e p s =
    send_pdu e p mrp_itest_dmac BR_MRP_TLV_HEADER_IN_TEST 18 (\<lambda>q. enc_it (in_test_hdr (mrp s) (time_ms (clock e (log s))) q)) s"
proof -
  obtain q where q: "deref_mrp p s = Some q" "length (pmacaddr q) = 6"
    using port_okD [OF assms(1)] by blast
  show ?thesis
    by (subst send_pdu_cong [OF q(1), of _ "\<lambda>_. enc_it (in_test_hdr (mrp s) (time_ms (clock e (log s))) q)"])
      (simp_all add: mrp_send_in_test_def q(1) Let_def flip: hdr_defs compose_eq [OF q assms(2)])
qed

lemma mrp_send_in_topo_eq:
  assumes "port_ok p s" and "length (domain (mrp s)) = 16"
  shows "mrp_send_in_topo e p iv s =
    send_pdu e p mrp_icontrol_dmac BR_MRP_TLV_HEADER_IN_TOPO 10 (\<lambda>q. enc_itopo (in_topo_hdr (mrp s) iv)) s"
proof -
  obtain q where q: "deref_mrp p s = Some q" "length (pmacaddr q) = 6"
    using port_okD [OF assms(1)] by blast
  show ?thesis
    by (subst send_pdu_cong [OF q(1), of _ "\<lambda>_. enc_itopo (in_topo_hdr (mrp s) iv)"])
      (simp_all add: mrp_send_in_topo_def q(1) Let_def flip: hdr_defs compose_eq [OF q assms(2)])
qed

lemma mrp_send_in_link_eq:
  assumes "port_ok p s" and "length (domain (mrp s)) = 16"
  shows "mrp_send_in_link e p up iv s =
    send_pdu e p mrp_icontrol_dmac (if up then BR_MRP_TLV_HEADER_IN_LINK_UP else BR_MRP_TLV_HEADER_IN_LINK_DOWN) 12 (\<lambda>q. enc_ilink (in_link_hdr (mrp s) iv q)) s"
proof -
  obtain q where q: "deref_mrp p s = Some q" "length (pmacaddr q) = 6"
    using port_okD [OF assms(1)] by blast
  show ?thesis
    by (subst send_pdu_cong [OF q(1), of _ "\<lambda>_. enc_ilink (in_link_hdr (mrp s) iv q)"])
      (simp_all add: mrp_send_in_link_def q(1) Let_def flip: hdr_defs compose_eq [OF q assms(2)])
qed

lemma mrp_send_in_link_status_eq:
  assumes "port_ok p s" and "length (domain (mrp s)) = 16"
  shows "mrp_send_in_link_status e p s =
    send_pdu e p mrp_icontrol_dmac BR_MRP_TLV_HEADER_IN_LINK_STATUS 10 (\<lambda>q. enc_ils (in_link_status_hdr (mrp s) q)) s"
proof -
  obtain q where q: "deref_mrp p s = Some q" "length (pmacaddr q) = 6"
    using port_okD [OF assms(1)] by blast
  show ?thesis
    by (subst send_pdu_cong [OF q(1), of _ "\<lambda>_. enc_ils (in_link_status_hdr (mrp s) q)"])
      (simp_all add: mrp_send_in_link_status_def q(1) Let_def flip: hdr_defs compose_eq [OF q assms(2)])
qed

definition nack_body :: "mrp \<Rightarrow> ether \<Rightarrow> u8 list" where
  "nack_body m sa = [0, 0, 0, 0, 0, 0] @
     [sub_tlv_code BR_MRP_SUB_TLV_HEADER_TEST_MGR_NACK, 18] @ enc_nack (nack_hdr m sa) @ [0, 0]"

definition prop_body :: "mrp \<Rightarrow> u8 list" where
  "prop_body m = [0, 0, 0, 0, 0, 0] @
     [sub_tlv_code BR_MRP_SUB_TLV_HEADER_TEST_PROPAGATE, 18] @ enc_tprop (prop_hdr m)"

lemma mrp_send_test_mgr_nack_eq:
  assumes "port_ok p s" and "length (domain (mrp s)) = 16"
  shows "mrp_send_test_mgr_nack e p sa s =
    send_pdu e p mrp_test_dmac BR_MRP_TLV_HEADER_OPTION 24 (\<lambda>_. nack_body (mrp s) sa) s"
proof -
  obtain q where q: "deref_mrp p s = Some q" "length (pmacaddr q) = 6"
    using port_okD [OF assms(1)] by blast
  have "\<And>fb bs. fb_holds fb bs \<Longrightarrow> length bs \<le> 100 \<Longrightarrow> fb_holds (snd (fb_put fb 2)) (bs @ [0, 0])"
    by (rule fb_put_2_holds) simp_all
  from compose_option_eq [OF q assms(2) _ this, where body = "enc_nack (nack_hdr (mrp s) sa)"
      and ty = BR_MRP_SUB_TLV_HEADER_TEST_MGR_NACK and len = 18 and e = e]
  show ?thesis
    by (simp add: mrp_send_test_mgr_nack_def nack_body_def q(1) Let_def flip: nack_hdr_def)
qed

lemma mrp_send_test_prop_eq:
  assumes "port_ok p s" and "length (domain (mrp s)) = 16"
  shows "mrp_send_test_prop e p s =
    send_pdu e p mrp_test_dmac BR_MRP_TLV_HEADER_OPTION 24 (\<lambda>_. prop_body (mrp s)) s"
proof -
  obtain q where q: "deref_mrp p s = Some q" "length (pmacaddr q) = 6"
    using port_okD [OF assms(1)] by blast
  have "\<And>fb bs. fb_holds fb bs \<Longrightarrow> length bs \<le> 100 \<Longrightarrow> fb_holds (id fb) (bs @ [])"
    by simp
  from compose_option_eq [OF q assms(2) _ this, where body = "enc_tprop (prop_hdr (mrp s))"
      and ty = BR_MRP_SUB_TLV_HEADER_TEST_PROPAGATE and len = 18 and e = e]
  show ?thesis
    by (simp add: mrp_send_test_prop_def prop_body_def q(1) Let_def flip: prop_hdr_def)
qed

end
