(* ===== verification/Mrp_Wp.thy ===== *)
theory Mrp_Wp
  imports Mrp_Send_Spec
begin

text \<open>
  Symbolic execution of the handlers.  \<open>core_ok\<close> says that the memory of an instance is sound:
  its ring port pointers name its two ring ports in one of the two orders, its interconnection
  pointer is NULL or names the third port, these objects are live, point back to the instance
  and carry their role.  The rules of \<open>wp\<close> run one call under \<open>ok\<close>: what the call needs, and
  which fields it may change.
\<close>

section \<open>Port memory\<close>

type_synonym port_mem = "port_ref \<Rightarrow> mrp_port option"

fun port_role_of :: "port_ref \<Rightarrow> br_mrp_port_role_type" where
  "port_role_of PORT_PRIMARY = BR_MRP_PORT_ROLE_PRIMARY"
| "port_role_of PORT_SECONDARY = BR_MRP_PORT_ROLE_SECONDARY"
| "port_role_of PORT_INTER = BR_MRP_PORT_ROLE_INTER"

definition slot_ok :: "port_ref \<Rightarrow> port_mem \<Rightarrow> bool" where
  "slot_ok r pm \<longleftrightarrow> (\<exists>q. pm r = Some q \<and> pmrp q \<and> length (pmacaddr q) = 6 \<and> prole q = port_role_of r)"

definition live :: "port_ref option \<Rightarrow> port_mem \<Rightarrow> bool" where
  "live p pm \<longleftrightarrow> (\<exists>r. p = Some r \<and> slot_ok r pm)"

definition core_ok ::
  "port_ref option \<Rightarrow> port_ref option \<Rightarrow> port_ref option \<Rightarrow> u8 list \<Rightarrow> ether \<Rightarrow> ether \<Rightarrow> port_mem \<Rightarrow> bool" where
  "core_ok pp sp ip dm mac rmac pm \<longleftrightarrow>
     (pp = Some PORT_PRIMARY \<and> sp = Some PORT_SECONDARY \<or>
      pp = Some PORT_SECONDARY \<and> sp = Some PORT_PRIMARY) \<and>
     slot_ok PORT_PRIMARY pm \<and> slot_ok PORT_SECONDARY pm \<and>
     (ip = None \<or> ip = Some PORT_INTER \<and> slot_ok PORT_INTER pm) \<and>
     length dm = 16 \<and> length mac = 6 \<and> length rmac = 6"

abbreviation inst_ok :: "st \<Rightarrow> bool" where
  "inst_ok s \<equiv> core_ok (p_port (mrp s)) (s_port (mrp s)) (i_port (mrp s)) (domain (mrp s))
     (macaddr (mrp s)) (ring_mac (mrp s)) (port s)"

text \<open>Reading and writing the forwarding state and the operational state of a port.\<close>

definition pst :: "port_ref option \<Rightarrow> port_mem \<Rightarrow> br_mrp_port_state_type" where
  "pst p pm = (case p of None \<Rightarrow> BR_MRP_PORT_STATE_DISABLED
     | Some r \<Rightarrow> (case pm r of None \<Rightarrow> BR_MRP_PORT_STATE_DISABLED | Some q \<Rightarrow> pstate q))"

definition set_pst :: "port_ref option \<Rightarrow> br_mrp_port_state_type \<Rightarrow> port_mem \<Rightarrow> port_mem" where
  "set_pst p x pm = (case p of None \<Rightarrow> pm
     | Some r \<Rightarrow> pm(r := map_option (\<lambda>q. q\<lparr>pstate := x\<rparr>) (pm r)))"

definition set_oper :: "port_ref option \<Rightarrow> u8 \<Rightarrow> port_mem \<Rightarrow> port_mem" where
  "set_oper p x pm = (case p of None \<Rightarrow> pm
     | Some r \<Rightarrow> pm(r := map_option (\<lambda>q. q\<lparr>poperstate := x\<rparr>) (pm r)))"

lemma slot_ok_set [simp]:
  "slot_ok r (set_pst p x pm) = slot_ok r pm" "slot_ok r (set_oper p y pm) = slot_ok r pm"
  by (auto simp: slot_ok_def set_pst_def set_oper_def split: option.splits)

lemma live_set [simp]:
  "live r (set_pst p x pm) = live r pm" "live r (set_oper p y pm) = live r pm"
  by (simp_all add: live_def)

lemma core_ok_set [simp]:
  "core_ok a b c d m r (set_pst p x pm) = core_ok a b c d m r pm"
  "core_ok a b c d m r (set_oper p y pm) = core_ok a b c d m r pm"
  by (simp_all add: core_ok_def)

lemma pst_set_pst [simp]:
  "live p pm \<Longrightarrow> pst q (set_pst p x pm) = (if q = p then x else pst q pm)"
  by (auto simp: live_def slot_ok_def pst_def set_pst_def split: option.splits)

lemma pst_set_oper [simp]: "pst q (set_oper p y pm) = pst q pm"
  by (auto simp: pst_def set_oper_def split: option.splits)

lemma core_ok_swap: "core_ok b a c d m r pm = core_ok a b c d m r pm"
  by (auto simp: core_ok_def)

lemma core_okD:
  assumes "core_ok pp sp ip d m r pm"
  shows "live pp pm" "live sp pm" "pp \<noteq> sp" "sp \<noteq> pp" "pp \<noteq> ip" "sp \<noteq> ip" "ip \<noteq> pp" "ip \<noteq> sp"
    "ip \<noteq> None \<Longrightarrow> live ip pm" "length d = 16" "length m = 6" "length r = 6"
  using assms by (auto simp: core_ok_def live_def)

lemma live_port_ok: "live p (port s) \<Longrightarrow> port_ok p s"
  by (auto simp: live_def slot_ok_def port_ok_def deref_def)

lemma live_deref: "live p (port s) \<Longrightarrow>
    \<exists>q. deref p s = Some q \<and> deref_mrp p s = Some q \<and> pstate q = pst p (port s) \<and>
      pmrp q \<and> port_role_of (the p) = prole q"
  by (auto simp: live_def slot_ok_def deref_def deref_mrp_def pst_def)

text \<open>Updates of the three parts of a state commute; they are kept in the order of the record.\<close>

lemma st_upd_order [simp]:
  "mrp_update f (log_update g s) = log_update g (mrp_update f s)"
  "port_update h (log_update g s) = log_update g (port_update h s)"
  "mrp_update f (port_update h s) = port_update h (mrp_update f s)"
  by (cases s; simp)+

section \<open>Rules for reading\<close>

lemma deref_wp [wp]:
  "live p (port s) \<Longrightarrow> (\<And>q. pstate q = pst p (port s) \<Longrightarrow> pmrp q \<Longrightarrow> prole q = port_role_of (the p) \<Longrightarrow> Q q) \<Longrightarrow>
   ok (deref p s) Q"
  using live_deref by fastforce

lemma deref_mrp_wp [wp]:
  "live p (port s) \<Longrightarrow> (\<And>q. pstate q = pst p (port s) \<Longrightarrow> pmrp q \<Longrightarrow> prole q = port_role_of (the p) \<Longrightarrow> Q q) \<Longrightarrow>
   ok (deref_mrp p s) Q"
  using live_deref by fastforce

section \<open>Rules for ports and the driver\<close>

lemma upd_oper_wp [wp]:
  assumes "live p (port s)" and "Q (s\<lparr>port := set_oper p x (port s)\<rparr>)"
  shows "ok (upd_port p (\<lambda>q. q\<lparr>poperstate := x\<rparr>) s) Q"
  using assms by (auto simp: live_def slot_ok_def upd_port_def set_oper_def)

lemma set_port_wp [wp]:
  assumes "live p (port s)" and "\<And>l. Q (s\<lparr>port := set_pst p x (port s), log := log s @ l\<rparr>)"
  shows "ok (set_port e p x s) Q"
  using assms by (auto simp: live_def slot_ok_def set_port_def mrp_port_set_state_def upd_port_def
      deref_def emit_def set_pst_def)

lemma ifdriver_flush_wp [wp]:
  assumes "inst_ok s" and "\<And>l. Q (s\<lparr>log := log s @ l\<rparr>)"
  shows "ok (ifdriver_flush s) Q"
  using assms by (auto simp: ifdriver_flush_def core_ok_def slot_ok_def deref_def emit_def)

lemma mrp_clear_fdb_start_wp [wp]:
  assumes "inst_ok s" and "\<And>w l. Q (s\<lparr>mrp := (mrp s)\<lparr>clear_fdb_work := w\<rparr>, log := log s @ l\<rparr>)"
  shows "ok (mrp_clear_fdb_start e iv s) Q"
proof -
  have "s\<lparr>log := log s\<rparr> = s" by simp
  then show ?thesis
    using assms(1) assms(2) [where l = "[]"]
    by (auto simp: mrp_clear_fdb_start_def Let_def intro!: ifdriver_flush_wp assms(2))
qed

section \<open>Rules for sends\<close>

lemma send_pdu_wp:
  assumes "live p (port s)"
    and "\<And>sq l. Q (s\<lparr>mrp := (mrp s)\<lparr>seq_id := sq\<rparr>, log := log s @ l\<rparr>)"
  shows "ok (send_pdu e p d ty len b s) Q"
proof -
  have s: "s\<lparr>mrp := (mrp s)\<lparr>seq_id := seq_id (mrp s)\<rparr>, log := log s @ []\<rparr> = s"
    and "\<And>sq. s\<lparr>mrp := (mrp s)\<lparr>seq_id := sq\<rparr>, log := log s @ []\<rparr> = s\<lparr>mrp := (mrp s)\<lparr>seq_id := sq\<rparr>\<rparr>"
    by simp_all
  with assms(2) have "Q s" "\<And>sq. Q (s\<lparr>mrp := (mrp s)\<lparr>seq_id := sq\<rparr>\<rparr>)"
    by metis+
  with live_deref [OF assms(1)] assms(2) show ?thesis
    by (auto simp: send_pdu_def Let_def mrp_next_seq_def packet_send_def emit_def)
qed

lemmas send_eqs = mrp_send_ring_test_eq mrp_send_ring_topo_eq mrp_send_ring_link_eq
  mrp_send_in_test_eq mrp_send_in_topo_eq mrp_send_in_link_eq mrp_send_in_link_status_eq
  mrp_send_test_mgr_nack_eq mrp_send_test_prop_eq

lemma send_one_wp:
  assumes "live p (port s)" and "length (domain (mrp s)) = 16"
    and "\<And>sq l. Q (s\<lparr>mrp := (mrp s)\<lparr>seq_id := sq\<rparr>, log := log s @ l\<rparr>)"
  shows "ok (mrp_send_ring_test e p s) Q" "ok (mrp_send_ring_topo e p iv s) Q"
    "ok (mrp_send_ring_link e p up iv s) Q" "ok (mrp_send_in_test e p s) Q"
    "ok (mrp_send_in_topo e p iv s) Q" "ok (mrp_send_in_link e p up iv s) Q"
    "ok (mrp_send_in_link_status e p s) Q" "ok (mrp_send_test_mgr_nack e p sa s) Q"
    "ok (mrp_send_test_prop e p s) Q"
  using assms by (simp_all add: send_eqs live_port_ok send_pdu_wp)

text \<open>The requests that send on several ports, with the timer they start.\<close>

lemma ring_sends_wp [wp]:
  assumes core: "inst_ok s"
    and Q: "\<And>sq l. Q (s\<lparr>mrp := (mrp s)\<lparr>seq_id := sq\<rparr>, log := log s @ l\<rparr>)"
  shows "ok (mrp_ring_test_send e s) Q" "ok (mrp_ring_topo_send e iv s) Q"
    "ok (mrp_test_mgr_nack_req e sa s) Q" "ok (mrp_test_prop_req e s) Q"
  using core_okD [OF core] Q
  by (auto simp: mrp_ring_test_send_def mrp_ring_topo_send_def mrp_test_mgr_nack_req_def
      mrp_test_prop_req_def intro!: send_one_wp)

lemma ring_link_req_wp [wp]:
  assumes core: "inst_ok s" and p: "p = p_port (mrp s)"
    and Q: "\<And>sq l. Q (s\<lparr>mrp := (mrp s)\<lparr>seq_id := sq\<rparr>, log := log s @ l\<rparr>)"
  shows "ok (mrp_ring_link_req e p up iv s) Q"
  using core_okD [OF core] Q by (auto simp: p mrp_ring_link_req_def intro!: send_one_wp)

lemma in_sends_wp [wp]:
  assumes core: "inst_ok s" and i: "i_port (mrp s) \<noteq> None"
    and Q: "\<And>sq l. Q (s\<lparr>mrp := (mrp s)\<lparr>seq_id := sq\<rparr>, log := log s @ l\<rparr>)"
  shows "ok (mrp_in_test_send e s) Q" "ok (mrp_in_topo_send e iv s) Q" "ok (mrp_in_link_req e up iv s) Q"
  using core_okD [OF core] core_okD(9) [OF core i] Q
  by (auto simp: mrp_in_test_send_def mrp_in_topo_send_def mrp_in_link_req_def intro!: send_one_wp)

lemma mrp_ring_test_req_wp [wp]:
  assumes "inst_ok s"
    and "\<And>sq l. Q (s\<lparr>mrp := (mrp s)\<lparr>seq_id := sq, ring_test_work :=
           ev_timer_again e ((ring_test_work (mrp s))\<lparr>repeat := iv\<rparr>)\<rparr>, log := log s @ l\<rparr>)"
  shows "ok (mrp_ring_test_req e iv s) Q"
  using assms by (auto simp: mrp_ring_test_req_def mrp_ring_test_start_def intro!: ring_sends_wp)

lemma mrp_ring_topo_req_wp [wp]:
  assumes "inst_ok s"
    and "\<And>sq l r w. Q (s\<lparr>mrp := (mrp s)\<lparr>seq_id := sq, ring_topo_running := r, ring_topo_work := w\<rparr>,
           log := log s @ l\<rparr>)"
  shows "ok (mrp_ring_topo_req e t s) Q"
proof -
  have "\<And>sq l. s\<lparr>mrp := (mrp s)\<lparr>seq_id := sq, ring_topo_running := ring_topo_running (mrp s),
      ring_topo_work := ring_topo_work (mrp s)\<rparr>, log := log s @ l\<rparr> =
      s\<lparr>mrp := (mrp s)\<lparr>seq_id := sq\<rparr>, log := log s @ l\<rparr>" by simp
  with assms(2) have "\<And>sq l. Q (s\<lparr>mrp := (mrp s)\<lparr>seq_id := sq\<rparr>, log := log s @ l\<rparr>)" by metis
  then show ?thesis
    using assms by (auto simp: mrp_ring_topo_req_def mrp_ring_topo_start_def
        intro!: ring_sends_wp ifdriver_flush_wp)
qed

lemma mrp_in_test_req_wp [wp]:
  assumes "inst_ok s" and "i_port (mrp s) \<noteq> None"
    and "\<And>sq l. Q (s\<lparr>mrp := (mrp s)\<lparr>seq_id := sq, in_test_work :=
           ev_timer_again e ((in_test_work (mrp s))\<lparr>repeat := iv\<rparr>)\<rparr>, log := log s @ l\<rparr>)"
  shows "ok (mrp_in_test_req e iv s) Q"
  using assms by (auto simp: mrp_in_test_req_def mrp_in_test_start_def intro!: in_sends_wp)

lemma mrp_in_topo_req_wp [wp]:
  assumes "inst_ok s" and "i_port (mrp s) \<noteq> None"
    and "\<And>sq l w. Q (s\<lparr>mrp := (mrp s)\<lparr>seq_id := sq, in_topo_work := w\<rparr>, log := log s @ l\<rparr>)"
  shows "ok (mrp_in_topo_req e t s) Q"
proof -
  have "\<And>sq l. s\<lparr>mrp := (mrp s)\<lparr>seq_id := sq, in_topo_work := in_topo_work (mrp s)\<rparr>,
      log := log s @ l\<rparr> = s\<lparr>mrp := (mrp s)\<lparr>seq_id := sq\<rparr>, log := log s @ l\<rparr>" by simp
  with assms(3) have "\<And>sq l. Q (s\<lparr>mrp := (mrp s)\<lparr>seq_id := sq\<rparr>, log := log s @ l\<rparr>)" by metis
  then show ?thesis
    using assms by (auto simp: mrp_in_topo_req_def mrp_in_topo_start_def
        intro!: in_sends_wp ifdriver_flush_wp)
qed

lemma mrp_in_link_status_req_wp [wp]:
  assumes core: "inst_ok s"
    and Q: "\<And>sq l w. Q (s\<lparr>mrp := (mrp s)\<lparr>seq_id := sq, in_link_status_work := w\<rparr>, log := log s @ l\<rparr>)"
  shows "ok (mrp_in_link_status_req e iv s) Q"
proof -
  have "\<And>sq l. s\<lparr>mrp := (mrp s)\<lparr>seq_id := sq, in_link_status_work := in_link_status_work (mrp s)\<rparr>,
      log := log s @ l\<rparr> = s\<lparr>mrp := (mrp s)\<lparr>seq_id := sq\<rparr>, log := log s @ l\<rparr>" by simp
  with Q have "\<And>sq l. Q (s\<lparr>mrp := (mrp s)\<lparr>seq_id := sq\<rparr>, log := log s @ l\<rparr>)" by metis
  then show ?thesis
    using core_okD [OF core] Q by (auto simp: mrp_in_link_status_req_def mrp_in_link_status_start_def Let_def
        intro!: send_one_wp)
qed

end
