(* ===== verification/Mrp_Ring.thy ===== *)
theory Mrp_Ring
  imports Mrp_Send
begin

text \<open>
  Reception of ring frames, \<^verbatim>\<open>state_machine.c\<close>: the manager (MRM) and client (MRC) state
  machines and the election of the auto-manager (MRA).  \<open>buf\<close> is the frame after the Ethernet
  header; its headers are read with the decoders of \<open>Mrp_Pdu\<close> at the offsets the code computes.
\<close>

section \<open>MRP_Test\<close>

text \<open>\<open>ring_test_curr_max = ring_test_conf_max - 1; ring_test_curr = 0\<close>\<close>

definition rearm_ring_test :: "st \<Rightarrow> st" where
  "rearm_ring_test s =
     s\<lparr>mrp := (mrp s)\<lparr>ring_test_curr_max := ring_test_conf_max (mrp s) - 1, ring_test_curr := 0\<rparr>\<rparr>"

definition clear_no_tc :: "st \<Rightarrow> st" where
  "clear_no_tc s = s\<lparr>mrp := (mrp s)\<lparr>no_tc := False\<rparr>\<rparr>"

definition mrp_mrm_recv_ring_test :: "env \<Rightarrow> st \<Rightarrow> st option" where
  "mrp_mrm_recv_ring_test e s = (
     let topo_interval = ring_topo_conf_interval (mrp s) in
     case mrm_state (mrp s) of
       MRP_MRM_STATE_AC_STAT1 \<Rightarrow> Some s
     | MRP_MRM_STATE_PRM_UP \<Rightarrow> do {
         let s = clear_no_tc (rearm_ring_test s);
         s \<leftarrow> mrp_ring_test_req e (ring_test_conf_interval (mrp s)) s;
         Some (mrp_set_mrm_state MRP_MRM_STATE_CHK_RC s)
       }
     | MRP_MRM_STATE_CHK_RO \<Rightarrow> do {
         s \<leftarrow> set_port e (s_port (mrp s)) BR_MRP_PORT_STATE_BLOCKED s;
         let s = clear_no_tc (rearm_ring_test s);
         s \<leftarrow> mrp_ring_test_req e (ring_test_conf_interval (mrp s)) s;
         let topo_interval = (if react_on_link_change (mrp s) \<noteq> 0 then 0 else topo_interval);
         s \<leftarrow> mrp_ring_topo_req e topo_interval s;
         Some (mrp_set_mrm_state MRP_MRM_STATE_CHK_RC s)
       }
     | MRP_MRM_STATE_CHK_RC \<Rightarrow> Some (clear_no_tc (rearm_ring_test s)))"

definition mrp_better_than_own :: "mrp \<Rightarrow> br_mrp_ring_test_hdr \<Rightarrow> bool" where
  "mrp_better_than_own m hdr \<longleftrightarrow>
     (let pr = be16_to_cpu (rt_prio hdr) in
      pr < prio m \<or>
      (pr = prio m \<and> ether_addr_to_u64 (rt_sa hdr) < ether_addr_to_u64 (macaddr m)))"

text \<open>The client stores \<open>hdr->prio\<close> without converting it to host order.\<close>

definition mrp_mra_recv_ring_test :: "env \<Rightarrow> br_mrp_ring_test_hdr \<Rightarrow> st \<Rightarrow> st option" where
  "mrp_mra_recv_ring_test e hdr s = (
     if ring_role (mrp s) = BR_MRP_RING_ROLE_MRM then
       (if \<not> mrp_better_than_own (mrp s) hdr then mrp_test_mgr_nack_req e (rt_sa hdr) s else Some s)
     else if ring_role (mrp s) = BR_MRP_RING_ROLE_MRC then
       (if ether_addr_equal (rt_sa hdr) (ring_mac (mrp s)) then Some s
        else
          let s = (if mrp_better_than_own (mrp s) hdr
                   then s\<lparr>mrp := (mrp s)\<lparr>ring_mon_curr := 0\<rparr>\<rparr> else s)
          in Some (s\<lparr>mrp := (mrp s)\<lparr>ring_prio := rt_prio hdr\<rparr>\<rparr>))
     else Some s)"

definition mrp_recv_ring_test :: "env \<Rightarrow> port_ref option \<Rightarrow> u8 list \<Rightarrow> st \<Rightarrow> st option" where
  "mrp_recv_ring_test e p buf s = do {
     _ \<leftarrow> deref_mrp p s;
     let hdr = dec_rt (drop (2 + 2) buf);
     if \<not> ether_addr_equal (rt_sa hdr) (macaddr (mrp s)) then
       (if \<not> mra_support (mrp s) then Some s else mrp_mra_recv_ring_test e hdr s)
     else mrp_mrm_recv_ring_test e s
   }"

section \<open>MRP_TopologyChange\<close>

text \<open>\<open>ntohs(hdr->interval) * 1000\<close>\<close>

definition topo_us :: "u16 \<Rightarrow> u32" where
  "topo_us be = ucast (ntohs be) * 1000"

definition mrp_mra_recv_ring_topo :: "env \<Rightarrow> port_ref option \<Rightarrow> u8 list \<Rightarrow> st \<Rightarrow> st option" where
  "mrp_mra_recv_ring_topo e p buf s = do {
     _ \<leftarrow> deref_mrp p s;
     let hdr = dec_rtopo (drop (2 + 2) buf);
     if ether_addr_equal (rtopo_sa hdr) (macaddr (mrp s)) then Some s
     else mrp_clear_fdb_start e (topo_us (rtopo_interval hdr)) s
   }"

definition restart_link_count :: "st \<Rightarrow> st" where
  "restart_link_count s = s\<lparr>mrp := (mrp s)\<lparr>ring_link_curr_max := ring_link_conf_max (mrp s)\<rparr>\<rparr>"

definition mrp_mrc_recv_ring_topo :: "env \<Rightarrow> port_ref option \<Rightarrow> u8 list \<Rightarrow> st \<Rightarrow> st option" where
  "mrp_mrc_recv_ring_topo e p buf s = do {
     _ \<leftarrow> deref_mrp p s;
     let hdr = dec_rtopo (drop (2 + 2) buf);
     (case mrc_state (mrp s) of
        MRP_MRC_STATE_AC_STAT1 \<Rightarrow> Some s
      | MRP_MRC_STATE_DE_IDLE \<Rightarrow> mrp_clear_fdb_start e (topo_us (rtopo_interval hdr)) s
      | MRP_MRC_STATE_PT \<Rightarrow> do {
          let s = restart_link_count s;
          let s = mrp_ring_link_up_stop e s;
          s \<leftarrow> set_port e (s_port (mrp s)) BR_MRP_PORT_STATE_FORWARDING s;
          s \<leftarrow> mrp_clear_fdb_start e (topo_us (rtopo_interval hdr)) s;
          Some (mrp_set_mrc_state MRP_MRC_STATE_PT_IDLE s)
        }
      | MRP_MRC_STATE_DE \<Rightarrow> do {
          let s = restart_link_count s;
          let s = mrp_ring_link_down_stop e s;
          s \<leftarrow> mrp_clear_fdb_start e (topo_us (rtopo_interval hdr)) s;
          Some (mrp_set_mrc_state MRP_MRC_STATE_DE_IDLE s)
        }
      | MRP_MRC_STATE_PT_IDLE \<Rightarrow> mrp_clear_fdb_start e (topo_us (rtopo_interval hdr)) s)
   }"

definition mrp_recv_ring_topo :: "env \<Rightarrow> port_ref option \<Rightarrow> u8 list \<Rightarrow> st \<Rightarrow> st option" where
  "mrp_recv_ring_topo e p buf s = do {
     _ \<leftarrow> deref_mrp p s;
     if mra_support (mrp s) \<and> ring_role (mrp s) = BR_MRP_RING_ROLE_MRM
     then mrp_mra_recv_ring_topo e p buf s
     else mrp_mrc_recv_ring_topo e p buf s
   }"

section \<open>MRP_LinkChange\<close>

definition set_add_test :: "st \<Rightarrow> st" where
  "set_add_test s = s\<lparr>mrp := (mrp s)\<lparr>add_test := True\<rparr>\<rparr>"

text \<open>The three non-trivial branches of the switch in \<open>mrp_recv_ring_link\<close>.\<close>

definition ring_link_prm_up :: "env \<Rightarrow> br_mrp_tlv_header_type \<Rightarrow> st \<Rightarrow> st option" where
  "ring_link_prm_up e ty s =
    (if blocked (mrp s) \<noteq> 0 then
       (if add_test (mrp s) then Some s
        else let s = set_add_test s in mrp_ring_test_req e (ring_test_conf_interval (mrp s)) s)
     else
       (if ty = BR_MRP_TLV_HEADER_RING_LINK_DOWN then Some s
        else do {
          s \<leftarrow> (if \<not> add_test (mrp s)
               then let s = set_add_test s in mrp_ring_test_req e (ring_test_conf_short (mrp s)) s
               else Some s);
          mrp_ring_topo_req e 0 s
        }))"

definition ring_link_chk_ro :: "env \<Rightarrow> br_mrp_tlv_header_type \<Rightarrow> st \<Rightarrow> st option" where
  "ring_link_chk_ro e ty s =
    (if \<not> add_test (mrp s) \<and> ty = BR_MRP_TLV_HEADER_RING_LINK_UP \<and> blocked (mrp s) \<noteq> 0 then
       (let s = set_add_test s in mrp_ring_test_req e (ring_test_conf_short (mrp s)) s)
     else if add_test (mrp s) \<and> ty = BR_MRP_TLV_HEADER_RING_LINK_UP \<and> blocked (mrp s) \<noteq> 0 then Some s
     else if add_test (mrp s) \<and> ty = BR_MRP_TLV_HEADER_RING_LINK_DOWN then Some s
     else if \<not> add_test (mrp s) \<and> ty = BR_MRP_TLV_HEADER_RING_LINK_DOWN then
       (let s = set_add_test s in mrp_ring_test_req e (ring_test_conf_short (mrp s)) s)
     else if ty = BR_MRP_TLV_HEADER_RING_LINK_UP \<and> blocked (mrp s) = 0 then do {
       s \<leftarrow> set_port e (s_port (mrp s)) BR_MRP_PORT_STATE_BLOCKED s;
       let s = rearm_ring_test s;
       s \<leftarrow> (if \<not> add_test (mrp s) then do {
               s \<leftarrow> mrp_ring_test_req e (ring_test_conf_short (mrp s)) s;
               Some (set_add_test s)
             } else mrp_ring_test_req e (ring_test_conf_interval (mrp s)) s);
       s \<leftarrow> mrp_ring_topo_req e 0 s;
       Some (mrp_set_mrm_state MRP_MRM_STATE_CHK_RC s)
     }
     else Some s)"

definition ring_link_chk_rc :: "env \<Rightarrow> br_mrp_tlv_header_type \<Rightarrow> st \<Rightarrow> st option" where
  "ring_link_chk_rc e ty s =
    (if add_test (mrp s) \<and> react_on_link_change (mrp s) = 0 \<and> blocked (mrp s) \<noteq> 0 then Some s
     else if \<not> add_test (mrp s) \<and> react_on_link_change (mrp s) = 0 \<and> blocked (mrp s) \<noteq> 0 then
       (let s = set_add_test s in mrp_ring_test_req e (ring_test_conf_short (mrp s)) s)
     else if ty = BR_MRP_TLV_HEADER_RING_LINK_DOWN \<and> react_on_link_change (mrp s) \<noteq> 0 then do {
       s \<leftarrow> set_port e (s_port (mrp s)) BR_MRP_PORT_STATE_FORWARDING s;
       let s = s\<lparr>mrp := (mrp s)\<lparr>ring_transitions := ring_transitions (mrp s) + 1\<rparr>\<rparr>;
       s \<leftarrow> mrp_ring_topo_req e 0 s;
       Some (mrp_set_mrm_state MRP_MRM_STATE_CHK_RO s)
     }
     else do {
       s \<leftarrow> (if ty = BR_MRP_TLV_HEADER_RING_LINK_UP \<and> react_on_link_change (mrp s) \<noteq> 0 \<and>
                blocked (mrp s) = 0
            then mrp_ring_topo_req e 0
              (s\<lparr>mrp := (mrp s)\<lparr>ring_test_curr_max := ring_test_conf_max (mrp s) - 1\<rparr>\<rparr>)
            else Some s);
       (if ty = BR_MRP_TLV_HEADER_RING_LINK_UP \<and> react_on_link_change (mrp s) \<noteq> 0 \<and>
           blocked (mrp s) \<noteq> 0
        then mrp_ring_topo_req e 0
          (s\<lparr>mrp := (mrp s)\<lparr>ring_test_curr_max := ring_test_conf_max (mrp s) - 1\<rparr>\<rparr>)
        else Some s)
     })"

definition mrp_recv_ring_link :: "env \<Rightarrow> port_ref option \<Rightarrow> u8 list \<Rightarrow> st \<Rightarrow> st option" where
  "mrp_recv_ring_link e p buf s = do {
     _ \<leftarrow> deref_mrp p s;
     let ty = tlv_of (tlv_type (dec_tlv (drop 2 buf)));
     (case mrm_state (mrp s) of
        MRP_MRM_STATE_AC_STAT1 \<Rightarrow> Some s
      | MRP_MRM_STATE_PRM_UP \<Rightarrow> ring_link_prm_up e ty s
      | MRP_MRM_STATE_CHK_RO \<Rightarrow> ring_link_chk_ro e ty s
      | MRP_MRM_STATE_CHK_RC \<Rightarrow> ring_link_chk_rc e ty s)
   }"

section \<open>MRP_Option: the auto-manager's election\<close>

definition mrp_better_than_host :: "mrp \<Rightarrow> br_mrp_test_mgr_nack_hdr \<Rightarrow> bool" where
  "mrp_better_than_host m hdr \<longleftrightarrow>
     (let pr = be16_to_cpu (nack_prio hdr) in
      pr < ring_prio m \<or>
      (pr = ring_prio m \<and> ether_addr_to_u64 (nack_sa hdr) < ether_addr_to_u64 (ring_mac m)))"

definition become_mrc :: "env \<Rightarrow> mrp_mrc_state_type \<Rightarrow> st \<Rightarrow> st" where
  "become_mrc e x s = snd (mrp_set_ring_role e BR_MRP_RING_ROLE_MRC (mrp_set_mrc_state x s))"

definition mrp_recv_nack :: "env \<Rightarrow> port_ref option \<Rightarrow> u8 list \<Rightarrow> st \<Rightarrow> st option" where
  "mrp_recv_nack e p buf s = do {
     _ \<leftarrow> deref_mrp p s;
     let hdr = dec_nack (drop 2 buf);
     if ring_role (mrp s) = BR_MRP_RING_ROLE_MRC then Some s
     else if ether_addr_equal (nack_sa hdr) (macaddr (mrp s)) then Some s
     else if \<not> ether_addr_equal (nack_other_sa hdr) (macaddr (mrp s)) then Some s
     else do {
       let s = (if mrp_better_than_host (mrp s) hdr
                then s\<lparr>mrp := (mrp s)\<lparr>ring_prio := be16_to_cpu (nack_prio hdr),
                       ring_mac := take ETH_ALEN (nack_sa hdr)\<rparr>\<rparr> else s);
       s \<leftarrow> (if mrm_state (mrp s) = MRP_MRM_STATE_CHK_RC
            then set_port e (s_port (mrp s)) BR_MRP_PORT_STATE_FORWARDING s else Some s);
       let s = mrp_ring_topo_stop e s;
       let s = mrp_set_mrc_init s;
       s \<leftarrow> mrp_test_prop_req e s;
       (case mrm_state (mrp s) of
          MRP_MRM_STATE_PRM_UP \<Rightarrow> Some (become_mrc e MRP_MRC_STATE_DE_IDLE s)
        | MRP_MRM_STATE_CHK_RO \<Rightarrow> Some (become_mrc e MRP_MRC_STATE_PT_IDLE s)
        | MRP_MRM_STATE_CHK_RC \<Rightarrow> Some (become_mrc e MRP_MRC_STATE_PT_IDLE s)
        | MRP_MRM_STATE_AC_STAT1 \<Rightarrow> Some s)
     }
   }"

definition mrp_recv_propagate :: "port_ref option \<Rightarrow> u8 list \<Rightarrow> st \<Rightarrow> st option" where
  "mrp_recv_propagate p buf s = do {
     _ \<leftarrow> deref_mrp p s;
     let hdr = dec_tprop (drop 2 buf);
     if ring_role (mrp s) = BR_MRP_RING_ROLE_MRM then Some s
     else if \<not> ether_addr_equal (tprop_sa hdr) (macaddr (mrp s)) then Some s
     else if tprop_other_prio hdr \<noteq> tprop_prio hdr then Some s
     else Some (s\<lparr>mrp := (mrp s)\<lparr>ring_prio := be16_to_cpu (tprop_other_prio hdr),
            ring_mac := take ETH_ALEN (tprop_other_sa hdr), ring_mon_curr := 0\<rparr>\<rparr>)
   }"

definition mrp_recv_option :: "env \<Rightarrow> port_ref option \<Rightarrow> u8 list \<Rightarrow> st \<Rightarrow> st option" where
  "mrp_recv_option e p buf s = do {
     _ \<leftarrow> deref_mrp p s;
     let buf = drop (2 + (2 + 3 + 3)) buf;
     let sub_tlv = dec_stlv buf;
     if stlv_type sub_tlv = sub_tlv_code BR_MRP_SUB_TLV_HEADER_TEST_MGR_NACK
     then mrp_recv_nack e p buf s
     else if stlv_type sub_tlv = sub_tlv_code BR_MRP_SUB_TLV_HEADER_TEST_PROPAGATE
     then mrp_recv_propagate p buf s
     else Some s
   }"

end
