(* ===== verification/Mrp_Inter.thy ===== *)
theory Mrp_Inter
  imports Mrp_Ring
begin

text \<open>
  Reception of interconnection frames, \<^verbatim>\<open>state_machine.c\<close>: the interconnection manager (MIM) and
  client (MIC).
\<close>

definition rearm_in_test :: "st \<Rightarrow> st" where
  "rearm_in_test s =
     s\<lparr>mrp := (mrp s)\<lparr>in_test_curr_max := in_test_conf_max (mrp s) - 1, in_test_curr := 0\<rparr>\<rparr>"

definition mrp_mim_recv_in_test :: "env \<Rightarrow> st \<Rightarrow> st option" where
  "mrp_mim_recv_in_test e s =
    (case mim_state (mrp s) of
       MRP_MIM_STATE_AC_STAT1 \<Rightarrow> do {
         s \<leftarrow> set_port e (i_port (mrp s)) BR_MRP_PORT_STATE_BLOCKED s;
         let s = rearm_in_test s;
         s \<leftarrow> mrp_in_test_req e (in_test_conf_interval (mrp s)) s;
         Some (mrp_set_mim_state MRP_MIM_STATE_CHK_IC s)
       }
     | MRP_MIM_STATE_CHK_IO \<Rightarrow> do {
         s \<leftarrow> set_port e (i_port (mrp s)) BR_MRP_PORT_STATE_BLOCKED s;
         let s = rearm_in_test s;
         s \<leftarrow> mrp_in_topo_req e (in_topo_conf_interval (mrp s)) s;
         s \<leftarrow> mrp_in_test_req e (in_test_conf_interval (mrp s)) s;
         Some (mrp_set_mim_state MRP_MIM_STATE_CHK_IC s)
       }
     | MRP_MIM_STATE_CHK_IC \<Rightarrow> Some (rearm_in_test s))"

definition mrp_recv_in_test :: "env \<Rightarrow> port_ref option \<Rightarrow> u8 list \<Rightarrow> st \<Rightarrow> st option" where
  "mrp_recv_in_test e p buf s = do {
     _ \<leftarrow> deref_mrp p s;
     let hdr = dec_it (drop (2 + 2) buf);
     if in_id (mrp s) \<noteq> ntohs (it_id hdr) then Some s else mrp_mim_recv_in_test e s
   }"

text \<open>The last part of \<open>mrp_recv_in_topo\<close>, for the client.\<close>

definition mic_recv_in_topo :: "env \<Rightarrow> br_mrp_in_topo_hdr \<Rightarrow> st \<Rightarrow> st option" where
  "mic_recv_in_topo e hdr s =
    (case mic_state (mrp s) of
       MRP_MIC_STATE_AC_STAT1 \<Rightarrow>
         Some (if ntohs (itopo_id hdr) = in_id (mrp s) then mrp_in_link_down_stop e s else s)
     | MRP_MIC_STATE_PT \<Rightarrow> do {
         let s = s\<lparr>mrp := (mrp s)\<lparr>in_link_curr_max := in_link_conf_max (mrp s)\<rparr>\<rparr>;
         let s = mrp_in_link_up_stop e s;
         s \<leftarrow> set_port e (i_port (mrp s)) BR_MRP_PORT_STATE_FORWARDING s;
         Some (mrp_set_mic_state MRP_MIC_STATE_IP_IDLE s)
       }
     | MRP_MIC_STATE_IP_IDLE \<Rightarrow> Some s)"

definition mrp_recv_in_topo :: "env \<Rightarrow> port_ref option \<Rightarrow> u8 list \<Rightarrow> st \<Rightarrow> st option" where
  "mrp_recv_in_topo e p buf s = do {
     _ \<leftarrow> deref_mrp p s;
     let hdr = dec_itopo (drop (2 + 2) buf);
     s \<leftarrow> (if ring_role (mrp s) = BR_MRP_RING_ROLE_MRM \<and> \<not> ring_topo_running (mrp s)
          then mrp_ring_topo_req e (topo_us (itopo_interval hdr)) s else Some s);
     if in_role (mrp s) = BR_MRP_IN_ROLE_MIM \<and> ether_addr_equal (itopo_sa hdr) (macaddr (mrp s))
     then Some s
     else do {
       s \<leftarrow> (if in_role (mrp s) = BR_MRP_IN_ROLE_MIM
            then mrp_clear_fdb_start e (topo_us (itopo_interval hdr)) s else Some s);
       if in_role (mrp s) = BR_MRP_IN_ROLE_MIC then mic_recv_in_topo e hdr s else Some s
     }
   }"

definition mrp_recv_in_link :: "env \<Rightarrow> port_ref option \<Rightarrow> u8 list \<Rightarrow> st \<Rightarrow> st option" where
  "mrp_recv_in_link e p buf s = do {
     _ \<leftarrow> deref_mrp p s;
     let ty = tlv_of (tlv_type (dec_tlv (drop 2 buf)));
     let hdr = dec_ilink (drop (2 + 2) buf);
     (case mim_state (mrp s) of
        MRP_MIM_STATE_AC_STAT1 \<Rightarrow> Some s
      | MRP_MIM_STATE_CHK_IO \<Rightarrow>
          (if ntohs (ilink_id hdr) = in_id (mrp s) \<and> ty = BR_MRP_TLV_HEADER_IN_LINK_UP
           then mrp_in_test_req e (in_test_conf_interval (mrp s)) s else Some s)
      | MRP_MIM_STATE_CHK_IC \<Rightarrow> do {
          s \<leftarrow> (if ntohs (ilink_id hdr) = in_id (mrp s) \<and> ty = BR_MRP_TLV_HEADER_IN_LINK_UP
               then let s = s\<lparr>mrp := (mrp s)\<lparr>in_test_curr_max := in_test_conf_max (mrp s)\<rparr>\<rparr>
                    in mrp_in_topo_req e (in_topo_conf_interval (mrp s)) s
               else Some s);
          (if ntohs (ilink_id hdr) = in_id (mrp s) \<and> ty = BR_MRP_TLV_HEADER_IN_LINK_DOWN
           then do {
             s \<leftarrow> set_port e (i_port (mrp s)) BR_MRP_PORT_STATE_FORWARDING s;
             s \<leftarrow> mrp_in_topo_req e (in_topo_conf_interval (mrp s)) s;
             Some (mrp_set_mim_state MRP_MIM_STATE_CHK_IO s)
           } else Some s)
        })
   }"

definition mrp_recv_in_link_status :: "env \<Rightarrow> port_ref option \<Rightarrow> u8 list \<Rightarrow> st \<Rightarrow> st option" where
  "mrp_recv_in_link_status e p buf s = do {
     _ \<leftarrow> deref_mrp p s;
     if in_role (mrp s) \<noteq> BR_MRP_IN_ROLE_MIC then Some s
     else if in_mode (mrp s) \<noteq> MRP_IN_MODE_LC then Some s
     else
       let hdr = dec_ils (drop (2 + 2) buf) in
       if ntohs (ils_id hdr) \<noteq> in_id (mrp s) then Some s
       else (case mic_state (mrp s) of
           MRP_MIC_STATE_AC_STAT1 \<Rightarrow> mrp_in_link_req e False 0 s
         | MRP_MIC_STATE_PT \<Rightarrow> mrp_in_link_req e True 0 s
         | MRP_MIC_STATE_IP_IDLE \<Rightarrow> mrp_in_link_req e True 0 s)
   }"

end
