(* ===== verification/Mrp_Forward.thy ===== *)
theory Mrp_Forward
  imports Mrp_Inter
begin

text \<open>
  What happens to a received frame, \<^verbatim>\<open>state_machine.c\<close>: drop it, forward it to other ports of the
  instance, process it, or both of the last two.
\<close>

section \<open>Dropping and processing\<close>

definition mrp_should_drop :: "mrp_port \<Rightarrow> br_mrp_tlv_header_type \<Rightarrow> bool" where
  "mrp_should_drop q ty \<longleftrightarrow>
    (if pstate q = BR_MRP_PORT_STATE_DISABLED then True
     else if \<not> mrp_is_mrp_port q then True
     else if mrp_is_ring_port q \<and> pstate q = BR_MRP_PORT_STATE_BLOCKED \<and>
        ty \<noteq> BR_MRP_TLV_HEADER_RING_TOPO \<and>
        ty \<noteq> BR_MRP_TLV_HEADER_RING_TEST \<and>
        ty \<noteq> BR_MRP_TLV_HEADER_RING_LINK_UP \<and>
        ty \<noteq> BR_MRP_TLV_HEADER_RING_LINK_DOWN \<and>
        ty \<noteq> BR_MRP_TLV_HEADER_IN_TOPO \<and>
        ty \<noteq> BR_MRP_TLV_HEADER_IN_LINK_UP \<and>
        ty \<noteq> BR_MRP_TLV_HEADER_IN_LINK_DOWN \<and>
        ty \<noteq> BR_MRP_TLV_HEADER_OPTION then True
     else if mrp_is_in_port q \<and> pstate q = BR_MRP_PORT_STATE_BLOCKED \<and>
        ty \<noteq> BR_MRP_TLV_HEADER_IN_TEST \<and>
        ty \<noteq> BR_MRP_TLV_HEADER_IN_LINK_UP \<and>
        ty \<noteq> BR_MRP_TLV_HEADER_IN_LINK_DOWN \<and>
        ty \<noteq> BR_MRP_TLV_HEADER_IN_TOPO then True
     else False)"

text \<open>The case of option frames has no \<open>break\<close> and falls through to that of InTest frames.\<close>

fun mrp_should_process :: "mrp \<Rightarrow> br_mrp_tlv_header_type \<Rightarrow> bool" where
  "mrp_should_process m BR_MRP_TLV_HEADER_RING_TEST =
     (ring_role m = BR_MRP_RING_ROLE_MRM \<or> (ring_role m = BR_MRP_RING_ROLE_MRC \<and> mra_support m))"
| "mrp_should_process m BR_MRP_TLV_HEADER_RING_LINK_DOWN = (ring_role m = BR_MRP_RING_ROLE_MRM)"
| "mrp_should_process m BR_MRP_TLV_HEADER_RING_LINK_UP = (ring_role m = BR_MRP_RING_ROLE_MRM)"
| "mrp_should_process m BR_MRP_TLV_HEADER_RING_TOPO =
     (ring_role m = BR_MRP_RING_ROLE_MRC \<or> (ring_role m = BR_MRP_RING_ROLE_MRM \<and> mra_support m))"
| "mrp_should_process m BR_MRP_TLV_HEADER_OPTION = (mra_support m \<or> in_role m = BR_MRP_IN_ROLE_MIM)"
| "mrp_should_process m BR_MRP_TLV_HEADER_IN_TEST = (in_role m = BR_MRP_IN_ROLE_MIM)"
| "mrp_should_process m BR_MRP_TLV_HEADER_IN_TOPO =
     (in_role m = BR_MRP_IN_ROLE_MIC \<or> in_role m = BR_MRP_IN_ROLE_MIM \<or>
      ring_role m = BR_MRP_RING_ROLE_MRM)"
| "mrp_should_process m BR_MRP_TLV_HEADER_IN_LINK_UP = (in_role m = BR_MRP_IN_ROLE_MIM)"
| "mrp_should_process m BR_MRP_TLV_HEADER_IN_LINK_DOWN = (in_role m = BR_MRP_IN_ROLE_MIM)"
| "mrp_should_process m _ = False"

definition mrp_is_ring_frame :: "br_mrp_tlv_header_type \<Rightarrow> bool" where
  "mrp_is_ring_frame ty \<longleftrightarrow>
     ty = BR_MRP_TLV_HEADER_RING_TEST \<or> ty = BR_MRP_TLV_HEADER_RING_TOPO \<or>
     ty = BR_MRP_TLV_HEADER_RING_LINK_DOWN \<or> ty = BR_MRP_TLV_HEADER_RING_LINK_UP \<or>
     ty = BR_MRP_TLV_HEADER_OPTION"

definition mrp_is_in_frame :: "br_mrp_tlv_header_type \<Rightarrow> bool" where
  "mrp_is_in_frame ty \<longleftrightarrow>
     ty = BR_MRP_TLV_HEADER_IN_TEST \<or> ty = BR_MRP_TLV_HEADER_IN_TOPO \<or>
     ty = BR_MRP_TLV_HEADER_IN_LINK_DOWN \<or> ty = BR_MRP_TLV_HEADER_IN_LINK_UP \<or>
     ty = BR_MRP_TLV_HEADER_IN_LINK_STATUS"

section \<open>Forwarding\<close>

definition mrp_get_tlv_hdr :: "u8 list \<Rightarrow> br_mrp_tlv_hdr" where
  "mrp_get_tlv_hdr buf = dec_tlv (drop 2 buf)"

definition mrp_get_in_test_hdr :: "u8 list \<Rightarrow> br_mrp_in_test_hdr" where
  "mrp_get_in_test_hdr buf = dec_it (drop (2 + 2) buf)"

text \<open>\<open>mrp_forward\<close> raises a short \<open>size\<close> in the caller's frame buffer.\<close>

definition mrp_forward :: "port_ref option \<Rightarrow> frame_buf \<Rightarrow> st \<Rightarrow> (frame_buf \<times> st) option" where
  "mrp_forward p fb s = do {
     let fb = (if fb_size fb < 60 then fb\<lparr>fb_size := fb_size fb + (60 - fb_size fb)\<rparr> else fb);
     q \<leftarrow> deref p s;
     if poperstate q = IF_OPER_UP then
       (if unat (fb_size fb) > length (fb_start fb) then None
        else Some (fb, packet_send (pifindex q) (take (unat (fb_size fb)) (fb_start fb)) s))
     else Some (fb, s)
   }"

type_synonym targets = "port_ref option \<times> port_ref option \<times> port_ref option"

text \<open>The possible forwarding ways according to the receiving port.\<close>

definition forward_ways :: "mrp \<Rightarrow> port_ref option \<Rightarrow> targets" where
  "forward_ways m p =
    (if p = p_port m then (None, s_port m, i_port m)
     else if p = s_port m then (p_port m, None, i_port m)
     else if p = i_port m then (p_port m, s_port m, None)
     else (None, None, None))"

text \<open>Ring frames; \<open>None\<close> is the early return.\<close>

definition forward_ring :: "mrp \<Rightarrow> port_ref option \<Rightarrow> br_mrp_tlv_header_type \<Rightarrow> targets \<Rightarrow> targets option" where
  "forward_ring m p ty ways = (
     let (fp, fs, fi) = ways in
     if p = i_port m then None
     else (case ring_role m of
         BR_MRP_RING_ROLE_MRM \<Rightarrow> None
       | BR_MRP_RING_ROLE_MRC \<Rightarrow>
           (if ty = BR_MRP_TLV_HEADER_OPTION \<and> \<not> mra_support m then None else Some (fp, fs, None))
       | _ \<Rightarrow> Some (fp, fs, None)))"

text \<open>Interconnection frames, first switch: whether the two ring ports are struck out.\<close>

definition ring_ports_cut :: "mrp_port \<Rightarrow> br_mrp_in_test_hdr \<Rightarrow> st \<Rightarrow> bool option" where
  "ring_ports_cut q hdr s = (
     case ring_role (mrp s) of
       BR_MRP_RING_ROLE_MRM \<Rightarrow> do {
         pp \<leftarrow> deref (p_port (mrp s)) s;
         if pstate pp \<noteq> BR_MRP_PORT_STATE_FORWARDING then Some (mrp_is_ring_port q)
         else do {
           sp \<leftarrow> deref (s_port (mrp s)) s;
           Some (pstate sp \<noteq> BR_MRP_PORT_STATE_FORWARDING \<and> mrp_is_ring_port q)
         }
       }
     | BR_MRP_RING_ROLE_MRC \<Rightarrow>
         Some (in_role (mrp s) \<noteq> BR_MRP_IN_ROLE_DISABLED \<and> in_id (mrp s) = ntohs (it_id hdr) \<and>
               mrp_is_ring_port q)
     | _ \<Rightarrow> Some False)"

text \<open>Second switch, on the interconnection role.\<close>

definition forward_in ::
  "mrp \<Rightarrow> mrp_port \<Rightarrow> br_mrp_in_test_hdr \<Rightarrow> br_mrp_tlv_header_type \<Rightarrow> targets \<Rightarrow> targets option" where
  "forward_in m q hdr ty ways = (
     let (fp, fs, fi) = ways in
     case in_role m of
       BR_MRP_IN_ROLE_MIM \<Rightarrow>
         (if ty = BR_MRP_TLV_HEADER_IN_TEST then
            (if ether_addr_equal (it_sa hdr) (macaddr m) then None
             else if mrp_is_in_port q then None else Some (fp, fs, None))
          else
            (let fi = (if mrp_is_ring_port q then None else fi)
             in if mrp_is_in_port q then None else Some (fp, fs, fi)))
     | BR_MRP_IN_ROLE_MIC \<Rightarrow>
         (if ty = BR_MRP_TLV_HEADER_IN_TEST then Some (fp, fs, fi)
          else if (ty = BR_MRP_TLV_HEADER_IN_LINK_UP \<or> ty = BR_MRP_TLV_HEADER_IN_LINK_DOWN) \<and>
                  mrp_is_ring_port q then Some (fp, fs, fi)
          else if ty = BR_MRP_TLV_HEADER_IN_LINK_STATUS \<and> mrp_is_ring_port q then Some (None, None, fi)
          else if ty = BR_MRP_TLV_HEADER_IN_TOPO then Some (fp, fs, None)
          else None)
     | BR_MRP_IN_ROLE_DISABLED \<Rightarrow> Some (fp, fs, fi))"

definition forward_targets ::
  "port_ref option \<Rightarrow> br_mrp_in_test_hdr \<Rightarrow> br_mrp_tlv_header_type \<Rightarrow> st \<Rightarrow> targets option option" where
  "forward_targets p hdr ty s = do {
     q \<leftarrow> deref_mrp p s;
     let ways = forward_ways (mrp s) p;
     if mrp_is_ring_frame ty then Some (forward_ring (mrp s) p ty ways)
     else if mrp_is_in_frame ty then do {
       cut \<leftarrow> ring_ports_cut q hdr s;
       let (fp, fs, fi) = ways;
       Some (forward_in (mrp s) q hdr ty (if cut then (None, None, fi) else (fp, fs, fi)))
     }
     else Some (Some ways)
   }"

definition forward_to :: "port_ref option \<Rightarrow> frame_buf \<Rightarrow> st \<Rightarrow> (frame_buf \<times> st) option" where
  "forward_to t fb s = (case t of None \<Rightarrow> Some (fb, s) | Some _ \<Rightarrow> mrp_forward t fb s)"

definition mrp_check_and_forward ::
  "port_ref option \<Rightarrow> frame_buf \<Rightarrow> br_mrp_tlv_header_type \<Rightarrow> st \<Rightarrow> (frame_buf \<times> st) option" where
  "mrp_check_and_forward p fb ty s = do {
     t \<leftarrow> forward_targets p (mrp_get_in_test_hdr (drop (fb_data fb) (fb_start fb))) ty s;
     (case t of None \<Rightarrow> Some (fb, s)
      | Some (fp, fs, fi) \<Rightarrow> do {
          (fb, s) \<leftarrow> forward_to fp fb s;
          (fb, s) \<leftarrow> forward_to fs fb s;
          forward_to fi fb s
        })
   }"

section \<open>Processing\<close>

fun mrp_process :: "env \<Rightarrow> port_ref option \<Rightarrow> u8 list \<Rightarrow> br_mrp_tlv_header_type \<Rightarrow> st \<Rightarrow> st option" where
  "mrp_process e p buf BR_MRP_TLV_HEADER_RING_TEST s = mrp_recv_ring_test e p buf s"
| "mrp_process e p buf BR_MRP_TLV_HEADER_RING_TOPO s = mrp_recv_ring_topo e p buf s"
| "mrp_process e p buf BR_MRP_TLV_HEADER_RING_LINK_DOWN s = mrp_recv_ring_link e p buf s"
| "mrp_process e p buf BR_MRP_TLV_HEADER_RING_LINK_UP s = mrp_recv_ring_link e p buf s"
| "mrp_process e p buf BR_MRP_TLV_HEADER_OPTION s = mrp_recv_option e p buf s"
| "mrp_process e p buf BR_MRP_TLV_HEADER_IN_TEST s = mrp_recv_in_test e p buf s"
| "mrp_process e p buf BR_MRP_TLV_HEADER_IN_TOPO s = mrp_recv_in_topo e p buf s"
| "mrp_process e p buf BR_MRP_TLV_HEADER_IN_LINK_DOWN s = mrp_recv_in_link e p buf s"
| "mrp_process e p buf BR_MRP_TLV_HEADER_IN_LINK_UP s = mrp_recv_in_link e p buf s"
| "mrp_process e p buf BR_MRP_TLV_HEADER_IN_LINK_STATUS s = mrp_recv_in_link_status e p buf s"
| "mrp_process e p buf _ s = Some s"

text \<open>\<open>memcpy(nbuf, fb->data, fb->size - sizeof(struct ethhdr))\<close> into a local array of 2048 bytes
  that is not initialised; the length is computed in 64 bits and a frame shorter than the
  Ethernet header makes it enormous.\<close>

definition copy_frame :: "env \<Rightarrow> frame_buf \<Rightarrow> u8 list option" where
  "copy_frame e fb = (
     let n = unat (fb_size fb) - sizeof_ethhdr in
     if unat (fb_size fb) < sizeof_ethhdr \<or> n > 2048 \<or> fb_data fb + n > length (fb_start fb) then None
     else Some (take n (drop (fb_data fb) (fb_start fb)) @ map (stack_byte e) [n..<2048]))"

definition mrp_process_frame ::
  "env \<Rightarrow> port_ref option \<Rightarrow> frame_buf \<Rightarrow> br_mrp_tlv_header_type \<Rightarrow> st \<Rightarrow> st option" where
  "mrp_process_frame e p fb ty s = do {
     _ \<leftarrow> deref_mrp p s;
     s \<leftarrow> mrp_lock s;
     (fb, s) \<leftarrow> mrp_check_and_forward p fb ty s;
     s \<leftarrow> (if mrp_should_process (mrp s) ty then do {
            nbuf \<leftarrow> copy_frame e fb;
            mrp_process e p nbuf ty s
          } else Some s);
     Some (mrp_unlock s)
   }"

text \<open>\<open>mrp_recv\<close> once the receiving port has been found: \<open>buf\<close> is the 2048 byte array of
  \<open>packet_rcv\<close>, \<open>buf_len\<close> the number of bytes the kernel wrote to it.\<close>

definition mrp_recv_port :: "env \<Rightarrow> port_ref option \<Rightarrow> u8 list \<Rightarrow> u32 \<Rightarrow> st \<Rightarrow> st option" where
  "mrp_recv_port e p buf buf_len s = do {
     q \<leftarrow> deref p s;
     let fb = \<lparr>fb_start = buf, fb_data = sizeof_ethhdr, fb_size = buf_len\<rparr>;
     let ty = tlv_of (tlv_type (mrp_get_tlv_hdr (drop (fb_data fb) buf)));
     if mrp_should_drop q ty then Some s
     else mrp_process_frame e p fb ty s
   }"

end
