(* ===== verification/Mrp_Link.thy ===== *)
theory Mrp_Link
  imports Mrp_Inter
begin

text \<open>
  Link changes of the ports, \<^verbatim>\<open>state_machine.c\<close>: \<open>mrp_mrm_port_link\<close>, \<open>mrp_mrc_port_link\<close>,
  \<open>mrp_mim_port_link\<close>, \<open>mrp_mic_port_link\<close> and their dispatcher \<open>mrp_port_link_change\<close>.  The
  comparison \<open>p == mrp->p_port\<close> is one of pointers.
\<close>

section \<open>Ring manager\<close>

text \<open>\<open>mrp->p_port = mrp->s_port; mrp->s_port = p\<close> and
  \<open>mrp->s_port = mrp->p_port; mrp->p_port = p\<close>\<close>

definition p_from_s :: "port_ref option \<Rightarrow> st \<Rightarrow> st" where
  "p_from_s p s = s\<lparr>mrp := (mrp s)\<lparr>p_port := s_port (mrp s), s_port := p\<rparr>\<rparr>"

definition s_from_p :: "port_ref option \<Rightarrow> st \<Rightarrow> st" where
  "s_from_p p s = s\<lparr>mrp := (mrp s)\<lparr>s_port := p_port (mrp s), p_port := p\<rparr>\<rparr>"

definition count_transition :: "st \<Rightarrow> st" where
  "count_transition s = s\<lparr>mrp := (mrp s)\<lparr>ring_transitions := ring_transitions (mrp s) + 1\<rparr>\<rparr>"

definition mrp_mrm_port_link :: "env \<Rightarrow> port_ref option \<Rightarrow> bool \<Rightarrow> st \<Rightarrow> st option" where
  "mrp_mrm_port_link e p up s = do {
     _ \<leftarrow> deref_mrp p s;
     let topo_interval = ring_topo_conf_interval (mrp s);
     (case mrm_state (mrp s) of
        MRP_MRM_STATE_AC_STAT1 \<Rightarrow> do {
          s \<leftarrow> (if up \<and> p = p_port (mrp s) then do {
                 s \<leftarrow> set_port e (p_port (mrp s)) BR_MRP_PORT_STATE_FORWARDING s;
                 s \<leftarrow> mrp_ring_test_req e (ring_test_conf_interval (mrp s)) s;
                 Some (mrp_set_mrm_state MRP_MRM_STATE_PRM_UP s)
               } else Some s);
          (if up \<and> p \<noteq> p_port (mrp s) then do {
             let s = s_from_p p s;
             s \<leftarrow> set_port e (p_port (mrp s)) BR_MRP_PORT_STATE_FORWARDING s;
             s \<leftarrow> mrp_ring_test_req e (ring_test_conf_interval (mrp s)) s;
             Some (mrp_set_mrm_state MRP_MRM_STATE_PRM_UP s)
           } else Some s)
        }
      | MRP_MRM_STATE_PRM_UP \<Rightarrow> do {
          s \<leftarrow> (if \<not> up \<and> p = p_port (mrp s) then do {
                 let s = mrp_ring_test_stop e s;
                 s \<leftarrow> set_port e (p_port (mrp s)) BR_MRP_PORT_STATE_BLOCKED s;
                 Some (mrp_set_mrm_state MRP_MRM_STATE_AC_STAT1 s)
               } else Some s);
          (if up \<and> p \<noteq> p_port (mrp s) then do {
             let s = rearm_ring_test s;
             let s = s\<lparr>mrp := (mrp s)\<lparr>no_tc := True\<rparr>\<rparr>;
             s \<leftarrow> mrp_ring_test_req e (ring_test_conf_interval (mrp s)) s;
             Some (mrp_set_mrm_state MRP_MRM_STATE_CHK_RC s)
           } else Some s)
        }
      | MRP_MRM_STATE_CHK_RO \<Rightarrow>
          (if \<not> up \<and> p = p_port (mrp s) then do {
             let s = p_from_s p s;
             s \<leftarrow> set_port e (s_port (mrp s)) BR_MRP_PORT_STATE_BLOCKED s;
             s \<leftarrow> mrp_ring_test_req e (ring_test_conf_interval (mrp s)) s;
             s \<leftarrow> mrp_ring_topo_req e topo_interval s;
             Some (mrp_set_mrm_state MRP_MRM_STATE_PRM_UP s)
           }
           else if \<not> up \<and> p \<noteq> p_port (mrp s) then do {
             s \<leftarrow> set_port e (s_port (mrp s)) BR_MRP_PORT_STATE_BLOCKED s;
             Some (mrp_set_mrm_state MRP_MRM_STATE_PRM_UP s)
           }
           else Some s)
      | MRP_MRM_STATE_CHK_RC \<Rightarrow>
          (if \<not> up \<and> p = p_port (mrp s) then do {
             let s = p_from_s p s;
             s \<leftarrow> set_port e (s_port (mrp s)) BR_MRP_PORT_STATE_BLOCKED s;
             s \<leftarrow> set_port e (p_port (mrp s)) BR_MRP_PORT_STATE_FORWARDING s;
             s \<leftarrow> mrp_ring_test_req e (ring_test_conf_interval (mrp s)) s;
             s \<leftarrow> mrp_ring_topo_req e topo_interval s;
             let s = count_transition s;
             Some (mrp_set_mrm_state MRP_MRM_STATE_PRM_UP s)
           }
           else if \<not> up \<and> p \<noteq> p_port (mrp s) then
             Some (mrp_set_mrm_state MRP_MRM_STATE_PRM_UP (count_transition s))
           else Some s))
   }"

section \<open>Ring client\<close>

text \<open>The pair of calls that reports a link change of the secondary port through the primary
  port: \<open>mrp_ring_link_req(mrp->p_port, up, ring_link_curr_max * ring_link_conf_interval)\<close>.\<close>

definition report_link :: "env \<Rightarrow> bool \<Rightarrow> st \<Rightarrow> st option" where
  "report_link e up s =
     mrp_ring_link_req e (p_port (mrp s)) up
       (ring_link_curr_max (mrp s) * ring_link_conf_interval (mrp s)) s"

definition mrp_mrc_port_link :: "env \<Rightarrow> port_ref option \<Rightarrow> bool \<Rightarrow> st \<Rightarrow> st option" where
  "mrp_mrc_port_link e p up s = do {
     _ \<leftarrow> deref_mrp p s;
     (case mrc_state (mrp s) of
        MRP_MRC_STATE_AC_STAT1 \<Rightarrow> do {
          s \<leftarrow> (if up \<and> p = p_port (mrp s) then do {
                 s \<leftarrow> set_port e (p_port (mrp s)) BR_MRP_PORT_STATE_FORWARDING s;
                 Some (mrp_set_mrc_state MRP_MRC_STATE_DE_IDLE s)
               } else Some s);
          (if up \<and> p \<noteq> p_port (mrp s) then do {
             let s = s_from_p p s;
             s \<leftarrow> set_port e (p_port (mrp s)) BR_MRP_PORT_STATE_FORWARDING s;
             Some (mrp_set_mrc_state MRP_MRC_STATE_DE_IDLE s)
           } else Some s)
        }
      | MRP_MRC_STATE_DE_IDLE \<Rightarrow> do {
          s \<leftarrow> (if up \<and> p \<noteq> p_port (mrp s) then do {
                 let s = restart_link_count s;
                 let s = mrp_ring_link_up_start e (ring_link_conf_interval (mrp s)) s;
                 s \<leftarrow> report_link e up s;
                 Some (mrp_set_mrc_state MRP_MRC_STATE_PT s)
               } else Some s);
          (if \<not> up \<and> p = p_port (mrp s) then do {
             s \<leftarrow> set_port e (p_port (mrp s)) BR_MRP_PORT_STATE_BLOCKED s;
             Some (mrp_set_mrc_state MRP_MRC_STATE_AC_STAT1 s)
           } else Some s)
        }
      | MRP_MRC_STATE_PT \<Rightarrow>
          (if \<not> up \<and> p \<noteq> p_port (mrp s) then do {
             let s = restart_link_count s;
             let s = mrp_ring_link_up_stop e s;
             s \<leftarrow> set_port e (s_port (mrp s)) BR_MRP_PORT_STATE_BLOCKED s;
             let s = mrp_ring_link_down_start e (ring_link_conf_interval (mrp s)) s;
             s \<leftarrow> report_link e up s;
             Some (mrp_set_mrc_state MRP_MRC_STATE_DE s)
           }
           else if \<not> up \<and> p = p_port (mrp s) then do {
             let s = restart_link_count s;
             let s = mrp_ring_link_up_stop e s;
             let s = p_from_s p s;
             s \<leftarrow> set_port e (p_port (mrp s)) BR_MRP_PORT_STATE_FORWARDING s;
             s \<leftarrow> set_port e (s_port (mrp s)) BR_MRP_PORT_STATE_BLOCKED s;
             let s = mrp_ring_link_down_start e (ring_link_conf_interval (mrp s)) s;
             s \<leftarrow> report_link e up s;
             Some (mrp_set_mrc_state MRP_MRC_STATE_DE s)
           }
           else Some s)
      | MRP_MRC_STATE_DE \<Rightarrow> do {
          s \<leftarrow> (if up \<and> p \<noteq> p_port (mrp s) then do {
                 let s = restart_link_count s;
                 let s = mrp_ring_link_down_stop e s;
                 let s = mrp_ring_link_up_start e (ring_link_conf_interval (mrp s)) s;
                 s \<leftarrow> report_link e up s;
                 Some (mrp_set_mrc_state MRP_MRC_STATE_PT s)
               } else Some s);
          (if \<not> up \<and> p = p_port (mrp s) then do {
             let s = restart_link_count s;
             s \<leftarrow> set_port e (p_port (mrp s)) BR_MRP_PORT_STATE_BLOCKED s;
             let s = mrp_ring_link_down_stop e s;
             Some (mrp_set_mrc_state MRP_MRC_STATE_AC_STAT1 s)
           } else Some s)
        }
      | MRP_MRC_STATE_PT_IDLE \<Rightarrow> do {
          let p0 = p_port (mrp s);
          (if \<not> up \<and> p \<noteq> p0 then do {
             let s = restart_link_count s;
             s \<leftarrow> set_port e (s_port (mrp s)) BR_MRP_PORT_STATE_BLOCKED s;
             let s = mrp_ring_link_down_start e (ring_link_conf_interval (mrp s)) s;
             s \<leftarrow> report_link e up s;
             Some (mrp_set_mrc_state MRP_MRC_STATE_DE s)
           }
           else if \<not> up \<and> p = p0 then do {
             let s = restart_link_count s;
             let s = p_from_s p s;
             s \<leftarrow> set_port e (s_port (mrp s)) BR_MRP_PORT_STATE_BLOCKED s;
             let s = mrp_ring_link_down_start e (ring_link_conf_interval (mrp s)) s;
             s \<leftarrow> report_link e up s;
             Some (mrp_set_mrc_state MRP_MRC_STATE_DE s)
           }
           else Some s)
        })
   }"

section \<open>Interconnection manager\<close>

text \<open>The four guarded switches of \<open>mrp_mim_port_link\<close>, in the order of the code; they exclude
  each other.\<close>

definition mrp_mim_port_link :: "env \<Rightarrow> port_ref option \<Rightarrow> bool \<Rightarrow> st \<Rightarrow> st option" where
  "mrp_mim_port_link e p up s = do {
     _ \<leftarrow> deref_mrp p s;
     (if up \<and> in_mode (mrp s) = MRP_IN_MODE_RC then
        (case mim_state (mrp s) of
           MRP_MIM_STATE_AC_STAT1 \<Rightarrow> do {
             s \<leftarrow> set_port e (i_port (mrp s)) BR_MRP_PORT_STATE_BLOCKED s;
             let s = rearm_in_test s;
             s \<leftarrow> mrp_in_test_req e (in_test_conf_interval (mrp s)) s;
             Some (mrp_set_mim_state MRP_MIM_STATE_CHK_IC s)
           }
         | MRP_MIM_STATE_CHK_IO \<Rightarrow> Some s
         | MRP_MIM_STATE_CHK_IC \<Rightarrow> Some s)
      else if \<not> up \<and> in_mode (mrp s) = MRP_IN_MODE_RC then
        (if mim_state (mrp s) = MRP_MIM_STATE_AC_STAT1 then Some s
         else do {
           s \<leftarrow> set_port e (i_port (mrp s)) BR_MRP_PORT_STATE_BLOCKED s;
           s \<leftarrow> mrp_in_topo_req e (in_topo_conf_interval (mrp s)) s;
           s \<leftarrow> mrp_in_test_req e (in_test_conf_interval (mrp s)) s;
           Some (mrp_set_mim_state MRP_MIM_STATE_AC_STAT1 s)
         })
      else if up \<and> in_mode (mrp s) = MRP_IN_MODE_LC then
        (case mim_state (mrp s) of
           MRP_MIM_STATE_AC_STAT1 \<Rightarrow> do {
             let s = s\<lparr>mrp := (mrp s)\<lparr>in_link_status_curr_max := in_link_status_conf_max (mrp s)\<rparr>\<rparr>;
             s \<leftarrow> set_port e (i_port (mrp s)) BR_MRP_PORT_STATE_BLOCKED s;
             s \<leftarrow> mrp_in_link_status_req e (in_link_status_conf_interval (mrp s)) s;
             Some (mrp_set_mim_state MRP_MIM_STATE_CHK_IC s)
           }
         | MRP_MIM_STATE_CHK_IO \<Rightarrow> Some s
         | MRP_MIM_STATE_CHK_IC \<Rightarrow> Some s)
      else if \<not> up \<and> in_mode (mrp s) = MRP_IN_MODE_LC then
        (case mim_state (mrp s) of
           MRP_MIM_STATE_AC_STAT1 \<Rightarrow> Some s
         | MRP_MIM_STATE_CHK_IO \<Rightarrow> do {
             s \<leftarrow> set_port e (i_port (mrp s)) BR_MRP_PORT_STATE_BLOCKED s;
             let s = mrp_in_link_status_stop e s;
             Some (mrp_set_mim_state MRP_MIM_STATE_AC_STAT1 s)
           }
         | MRP_MIM_STATE_CHK_IC \<Rightarrow> do {
             s \<leftarrow> set_port e (i_port (mrp s)) BR_MRP_PORT_STATE_BLOCKED s;
             Some (mrp_set_mim_state MRP_MIM_STATE_AC_STAT1 s)
           })
      else Some s)
   }"

section \<open>Interconnection client\<close>

definition restart_in_link_count :: "st \<Rightarrow> st" where
  "restart_in_link_count s = s\<lparr>mrp := (mrp s)\<lparr>in_link_curr_max := in_link_conf_max (mrp s)\<rparr>\<rparr>"

definition report_in_link :: "env \<Rightarrow> bool \<Rightarrow> st \<Rightarrow> st option" where
  "report_in_link e up s =
     mrp_in_link_req e up (in_link_conf_max (mrp s) * in_link_conf_interval (mrp s)) s"

text \<open>The branches of \<open>mrp_mic_port_link\<close>: going up from \<open>AC_STAT1\<close> (the same in both modes) and
  going down with or without stopping the link up timer.\<close>

definition mic_link_up :: "env \<Rightarrow> st \<Rightarrow> st option" where
  "mic_link_up e s = do {
     let s = restart_in_link_count s;
     let s = mrp_in_link_down_stop e s;
     let s = mrp_in_link_up_start e (in_link_conf_interval (mrp s)) s;
     s \<leftarrow> report_in_link e True s;
     Some (mrp_set_mic_state MRP_MIC_STATE_PT s)
   }"

definition mic_link_down :: "env \<Rightarrow> bool \<Rightarrow> st \<Rightarrow> st option" where
  "mic_link_down e stop_up s = do {
     let s = restart_in_link_count s;
     let s = (if stop_up then mrp_in_link_up_stop e s else s);
     s \<leftarrow> set_port e (i_port (mrp s)) BR_MRP_PORT_STATE_BLOCKED s;
     let s = mrp_in_link_down_start e (in_link_conf_interval (mrp s)) s;
     s \<leftarrow> report_in_link e False s;
     Some (mrp_set_mic_state MRP_MIC_STATE_AC_STAT1 s)
   }"

definition mrp_mic_port_link :: "env \<Rightarrow> port_ref option \<Rightarrow> bool \<Rightarrow> st \<Rightarrow> st option" where
  "mrp_mic_port_link e p up s = do {
     _ \<leftarrow> deref_mrp p s;
     (if up \<and> in_mode (mrp s) = MRP_IN_MODE_RC then
        (case mic_state (mrp s) of
           MRP_MIC_STATE_AC_STAT1 \<Rightarrow> mic_link_up e s
         | MRP_MIC_STATE_PT \<Rightarrow> Some s
         | MRP_MIC_STATE_IP_IDLE \<Rightarrow> Some s)
      else if \<not> up \<and> in_mode (mrp s) = MRP_IN_MODE_RC then
        (case mic_state (mrp s) of
           MRP_MIC_STATE_AC_STAT1 \<Rightarrow> Some s
         | MRP_MIC_STATE_PT \<Rightarrow> mic_link_down e True s
         | MRP_MIC_STATE_IP_IDLE \<Rightarrow> mic_link_down e False s)
      else if up \<and> in_mode (mrp s) = MRP_IN_MODE_LC then
        (case mic_state (mrp s) of
           MRP_MIC_STATE_AC_STAT1 \<Rightarrow> mic_link_up e s
         | MRP_MIC_STATE_PT \<Rightarrow> Some s
         | MRP_MIC_STATE_IP_IDLE \<Rightarrow> Some s)
      else if \<not> up \<and> in_mode (mrp s) = MRP_IN_MODE_LC then
        (case mic_state (mrp s) of
           MRP_MIC_STATE_AC_STAT1 \<Rightarrow> Some s
         | MRP_MIC_STATE_PT \<Rightarrow> mic_link_down e True s
         | MRP_MIC_STATE_IP_IDLE \<Rightarrow> mic_link_down e True s)
      else Some s)
   }"

section \<open>Dispatch\<close>

definition mrp_port_link_change :: "env \<Rightarrow> port_ref option \<Rightarrow> bool \<Rightarrow> st \<Rightarrow> st option" where
  "mrp_port_link_change e p up s = do {
     q \<leftarrow> deref p s;
     if \<not> mrp_is_mrp_port q then Some s
     else if in_mode (mrp s) = MRP_IN_MODE_LC \<and> mrp_is_in_port q then Some s
     else do {
       s \<leftarrow> upd_port p (\<lambda>q. q\<lparr>poperstate := if up then IF_OPER_UP else IF_OPER_DOWN\<rparr>) s;
       if mrp_is_ring_port q \<and> ring_role (mrp s) = BR_MRP_RING_ROLE_MRM
       then mrp_mrm_port_link e p up s
       else if mrp_is_ring_port q \<and> ring_role (mrp s) = BR_MRP_RING_ROLE_MRC
       then mrp_mrc_port_link e p up s
       else if mrp_is_in_port q \<and> in_role (mrp s) = BR_MRP_IN_ROLE_MIM
       then mrp_mim_port_link e p up s
       else if mrp_is_in_port q \<and> in_role (mrp s) = BR_MRP_IN_ROLE_MIC
       then mrp_mic_port_link e p up s
       else Some s
     }
   }"

text \<open>\<open>mrp_cfm_link_change\<close> once the instance has been found.\<close>

definition cfm_link_change :: "env \<Rightarrow> u32 \<Rightarrow> st \<Rightarrow> st option" where
  "cfm_link_change e defect s =
    (if i_port (mrp s) = None then Some s
     else do {
       s \<leftarrow> upd_port (i_port (mrp s))
            (\<lambda>q. q\<lparr>poperstate := if defect = 0 then IF_OPER_UP else IF_OPER_DOWN\<rparr>) s;
       s \<leftarrow> (if in_role (mrp s) = BR_MRP_IN_ROLE_MIM
            then mrp_mim_port_link e (i_port (mrp s)) (defect = 0) s else Some s);
       if in_role (mrp s) = BR_MRP_IN_ROLE_MIC
       then mrp_mic_port_link e (i_port (mrp s)) (defect = 0) s else Some s
     })"

end
