(* ===== verification/Mrp_Expire.thy ===== *)
theory Mrp_Expire
  imports Mrp_Inter
begin

text \<open>
  The expiry handlers of \<^verbatim>\<open>timer.c\<close>.  \<open>timer\<close> names the eleven timers of an instance;
  \<open>timer_expired\<close> is the binding of timers to handlers that \<open>mrp_timer_init\<close> sets up.
\<close>

section \<open>Ring\<close>

definition mrp_clear_fdb_expired :: "env \<Rightarrow> st \<Rightarrow> st option" where
  "mrp_clear_fdb_expired e s = do {
     s \<leftarrow> ifdriver_flush s;
     Some (mrp_clear_fdb_stop e s)
   }"

definition clear_add_test :: "st \<Rightarrow> st" where
  "clear_add_test s = s\<lparr>mrp := (mrp s)\<lparr>add_test := False\<rparr>\<rparr>"

definition mrp_mrm_ring_test_expired :: "env \<Rightarrow> st \<Rightarrow> st option" where
  "mrp_mrm_ring_test_expired e s =
    (case mrm_state (mrp s) of
       MRP_MRM_STATE_AC_STAT1 \<Rightarrow> Some s
     | MRP_MRM_STATE_PRM_UP \<Rightarrow>
         mrp_ring_test_req e (ring_test_conf_interval (mrp s)) (clear_add_test s)
     | MRP_MRM_STATE_CHK_RO \<Rightarrow>
         mrp_ring_test_req e (ring_test_conf_interval (mrp s)) (clear_add_test s)
     | MRP_MRM_STATE_CHK_RC \<Rightarrow>
         (if ring_test_curr (mrp s) \<ge> ring_test_curr_max (mrp s) then do {
            s \<leftarrow> set_port e (s_port (mrp s)) BR_MRP_PORT_STATE_FORWARDING s;
            let s = rearm_ring_test s;
            let s = clear_add_test s;
            s \<leftarrow> (if \<not> no_tc (mrp s) then mrp_ring_topo_req e (ring_topo_conf_interval (mrp s)) s
                 else Some s);
            s \<leftarrow> mrp_ring_test_req e (ring_test_conf_interval (mrp s)) s;
            let s = s\<lparr>mrp := (mrp s)\<lparr>ring_transitions := ring_transitions (mrp s) + 1\<rparr>\<rparr>;
            Some (mrp_set_mrm_state MRP_MRM_STATE_CHK_RO s)
          }
          else do {
            let s = s\<lparr>mrp := (mrp s)\<lparr>ring_test_curr := ring_test_curr (mrp s) + 1\<rparr>\<rparr>;
            let s = clear_add_test s;
            mrp_ring_test_req e (ring_test_conf_interval (mrp s)) s
          }))"

definition become_mrm :: "env \<Rightarrow> mrp_mrm_state_type \<Rightarrow> st \<Rightarrow> st" where
  "become_mrm e x s = snd (mrp_set_ring_role e BR_MRP_RING_ROLE_MRM (mrp_set_mrm_state x s))"

definition mrp_mrc_ring_test_expired :: "env \<Rightarrow> st \<Rightarrow> st option" where
  "mrp_mrc_ring_test_expired e s =
    (if ring_mon_curr (mrp s) \<le> ring_mon_curr_max (mrp s) then
       (let s = s\<lparr>mrp := (mrp s)\<lparr>ring_mon_curr := ring_mon_curr (mrp s) + 1\<rparr>\<rparr>
        in Some (mrp_ring_test_start e (ring_test_conf_short (mrp s)) s))
     else
       (let s = mrp_ring_test_start e (ring_test_conf_short (mrp s)) s;
            s = mrp_set_mrm_init s
        in case mrc_state (mrp s) of
             MRP_MRC_STATE_DE_IDLE \<Rightarrow> Some (become_mrm e MRP_MRM_STATE_PRM_UP s)
           | MRP_MRC_STATE_PT \<Rightarrow> Some (become_mrm e MRP_MRM_STATE_CHK_RC s)
           | MRP_MRC_STATE_DE \<Rightarrow> Some (become_mrm e MRP_MRM_STATE_PRM_UP s)
           | MRP_MRC_STATE_PT_IDLE \<Rightarrow> Some (become_mrm e MRP_MRM_STATE_CHK_RO s)
           | MRP_MRC_STATE_AC_STAT1 \<Rightarrow> Some s))"

definition mrp_ring_test_expired :: "env \<Rightarrow> st \<Rightarrow> st option" where
  "mrp_ring_test_expired e s = do {
     s \<leftarrow> mrp_lock s;
     s \<leftarrow> (if mra_support (mrp s) \<and> ring_role (mrp s) = BR_MRP_RING_ROLE_MRC
          then mrp_mrc_ring_test_expired e s
          else if ring_role (mrp s) = BR_MRP_RING_ROLE_MRM
          then mrp_mrm_ring_test_expired e s
          else Some s);
     Some (mrp_unlock s)
   }"

definition mrp_ring_topo_expired :: "env \<Rightarrow> st \<Rightarrow> st option" where
  "mrp_ring_topo_expired e s = do {
     s \<leftarrow> mrp_lock s;
     s \<leftarrow> (if ring_topo_curr_max (mrp s) > 0 then do {
            s \<leftarrow> mrp_ring_topo_send e
                 (ring_topo_curr_max (mrp s) * ring_topo_conf_interval (mrp s)) s;
            Some (s\<lparr>mrp := (mrp s)\<lparr>ring_topo_curr_max := ring_topo_curr_max (mrp s) - 1\<rparr>\<rparr>)
          }
          else do {
            let s = s\<lparr>mrp := (mrp s)\<lparr>ring_topo_curr_max := ring_topo_conf_max (mrp s) - 1\<rparr>\<rparr>;
            s \<leftarrow> ifdriver_flush s;
            s \<leftarrow> mrp_ring_topo_send e 0 s;
            Some (mrp_ring_topo_stop e s)
          });
     Some (mrp_unlock s)
   }"

definition mrp_ring_link_up_expired :: "env \<Rightarrow> st \<Rightarrow> st option" where
  "mrp_ring_link_up_expired e s = do {
     s \<leftarrow> mrp_lock s;
     let delay = ring_link_conf_interval (mrp s);
     s \<leftarrow> (if ring_link_curr_max (mrp s) > 0 then do {
            let s = s\<lparr>mrp := (mrp s)\<lparr>ring_link_curr_max := ring_link_curr_max (mrp s) - 1\<rparr>\<rparr>;
            let s = mrp_ring_link_up_start e delay s;
            let iv = ring_link_curr_max (mrp s) * delay;
            mrp_ring_link_req e (p_port (mrp s)) True iv s
          }
          else do {
            let s = s\<lparr>mrp := (mrp s)\<lparr>ring_link_curr_max := ring_link_conf_max (mrp s)\<rparr>\<rparr>;
            s \<leftarrow> set_port e (s_port (mrp s)) BR_MRP_PORT_STATE_FORWARDING s;
            let s = mrp_set_mrc_state MRP_MRC_STATE_PT_IDLE s;
            Some (mrp_ring_link_up_stop e s)
          });
     Some (mrp_unlock s)
   }"

definition mrp_ring_link_down_expired :: "env \<Rightarrow> st \<Rightarrow> st option" where
  "mrp_ring_link_down_expired e s = do {
     s \<leftarrow> mrp_lock s;
     let delay = ring_link_conf_interval (mrp s);
     s \<leftarrow> (if ring_link_curr_max (mrp s) > 0 then do {
            let s = s\<lparr>mrp := (mrp s)\<lparr>ring_link_curr_max := ring_link_curr_max (mrp s) - 1\<rparr>\<rparr>;
            let s = mrp_ring_link_down_start e delay s;
            let iv = ring_link_curr_max (mrp s) * delay;
            mrp_ring_link_req e (p_port (mrp s)) False iv s
          }
          else do {
            let s = s\<lparr>mrp := (mrp s)\<lparr>ring_link_curr_max := ring_link_conf_max (mrp s)\<rparr>\<rparr>;
            let s = mrp_set_mrc_state MRP_MRC_STATE_DE_IDLE s;
            Some (mrp_ring_link_down_stop e s)
          });
     Some (mrp_unlock s)
   }"

section \<open>Interconnection\<close>

definition mrp_in_test_expired :: "env \<Rightarrow> st \<Rightarrow> st option" where
  "mrp_in_test_expired e s = do {
     s \<leftarrow> mrp_lock s;
     s \<leftarrow> (case mim_state (mrp s) of
            MRP_MIM_STATE_AC_STAT1 \<Rightarrow> Some s
          | MRP_MIM_STATE_CHK_IO \<Rightarrow> mrp_in_test_req e (in_test_conf_interval (mrp s)) s
          | MRP_MIM_STATE_CHK_IC \<Rightarrow>
              (if in_test_curr (mrp s) \<ge> in_test_curr_max (mrp s) then do {
                 s \<leftarrow> set_port e (i_port (mrp s)) BR_MRP_PORT_STATE_FORWARDING s;
                 let s = rearm_in_test s;
                 s \<leftarrow> mrp_in_topo_req e (in_topo_conf_interval (mrp s)) s;
                 s \<leftarrow> mrp_in_test_req e (in_test_conf_interval (mrp s)) s;
                 let s = s\<lparr>mrp := (mrp s)\<lparr>in_transitions := in_transitions (mrp s) + 1\<rparr>\<rparr>;
                 Some (mrp_set_mim_state MRP_MIM_STATE_CHK_IO s)
               }
               else do {
                 let s = s\<lparr>mrp := (mrp s)\<lparr>in_test_curr := in_test_curr (mrp s) + 1\<rparr>\<rparr>;
                 mrp_in_test_req e (in_test_conf_interval (mrp s)) s
               }));
     Some (mrp_unlock s)
   }"

definition mrp_in_topo_expired :: "env \<Rightarrow> st \<Rightarrow> st option" where
  "mrp_in_topo_expired e s = do {
     s \<leftarrow> mrp_lock s;
     s \<leftarrow> (if in_topo_curr_max (mrp s) > 0 then do {
            s \<leftarrow> mrp_in_topo_send e (in_topo_curr_max (mrp s) * in_topo_conf_interval (mrp s)) s;
            Some (s\<lparr>mrp := (mrp s)\<lparr>in_topo_curr_max := in_topo_curr_max (mrp s) - 1\<rparr>\<rparr>)
          }
          else do {
            let s = s\<lparr>mrp := (mrp s)\<lparr>in_topo_curr_max := in_topo_conf_max (mrp s) - 1\<rparr>\<rparr>;
            s \<leftarrow> ifdriver_flush s;
            s \<leftarrow> mrp_in_topo_send e 0 s;
            Some (mrp_in_topo_stop e s)
          });
     Some (mrp_unlock s)
   }"

definition mrp_in_link_up_expired :: "env \<Rightarrow> st \<Rightarrow> st option" where
  "mrp_in_link_up_expired e s = do {
     s \<leftarrow> mrp_lock s;
     let delay = in_link_conf_interval (mrp s);
     s \<leftarrow> (if in_link_curr_max (mrp s) > 0 then do {
            let s = s\<lparr>mrp := (mrp s)\<lparr>in_link_curr_max := in_link_curr_max (mrp s) - 1\<rparr>\<rparr>;
            let s = mrp_in_link_up_start e delay s;
            let iv = in_link_curr_max (mrp s) * delay;
            mrp_in_link_req e True iv s
          }
          else do {
            let s = s\<lparr>mrp := (mrp s)\<lparr>in_link_curr_max := in_link_conf_max (mrp s)\<rparr>\<rparr>;
            s \<leftarrow> set_port e (i_port (mrp s)) BR_MRP_PORT_STATE_FORWARDING s;
            let s = mrp_set_mic_state MRP_MIC_STATE_IP_IDLE s;
            Some (mrp_in_link_up_stop e s)
          });
     Some (mrp_unlock s)
   }"

definition mrp_in_link_down_expired :: "env \<Rightarrow> st \<Rightarrow> st option" where
  "mrp_in_link_down_expired e s = do {
     s \<leftarrow> mrp_lock s;
     let delay = in_link_conf_interval (mrp s);
     s \<leftarrow> (if in_link_curr_max (mrp s) > 0 then do {
            let s = s\<lparr>mrp := (mrp s)\<lparr>in_link_curr_max := in_link_curr_max (mrp s) - 1\<rparr>\<rparr>;
            let s = mrp_in_link_down_start e delay s;
            let iv = in_link_curr_max (mrp s) * delay;
            mrp_in_link_req e False iv s
          }
          else do {
            let s = s\<lparr>mrp := (mrp s)\<lparr>in_link_curr_max := in_link_conf_max (mrp s)\<rparr>\<rparr>;
            Some (mrp_in_link_down_stop e s)
          });
     Some (mrp_unlock s)
   }"

definition mrp_in_link_status_expired :: "env \<Rightarrow> st \<Rightarrow> st option" where
  "mrp_in_link_status_expired e s = do {
     s \<leftarrow> mrp_lock s;
     let delay = in_link_status_conf_interval (mrp s);
     s \<leftarrow> (if in_link_status_curr_max (mrp s) > 0 then do {
            let s = s\<lparr>mrp := (mrp s)\<lparr>in_link_status_curr_max := in_link_status_curr_max (mrp s) - 1\<rparr>\<rparr>;
            let iv = in_link_status_curr_max (mrp s) * delay;
            mrp_in_link_status_req e iv s
          }
          else do {
            let s = s\<lparr>mrp := (mrp s)\<lparr>in_link_status_curr_max := in_link_status_conf_max (mrp s)\<rparr>\<rparr>;
            Some (mrp_in_link_status_stop e s)
          });
     Some (mrp_unlock s)
   }"

definition mrp_cfm_ccm_expired :: "env \<Rightarrow> st \<Rightarrow> st option" where
  "mrp_cfm_ccm_expired e s = (
     let dmac = take ETH_ALEN (cfm_ccm_dmac (mrp s));
         s = s\<lparr>mrp := (mrp s)\<lparr>cfm_ccm_work :=
               ev_timer_again e ((cfm_ccm_work (mrp s))\<lparr>repeat := cfm_ccm_period (mrp s)\<rparr>)\<rparr>\<rparr>
     in Some (emit (Cfm_offload_cc_ccm_tx (ifindex (mrp s)) (cfm_instance (mrp s)) dmac
          (cfm_ccm_period (mrp s))) s))"

section \<open>Timers and their handlers\<close>

datatype timer =
    Clear_fdb | Ring_topo | Ring_test | Ring_link_up | Ring_link_down
  | In_test | In_topo | In_link_up | In_link_down | In_link_status | Cfm_ccm

fun work :: "timer \<Rightarrow> mrp \<Rightarrow> ev_timer" where
  "work Clear_fdb = clear_fdb_work"
| "work Ring_topo = ring_topo_work"
| "work Ring_test = ring_test_work"
| "work Ring_link_up = ring_link_up_work"
| "work Ring_link_down = ring_link_down_work"
| "work In_test = in_test_work"
| "work In_topo = in_topo_work"
| "work In_link_up = in_link_up_work"
| "work In_link_down = in_link_down_work"
| "work In_link_status = in_link_status_work"
| "work Cfm_ccm = cfm_ccm_work"

fun timer_expired :: "env \<Rightarrow> timer \<Rightarrow> st \<Rightarrow> st option" where
  "timer_expired e Clear_fdb = mrp_clear_fdb_expired e"
| "timer_expired e Ring_topo = mrp_ring_topo_expired e"
| "timer_expired e Ring_test = mrp_ring_test_expired e"
| "timer_expired e Ring_link_up = mrp_ring_link_up_expired e"
| "timer_expired e Ring_link_down = mrp_ring_link_down_expired e"
| "timer_expired e In_test = mrp_in_test_expired e"
| "timer_expired e In_topo = mrp_in_topo_expired e"
| "timer_expired e In_link_up = mrp_in_link_up_expired e"
| "timer_expired e In_link_down = mrp_in_link_down_expired e"
| "timer_expired e In_link_status = mrp_in_link_status_expired e"
| "timer_expired e Cfm_ccm = mrp_cfm_ccm_expired e"

end
