(* ===== verification/Mrp_Inv.thy ===== *)
theory Mrp_Inv
  imports Mrp_Wp Mrp_Forward Mrp_Link Mrp_Expire
begin

text \<open>
  The invariant of an MRP instance and its preservation by every handler, with the absence of
  crashes.  The forwarding states of the ports are determined by the state machine of the
  current role; the timers that move a client's port to forwarding run only in the states that
  expect them.  An auto-manager (\<open>mra_support\<close>) changes its role without stopping these timers,
  so for it the coherence of the ring ports is not claimed.
\<close>

section \<open>Coherence\<close>

fun mrm_ports :: "mrp_mrm_state_type \<Rightarrow> bool \<Rightarrow> bool \<Rightarrow> bool" where
  "mrm_ports MRP_MRM_STATE_AC_STAT1 pf sf \<longleftrightarrow> \<not> pf \<and> \<not> sf"
| "mrm_ports MRP_MRM_STATE_PRM_UP pf sf \<longleftrightarrow> pf \<and> \<not> sf"
| "mrm_ports MRP_MRM_STATE_CHK_RO pf sf \<longleftrightarrow> pf \<and> sf"
| "mrm_ports MRP_MRM_STATE_CHK_RC pf sf \<longleftrightarrow> pf \<and> \<not> sf"

fun mrc_ports :: "mrp_mrc_state_type \<Rightarrow> bool \<Rightarrow> bool \<Rightarrow> bool" where
  "mrc_ports MRP_MRC_STATE_AC_STAT1 pf sf \<longleftrightarrow> \<not> pf \<and> \<not> sf"
| "mrc_ports MRP_MRC_STATE_DE_IDLE pf sf \<longleftrightarrow> pf \<and> \<not> sf"
| "mrc_ports MRP_MRC_STATE_PT pf sf \<longleftrightarrow> pf \<and> \<not> sf"
| "mrc_ports MRP_MRC_STATE_DE pf sf \<longleftrightarrow> pf \<and> \<not> sf"
| "mrc_ports MRP_MRC_STATE_PT_IDLE pf sf \<longleftrightarrow> pf \<and> sf"

text \<open>The arguments: auto-manager, role, the two states, the forwarding flags of primary and
  secondary port, and whether the link-up and link-down timers run.\<close>

definition ring_inv :: "bool \<Rightarrow> br_mrp_ring_role_type \<Rightarrow> mrp_mrm_state_type \<Rightarrow> mrp_mrc_state_type \<Rightarrow>
    bool \<Rightarrow> bool \<Rightarrow> bool \<Rightarrow> bool \<Rightarrow> bool" where
  "ring_inv mra role mrm mrc pf sf up dn \<longleftrightarrow>
     (role = BR_MRP_RING_ROLE_MRM \<or> role = BR_MRP_RING_ROLE_MRC) \<and> (\<not> mra \<longrightarrow>
     (role = BR_MRP_RING_ROLE_MRM \<longrightarrow> mrm_ports mrm pf sf) \<and>
     (role = BR_MRP_RING_ROLE_MRC \<longrightarrow> mrc_ports mrc pf sf) \<and>
     (up \<longrightarrow> role = BR_MRP_RING_ROLE_MRC \<and> mrc = MRP_MRC_STATE_PT) \<and>
     (dn \<longrightarrow> role = BR_MRP_RING_ROLE_MRC \<and> mrc = MRP_MRC_STATE_DE))"

definition in_inv :: "br_mrp_in_role_type \<Rightarrow> mrp_mim_state_type \<Rightarrow> mrp_mic_state_type \<Rightarrow>
    port_ref option \<Rightarrow> bool \<Rightarrow> bool \<Rightarrow> bool \<Rightarrow> bool \<Rightarrow> bool \<Rightarrow> bool" where
  "in_inv role mim mic ip fw test topo up dn \<longleftrightarrow>
     (role \<noteq> BR_MRP_IN_ROLE_DISABLED \<longrightarrow> ip \<noteq> None) \<and>
     (role = BR_MRP_IN_ROLE_DISABLED \<longrightarrow> \<not> fw) \<and>
     (role = BR_MRP_IN_ROLE_MIM \<longrightarrow> fw = (mim = MRP_MIM_STATE_CHK_IO)) \<and>
     (role = BR_MRP_IN_ROLE_MIC \<longrightarrow> fw = (mic = MRP_MIC_STATE_IP_IDLE)) \<and>
     (test \<longrightarrow> role = BR_MRP_IN_ROLE_MIM) \<and>
     (topo \<longrightarrow> role = BR_MRP_IN_ROLE_MIM) \<and>
     (up \<longrightarrow> role = BR_MRP_IN_ROLE_MIC \<and> mic = MRP_MIC_STATE_PT) \<and>
     (dn \<longrightarrow> role = BR_MRP_IN_ROLE_MIC)"

text \<open>The link status and CCM timers belong to the link check mode of the interconnection.\<close>

definition mode_inv :: "mrp_in_mode_type \<Rightarrow> bool \<Rightarrow> bool \<Rightarrow> bool" where
  "mode_inv mode status ccm \<longleftrightarrow> (mode = MRP_IN_MODE_RC \<longrightarrow> \<not> status \<and> \<not> ccm)"

abbreviation fwd :: "port_ref option \<Rightarrow> port_mem \<Rightarrow> bool" where
  "fwd p pm \<equiv> pst p pm = BR_MRP_PORT_STATE_FORWARDING"

abbreviation ring_inv_st :: "st \<Rightarrow> bool" where
  "ring_inv_st s \<equiv> ring_inv (mra_support (mrp s)) (ring_role (mrp s)) (mrm_state (mrp s)) (mrc_state (mrp s))
     (fwd (p_port (mrp s)) (port s)) (fwd (s_port (mrp s)) (port s))
     (active (ring_link_up_work (mrp s))) (active (ring_link_down_work (mrp s)))"

abbreviation in_inv_st :: "st \<Rightarrow> bool" where
  "in_inv_st s \<equiv> in_inv (in_role (mrp s)) (mim_state (mrp s)) (mic_state (mrp s)) (i_port (mrp s))
     (fwd (i_port (mrp s)) (port s))
     (active (in_test_work (mrp s))) (active (in_topo_work (mrp s)))
     (active (in_link_up_work (mrp s))) (active (in_link_down_work (mrp s)))"

abbreviation mode_inv_st :: "st \<Rightarrow> bool" where
  "mode_inv_st s \<equiv> mode_inv (in_mode (mrp s)) (active (in_link_status_work (mrp s))) (active (cfm_ccm_work (mrp s)))"

text \<open>What no event changes: the identity of the instance, its configured roles, and whether its
  mutex is held.\<close>

record config =
  c_br :: u32
  c_ring_nr :: u32
  c_in_id :: u16
  c_prio :: u16
  c_mra_support :: bool
  c_in_role :: br_mrp_in_role_type
  c_in_mode :: mrp_in_mode_type
  c_cfm_peer_mepid :: u32
  c_i_port :: "port_ref option"
  c_lock :: bool

definition cfg :: "mrp \<Rightarrow> config" where
  "cfg m = \<lparr>c_br = ifindex m, c_ring_nr = ring_nr m, c_in_id = in_id m, c_prio = prio m,
     c_mra_support = mra_support m, c_in_role = in_role m, c_in_mode = in_mode m,
     c_cfm_peer_mepid = cfm_peer_mepid m, c_i_port = i_port m, c_lock = lock m\<rparr>"

lemma cfg_upd [simp]:
  "cfg (m\<lparr>ifname := v1\<rparr>) = cfg m"
  "cfg (m\<lparr>macaddr := v2\<rparr>) = cfg m" "cfg (m\<lparr>p_port := v3\<rparr>) = cfg m"
  "cfg (m\<lparr>s_port := v4\<rparr>) = cfg m" 
  "cfg (m\<lparr>ring_prio := v6\<rparr>) = cfg m" "cfg (m\<lparr>ring_mac := v7\<rparr>) = cfg m"
  "cfg (m\<lparr>ring_role := v8\<rparr>) = cfg m" "cfg (m\<lparr>ring_recv := v9\<rparr>) = cfg m"
  "cfg (m\<lparr>in_recv := v10\<rparr>) = cfg m" "cfg (m\<lparr>mrm_state := v11\<rparr>) = cfg m"
  "cfg (m\<lparr>mrc_state := v12\<rparr>) = cfg m" "cfg (m\<lparr>mim_state := v13\<rparr>) = cfg m"
  "cfg (m\<lparr>mic_state := v14\<rparr>) = cfg m" "cfg (m\<lparr>add_test := v15\<rparr>) = cfg m"
  "cfg (m\<lparr>no_tc := v16\<rparr>) = cfg m" "cfg (m\<lparr>ring_transitions := v17\<rparr>) = cfg m"
  "cfg (m\<lparr>in_transitions := v18\<rparr>) = cfg m" "cfg (m\<lparr>seq_id := v19\<rparr>) = cfg m"
  "cfg (m\<lparr>domain := v20\<rparr>) = cfg m" "cfg (m\<lparr>clear_fdb_work := v21\<rparr>) = cfg m"
  "cfg (m\<lparr>ring_test_work := v22\<rparr>) = cfg m" "cfg (m\<lparr>ring_test_conf_short := v23\<rparr>) = cfg m"
  "cfg (m\<lparr>ring_test_conf_interval := v24\<rparr>) = cfg m" "cfg (m\<lparr>ring_test_conf_max := v25\<rparr>) = cfg m"
  "cfg (m\<lparr>ring_test_conf_ext_max := v26\<rparr>) = cfg m" "cfg (m\<lparr>ring_test_curr := v27\<rparr>) = cfg m"
  "cfg (m\<lparr>ring_test_curr_max := v28\<rparr>) = cfg m" "cfg (m\<lparr>ring_mon_curr := v29\<rparr>) = cfg m"
  "cfg (m\<lparr>ring_mon_curr_max := v30\<rparr>) = cfg m" "cfg (m\<lparr>ring_topo_work := v31\<rparr>) = cfg m"
  "cfg (m\<lparr>ring_topo_conf_interval := v32\<rparr>) = cfg m" "cfg (m\<lparr>ring_topo_conf_max := v33\<rparr>) = cfg m"
  "cfg (m\<lparr>ring_topo_curr_max := v34\<rparr>) = cfg m" "cfg (m\<lparr>ring_topo_running := v35\<rparr>) = cfg m"
  "cfg (m\<lparr>ring_link_up_work := v36\<rparr>) = cfg m" "cfg (m\<lparr>ring_link_down_work := v37\<rparr>) = cfg m"
  "cfg (m\<lparr>ring_link_conf_interval := v38\<rparr>) = cfg m" "cfg (m\<lparr>ring_link_conf_max := v39\<rparr>) = cfg m"
  "cfg (m\<lparr>ring_link_curr_max := v40\<rparr>) = cfg m" "cfg (m\<lparr>in_test_work := v41\<rparr>) = cfg m"
  "cfg (m\<lparr>in_test_conf_short := v42\<rparr>) = cfg m" "cfg (m\<lparr>in_test_conf_interval := v43\<rparr>) = cfg m"
  "cfg (m\<lparr>in_test_conf_max := v44\<rparr>) = cfg m" "cfg (m\<lparr>in_test_conf_ext_max := v45\<rparr>) = cfg m"
  "cfg (m\<lparr>in_test_curr := v46\<rparr>) = cfg m" "cfg (m\<lparr>in_test_curr_max := v47\<rparr>) = cfg m"
  "cfg (m\<lparr>in_topo_work := v48\<rparr>) = cfg m" "cfg (m\<lparr>in_topo_conf_interval := v49\<rparr>) = cfg m"
  "cfg (m\<lparr>in_topo_conf_max := v50\<rparr>) = cfg m" "cfg (m\<lparr>in_topo_curr_max := v51\<rparr>) = cfg m"
  "cfg (m\<lparr>in_link_up_work := v52\<rparr>) = cfg m" "cfg (m\<lparr>in_link_down_work := v53\<rparr>) = cfg m"
  "cfg (m\<lparr>in_link_conf_interval := v54\<rparr>) = cfg m" "cfg (m\<lparr>in_link_conf_max := v55\<rparr>) = cfg m"
  "cfg (m\<lparr>in_link_curr_max := v56\<rparr>) = cfg m" "cfg (m\<lparr>in_link_status_work := v57\<rparr>) = cfg m"
  "cfg (m\<lparr>in_link_status_conf_interval := v58\<rparr>) = cfg m" "cfg (m\<lparr>in_link_status_conf_max := v59\<rparr>) = cfg m"
  "cfg (m\<lparr>in_link_status_curr_max := v60\<rparr>) = cfg m" "cfg (m\<lparr>blocked := v61\<rparr>) = cfg m"
  "cfg (m\<lparr>react_on_link_change := v62\<rparr>) = cfg m" "cfg (m\<lparr>cfm_ccm_work := v63\<rparr>) = cfg m"
  "cfg (m\<lparr>cfm_ccm_period := v64\<rparr>) = cfg m" "cfg (m\<lparr>cfm_instance := v65\<rparr>) = cfg m"
  "cfg (m\<lparr>cfm_mepid := v66\<rparr>) = cfg m" "cfg (m\<lparr>cfm_ccm_dmac := v67\<rparr>) = cfg m"
  by (simp_all add: cfg_def)

abbreviation relock :: "bool \<Rightarrow> config \<Rightarrow> config" where
  "relock b K \<equiv> K\<lparr>c_lock := b\<rparr>"

lemma cfg_lock [simp]: "cfg (m\<lparr>lock := b\<rparr>) = relock b (cfg m)"
  by (simp add: cfg_def)

lemma cfg_sel [simp]:
  "c_br (cfg m) = ifindex m" "c_ring_nr (cfg m) = ring_nr m" "c_in_role (cfg m) = in_role m"
  "c_in_mode (cfg m) = in_mode m" "c_mra_support (cfg m) = mra_support m" "c_i_port (cfg m) = i_port m"
  "c_lock (cfg m) = lock m"
  by (simp_all add: cfg_def)

lemma relock_same: "cfg m = K \<Longrightarrow> lock m = b \<Longrightarrow> relock b K = K"
  by (auto simp: cfg_def)

lemma lock_relock: "cfg m = relock b K \<Longrightarrow> lock m = b"
  using cfg_sel(7) [of m] by simp

definition mrp_inv :: "config \<Rightarrow> st \<Rightarrow> bool" where
  "mrp_inv K s \<longleftrightarrow> inst_ok s \<and> blocked (mrp s) = 1 \<and> \<not> no_tc (mrp s) \<and> ring_inv_st s \<and> in_inv_st s \<and> mode_inv_st s \<and>
     cfg (mrp s) = K"

lemma inv_facts:
  assumes "mrp_inv K s"
  shows "inst_ok s"
    "core_ok (s_port (mrp s)) (p_port (mrp s)) (i_port (mrp s)) (domain (mrp s))
      (macaddr (mrp s)) (ring_mac (mrp s)) (port s)" "blocked (mrp s) = 1" "\<not> no_tc (mrp s)" "mode_inv_st s" "cfg (mrp s) = K"
    "live (p_port (mrp s)) (port s)" "live (s_port (mrp s)) (port s)"
    "p_port (mrp s) \<noteq> s_port (mrp s)" "s_port (mrp s) \<noteq> p_port (mrp s)"
    "p_port (mrp s) \<noteq> i_port (mrp s)" "s_port (mrp s) \<noteq> i_port (mrp s)"
    "i_port (mrp s) \<noteq> p_port (mrp s)" "i_port (mrp s) \<noteq> s_port (mrp s)"
  using assms core_okD [of "p_port (mrp s)" "s_port (mrp s)" "i_port (mrp s)"]
  unfolding mrp_inv_def by (metis core_ok_swap)+

lemma inv_in:
  assumes "mrp_inv K s" and "in_role (mrp s) \<noteq> BR_MRP_IN_ROLE_DISABLED"
  shows "i_port (mrp s) \<noteq> None" "live (i_port (mrp s)) (port s)"
  using assms core_okD(9) [of "p_port (mrp s)" "s_port (mrp s)" "i_port (mrp s)"]
  unfolding mrp_inv_def in_inv_def by metis+

lemma inv_mode:
  assumes "mrp_inv K s" and "in_mode (mrp s) = MRP_IN_MODE_RC"
  shows "\<not> active (in_link_status_work (mrp s))" "\<not> active (cfm_ccm_work (mrp s))"
  using assms by (simp_all add: mrp_inv_def mode_inv_def)

lemma inv_relock:
  "mrp_inv K s \<Longrightarrow> mrp_inv (relock b K) (s\<lparr>mrp := (mrp s)\<lparr>lock := b\<rparr>\<rparr>)"
  by (simp add: mrp_inv_def)

lemma inv_lock_of: "mrp_inv (relock b K) s \<Longrightarrow> lock (mrp s) = b"
  using lock_relock by (auto simp: mrp_inv_def)

lemma inv_unlock:
  "mrp_inv (relock True K) s \<Longrightarrow> relock False K = K \<Longrightarrow> mrp_inv K (mrp_unlock s) \<and> \<not> lock (mrp (mrp_unlock s))"
  using inv_relock [of "relock True K" s False] by (simp add: mrp_unlock_def)

lemma inv_relock_False: "mrp_inv K s \<Longrightarrow> \<not> lock (mrp s) \<Longrightarrow> relock False K = K"
  by (rule relock_same [of "mrp s"]) (simp_all add: mrp_inv_def)

lemma inv_ring: "mrp_inv K s \<Longrightarrow> ring_inv_st s"
  by (simp add: mrp_inv_def)

lemma inv_inter: "mrp_inv K s \<Longrightarrow> in_inv_st s"
  by (simp add: mrp_inv_def)

lemma libev_simps:
  assumes "libev_timers e"
  shows "\<not> active (ev_init e w)" "\<not> active (ev_timer_stop e w)"
    "active (ev_timer_again e w) = (repeat w \<noteq> 0)"
  using assms by (simp_all add: libev_timers_def)

lemmas ring_simps = rearm_ring_test_def clear_no_tc_def set_add_test_def restart_link_count_def
  clear_add_test_def count_transition_def p_from_s_def s_from_p_def set_defs timer_defs Let_def

section \<open>Ring frames\<close>


lemma mrp_mrm_recv_ring_test_inv:
  assumes i: "mrp_inv K s"
    and role: "ring_role (mrp s) = BR_MRP_RING_ROLE_MRM \<or> mra_support (mrp s)"
  shows "ok (mrp_mrm_recv_ring_test e s) (mrp_inv K)"
  using inv_ring [OF i] role
  by (cases "mrm_state (mrp s)") ((rule wp conjI impI | simp add: i mrp_mrm_recv_ring_test_def inv_facts [OF i] inv_inter [OF i]
      ring_simps mrp_inv_def ring_inv_def)+)

lemma mrp_mra_recv_ring_test_inv:
  assumes i: "mrp_inv K s"
  shows "ok (mrp_mra_recv_ring_test e hdr s) (mrp_inv K)"
  using inv_ring [OF i] 
  by - ((rule wp conjI impI | simp add: i mrp_mra_recv_ring_test_def inv_facts [OF i] inv_inter [OF i]
      ring_simps mrp_inv_def ring_inv_def)+)

lemma mrp_recv_ring_test_inv:
  assumes i: "mrp_inv K s"
    and p: "live p (port s)"
    and role: "ring_role (mrp s) = BR_MRP_RING_ROLE_MRM \<or> mra_support (mrp s)"
  shows "ok (mrp_recv_ring_test e p buf s) (mrp_inv K)"
  using inv_ring [OF i] 
  by - ((rule wp conjI impI | simp add: i mrp_recv_ring_test_def p role mrp_mrm_recv_ring_test_inv mrp_mra_recv_ring_test_inv inv_facts [OF i] inv_inter [OF i]
      ring_simps mrp_inv_def ring_inv_def)+)

lemma mrp_mra_recv_ring_topo_inv:
  assumes i: "mrp_inv K s"
    and p: "live p (port s)"
  shows "ok (mrp_mra_recv_ring_topo e p buf s) (mrp_inv K)"
  using inv_ring [OF i] 
  by - ((rule wp conjI impI | simp add: i mrp_mra_recv_ring_topo_def p inv_facts [OF i] inv_inter [OF i]
      ring_simps mrp_inv_def ring_inv_def)+)

lemma mrp_mrc_recv_ring_topo_inv:
  assumes i: "mrp_inv K s" and e: "libev_timers e"
    and p: "live p (port s)"
    and role: "ring_role (mrp s) = BR_MRP_RING_ROLE_MRC \<or> mra_support (mrp s)"
  shows "ok (mrp_mrc_recv_ring_topo e p buf s) (mrp_inv K)"
  using inv_ring [OF i] role
  by (cases "mrc_state (mrp s)") ((rule wp conjI impI | simp add: i mrp_mrc_recv_ring_topo_def p inv_facts [OF i] inv_inter [OF i] libev_simps [OF e]
      ring_simps mrp_inv_def ring_inv_def)+)

lemma mrp_recv_ring_topo_inv:
  assumes i: "mrp_inv K s" and e: "libev_timers e"
    and p: "live p (port s)"
    and role: "ring_role (mrp s) = BR_MRP_RING_ROLE_MRC \<or> mra_support (mrp s)"
  shows "ok (mrp_recv_ring_topo e p buf s) (mrp_inv K)"
  using inv_ring [OF i] 
  by - ((rule wp conjI impI | simp add: i mrp_recv_ring_topo_def p role mrp_mra_recv_ring_topo_inv mrp_mrc_recv_ring_topo_inv e inv_facts [OF i] inv_inter [OF i] libev_simps [OF e]
      ring_simps mrp_inv_def ring_inv_def)+)

lemma ring_link_prm_up_inv:
  assumes i: "mrp_inv K s"
    and st: "mrm_state (mrp s) = MRP_MRM_STATE_PRM_UP"
  shows "ok (ring_link_prm_up e ty s) (mrp_inv K)"
  using inv_ring [OF i] 
  by - ((rule wp conjI impI | simp add: i ring_link_prm_up_def st inv_facts [OF i] inv_inter [OF i]
      ring_simps mrp_inv_def ring_inv_def)+)

lemma ring_link_chk_ro_inv:
  assumes i: "mrp_inv K s"
    and st: "mrm_state (mrp s) = MRP_MRM_STATE_CHK_RO"
  shows "ok (ring_link_chk_ro e ty s) (mrp_inv K)"
  using inv_ring [OF i] 
  by - ((rule wp conjI impI | simp add: i ring_link_chk_ro_def st inv_facts [OF i] inv_inter [OF i]
      ring_simps mrp_inv_def ring_inv_def)+)

lemma ring_link_chk_rc_inv:
  assumes i: "mrp_inv K s"
    and st: "mrm_state (mrp s) = MRP_MRM_STATE_CHK_RC"
    and role: "ring_role (mrp s) = BR_MRP_RING_ROLE_MRM \<or> mra_support (mrp s)"
  shows "ok (ring_link_chk_rc e ty s) (mrp_inv K)"
  using inv_ring [OF i] role
  by - ((rule wp conjI impI | simp add: i ring_link_chk_rc_def st inv_facts [OF i] inv_inter [OF i]
      ring_simps mrp_inv_def ring_inv_def)+)

lemma mrp_recv_ring_link_inv:
  assumes i: "mrp_inv K s"
    and p: "live p (port s)"
    and role: "ring_role (mrp s) = BR_MRP_RING_ROLE_MRM \<or> mra_support (mrp s)"
  shows "ok (mrp_recv_ring_link e p buf s) (mrp_inv K)"
  using inv_ring [OF i] 
  by (cases "mrm_state (mrp s)") ((rule wp conjI impI | simp add: i mrp_recv_ring_link_def p role ring_link_prm_up_inv ring_link_chk_ro_inv ring_link_chk_rc_inv inv_facts [OF i] inv_inter [OF i]
      ring_simps mrp_inv_def ring_inv_def)+)

text \<open>The address fields of the option headers are six bytes of the copied frame.\<close>

lemma core_ok_ring_mac:
  "core_ok a b c d m r pm \<Longrightarrow> length r' = 6 \<Longrightarrow> core_ok a b c d m r' pm"
  by (simp add: core_ok_def)

lemma nack_sa_length [simp]: "8 \<le> length buf \<Longrightarrow> length (nack_sa (dec_nack buf)) = 6"
  by (simp add: dec_nack_def)

lemma tprop_other_sa_length [simp]: "16 \<le> length buf \<Longrightarrow> length (tprop_other_sa (dec_tprop buf)) = 6"
  by (simp add: dec_tprop_def)

lemma mrp_recv_nack_inv:
  assumes i: "mrp_inv K s"
    and p: "live p (port s)" and b: "10 \<le> length buf"
  shows "ok (mrp_recv_nack e p buf s) (mrp_inv K)"
  using inv_ring [OF i] b
  by (cases "mrm_state (mrp s)") ((rule wp conjI impI | simp add: i mrp_recv_nack_def become_mrc_def mrp_set_ring_role_def emit_def p core_ok_ring_mac [OF inv_facts(1) [OF i]] inv_facts [OF i] inv_inter [OF i]
      ring_simps mrp_inv_def ring_inv_def)+)

lemma mrp_recv_propagate_inv:
  assumes i: "mrp_inv K s"
    and p: "live p (port s)" and b: "18 \<le> length buf"
  shows "ok (mrp_recv_propagate p buf s) (mrp_inv K)"
  using inv_ring [OF i] b
  by - ((rule wp conjI impI | simp add: i mrp_recv_propagate_def p core_ok_ring_mac [OF inv_facts(1) [OF i]] inv_facts [OF i] inv_inter [OF i]
      ring_simps mrp_inv_def ring_inv_def)+)

lemma mrp_recv_option_inv:
  assumes i: "mrp_inv K s"
    and p: "live p (port s)" and b: "28 \<le> length buf"
  shows "ok (mrp_recv_option e p buf s) (mrp_inv K)"
  using inv_ring [OF i] b
  by - ((rule wp conjI impI | simp add: i mrp_recv_option_def p mrp_recv_nack_inv mrp_recv_propagate_inv inv_facts [OF i] inv_inter [OF i]
      ring_simps mrp_inv_def ring_inv_def)+)

section \<open>Interconnection frames\<close>

lemma mrp_mim_recv_in_test_inv:
  assumes i: "mrp_inv K s"
    and role: "in_role (mrp s) = BR_MRP_IN_ROLE_MIM"
  shows "ok (mrp_mim_recv_in_test e s) (mrp_inv K)"
  using inv_inter [OF i] 
  by (cases "mim_state (mrp s)") ((rule wp conjI impI | simp del: not_None_eq add: i mrp_mim_recv_in_test_def rearm_in_test_def role inv_facts [OF i] inv_in [OF i] inv_ring [OF i]
      ring_simps mrp_inv_def in_inv_def)+)

lemma mrp_recv_in_test_inv:
  assumes i: "mrp_inv K s"
    and p: "live p (port s)" and role: "in_role (mrp s) = BR_MRP_IN_ROLE_MIM"
  shows "ok (mrp_recv_in_test e p buf s) (mrp_inv K)"
  using inv_inter [OF i] 
  by - ((rule wp conjI impI | simp del: not_None_eq add: i mrp_recv_in_test_def p role mrp_mim_recv_in_test_inv inv_facts [OF i] inv_ring [OF i]
      ring_simps mrp_inv_def in_inv_def)+)

lemma mic_recv_in_topo_inv:
  assumes i: "mrp_inv K s" and e: "libev_timers e"
    and role: "in_role (mrp s) = BR_MRP_IN_ROLE_MIC"
  shows "ok (mic_recv_in_topo e hdr s) (mrp_inv K)"
  using inv_inter [OF i] 
  by (cases "mic_state (mrp s)") ((rule wp conjI impI | simp del: not_None_eq add: i mic_recv_in_topo_def role inv_facts [OF i] inv_in [OF i] inv_ring [OF i] libev_simps [OF e]
      ring_simps mrp_inv_def in_inv_def)+)

lemma mrp_recv_in_link_inv:
  assumes i: "mrp_inv K s"
    and p: "live p (port s)" and role: "in_role (mrp s) = BR_MRP_IN_ROLE_MIM"
  shows "ok (mrp_recv_in_link e p buf s) (mrp_inv K)"
  using inv_inter [OF i] 
  by (cases "mim_state (mrp s)") ((rule wp conjI impI | simp del: not_None_eq add: i mrp_recv_in_link_def p role inv_facts [OF i] inv_in [OF i] inv_ring [OF i]
      ring_simps mrp_inv_def in_inv_def)+)

lemma mrp_recv_in_topo_inv:
  assumes i: "mrp_inv K s" and e: "libev_timers e" and p: "live p (port s)"
  shows "ok (mrp_recv_in_topo e p buf s) (mrp_inv K)"
proof -
  let ?h = "dec_itopo (drop (2 + 2) buf)"
  have mrm: "ok (if b then mrp_ring_topo_req e t s else Some s) (mrp_inv K)" for b t
    by (cases b; simp add: i)
      (rule wp; simp add: inv_facts [OF i] inv_ring [OF i] inv_inter [OF i] mrp_inv_def)
  have mim: "ok (mrp_clear_fdb_start e t x) (\<lambda>y. mrp_inv K y \<and> in_role (mrp y) = in_role (mrp x))"
    if "mrp_inv K x" for t x
    by (rule wp; simp add: inv_facts [OF that] inv_ring [OF that] inv_inter [OF that] mrp_inv_def)
  have rest: "ok (if in_role (mrp x) = BR_MRP_IN_ROLE_MIM \<and> ether_addr_equal (itopo_sa ?h) (macaddr (mrp x))
     then Some x
     else do {
       x \<leftarrow> (if in_role (mrp x) = BR_MRP_IN_ROLE_MIM
            then mrp_clear_fdb_start e (topo_us (itopo_interval ?h)) x else Some x);
       if in_role (mrp x) = BR_MRP_IN_ROLE_MIC then mic_recv_in_topo e ?h x else Some x
     }) (mrp_inv K)" if x: "mrp_inv K x" for x
    using x e by (cases "in_role (mrp x)") (auto intro!: ok_mono [OF mim [OF x]] mic_recv_in_topo_inv)
  obtain q where "deref_mrp p s = Some q"
    using live_deref [OF p] by blast
  then show ?thesis
    unfolding mrp_recv_in_topo_def
    by (simp only: Let_def Option.bind.simps ok_bind) (rule ok_mono [OF mrm], erule rest)
qed

end
