(* ===== verification/Mrp_Inv_Link.thy ===== *)
theory Mrp_Inv_Link
  imports Mrp_Inv
begin

text \<open>
  Link changes of the ports keep the invariant of the instance and do not crash.
\<close>

section \<open>State machines\<close>

lemma mrp_mrm_port_link_primary_inv:
  assumes i: "mrp_inv K s"
    and role: "ring_role (mrp s) = BR_MRP_RING_ROLE_MRM"
  shows "ok (mrp_mrm_port_link e (p_port (mrp s)) up s) (mrp_inv K)"
  using inv_ring [OF i] 
  by (cases "mrm_state (mrp s)"; cases up) ((rule wp conjI impI | simp add: i mrp_mrm_port_link_def role inv_facts [OF i] inv_inter [OF i]
      ring_simps mrp_inv_def ring_inv_def)+)

lemma mrp_mrc_port_link_primary_inv:
  assumes i: "mrp_inv K s" and e: "libev_timers e"
    and role: "ring_role (mrp s) = BR_MRP_RING_ROLE_MRC"
  shows "ok (mrp_mrc_port_link e (p_port (mrp s)) up s) (mrp_inv K)"
  using inv_ring [OF i] 
  by (cases "mrc_state (mrp s)"; cases up) ((rule wp conjI impI | simp add: i mrp_mrc_port_link_def report_link_def role inv_facts [OF i] inv_inter [OF i] libev_simps [OF e]
      ring_simps mrp_inv_def ring_inv_def)+)

lemma mrp_mrm_port_link_secondary_inv:
  assumes i: "mrp_inv K s"
    and role: "ring_role (mrp s) = BR_MRP_RING_ROLE_MRM"
  shows "ok (mrp_mrm_port_link e (s_port (mrp s)) up s) (mrp_inv K)"
  using inv_ring [OF i] 
  by (cases "mrm_state (mrp s)"; cases up) ((rule wp conjI impI | simp add: i mrp_mrm_port_link_def role inv_facts [OF i] inv_inter [OF i]
      ring_simps mrp_inv_def ring_inv_def)+)

lemma mrp_mrc_port_link_secondary_inv:
  assumes i: "mrp_inv K s" and e: "libev_timers e"
    and role: "ring_role (mrp s) = BR_MRP_RING_ROLE_MRC"
  shows "ok (mrp_mrc_port_link e (s_port (mrp s)) up s) (mrp_inv K)"
  using inv_ring [OF i] 
  by (cases "mrc_state (mrp s)"; cases up) ((rule wp conjI impI | simp add: i mrp_mrc_port_link_def report_link_def role inv_facts [OF i] inv_inter [OF i] libev_simps [OF e]
      ring_simps mrp_inv_def ring_inv_def)+)

lemma mrp_mim_port_link_inv:
  assumes i: "mrp_inv K s"
    and p: "live p (port s)" and role: "in_role (mrp s) = BR_MRP_IN_ROLE_MIM"
  shows "ok (mrp_mim_port_link e p up s) (mrp_inv K)"
  using inv_inter [OF i] 
  by (cases "mim_state (mrp s)"; cases up) ((rule wp conjI impI | simp del: not_None_eq add: i mrp_mim_port_link_def rearm_in_test_def mode_inv_def inv_mode [OF i] p role inv_facts [OF i] inv_in [OF i] inv_ring [OF i]
      ring_simps mrp_inv_def in_inv_def)+)

lemma mic_link_up_inv:
  assumes i: "mrp_inv K s" and e: "libev_timers e"
    and role: "in_role (mrp s) = BR_MRP_IN_ROLE_MIC" and st: "mic_state (mrp s) = MRP_MIC_STATE_AC_STAT1"
  shows "ok (mic_link_up e s) (mrp_inv K)"
  using inv_inter [OF i] 
  by - ((rule wp conjI impI | simp del: not_None_eq add: i mic_link_up_def restart_in_link_count_def report_in_link_def role st inv_facts [OF i] inv_in [OF i] inv_ring [OF i] libev_simps [OF e]
      ring_simps mrp_inv_def in_inv_def)+)

lemma mic_link_down_inv:
  assumes i: "mrp_inv K s" and e: "libev_timers e"
    and role: "in_role (mrp s) = BR_MRP_IN_ROLE_MIC"
    and st: "stop_up \<or> mic_state (mrp s) \<noteq> MRP_MIC_STATE_PT"
  shows "ok (mic_link_down e stop_up s) (mrp_inv K)"
  using inv_inter [OF i] st
  by - ((rule wp conjI impI | simp del: not_None_eq add: i mic_link_down_def restart_in_link_count_def report_in_link_def role inv_facts [OF i] inv_in [OF i] inv_ring [OF i] libev_simps [OF e]
      ring_simps mrp_inv_def in_inv_def)+)

lemma mrp_mic_port_link_inv:
  assumes i: "mrp_inv K s" and e: "libev_timers e"
    and p: "live p (port s)" and role: "in_role (mrp s) = BR_MRP_IN_ROLE_MIC"
  shows "ok (mrp_mic_port_link e p up s) (mrp_inv K)"
  by (cases "mic_state (mrp s)"; cases up) ((rule wp conjI impI | simp add: i e p role mrp_mic_port_link_def
      mic_link_up_inv mic_link_down_inv)+)

lemma oper_inv:
  "mrp_inv K s \<Longrightarrow> mrp_inv K (s\<lparr>port := set_oper p x (port s)\<rparr>)"
  by (simp add: mrp_inv_def)

text \<open>A live port of the instance is one of its three.\<close>

lemma live_cases:
  assumes i: "mrp_inv K s" and l: "live p (port s)" and r: "port_role_of (the p) = prole q"
  shows "mrp_is_ring_port q \<Longrightarrow> p = p_port (mrp s) \<or> p = s_port (mrp s)"
proof -
  obtain r where p: "p = Some r" using l by (auto simp: live_def)
  assume "mrp_is_ring_port q"
  then have "r = PORT_PRIMARY \<or> r = PORT_SECONDARY"
    using assms(3) unfolding p mrp_is_ring_port_def by (cases r) auto
  then show ?thesis
    using inv_facts(1) [OF i] unfolding p core_ok_def by auto
qed

lemma mrp_port_link_change_inv:
  assumes i: "mrp_inv K s" and e: "libev_timers e" and p: "live p (port s)"
  shows "ok (mrp_port_link_change e p up s) (mrp_inv K)"
proof -
  let ?x = "if up then IF_OPER_UP else IF_OPER_DOWN"
  let ?s = "s\<lparr>port := set_oper p ?x (port s)\<rparr>"
  obtain q where q: "deref p s = Some q" "pmrp q" "port_role_of (the p) = prole q"
    using live_deref [OF p] by blast
  have upd: "upd_port p (\<lambda>q. q\<lparr>poperstate := ?x\<rparr>) s = Some ?s"
    using p by (auto simp: live_def slot_ok_def upd_port_def set_oper_def)
  have j: "mrp_inv K ?s" and l: "live p (port ?s)"
    using i p by (simp_all add: oper_inv)
  have "mrp_is_ring_port q \<Longrightarrow> ring_role (mrp s) = BR_MRP_RING_ROLE_MRM \<Longrightarrow> ok (mrp_mrm_port_link e p up ?s) (mrp_inv K)"
    using live_cases [OF i p q(3)] mrp_mrm_port_link_primary_inv [OF j] mrp_mrm_port_link_secondary_inv [OF j]
    by auto
  moreover have "mrp_is_ring_port q \<Longrightarrow> ring_role (mrp s) = BR_MRP_RING_ROLE_MRC \<Longrightarrow> ok (mrp_mrc_port_link e p up ?s) (mrp_inv K)"
    using live_cases [OF i p q(3)] mrp_mrc_port_link_primary_inv [OF j e] mrp_mrc_port_link_secondary_inv [OF j e]
    by auto
  ultimately show ?thesis
    using mrp_mim_port_link_inv [OF j l] mrp_mic_port_link_inv [OF j e l] i j
    by (simp add: mrp_port_link_change_def q(1) upd mrp_is_mrp_port_def)
qed

lemma mrp_mim_port_link_role:
  assumes i: "mrp_inv K s" and p: "live p (port s)" and role: "in_role (mrp s) = BR_MRP_IN_ROLE_MIM"
  shows "ok (mrp_mim_port_link e p up s) (\<lambda>x. in_role (mrp x) = BR_MRP_IN_ROLE_MIM)"
proof (rule ok_mono [OF mrp_mim_port_link_inv [OF i p role]])
  fix x
  assume "mrp_inv K x"
  then have "cfg (mrp x) = cfg (mrp s)" using i by (simp add: mrp_inv_def)
  then show "in_role (mrp x) = BR_MRP_IN_ROLE_MIM" using role by (metis cfg_sel(3))
qed

lemma cfm_link_change_inv:
  assumes i: "mrp_inv K s" and e: "libev_timers e"
  shows "ok (cfm_link_change e defect s) (mrp_inv K)"
proof (cases "i_port (mrp s) = None")
  case False
  define x where "x = (if defect = 0 then IF_OPER_UP else IF_OPER_DOWN)"
  let ?s = "s\<lparr>port := set_oper (i_port (mrp s)) x (port s)\<rparr>"
  have l: "live (i_port (mrp s)) (port s)"
    using core_okD(9) [OF inv_facts(1) [OF i] False] .
  have upd: "upd_port (i_port (mrp s)) (\<lambda>q. q\<lparr>poperstate := x\<rparr>) s = Some ?s"
    using l by (auto simp: live_def slot_ok_def upd_port_def set_oper_def)
  have j: "mrp_inv K ?s" and l': "live (i_port (mrp s)) (port ?s)"
    using i l by (simp_all add: oper_inv)
  have keep: "ok (mrp_mim_port_link e (i_port (mrp s)) up ?s) (\<lambda>x. mrp_inv K x \<and> in_role (mrp x) = BR_MRP_IN_ROLE_MIM)"
    if role: "in_role (mrp s) = BR_MRP_IN_ROLE_MIM" for up
    using role mrp_mim_port_link_inv [OF j l'] mrp_mim_port_link_role [OF j l'] by (intro ok_conj) simp_all
  show ?thesis
    using mrp_mic_port_link_inv [OF j e l'] False j
    by (cases "in_role (mrp s)")
      (auto simp: cfm_link_change_def upd simp flip: x_def simp del: not_None_eq intro!: ok_mono [OF keep])
qed (simp add: cfm_link_change_def i)

end
