(* ===== verification/Mrp_Config.thy ===== *)
theory Mrp_Config
  imports Mrp_Link
begin

text \<open>
  Configuration of one instance, \<^verbatim>\<open>state_machine.c\<close>: the recovery profiles, the creation and
  release of ports, and the functions that give an instance its ring and interconnection
  roles.  The operations on the list of instances are in \<open>Mrp_Daemon\<close>.
\<close>

section \<open>Recovery profiles\<close>

definition ms :: "u32 \<Rightarrow> u32" where
  "ms v = v * 1000"

text \<open>The two switches of \<open>mrp_update_recovery\<close>; a value that is no profile changes nothing.\<close>

fun set_ring_profile :: "mrp_ring_recovery_type \<Rightarrow> mrp \<Rightarrow> mrp" where
  "set_ring_profile MRP_RING_RECOVERY_500 m = m\<lparr>
     ring_topo_conf_interval := ms 20, ring_topo_conf_max := 3, ring_topo_curr_max := 3 - 1,
     ring_test_conf_short := ms 30, ring_test_conf_interval := ms 50, ring_test_conf_max := 5,
     ring_test_curr_max := 5, ring_mon_curr_max := 5, ring_test_conf_ext_max := 15,
     ring_link_conf_interval := ms 100, ring_link_conf_max := 4, ring_link_curr_max := 0\<rparr>"
| "set_ring_profile MRP_RING_RECOVERY_200 m = m\<lparr>
     ring_topo_conf_interval := ms 10, ring_topo_conf_max := 3, ring_topo_curr_max := 3 - 1,
     ring_test_conf_short := ms 10, ring_test_conf_interval := ms 20, ring_test_conf_max := 3,
     ring_test_curr_max := 3, ring_mon_curr_max := 3, ring_test_conf_ext_max := 15,
     ring_link_conf_interval := ms 20, ring_link_conf_max := 4, ring_link_curr_max := 0\<rparr>"
| "set_ring_profile MRP_RING_RECOVERY_30 m = m\<lparr>
     ring_topo_conf_interval := 500, ring_topo_conf_max := 3, ring_topo_curr_max := 3 - 1,
     ring_test_conf_short := ms 1, ring_test_conf_interval := 3500, ring_test_conf_max := 3,
     ring_test_curr_max := 3, ring_mon_curr_max := 3, ring_test_conf_ext_max := 15,
     ring_link_conf_interval := ms 1, ring_link_conf_max := 4, ring_link_curr_max := 0\<rparr>"
| "set_ring_profile MRP_RING_RECOVERY_10 m = m\<lparr>
     ring_topo_conf_interval := 500, ring_topo_conf_max := 3, ring_topo_curr_max := 3 - 1,
     ring_test_conf_short := 500, ring_test_conf_interval := ms 1, ring_test_conf_max := 3,
     ring_test_curr_max := 3, ring_mon_curr_max := 3, ring_test_conf_ext_max := 15,
     ring_link_conf_interval := ms 1, ring_link_conf_max := 4, ring_link_curr_max := 0\<rparr>"
| "set_ring_profile (MRP_RING_RECOVERY_OTHER n) m = m"

fun set_in_profile :: "mrp_in_recovery_type \<Rightarrow> mrp \<Rightarrow> mrp" where
  "set_in_profile MRP_IN_RECOVERY_500 m = m\<lparr>
     in_topo_conf_interval := ms 20, in_topo_conf_max := 3, in_topo_curr_max := 3 - 1,
     in_test_conf_interval := ms 50, in_test_conf_max := 8, in_test_curr_max := 8,
     in_link_conf_interval := ms 20, in_link_conf_max := 4, in_link_curr_max := 0,
     in_link_status_conf_interval := ms 20, in_link_status_conf_max := 8,
     in_link_status_curr_max := 0, cfm_ccm_period := ms 10 * 1000\<rparr>"
| "set_in_profile MRP_IN_RECOVERY_200 m = m\<lparr>
     in_topo_conf_interval := ms 10, in_topo_conf_max := 3, in_topo_curr_max := 3 - 1,
     in_test_conf_interval := ms 20, in_test_conf_max := 8, in_test_curr_max := 8,
     in_link_conf_interval := ms 20, in_link_conf_max := 4, in_link_curr_max := 0,
     in_link_status_conf_interval := ms 20, in_link_status_conf_max := 8,
     in_link_status_curr_max := 0, cfm_ccm_period := ms 10 * 1000\<rparr>"
| "set_in_profile (MRP_IN_RECOVERY_OTHER n) m = m"

definition mrp_update_recovery ::
  "env \<Rightarrow> mrp_ring_recovery_type \<Rightarrow> mrp_in_recovery_type \<Rightarrow> mrp \<Rightarrow> mrp" where
  "mrp_update_recovery e rr ir m = (
     let m = m\<lparr>ring_recv := rr, in_recv := ir\<rparr>;
         m = set_ring_profile rr m;
         m = m\<lparr>ring_topo_conf_interval := ring_topo_conf_interval m * time_factor e,
               ring_test_conf_short := ring_test_conf_short m * time_factor e,
               ring_test_conf_interval := ring_test_conf_interval m * time_factor e,
               ring_link_conf_interval := ring_link_conf_interval m * time_factor e\<rparr>;
         m = set_in_profile ir m
     in m\<lparr>in_topo_conf_interval := in_topo_conf_interval m * time_factor e,
          in_test_conf_interval := in_test_conf_interval m * time_factor e,
          in_link_conf_interval := in_link_conf_interval m * time_factor e,
          in_link_status_conf_interval := in_link_status_conf_interval m * time_factor e\<rparr>)"

section \<open>Ports\<close>

definition ENOMEM :: int where "ENOMEM = 12"
definition EINVAL :: int where "EINVAL = 22"

fun slot_of :: "br_mrp_port_role_type \<Rightarrow> port_ref" where
  "slot_of BR_MRP_PORT_ROLE_PRIMARY = PORT_PRIMARY"
| "slot_of BR_MRP_PORT_ROLE_SECONDARY = PORT_SECONDARY"
| "slot_of BR_MRP_PORT_ROLE_INTER = PORT_INTER"

text \<open>The fields \<open>mrp_port_init\<close> sets in the zeroed object.\<close>

definition new_port :: "env \<Rightarrow> effect list \<Rightarrow> u32 \<Rightarrow> br_mrp_port_role_type \<Rightarrow> mrp_port" where
  "new_port e l idx role = \<lparr>
     pmrp = True, pstate = BR_MRP_PORT_STATE_DISABLED, prole = role, pifindex = idx,
     pifname = (case if_indextoname e idx of None \<Rightarrow> [] | Some n \<Rightarrow> n),
     pmacaddr = if_get_mac e l idx (replicate ETH_ALEN 0), poperstate = 0\<rparr>"

definition mrp_port_init :: "env \<Rightarrow> u32 \<Rightarrow> br_mrp_port_role_type \<Rightarrow> st \<Rightarrow> int \<times> st" where
  "mrp_port_init e idx role s =
    (if \<not> malloc_ok e (log s) (sizeof_mrp_port e) then (- ENOMEM, s)
     else
       let s = emit (Malloc_port role) s;
           q = new_port e (log s) idx role;
           r = slot_of role;
           s = s\<lparr>port := (port s)(r \<mapsto> q)\<rparr>;
           s = (if role = BR_MRP_PORT_ROLE_PRIMARY then s\<lparr>mrp := (mrp s)\<lparr>p_port := Some r\<rparr>\<rparr> else s);
           s = (if role = BR_MRP_PORT_ROLE_SECONDARY then s\<lparr>mrp := (mrp s)\<lparr>s_port := Some r\<rparr>\<rparr> else s);
           s = (if role = BR_MRP_PORT_ROLE_INTER then s\<lparr>mrp := (mrp s)\<lparr>i_port := Some r\<rparr>\<rparr> else s)
       in (0, s))"

definition mrp_port_uninit :: "port_ref option \<Rightarrow> st \<Rightarrow> st option" where
  "mrp_port_uninit p s =
    (case p of None \<Rightarrow> Some s
     | Some r \<Rightarrow> do {
         q \<leftarrow> deref p s;
         if \<not> pmrp q then Some s
         else do {
           s \<leftarrow> mrp_lock s;
           let s = s\<lparr>port := (port s)(r := None)\<rparr>;
           Some (mrp_unlock s)
         }
       })"

text \<open>\<open>if (p) free(p)\<close>: freeing an object twice is a crash.\<close>

definition free_port :: "port_ref option \<Rightarrow> st \<Rightarrow> st option" where
  "free_port p s =
    (case p of None \<Rightarrow> Some s
     | Some r \<Rightarrow> do { _ \<leftarrow> deref p s; Some (s\<lparr>port := (port s)(r := None)\<rparr>) })"

section \<open>Ring roles\<close>

text \<open>The end the three ring role functions share: block both ports, set the role in the driver,
  then treat the ports that have a link as if it came up now.\<close>

definition enter_ring_role ::
  "env \<Rightarrow> br_mrp_ring_role_type \<Rightarrow> st \<Rightarrow> (int \<times> st) option" where
  "enter_ring_role e role s = do {
     s \<leftarrow> set_port e (p_port (mrp s)) BR_MRP_PORT_STATE_BLOCKED s;
     s \<leftarrow> set_port e (s_port (mrp s)) BR_MRP_PORT_STATE_BLOCKED s;
     let (err, s) = mrp_set_ring_role e role s;
     if err \<noteq> 0 then Some (err, s)
     else do {
       up \<leftarrow> mrp_is_port_up e (p_port (mrp s)) s;
       s \<leftarrow> (if up then mrp_port_link_change e (p_port (mrp s)) True s else Some s);
       up \<leftarrow> mrp_is_port_up e (s_port (mrp s)) s;
       s \<leftarrow> (if up then mrp_port_link_change e (s_port (mrp s)) True s else Some s);
       Some (0, s)
     }
   }"

definition mrp_set_mra_role :: "env \<Rightarrow> st \<Rightarrow> (int \<times> st) option" where
  "mrp_set_mra_role e s =
    (if p_port (mrp s) = None \<or> s_port (mrp s) = None then Some (- EINVAL, s)
     else
       let s = s\<lparr>mrp := (mrp s)\<lparr>mra_support := True\<rparr>\<rparr>;
           s = mrp_reset_ring_state e s;
           s = mrp_set_mrm_init s;
           s = mrp_set_mrc_init s;
           s = mrp_set_mrm_state MRP_MRM_STATE_AC_STAT1 s
       in enter_ring_role e BR_MRP_RING_ROLE_MRM s)"

definition mrp_set_mrm_role :: "env \<Rightarrow> st \<Rightarrow> (int \<times> st) option" where
  "mrp_set_mrm_role e s =
    (if p_port (mrp s) = None \<or> s_port (mrp s) = None then Some (- EINVAL, s)
     else
       let s = mrp_reset_ring_state e s;
           s = mrp_set_mrm_init s;
           s = mrp_set_mrm_state MRP_MRM_STATE_AC_STAT1 s
       in enter_ring_role e BR_MRP_RING_ROLE_MRM s)"

definition mrp_set_mrc_role :: "env \<Rightarrow> st \<Rightarrow> (int \<times> st) option" where
  "mrp_set_mrc_role e s =
    (if p_port (mrp s) = None \<or> s_port (mrp s) = None then Some (- EINVAL, s)
     else
       let s = mrp_reset_ring_state e s;
           s = mrp_set_mrc_init s;
           s = mrp_set_mrc_state MRP_MRC_STATE_AC_STAT1 s
       in enter_ring_role e BR_MRP_RING_ROLE_MRC s)"

section \<open>Interconnection roles\<close>

text \<open>\<open>mrp_set_mim_role\<close> and \<open>mrp_set_mic_role\<close> up to the test of the link: the error, or whether
  the interconnection port has a link.  What follows may search the list of instances
  and is in \<open>Mrp_Daemon\<close>.\<close>

definition mim_role_enter :: "env \<Rightarrow> st \<Rightarrow> ((int + bool) \<times> st) option" where
  "mim_role_enter e s =
    (if i_port (mrp s) = None then Some (Inl (- EINVAL), s)
     else do {
       let s = s\<lparr>mrp := (mrp s)\<lparr>mim_state := MRP_MIM_STATE_AC_STAT1, mic_state := MRP_MIC_STATE_AC_STAT1\<rparr>\<rparr>;
       (err, s) \<leftarrow> mrp_set_in_role e BR_MRP_IN_ROLE_MIM s;
       if err \<noteq> 0 then Some (Inl err, s)
       else do {
         let s = mrp_set_mim_state MRP_MIM_STATE_AC_STAT1 s;
         s \<leftarrow> set_port e (i_port (mrp s)) BR_MRP_PORT_STATE_BLOCKED s;
         up \<leftarrow> mrp_is_port_up e (i_port (mrp s)) s;
         Some (Inr up, s)
       }
     })"

definition mic_role_enter :: "env \<Rightarrow> st \<Rightarrow> ((int + bool) \<times> st) option" where
  "mic_role_enter e s =
    (if i_port (mrp s) = None then Some (Inl (- EINVAL), s)
     else do {
       let s = s\<lparr>mrp := (mrp s)\<lparr>mim_state := MRP_MIM_STATE_AC_STAT1, mic_state := MRP_MIC_STATE_AC_STAT1\<rparr>\<rparr>;
       let s = mrp_set_mic_state MRP_MIC_STATE_AC_STAT1 s;
       (err, s) \<leftarrow> mrp_set_in_role e BR_MRP_IN_ROLE_MIC s;
       if err \<noteq> 0 then Some (Inl err, s)
       else do {
         s \<leftarrow> set_port e (i_port (mrp s)) BR_MRP_PORT_STATE_BLOCKED s;
         up \<leftarrow> mrp_is_port_up e (i_port (mrp s)) s;
         Some (Inr up, s)
       }
     })"

section \<open>Connectivity fault management\<close>

text \<open>\<open>strlen\<close> of a string that begins at the head of a block: without a terminating zero it
  reads beyond it.\<close>

definition strlen :: "u8 list \<Rightarrow> nat option" where
  "strlen bs = (if 0 \<in> set bs then Some (length (takeWhile (\<lambda>b. b \<noteq> 0) bs)) else None)"

text \<open>The arguments of \<open>cfm_offload_mep_create\<close> and \<open>cfm_offload_cc_ccm_tx\<close> that are constants
  of the CFM library are left out of the effects.\<close>

definition mrp_start_cfm ::
  "env \<Rightarrow> u32 \<Rightarrow> u32 \<Rightarrow> u32 \<Rightarrow> u32 \<Rightarrow> u8 list \<Rightarrow> ether \<Rightarrow> st \<Rightarrow> st option" where
  "mrp_start_cfm e inst level mepid peer maid dmac s = do {
     let s = s\<lparr>mrp := (mrp s)\<lparr>cfm_mepid := mepid, cfm_peer_mepid := peer, cfm_instance := inst\<rparr>\<rparr>;
     i \<leftarrow> deref (i_port (mrp s)) s;
     let smac = take ETH_ALEN (pmacaddr i);
     let s = s\<lparr>mrp := (mrp s)\<lparr>cfm_ccm_dmac := take ETH_ALEN dmac\<rparr>\<rparr>;
     n \<leftarrow> strlen maid;
     if sizeof_maid_data e < n then None
     else do {
       let data = take n maid @ replicate (sizeof_maid_data e - n) 0;
       let m = mrp s;
       let s = emit (Cfm_offload_mep_create (ifindex m) (cfm_instance m) (pifindex i)) s;
       let s = emit (Cfm_offload_mep_config (ifindex m) (cfm_instance m) smac level mepid) s;
       let s = emit (Cfm_offload_cc_config (ifindex m) (cfm_instance m) data) s;
       let s = emit (Cfm_offload_cc_peer (ifindex m) (cfm_instance m) peer) s;
       let s = emit (Cfm_offload_cc_ccm_tx (ifindex m) (cfm_instance m) (take ETH_ALEN dmac)
                 (cfm_ccm_period m)) s;
       Some (mrp_cfm_ccm_start e (cfm_ccm_period (mrp s)) s)
     }
   }"

definition mrp_delete_cfm :: "st \<Rightarrow> st" where
  "mrp_delete_cfm s = emit (Cfm_offload_mep_delete (ifindex (mrp s)) (cfm_instance (mrp s))) s"

section \<open>Creation\<close>

definition timer_zero :: ev_timer where
  "timer_zero = \<lparr>repeat = 0, active = False\<rparr>"

text \<open>\<open>memset(mrp, 0, sizeof(struct mrp))\<close>\<close>

definition mrp_zero :: mrp where
  "mrp_zero = \<lparr>
     lock = False, ifindex = 0, ifname = [], macaddr = replicate ETH_ALEN 0,
     p_port = None, s_port = None, i_port = None,
     ring_prio = 0, ring_mac = replicate ETH_ALEN 0, ring_nr = 0, in_id = 0, mra_support = False,
     ring_role = BR_MRP_RING_ROLE_DISABLED, ring_recv = MRP_RING_RECOVERY_500,
     in_role = BR_MRP_IN_ROLE_DISABLED, in_mode = MRP_IN_MODE_RC, in_recv = MRP_IN_RECOVERY_500,
     mrm_state = MRP_MRM_STATE_AC_STAT1, mrc_state = MRP_MRC_STATE_AC_STAT1,
     mim_state = MRP_MIM_STATE_AC_STAT1, mic_state = MRP_MIC_STATE_AC_STAT1,
     add_test = False, no_tc = False, ring_transitions = 0, in_transitions = 0, seq_id = 0, prio = 0,
     domain = replicate MRP_DOMAIN_UUID_LENGTH 0,
     clear_fdb_work = timer_zero, ring_test_work = timer_zero,
     ring_test_conf_short = 0, ring_test_conf_interval = 0, ring_test_conf_max = 0,
     ring_test_conf_ext_max = 0, ring_test_curr = 0, ring_test_curr_max = 0,
     ring_mon_curr = 0, ring_mon_curr_max = 0,
     ring_topo_work = timer_zero, ring_topo_conf_interval = 0, ring_topo_conf_max = 0,
     ring_topo_curr_max = 0, ring_topo_running = False,
     ring_link_up_work = timer_zero, ring_link_down_work = timer_zero,
     ring_link_conf_interval = 0, ring_link_conf_max = 0, ring_link_curr_max = 0,
     in_test_work = timer_zero, in_test_conf_short = 0, in_test_conf_interval = 0,
     in_test_conf_max = 0, in_test_conf_ext_max = 0, in_test_curr = 0, in_test_curr_max = 0,
     in_topo_work = timer_zero, in_topo_conf_interval = 0, in_topo_conf_max = 0, in_topo_curr_max = 0,
     in_link_up_work = timer_zero, in_link_down_work = timer_zero,
     in_link_conf_interval = 0, in_link_conf_max = 0, in_link_curr_max = 0,
     in_link_status_work = timer_zero, in_link_status_conf_interval = 0,
     in_link_status_conf_max = 0, in_link_status_curr_max = 0,
     blocked = 0, react_on_link_change = 0,
     cfm_ccm_work = timer_zero, cfm_ccm_period = 0, cfm_instance = 0, cfm_mepid = 0,
     cfm_peer_mepid = 0, cfm_ccm_dmac = replicate ETH_ALEN 0\<rparr>"

text \<open>The instance \<open>mrp_create\<close> puts into the list.\<close>

definition mrp_new :: "env \<Rightarrow> u32 \<Rightarrow> u32 \<Rightarrow> u16 \<Rightarrow> st \<Rightarrow> st" where
  "mrp_new e br nr inid s = (
     let m = mrp_zero\<lparr>ifindex := br, p_port := None, s_port := None, i_port := None, ring_nr := nr,
               in_id := inid, ring_role := BR_MRP_RING_ROLE_MRC, in_role := BR_MRP_IN_ROLE_DISABLED,
               ring_transitions := 0, in_transitions := 0, seq_id := 0, prio := MRP_DEFAULT_PRIO,
               domain := replicate MRP_DOMAIN_UUID_LENGTH 0xFF\<rparr>;
         m = mrp_update_recovery e MRP_RING_RECOVERY_500 MRP_IN_RECOVERY_500 m;
         m = m\<lparr>blocked := 1, react_on_link_change := 1\<rparr>
     in mrp_timer_init e (s\<lparr>mrp := m, port := (\<lambda>_. None)\<rparr>))"

end
