(* ===== verification/Mrp_Daemon.thy ===== *)
theory Mrp_Daemon
  imports Mrp_Config Mrp_Forward Mrp_Expire
begin

text \<open>
  The daemon: the list \<open>mrp_instances\<close> of \<^verbatim>\<open>state_machine.c\<close> and every operation that searches or
  changes it.  An instance is identified by its position in the list, which stands for the
  pointer to it; \<open>stale\<close> collects the timers that are still running when the memory of their
  instance is freed, because libev will call their handlers with a dangling pointer.
\<close>

section \<open>State\<close>

type_synonym inst = "mrp \<times> (port_ref \<Rightarrow> mrp_port option)"

record daemon =
  insts :: "inst list"
  dlog :: "effect list"
  stale :: "timer list"

definition daemon_init :: daemon where
  "daemon_init = \<lparr>insts = [], dlog = [], stale = []\<rparr>"

definition load :: "inst \<Rightarrow> effect list \<Rightarrow> st" where
  "load x l = \<lparr>mrp = fst x, port = snd x, log = l\<rparr>"

text \<open>Run an operation of one instance; a dangling pointer is a crash.\<close>

definition on_inst :: "nat \<Rightarrow> (st \<Rightarrow> ('a \<times> st) option) \<Rightarrow> daemon \<Rightarrow> ('a \<times> daemon) option" where
  "on_inst k f d =
    (if k < length (insts d) then do {
       (r, s) \<leftarrow> f (load (insts d ! k) (dlog d));
       Some (r, d\<lparr>insts := (insts d)[k := (mrp s, port s)], dlog := log s\<rparr>)
     } else None)"

definition run_inst :: "nat \<Rightarrow> (st \<Rightarrow> st option) \<Rightarrow> daemon \<Rightarrow> daemon option" where
  "run_inst k f d = map_option snd (on_inst k (\<lambda>s. map_option (\<lambda>s. ((), s)) (f s)) d)"

section \<open>Searching the list\<close>

fun find_index :: "('a \<Rightarrow> bool) \<Rightarrow> 'a list \<Rightarrow> nat option" where
  "find_index P [] = None"
| "find_index P (x # xs) = (if P x then Some 0 else map_option Suc (find_index P xs))"

definition mrp_find :: "u32 \<Rightarrow> u32 \<Rightarrow> daemon \<Rightarrow> nat option" where
  "mrp_find br nr d = find_index (\<lambda>x. ring_nr (fst x) = nr \<and> ifindex (fst x) = br) (insts d)"

definition mrp_get_mrp :: "u32 \<Rightarrow> u32 \<Rightarrow> daemon \<Rightarrow> nat option" where
  "mrp_get_mrp idx peer d =
     find_index (\<lambda>x. ifindex (fst x) = idx \<and> cfm_peer_mepid (fst x) = peer) (insts d)"

text \<open>\<open>p && p->ifindex == ifindex\<close>\<close>

definition has_ifindex :: "u32 \<Rightarrow> port_ref option \<Rightarrow> (port_ref \<Rightarrow> mrp_port option) \<Rightarrow> bool option" where
  "has_ifindex idx p pm = (case p of None \<Rightarrow> Some False | Some r \<Rightarrow> map_option (\<lambda>q. pifindex q = idx) (pm r))"

fun get_port_from :: "u32 \<Rightarrow> nat \<Rightarrow> inst list \<Rightarrow> (nat \<times> port_ref option) option option" where
  "get_port_from idx k [] = Some None"
| "get_port_from idx k ((m, pm) # xs) = do {
     b \<leftarrow> has_ifindex idx (p_port m) pm;
     if b then Some (Some (k, p_port m))
     else do {
       b \<leftarrow> has_ifindex idx (s_port m) pm;
       if b then Some (Some (k, s_port m))
       else do {
         b \<leftarrow> has_ifindex idx (i_port m) pm;
         if b then Some (Some (k, i_port m))
         else get_port_from idx (Suc k) xs
       }
     }
   }"

definition mrp_get_port :: "u32 \<Rightarrow> daemon \<Rightarrow> (nat \<times> port_ref option) option option" where
  "mrp_get_port idx d = get_port_from idx 0 (insts d)"

section \<open>Events from the kernel\<close>

definition mrp_recv :: "env \<Rightarrow> u32 \<Rightarrow> u8 list \<Rightarrow> u32 \<Rightarrow> daemon \<Rightarrow> daemon option" where
  "mrp_recv e idx buf buf_len d = do {
     found \<leftarrow> mrp_get_port idx d;
     (case found of None \<Rightarrow> Some d
      | Some (k, p) \<Rightarrow> run_inst k (mrp_recv_port e p buf buf_len) d)
   }"

definition mrp_cfm_link_change :: "env \<Rightarrow> u32 \<Rightarrow> u32 \<Rightarrow> u32 \<Rightarrow> daemon \<Rightarrow> daemon option" where
  "mrp_cfm_link_change e br peer defect d =
    (case mrp_get_mrp br peer d of None \<Rightarrow> Some d
     | Some k \<Rightarrow> run_inst k (cfm_link_change e defect) d)"

definition mrp_mac_change :: "u32 \<Rightarrow> ether \<Rightarrow> daemon \<Rightarrow> daemon option" where
  "mrp_mac_change idx mac d = do {
     found \<leftarrow> mrp_get_port idx d;
     (case found of
        Some (k, p) \<Rightarrow> run_inst k (upd_port p (\<lambda>q. q\<lparr>pmacaddr := take ETH_ALEN mac\<rparr>)) d
      | None \<Rightarrow> Some (d\<lparr>insts := map (\<lambda>(m, pm).
            (if ifindex m = idx then m\<lparr>macaddr := take ETH_ALEN mac\<rparr> else m, pm)) (insts d)\<rparr>))
   }"

text \<open>The part of \<open>netlink_listen\<close> (\<^verbatim>\<open>server_cmds.c\<close>) after the attributes have been parsed.
  \<open>port\<close> was looked up before the other attributes were handled.\<close>

definition oper_change :: "env \<Rightarrow> u8 \<Rightarrow> port_ref option \<Rightarrow> st \<Rightarrow> st option" where
  "oper_change e state p s = do {
     q \<leftarrow> deref p s;
     if poperstate q = state then Some s
     else do {
       s \<leftarrow> upd_port p (\<lambda>q. q\<lparr>poperstate := state\<rparr>) s;
       if state \<in> {IF_OPER_NOTPRESENT, IF_OPER_DOWN, IF_OPER_LOWERLAYERDOWN, IF_OPER_TESTING,
                   IF_OPER_DORMANT}
       then mrp_port_link_change e p False s
       else if state = IF_OPER_UNKNOWN then do {
         s \<leftarrow> upd_port p (\<lambda>q. q\<lparr>poperstate := IF_OPER_UP\<rparr>) s;
         mrp_port_link_change e p True s
       }
       else if state = IF_OPER_UP then mrp_port_link_change e p True s
       else Some s
     }
   }"

section \<open>Creating and destroying\<close>

definition mrp_create :: "env \<Rightarrow> u32 \<Rightarrow> u32 \<Rightarrow> u16 \<Rightarrow> daemon \<Rightarrow> int \<times> daemon" where
  "mrp_create e br nr inid d =
    (if \<not> malloc_ok e (dlog d) (sizeof_mrp e) then (- ENOMEM, d)
     else let s = mrp_new e br nr inid (load (mrp_zero, \<lambda>_. None) (dlog d))
          in (0, d\<lparr>insts := insts d @ [(mrp s, port s)]\<rparr>))"

definition all_timers :: "timer list" where
  "all_timers = [Clear_fdb, Ring_topo, Ring_test, Ring_link_up, Ring_link_down,
     In_test, In_topo, In_link_up, In_link_down, In_link_status, Cfm_ccm]"

definition running :: "mrp \<Rightarrow> timer list" where
  "running m = filter (\<lambda>t. active (work t m)) all_timers"

definition remove_nth :: "nat \<Rightarrow> 'a list \<Rightarrow> 'a list" where
  "remove_nth k xs = take k xs @ drop (Suc k) xs"

definition destroy_inst :: "env \<Rightarrow> st \<Rightarrow> st option" where
  "destroy_inst e s = do {
     s \<leftarrow> mrp_lock s;
     let s = mrp_reset_ring_state e s;
     let s = (if in_mode (mrp s) = MRP_IN_MODE_LC then mrp_delete_cfm s else s);
     s \<leftarrow> free_port (p_port (mrp s)) s;
     s \<leftarrow> free_port (s_port (mrp s)) s;
     s \<leftarrow> free_port (i_port (mrp s)) s;
     Some (mrp_unlock s)
   }"

text \<open>The argument \<open>offload\<close> of \<open>mrp_destroy\<close> is not used.\<close>

definition mrp_destroy :: "env \<Rightarrow> u32 \<Rightarrow> u32 \<Rightarrow> daemon \<Rightarrow> daemon option" where
  "mrp_destroy e br nr d =
    (case mrp_find br nr d of None \<Rightarrow> Some d
     | Some k \<Rightarrow> do {
         d \<leftarrow> run_inst k (destroy_inst e) d;
         Some (d\<lparr>stale := stale d @ running (fst (insts d ! k)), insts := remove_nth k (insts d)\<rparr>)
       })"

definition mrp_del :: "env \<Rightarrow> u32 \<Rightarrow> u32 \<Rightarrow> daemon \<Rightarrow> (int \<times> daemon) option" where
  "mrp_del e br nr d =
    (if mrp_find br nr d = None then Some (- EINVAL, d)
     else do { d \<leftarrow> mrp_destroy e br nr d; Some (0, d) })"

text \<open>\<open>list_for_each_entry_safe\<close> over the list: every instance is destroyed by its key.\<close>

fun uninit_loop :: "env \<Rightarrow> (u32 \<times> u32) list \<Rightarrow> daemon \<Rightarrow> daemon option" where
  "uninit_loop e [] d = Some d"
| "uninit_loop e ((br, nr) # ks) d = do { d \<leftarrow> mrp_destroy e br nr d; uninit_loop e ks d }"

definition mrp_uninit :: "env \<Rightarrow> daemon \<Rightarrow> daemon option" where
  "mrp_uninit e d = uninit_loop e (map (\<lambda>(m, _). (ifindex m, ring_nr m)) (insts d)) d"

section \<open>Interconnection roles\<close>

definition in_role_link :: "env \<Rightarrow> nat \<Rightarrow> bool \<Rightarrow> daemon \<Rightarrow> daemon option" where
  "in_role_link e k up d =
    (if up then
       let m = fst (insts d ! k) in
       if in_mode m = MRP_IN_MODE_RC then run_inst k (mrp_port_link_change e (i_port m) True) d
       else mrp_cfm_link_change e (ifindex m) (cfm_peer_mepid m) 0 d
     else Some d)"

definition mrp_set_mim_role :: "env \<Rightarrow> nat \<Rightarrow> daemon \<Rightarrow> (int \<times> daemon) option" where
  "mrp_set_mim_role e k d = do {
     (r, d) \<leftarrow> on_inst k (mim_role_enter e) d;
     (case r of Inl err \<Rightarrow> Some (err, d)
      | Inr up \<Rightarrow> do { d \<leftarrow> in_role_link e k up d; Some (0, d) })
   }"

definition mrp_set_mic_role :: "env \<Rightarrow> nat \<Rightarrow> daemon \<Rightarrow> (int \<times> daemon) option" where
  "mrp_set_mic_role e k d = do {
     (r, d) \<leftarrow> on_inst k (mic_role_enter e) d;
     (case r of Inl err \<Rightarrow> Some (err, d)
      | Inr up \<Rightarrow> do { d \<leftarrow> in_role_link e k up d; Some (0, d) })
   }"

section \<open>mrp_add\<close>

record add_args =
  a_br :: u32
  a_ring_nr :: u32
  a_pport :: u32
  a_sport :: u32
  a_ring_role :: u32
  a_prio :: u16
  a_ring_recv :: u8
  a_react_on_link_change :: u8
  a_in_role :: u32
  a_in_id :: u16
  a_iport :: u32
  a_in_mode :: u32
  a_in_recv :: u8
  a_cfm_instance :: u32
  a_cfm_level :: u32
  a_cfm_mepid :: u32
  a_cfm_peer_mepid :: u32
  a_cfm_maid :: "u8 list"
  a_cfm_dmac :: ether

text \<open>The fields set between \<open>pthread_mutex_lock\<close> and the initialisation of the ports.\<close>

definition add_conf :: "env \<Rightarrow> add_args \<Rightarrow> effect list \<Rightarrow> mrp \<Rightarrow> mrp" where
  "add_conf e a l m = (
     let m = m\<lparr>ifindex := a_br a,
               ifname := (case if_indextoname e (a_br a) of None \<Rightarrow> ifname m | Some n \<Rightarrow> n),
               prio := a_prio a, ring_prio := a_prio a\<rparr>;
         m = mrp_update_recovery e (ring_recv_of (a_ring_recv a)) (in_recv_of (a_in_recv a)) m;
         m = m\<lparr>react_on_link_change := ucast (a_react_on_link_change a),
               in_mode := in_mode_of (a_in_mode a)\<rparr>
     in m\<lparr>macaddr := if_get_mac e l (ifindex m) (macaddr m)\<rparr>)"

text \<open>The initialisation of the ports: the error label to jump to is the number of ports that
  exist, and \<open>Inr\<close> is success.\<close>

definition add_ports :: "env \<Rightarrow> add_args \<Rightarrow> st \<Rightarrow> ((nat \<times> int) + unit) \<times> st" where
  "add_ports e a s = (
     let (err, s) = mrp_port_init e (a_pport a) BR_MRP_PORT_ROLE_PRIMARY s
     in if err < 0 then (Inl (0, err), s)
        else let (err, s) = mrp_port_init e (a_sport a) BR_MRP_PORT_ROLE_SECONDARY s
        in if err < 0 then (Inl (1, err), s)
        else if a_iport a > 0 then
          (let (err, s) = mrp_port_init e (a_iport a) BR_MRP_PORT_ROLE_INTER s
           in if err < 0 then (Inl (2, err), s) else (Inr (), s))
        else (Inr (), s))"

definition add_setup :: "env \<Rightarrow> add_args \<Rightarrow> st \<Rightarrow> ((nat \<times> int) + unit) \<times> st" where
  "add_setup e a s = add_ports e a (s\<lparr>mrp := add_conf e a (log s) (mrp s)\<rparr>)"

text \<open>The CFM start and the ring role, all on the instance; \<open>err\<close> is 0 when no role was asked for.\<close>

definition add_ring :: "env \<Rightarrow> add_args \<Rightarrow> st \<Rightarrow> (int \<times> st) option" where
  "add_ring e a s = do {
     s \<leftarrow> (if in_mode (mrp s) \<noteq> MRP_IN_MODE_RC
          then mrp_start_cfm e (a_cfm_instance a) (a_cfm_level a) (a_cfm_mepid a)
                 (a_cfm_peer_mepid a) (a_cfm_maid a) (a_cfm_dmac a) s
          else Some s);
     if a_ring_role a = ring_role_code BR_MRP_RING_ROLE_MRM then mrp_set_mrm_role e s
     else if a_ring_role a = ring_role_code BR_MRP_RING_ROLE_MRC then mrp_set_mrc_role e s
     else if a_ring_role a = ring_role_code BR_MRP_RING_ROLE_MRA then mrp_set_mra_role e s
     else Some (0, s)
   }"

definition add_in :: "env \<Rightarrow> add_args \<Rightarrow> nat \<Rightarrow> int \<Rightarrow> daemon \<Rightarrow> (int \<times> daemon) option" where
  "add_in e a k err d =
    (if a_in_role a = in_role_code BR_MRP_IN_ROLE_MIM then mrp_set_mim_role e k d
     else if a_in_role a = in_role_code BR_MRP_IN_ROLE_MIC then mrp_set_mic_role e k d
     else Some (err, d))"

text \<open>The labels \<open>clear\<close> (3), \<open>delete_ports\<close> (2), \<open>delete_port\<close> (1) and \<open>delete_mrp\<close> (0): the ports
  that exist are released in the order of the code.\<close>

definition add_release :: "nat \<Rightarrow> st \<Rightarrow> st option" where
  "add_release label s = do {
     s \<leftarrow> (if label \<ge> 3 then do {
            s \<leftarrow> mrp_port_uninit (i_port (mrp s)) s;
            Some (s\<lparr>mrp := (mrp s)\<lparr>i_port := None\<rparr>\<rparr>)
          } else Some s);
     s \<leftarrow> (if label \<ge> 2 then do {
            s \<leftarrow> mrp_port_uninit (s_port (mrp s)) s;
            Some (s\<lparr>mrp := (mrp s)\<lparr>s_port := None\<rparr>\<rparr>)
          } else Some s);
     (if label \<ge> 1 then do {
        s \<leftarrow> mrp_port_uninit (p_port (mrp s)) s;
        Some (s\<lparr>mrp := (mrp s)\<lparr>p_port := None\<rparr>\<rparr>)
      } else Some s)
   }"

definition add_fail :: "env \<Rightarrow> add_args \<Rightarrow> nat \<Rightarrow> nat \<Rightarrow> int \<Rightarrow> daemon \<Rightarrow> (int \<times> daemon) option" where
  "add_fail e a k label err d = do {
     d \<leftarrow> run_inst k (add_release label) d;
     d \<leftarrow> mrp_destroy e (a_br a) (a_ring_nr a) d;
     Some (err, d)
   }"

definition mrp_add :: "env \<Rightarrow> add_args \<Rightarrow> daemon \<Rightarrow> (int \<times> daemon) option" where
  "mrp_add e a d =
    (if mrp_find (a_br a) (a_ring_nr a) d \<noteq> None then Some (- EINVAL, d)
     else
       let (err, d) = mrp_create e (a_br a) (a_ring_nr a) (a_in_id a) d in
       if err < 0 then Some (err, d)
       else (case mrp_find (a_br a) (a_ring_nr a) d of None \<Rightarrow> None
       | Some k \<Rightarrow> do {
           d \<leftarrow> run_inst k mrp_lock d;
           (r, d) \<leftarrow> on_inst k (\<lambda>s. Some (add_setup e a s)) d;
           (case r of
              Inl (label, err) \<Rightarrow> do {
                d \<leftarrow> run_inst k (\<lambda>s. Some (mrp_unlock s)) d;
                add_fail e a k label err d
              }
            | Inr _ \<Rightarrow> do {
                (err, d) \<leftarrow> on_inst k (add_ring e a) d;
                (err, d) \<leftarrow> add_in e a k err d;
                d \<leftarrow> run_inst k (\<lambda>s. Some (mrp_unlock s)) d;
                if err \<noteq> 0 then add_fail e a k 3 err d else Some (0, d)
              })
         }))"

section \<open>mrp_get\<close>

record mrp_status =
  st_br :: u32
  st_ring_nr :: u32
  st_pport :: u32
  st_sport :: u32
  st_mra_support :: u32
  st_ring_role :: u32
  st_ring_state :: int
  st_prio :: u32
  st_ring_recv :: u32
  st_react_on_link_change :: u32
  st_in_role :: u32
  st_in_state :: int
  st_iport :: u32
  st_in_id :: u32
  st_in_mode :: u32
  st_in_recv :: u32

definition status_of :: "st \<Rightarrow> mrp_status \<Rightarrow> mrp_status option" where
  "status_of s x = do {
     let m = mrp s;
     let x = x\<lparr>st_br := ifindex m, st_ring_nr := ring_nr m\<rparr>;
     x \<leftarrow> (case p_port m of None \<Rightarrow> Some x
          | Some _ \<Rightarrow> do { q \<leftarrow> deref (p_port m) s; Some (x\<lparr>st_pport := pifindex q\<rparr>) });
     x \<leftarrow> (case s_port m of None \<Rightarrow> Some x
          | Some _ \<Rightarrow> do { q \<leftarrow> deref (s_port m) s; Some (x\<lparr>st_sport := pifindex q\<rparr>) });
     let x = x\<lparr>st_ring_role := ring_role_code (ring_role m),
               st_mra_support := (if mra_support m then 1 else 0),
               st_prio := ucast (prio m), st_ring_recv := ucast (ring_recv_code (ring_recv m)),
               st_react_on_link_change := react_on_link_change m\<rparr>;
     let x = (if ring_role m = BR_MRP_RING_ROLE_MRM
              then x\<lparr>st_ring_state := mrm_state_code (mrm_state m)\<rparr> else x);
     let x = (if ring_role m = BR_MRP_RING_ROLE_MRC
              then x\<lparr>st_ring_state := mrc_state_code (mrc_state m)\<rparr> else x);
     x \<leftarrow> (case i_port m of None \<Rightarrow> Some x
          | Some _ \<Rightarrow> do { q \<leftarrow> deref (i_port m) s; Some (x\<lparr>st_iport := pifindex q\<rparr>) });
     let x = x\<lparr>st_in_id := ucast (in_id m), st_in_role := in_role_code (in_role m),
               st_in_mode := in_mode_code (in_mode m),
               st_in_recv := ucast (in_recv_code (in_recv m))\<rparr>;
     let x = (case in_role m of
                BR_MRP_IN_ROLE_MIM \<Rightarrow> x\<lparr>st_in_state := mim_state_code (mim_state m)\<rparr>
              | BR_MRP_IN_ROLE_MIC \<Rightarrow> x\<lparr>st_in_state := mic_state_code (mic_state m)\<rparr>
              | BR_MRP_IN_ROLE_DISABLED \<Rightarrow> x\<lparr>st_in_state := - 1\<rparr>);
     Some x
   }"

text \<open>The loop writes entry \<open>i\<close> of the caller's array; beyond its end is a crash.  The mutex is
  taken and released around each entry.\<close>

fun get_loop :: "inst list \<Rightarrow> nat \<Rightarrow> mrp_status list \<Rightarrow> (nat \<times> mrp_status list) option" where
  "get_loop [] i status = Some (i, status)"
| "get_loop (x # xs) i status = do {
     s \<leftarrow> mrp_lock (load x []);
     if length status \<le> i then None
     else do {
       y \<leftarrow> status_of s (status ! i);
       get_loop xs (Suc i) (status[i := y])
     }
   }"

definition mrp_get :: "daemon \<Rightarrow> mrp_status list \<Rightarrow> (nat \<times> mrp_status list) option" where
  "mrp_get d status = get_loop (insts d) 0 status"

end
