(* ===== verification/Mrp_Inv_Config.thy ===== *)
theory Mrp_Inv_Config
  imports Mrp_Inv_Link Mrp_Daemon
begin

text \<open>
  Configuration of an instance: the port initialisation establishes the invariant, the role
  functions keep it (also when the driver refuses the role), and what they release exists.
\<close>

section \<open>Hypotheses on the environment\<close>

text \<open>The kernel reports hardware addresses of six bytes.\<close>

definition hwaddr_ok :: "env \<Rightarrow> bool" where
  "hwaddr_ok e \<longleftrightarrow> (\<forall>l n m. ioctl_hwaddr e l n = Some m \<longrightarrow> length m = 6)"

text \<open>The arguments with which an instance in link check mode can be created: there is an
  interconnection port, and the MAID is a terminated string that fits the library's struct.\<close>

definition args_ok :: "env \<Rightarrow> add_args \<Rightarrow> bool" where
  "args_ok e a \<longleftrightarrow> in_mode_of (a_in_mode a) \<noteq> MRP_IN_MODE_RC \<longrightarrow>
     a_iport a > 0 \<and> (\<exists>n. strlen (a_cfm_maid a) = Some n \<and> n \<le> sizeof_maid_data e)"

lemma if_get_mac_length:
  "hwaddr_ok e \<Longrightarrow> length m = 6 \<Longrightarrow> length (if_get_mac e l idx m) = 6"
  by (auto simp: if_get_mac_def hwaddr_ok_def split: option.splits)

section \<open>Role changes\<close>

lemma cfg_conf [simp]:
  "cfg (m\<lparr>ifindex := br\<rparr>) = (cfg m)\<lparr>c_br := br\<rparr>" "cfg (m\<lparr>ring_nr := nr\<rparr>) = (cfg m)\<lparr>c_ring_nr := nr\<rparr>"
  "cfg (m\<lparr>in_id := i\<rparr>) = (cfg m)\<lparr>c_in_id := i\<rparr>" "cfg (m\<lparr>prio := pr\<rparr>) = (cfg m)\<lparr>c_prio := pr\<rparr>"
  "cfg (m\<lparr>mra_support := b\<rparr>) = (cfg m)\<lparr>c_mra_support := b\<rparr>"
  "cfg (m\<lparr>in_role := r\<rparr>) = (cfg m)\<lparr>c_in_role := r\<rparr>" "cfg (m\<lparr>in_mode := d\<rparr>) = (cfg m)\<lparr>c_in_mode := d\<rparr>"
  "cfg (m\<lparr>cfm_peer_mepid := mep\<rparr>) = (cfg m)\<lparr>c_cfm_peer_mepid := mep\<rparr>"
  "cfg (m\<lparr>i_port := ip\<rparr>) = (cfg m)\<lparr>c_i_port := ip\<rparr>"
  by (simp_all add: cfg_def)

text \<open>What \<open>mrp_reset_ring_state\<close> leaves: both ring machines in their first state, the link timers
  stopped, and the interconnection no worse than before.\<close>

lemma reset_ring_state:
  assumes i: "mrp_inv K s" and e: "libev_timers e"
  shows "mrm_state (mrp (mrp_reset_ring_state e s)) = MRP_MRM_STATE_AC_STAT1"
    "mrc_state (mrp (mrp_reset_ring_state e s)) = MRP_MRC_STATE_AC_STAT1"
    "\<not> active (ring_link_up_work (mrp (mrp_reset_ring_state e s)))"
    "\<not> active (ring_link_down_work (mrp (mrp_reset_ring_state e s)))"
    "inst_ok (mrp_reset_ring_state e s)" "blocked (mrp (mrp_reset_ring_state e s)) = 1"
    "in_inv_st (mrp_reset_ring_state e s)" "mode_inv_st (mrp_reset_ring_state e s)"
    "\<not> no_tc (mrp (mrp_reset_ring_state e s))"
    "cfg (mrp (mrp_reset_ring_state e s)) = K"
  using inv_facts [OF i] inv_inter [OF i] inv_mode [OF i]
  by (cases "in_role (mrp s)"; simp add: mrp_reset_ring_state_def mrp_timer_stop_def timer_defs Let_def
      libev_simps [OF e] in_inv_def mode_inv_def)+

lemma enter_ring_role_inv:
  assumes core: "inst_ok s" and misc: "blocked (mrp s) = 1" "\<not> no_tc (mrp s)" "in_inv_st s" "mode_inv_st s"
    and ac: "mrm_state (mrp s) = MRP_MRM_STATE_AC_STAT1" "mrc_state (mrp s) = MRP_MRC_STATE_AC_STAT1"
    and tm: "\<not> active (ring_link_up_work (mrp s))" "\<not> active (ring_link_down_work (mrp s))"
    and role: "role = BR_MRP_RING_ROLE_MRM \<or> role = BR_MRP_RING_ROLE_MRC"
    and K: "cfg (mrp s) = K" and e: "libev_timers e"
  shows "ok (enter_ring_role e role s) (\<lambda>(err, s). mrp_inv K s)"
proof -
  note c = core_okD [OF core]
  have up: "ok (mrp_is_port_up e p x) (\<lambda>_. True)" if "live p (port x)" for p x
    using live_deref [OF that] by (auto simp: mrp_is_port_up_def)
  have link: "ok (mrp_is_port_up e p x) (\<lambda>up. ok (if up then mrp_port_link_change e p True x else Some x) (mrp_inv K))"
    if "mrp_inv K x" "live p (port x)" for p x
    by (rule ok_mono [OF up [OF that(2)]]) (simp add: that mrp_port_link_change_inv [OF that(1) e that(2)])
  have two: "ok (do {
       up \<leftarrow> mrp_is_port_up e (p_port (mrp x)) x;
       x \<leftarrow> (if up then mrp_port_link_change e (p_port (mrp x)) True x else Some x);
       up \<leftarrow> mrp_is_port_up e (s_port (mrp x)) x;
       x \<leftarrow> (if up then mrp_port_link_change e (s_port (mrp x)) True x else Some x);
       Some (0, x)
     }) (\<lambda>(err, s). mrp_inv K s)" if "mrp_inv K x" for x
    unfolding ok_bind
    by (rule ok_mono [OF link [OF that inv_facts(7) [OF that]]], erule ok_mono,
        rule ok_mono [OF link], assumption, erule inv_facts(8), erule ok_mono) simp
  have mid: "mrp_inv K (s\<lparr>mrp := (mrp s)\<lparr>ring_role := role\<rparr>,
      port := set_pst (s_port (mrp s)) BR_MRP_PORT_STATE_BLOCKED
        (set_pst (p_port (mrp s)) BR_MRP_PORT_STATE_BLOCKED (port s)), log := l\<rparr>)" for l
    using role misc by (auto simp: mrp_inv_def ring_inv_def c core ac tm K)
  show ?thesis
    unfolding enter_ring_role_def
    apply (simp only: ok_bind)
    apply (rule wp, simp add: c)
    apply (rule wp, simp add: c)
    apply (simp only: mrp_set_ring_role_def emit_def Let_def split ok_if ok_Some)
    apply (split if_split, intro conjI impI)
     apply (simp add: mid)
    apply (rule two)
    apply (simp add: mid)
    done
qed

text \<open>The role functions: an auto-manager changes \<open>mra_support\<close>, the others no configuration.\<close>

lemma set_ring_roles_inv:
  assumes i: "mrp_inv K s" and e: "libev_timers e"
  shows "ok (mrp_set_mrm_role e s) (\<lambda>(err, s). mrp_inv K s)"
    "ok (mrp_set_mrc_role e s) (\<lambda>(err, s). mrp_inv K s)"
    "ok (mrp_set_mra_role e s) (\<lambda>(err, s). mrp_inv (K\<lparr>c_mra_support := True\<rparr>) s)"
proof -
  have p: "p_port (mrp s) \<noteq> None" "s_port (mrp s) \<noteq> None"
    using inv_facts(7,8) [OF i] by (auto simp: live_def)
  note r = reset_ring_state [OF i e]
  show "ok (mrp_set_mrm_role e s) (\<lambda>(err, s). mrp_inv K s)"
    unfolding mrp_set_mrm_role_def Let_def using p
    by (simp del: not_None_eq, intro enter_ring_role_inv) (simp_all add: r e set_defs)
  show "ok (mrp_set_mrc_role e s) (\<lambda>(err, s). mrp_inv K s)"
    unfolding mrp_set_mrc_role_def Let_def using p
    by (simp del: not_None_eq, intro enter_ring_role_inv) (simp_all add: r e set_defs)
  let ?s = "s\<lparr>mrp := (mrp s)\<lparr>mra_support := True\<rparr>\<rparr>"
  have "mrp_inv (K\<lparr>c_mra_support := True\<rparr>) ?s"
    using i by (auto simp: mrp_inv_def ring_inv_def)
  note r = reset_ring_state [OF this e]
  show "ok (mrp_set_mra_role e s) (\<lambda>(err, s). mrp_inv (K\<lparr>c_mra_support := True\<rparr>) s)"
    unfolding mrp_set_mra_role_def Let_def using p
    by (simp del: not_None_eq, intro enter_ring_role_inv) (simp_all add: r e set_defs)
qed

lemma in_role_enter_inv:
  assumes i: "mrp_inv K s" and d: "in_role (mrp s) = BR_MRP_IN_ROLE_DISABLED"
  shows "ok (mim_role_enter e s) (\<lambda>(r, s). mrp_inv K s \<or> mrp_inv (K\<lparr>c_in_role := BR_MRP_IN_ROLE_MIM\<rparr>) s)"
    "ok (mic_role_enter e s) (\<lambda>(r, s). mrp_inv K s \<or> mrp_inv (K\<lparr>c_in_role := BR_MRP_IN_ROLE_MIC\<rparr>) s)"
proof -
  have idle: "\<not> active (in_test_work (mrp s))" "\<not> active (in_topo_work (mrp s))"
    "\<not> active (in_link_up_work (mrp s))" "\<not> active (in_link_down_work (mrp s))"
    "\<not> fwd (i_port (mrp s)) (port s)"
    using inv_inter [OF i] d by (auto simp: in_inv_def)
  have up: "ok (mrp_is_port_up e p x) (\<lambda>_. Q)" if "live p (port x)" "Q" for p x Q
    using live_deref [OF that(1)] that(2) by (auto simp: mrp_is_port_up_def)
  show "ok (mim_role_enter e s) (\<lambda>(r, s). mrp_inv K s \<or> mrp_inv (K\<lparr>c_in_role := BR_MRP_IN_ROLE_MIM\<rparr>) s)"
  proof (cases "i_port (mrp s) = None")
    case False
    have l: "live (i_port (mrp s)) (port s)"
      using core_okD(9) [OF inv_facts(1) [OF i] False] .
    show ?thesis
      using False
      by (simp del: not_None_eq add: mim_role_enter_def mrp_set_in_role_def Let_def emit_def)
        ((rule wp up conjI impI | simp del: not_None_eq add: l idle mrp_inv_def in_inv_def set_defs
          inv_facts [OF i] inv_ring [OF i])+)
  qed (simp add: mim_role_enter_def i)
  show "ok (mic_role_enter e s) (\<lambda>(r, s). mrp_inv K s \<or> mrp_inv (K\<lparr>c_in_role := BR_MRP_IN_ROLE_MIC\<rparr>) s)"
  proof (cases "i_port (mrp s) = None")
    case False
    have l: "live (i_port (mrp s)) (port s)"
      using core_okD(9) [OF inv_facts(1) [OF i] False] .
    show ?thesis
      using False
      by (simp del: not_None_eq add: mic_role_enter_def mrp_set_in_role_def Let_def emit_def set_defs)
        ((rule wp up conjI impI | simp del: not_None_eq add: l idle mrp_inv_def in_inv_def set_defs
          inv_facts [OF i] inv_ring [OF i])+)
  qed (simp add: mic_role_enter_def i)
qed
section \<open>mrp_add on the new instance\<close>

definition same_id :: "config \<Rightarrow> config \<Rightarrow> bool" where
  "same_id K K' \<longleftrightarrow> c_br K' = c_br K \<and> c_ring_nr K' = c_ring_nr K \<and> c_in_mode K' = c_in_mode K \<and> c_lock K' = c_lock K"

lemma same_id_refl [simp]: "same_id K K"
  by (simp add: same_id_def)

lemma mrp_start_cfm_inv:
  assumes i: "mrp_inv K s" and ip: "i_port (mrp s) \<noteq> None" and m: "in_mode (mrp s) \<noteq> MRP_IN_MODE_RC"
    and n: "strlen maid = Some n" "n \<le> sizeof_maid_data e"
  shows "ok (mrp_start_cfm e inst level mepid peer maid dmac s) (mrp_inv (K\<lparr>c_cfm_peer_mepid := peer\<rparr>))"
proof -
  obtain q where q: "deref (i_port (mrp s)) s = Some q"
    using live_deref core_okD(9) [OF inv_facts(1) [OF i] ip] by blast
  then have "\<And>m. deref (i_port (mrp s)) (s\<lparr>mrp := m\<rparr>) = Some q"
    by (simp add: deref_def split: option.splits)
  then show ?thesis
    using i m n by (simp add: mrp_start_cfm_def Let_def emit_def timer_defs mrp_inv_def mode_inv_def)
qed

lemma add_ring_inv:
  assumes i: "mrp_inv K s" and e: "libev_timers e" and a: "args_ok e a"
    and m: "in_mode (mrp s) = in_mode_of (a_in_mode a)" and ip: "a_iport a > 0 \<Longrightarrow> i_port (mrp s) \<noteq> None"
  shows "ok (add_ring e a s) (\<lambda>(err, s'). \<exists>K'. mrp_inv K' s' \<and> same_id K K' \<and> c_in_role K' = c_in_role K \<and> c_i_port K' = c_i_port K)"
proof -
  have cfm: "ok (if in_mode (mrp s) \<noteq> MRP_IN_MODE_RC
      then mrp_start_cfm e (a_cfm_instance a) (a_cfm_level a) (a_cfm_mepid a)
             (a_cfm_peer_mepid a) (a_cfm_maid a) (a_cfm_dmac a) s
      else Some s) (\<lambda>x. \<exists>K'. mrp_inv K' x \<and> same_id K K' \<and> c_in_role K' = c_in_role K \<and> c_i_port K' = c_i_port K)"
  proof (cases "in_mode (mrp s) = MRP_IN_MODE_RC")
    case False
    then obtain n where "a_iport a > 0" "strlen (a_cfm_maid a) = Some n" "n \<le> sizeof_maid_data e"
      using a m by (auto simp: args_ok_def)
    then show ?thesis
      using False by (auto simp: same_id_def intro!: ok_mono [OF mrp_start_cfm_inv [OF i ip]])
  qed (use i in \<open>auto simp: same_id_def\<close>)
  show ?thesis
    unfolding add_ring_def ok_bind
  proof (rule ok_mono [OF cfm], clarify)
    fix x K'
    assume x: "mrp_inv K' x" and s: "same_id K K'" "c_in_role K' = c_in_role K" "c_i_port K' = c_i_port K"
    note r = set_ring_roles_inv [OF x e]
    have "same_id K (K'\<lparr>c_mra_support := True\<rparr>)" using s by (simp add: same_id_def)
    then show "ok (if a_ring_role a = ring_role_code BR_MRP_RING_ROLE_MRM then mrp_set_mrm_role e x
         else if a_ring_role a = ring_role_code BR_MRP_RING_ROLE_MRC then mrp_set_mrc_role e x
         else if a_ring_role a = ring_role_code BR_MRP_RING_ROLE_MRA then mrp_set_mra_role e x
         else Some (0, x))
         (\<lambda>(err, s'). \<exists>K'. mrp_inv K' s' \<and> same_id K K' \<and> c_in_role K' = c_in_role K \<and> c_i_port K' = c_i_port K)"
      using x s by (auto simp del: ring_role_code.simps intro!: ok_mono [OF r(1)] ok_mono [OF r(2)] ok_mono [OF r(3)])
  qed
qed

text \<open>The instance as \<open>mrp_create\<close> leaves it and \<open>mrp_add\<close> locks it.\<close>

definition fresh :: "env \<Rightarrow> u32 \<Rightarrow> u32 \<Rightarrow> u16 \<Rightarrow> effect list \<Rightarrow> st" where
  "fresh e br nr inid l =
    (let s = mrp_new e br nr inid (load (mrp_zero, \<lambda>_. None) l)
     in s\<lparr>mrp := (mrp s)\<lparr>lock := True\<rparr>\<rparr>)"

text \<open>The recovery profiles set intervals and counters only.\<close>

lemma set_ring_profile_frame [simp]:
  "lock (set_ring_profile rr m) = lock m" "ifindex (set_ring_profile rr m) = ifindex m"
  "ring_nr (set_ring_profile rr m) = ring_nr m" "in_id (set_ring_profile rr m) = in_id m"
  "prio (set_ring_profile rr m) = prio m" "ifname (set_ring_profile rr m) = ifname m"
  "macaddr (set_ring_profile rr m) = macaddr m" "p_port (set_ring_profile rr m) = p_port m"
  "s_port (set_ring_profile rr m) = s_port m" "i_port (set_ring_profile rr m) = i_port m"
  "ring_mac (set_ring_profile rr m) = ring_mac m" "mra_support (set_ring_profile rr m) = mra_support m"
  "ring_role (set_ring_profile rr m) = ring_role m" "in_role (set_ring_profile rr m) = in_role m"
  "in_mode (set_ring_profile rr m) = in_mode m" "mrm_state (set_ring_profile rr m) = mrm_state m"
  "mrc_state (set_ring_profile rr m) = mrc_state m" "mim_state (set_ring_profile rr m) = mim_state m"
  "mic_state (set_ring_profile rr m) = mic_state m" "no_tc (set_ring_profile rr m) = no_tc m"
  "domain (set_ring_profile rr m) = domain m" "blocked (set_ring_profile rr m) = blocked m"
  "cfm_peer_mepid (set_ring_profile rr m) = cfm_peer_mepid m" "clear_fdb_work (set_ring_profile rr m) = clear_fdb_work m"
  "ring_topo_work (set_ring_profile rr m) = ring_topo_work m" "ring_test_work (set_ring_profile rr m) = ring_test_work m"
  "ring_link_up_work (set_ring_profile rr m) = ring_link_up_work m" "ring_link_down_work (set_ring_profile rr m) = ring_link_down_work m"
  "in_test_work (set_ring_profile rr m) = in_test_work m" "in_topo_work (set_ring_profile rr m) = in_topo_work m"
  "in_link_up_work (set_ring_profile rr m) = in_link_up_work m" "in_link_down_work (set_ring_profile rr m) = in_link_down_work m"
  "in_link_status_work (set_ring_profile rr m) = in_link_status_work m" "cfm_ccm_work (set_ring_profile rr m) = cfm_ccm_work m"
  by (cases rr; simp)+

lemma set_in_profile_frame [simp]:
  "lock (set_in_profile ir m) = lock m" "ifindex (set_in_profile ir m) = ifindex m"
  "ring_nr (set_in_profile ir m) = ring_nr m" "in_id (set_in_profile ir m) = in_id m"
  "prio (set_in_profile ir m) = prio m" "ifname (set_in_profile ir m) = ifname m"
  "macaddr (set_in_profile ir m) = macaddr m" "p_port (set_in_profile ir m) = p_port m"
  "s_port (set_in_profile ir m) = s_port m" "i_port (set_in_profile ir m) = i_port m"
  "ring_mac (set_in_profile ir m) = ring_mac m" "mra_support (set_in_profile ir m) = mra_support m"
  "ring_role (set_in_profile ir m) = ring_role m" "in_role (set_in_profile ir m) = in_role m"
  "in_mode (set_in_profile ir m) = in_mode m" "mrm_state (set_in_profile ir m) = mrm_state m"
  "mrc_state (set_in_profile ir m) = mrc_state m" "mim_state (set_in_profile ir m) = mim_state m"
  "mic_state (set_in_profile ir m) = mic_state m" "no_tc (set_in_profile ir m) = no_tc m"
  "domain (set_in_profile ir m) = domain m" "blocked (set_in_profile ir m) = blocked m"
  "cfm_peer_mepid (set_in_profile ir m) = cfm_peer_mepid m" "clear_fdb_work (set_in_profile ir m) = clear_fdb_work m"
  "ring_topo_work (set_in_profile ir m) = ring_topo_work m" "ring_test_work (set_in_profile ir m) = ring_test_work m"
  "ring_link_up_work (set_in_profile ir m) = ring_link_up_work m" "ring_link_down_work (set_in_profile ir m) = ring_link_down_work m"
  "in_test_work (set_in_profile ir m) = in_test_work m" "in_topo_work (set_in_profile ir m) = in_topo_work m"
  "in_link_up_work (set_in_profile ir m) = in_link_up_work m" "in_link_down_work (set_in_profile ir m) = in_link_down_work m"
  "in_link_status_work (set_in_profile ir m) = in_link_status_work m" "cfm_ccm_work (set_in_profile ir m) = cfm_ccm_work m"
  by (cases ir; simp)+

lemma mrp_update_recovery_frame [simp]:
  "lock (mrp_update_recovery e rr ir m) = lock m" "ifindex (mrp_update_recovery e rr ir m) = ifindex m"
  "ring_nr (mrp_update_recovery e rr ir m) = ring_nr m" "in_id (mrp_update_recovery e rr ir m) = in_id m"
  "prio (mrp_update_recovery e rr ir m) = prio m" "ifname (mrp_update_recovery e rr ir m) = ifname m"
  "macaddr (mrp_update_recovery e rr ir m) = macaddr m" "p_port (mrp_update_recovery e rr ir m) = p_port m"
  "s_port (mrp_update_recovery e rr ir m) = s_port m" "i_port (mrp_update_recovery e rr ir m) = i_port m"
  "ring_mac (mrp_update_recovery e rr ir m) = ring_mac m" "mra_support (mrp_update_recovery e rr ir m) = mra_support m"
  "ring_role (mrp_update_recovery e rr ir m) = ring_role m" "in_role (mrp_update_recovery e rr ir m) = in_role m"
  "in_mode (mrp_update_recovery e rr ir m) = in_mode m" "mrm_state (mrp_update_recovery e rr ir m) = mrm_state m"
  "mrc_state (mrp_update_recovery e rr ir m) = mrc_state m" "mim_state (mrp_update_recovery e rr ir m) = mim_state m"
  "mic_state (mrp_update_recovery e rr ir m) = mic_state m" "no_tc (mrp_update_recovery e rr ir m) = no_tc m"
  "domain (mrp_update_recovery e rr ir m) = domain m" "blocked (mrp_update_recovery e rr ir m) = blocked m"
  "cfm_peer_mepid (mrp_update_recovery e rr ir m) = cfm_peer_mepid m" "clear_fdb_work (mrp_update_recovery e rr ir m) = clear_fdb_work m"
  "ring_topo_work (mrp_update_recovery e rr ir m) = ring_topo_work m" "ring_test_work (mrp_update_recovery e rr ir m) = ring_test_work m"
  "ring_link_up_work (mrp_update_recovery e rr ir m) = ring_link_up_work m" "ring_link_down_work (mrp_update_recovery e rr ir m) = ring_link_down_work m"
  "in_test_work (mrp_update_recovery e rr ir m) = in_test_work m" "in_topo_work (mrp_update_recovery e rr ir m) = in_topo_work m"
  "in_link_up_work (mrp_update_recovery e rr ir m) = in_link_up_work m" "in_link_down_work (mrp_update_recovery e rr ir m) = in_link_down_work m"
  "in_link_status_work (mrp_update_recovery e rr ir m) = in_link_status_work m" "cfm_ccm_work (mrp_update_recovery e rr ir m) = cfm_ccm_work m"
  by (simp_all add: mrp_update_recovery_def Let_def)

lemma fresh_facts:
  assumes "libev_timers e"
  shows "p_port (mrp (fresh e br nr i l)) = None" "s_port (mrp (fresh e br nr i l)) = None"
    "i_port (mrp (fresh e br nr i l)) = None" "port (fresh e br nr i l) = (\<lambda>_. None)"
    "lock (mrp (fresh e br nr i l))" "ifindex (mrp (fresh e br nr i l)) = br" "ring_nr (mrp (fresh e br nr i l)) = nr"
    "length (macaddr (mrp (fresh e br nr i l))) = 6" "length (ring_mac (mrp (fresh e br nr i l))) = 6"
    "length (domain (mrp (fresh e br nr i l))) = 16" "blocked (mrp (fresh e br nr i l)) = 1"
    "\<not> no_tc (mrp (fresh e br nr i l))" "ring_role (mrp (fresh e br nr i l)) = BR_MRP_RING_ROLE_MRC"
    "mrc_state (mrp (fresh e br nr i l)) = MRP_MRC_STATE_AC_STAT1"
    "in_role (mrp (fresh e br nr i l)) = BR_MRP_IN_ROLE_DISABLED"
    "\<And>t. \<not> active (work t (mrp (fresh e br nr i l)))" "log (fresh e br nr i l) = l"
  subgoal by (simp add: fresh_def mrp_new_def mrp_timer_init_def load_def Let_def mrp_zero_def)
  subgoal by (simp add: fresh_def mrp_new_def mrp_timer_init_def load_def Let_def mrp_zero_def)
  subgoal by (simp add: fresh_def mrp_new_def mrp_timer_init_def load_def Let_def mrp_zero_def)
  subgoal by (simp add: fresh_def mrp_new_def mrp_timer_init_def load_def Let_def mrp_zero_def)
  subgoal by (simp add: fresh_def mrp_new_def mrp_timer_init_def load_def Let_def mrp_zero_def)
  subgoal by (simp add: fresh_def mrp_new_def mrp_timer_init_def load_def Let_def mrp_zero_def)
  subgoal by (simp add: fresh_def mrp_new_def mrp_timer_init_def load_def Let_def mrp_zero_def)
  subgoal by (simp add: fresh_def mrp_new_def mrp_timer_init_def load_def Let_def mrp_zero_def)
  subgoal by (simp add: fresh_def mrp_new_def mrp_timer_init_def load_def Let_def mrp_zero_def)
  subgoal by (simp add: fresh_def mrp_new_def mrp_timer_init_def load_def Let_def mrp_zero_def)
  subgoal by (simp add: fresh_def mrp_new_def mrp_timer_init_def load_def Let_def mrp_zero_def)
  subgoal by (simp add: fresh_def mrp_new_def mrp_timer_init_def load_def Let_def mrp_zero_def)
  subgoal by (simp add: fresh_def mrp_new_def mrp_timer_init_def load_def Let_def mrp_zero_def)
  subgoal by (simp add: fresh_def mrp_new_def mrp_timer_init_def load_def Let_def mrp_zero_def)
  subgoal by (simp add: fresh_def mrp_new_def mrp_timer_init_def load_def Let_def mrp_zero_def)
  subgoal for t
    by (cases t; simp add: fresh_def mrp_new_def mrp_timer_init_def load_def Let_def libev_simps [OF assms])
  subgoal by (simp add: fresh_def mrp_new_def mrp_timer_init_def load_def Let_def mrp_zero_def)
  done

text \<open>The pointers of a partly set up instance, by the label \<open>mrp_add\<close> jumps to.\<close>

definition releasable :: "nat \<Rightarrow> st \<Rightarrow> bool" where
  "releasable label s \<longleftrightarrow>
     (if label \<ge> 1 then live (p_port (mrp s)) (port s) else p_port (mrp s) = None) \<and>
     (if label \<ge> 2 then live (s_port (mrp s)) (port s) \<and> s_port (mrp s) \<noteq> p_port (mrp s)
      else s_port (mrp s) = None) \<and>
     (i_port (mrp s) = None \<or>
      label \<ge> 3 \<and> live (i_port (mrp s)) (port s) \<and> i_port (mrp s) \<noteq> p_port (mrp s) \<and> i_port (mrp s) \<noteq> s_port (mrp s))"

lemma mrp_port_init_eq:
  "mrp_port_init e idx role s =
    (if malloc_ok e (log s) (sizeof_mrp_port e) then
       (0, s\<lparr>mrp := (case role of BR_MRP_PORT_ROLE_PRIMARY \<Rightarrow> (mrp s)\<lparr>p_port := Some PORT_PRIMARY\<rparr>
         | BR_MRP_PORT_ROLE_SECONDARY \<Rightarrow> (mrp s)\<lparr>s_port := Some PORT_SECONDARY\<rparr>
         | BR_MRP_PORT_ROLE_INTER \<Rightarrow> (mrp s)\<lparr>i_port := Some PORT_INTER\<rparr>),
         port := (port s)(slot_of role \<mapsto> new_port e (log s @ [Malloc_port role]) idx role),
         log := log s @ [Malloc_port role]\<rparr>)
     else (- ENOMEM, s))"
  by (cases role) (auto simp: mrp_port_init_def Let_def emit_def)

lemma new_port_slot: "hwaddr_ok e \<Longrightarrow> pm r = Some (new_port e l idx (port_role_of r)) \<Longrightarrow> slot_ok r pm"
  by (simp add: slot_ok_def new_port_def if_get_mac_length)

text \<open>An instance without ports and roles, on which no timer runs.\<close>

definition bare :: "add_args \<Rightarrow> mrp \<Rightarrow> bool" where
  "bare a m \<longleftrightarrow> p_port m = None \<and> s_port m = None \<and> i_port m = None \<and> lock m \<and>
     ifindex m = a_br a \<and> ring_nr m = a_ring_nr a \<and> length (macaddr m) = 6 \<and> length (ring_mac m) = 6 \<and>
     length (domain m) = 16 \<and> blocked m = 1 \<and> \<not> no_tc m \<and> ring_role m = BR_MRP_RING_ROLE_MRC \<and>
     mrc_state m = MRP_MRC_STATE_AC_STAT1 \<and> in_role m = BR_MRP_IN_ROLE_DISABLED \<and>
     (\<forall>t. \<not> active (work t m))"

lemma fresh_bare: "libev_timers e \<Longrightarrow> bare a (mrp (fresh e (a_br a) (a_ring_nr a) (a_in_id a) l))"
  by (simp add: bare_def fresh_facts)

lemma add_conf_bare:
  assumes h: "hwaddr_ok e" and b: "bare a m"
  shows "bare a (add_conf e a l m)" "in_mode (add_conf e a l m) = in_mode_of (a_in_mode a)"
proof -
  have "work t (add_conf e a l m) = work t m" for t
    by (cases t) (simp_all add: add_conf_def Let_def)
  with b show "bare a (add_conf e a l m)"
    by (simp add: bare_def) (simp add: add_conf_def Let_def if_get_mac_length [OF h])
qed (simp add: add_conf_def Let_def)

lemma bare_timers:
  assumes "bare a m"
  shows "\<not> active (ring_link_up_work m)" "\<not> active (ring_link_down_work m)" "\<not> active (in_test_work m)"
    "\<not> active (in_topo_work m)" "\<not> active (in_link_up_work m)" "\<not> active (in_link_down_work m)"
    "\<not> active (in_link_status_work m)" "\<not> active (cfm_ccm_work m)"
  using assms unfolding bare_def by (metis work.simps)+

lemma work_ports [simp]:
  "work t (m\<lparr>p_port := x\<rparr>) = work t m" "work t (m\<lparr>s_port := x\<rparr>) = work t m"
  "work t (m\<lparr>i_port := x\<rparr>) = work t m" "work t (m\<lparr>lock := b\<rparr>) = work t m"
  by (cases t; simp)+

lemma add_ports_inv:
  assumes h: "hwaddr_ok e" and b: "bare a (mrp s)" and p: "port s = (\<lambda>_. None)"
    and r: "add_ports e a s = (r, s')"
  shows "r = Inr () \<Longrightarrow> mrp_inv (cfg (mrp s')) s' \<and> same_id (cfg (mrp s)) (cfg (mrp s')) \<and>
    c_in_role (cfg (mrp s')) = BR_MRP_IN_ROLE_DISABLED \<and> (a_iport a > 0 \<longrightarrow> i_port (mrp s') \<noteq> None)"
    and "r = Inl (label, err) \<Longrightarrow> err < 0 \<and> releasable label s' \<and> same_id (cfg (mrp s)) (cfg (mrp s')) \<and> (\<forall>t. \<not> active (work t (mrp s')))"
proof -
  have slot: "\<And>pm l idx. pm PORT_PRIMARY = Some (new_port e l idx BR_MRP_PORT_ROLE_PRIMARY) \<Longrightarrow> slot_ok PORT_PRIMARY pm"
    "\<And>pm l idx. pm PORT_SECONDARY = Some (new_port e l idx BR_MRP_PORT_ROLE_SECONDARY) \<Longrightarrow> slot_ok PORT_SECONDARY pm"
    "\<And>pm l idx. pm PORT_INTER = Some (new_port e l idx BR_MRP_PORT_ROLE_INTER) \<Longrightarrow> slot_ok PORT_INTER pm"
    using new_port_slot [OF h, of _ PORT_PRIMARY] new_port_slot [OF h, of _ PORT_SECONDARY]
      new_port_slot [OF h, of _ PORT_INTER] by simp_all
  have np: "pstate (new_port e l idx role) = BR_MRP_PORT_STATE_DISABLED" for l idx role
    by (simp add: new_port_def)
  show "r = Inr () \<Longrightarrow> mrp_inv (cfg (mrp s')) s' \<and> same_id (cfg (mrp s)) (cfg (mrp s')) \<and>
    c_in_role (cfg (mrp s')) = BR_MRP_IN_ROLE_DISABLED \<and> (a_iport a > 0 \<longrightarrow> i_port (mrp s') \<noteq> None)"
    using r b unfolding add_ports_def mrp_port_init_eq
    by (auto simp: Let_def ENOMEM_def bare_def mrp_inv_def same_id_def core_ok_def ring_inv_def in_inv_def mode_inv_def pst_def np
        bare_timers [OF b] split: if_splits intro!: slot)
  show "r = Inl (label, err) \<Longrightarrow> err < 0 \<and> releasable label s' \<and> same_id (cfg (mrp s)) (cfg (mrp s')) \<and> (\<forall>t. \<not> active (work t (mrp s')))"
    using r b unfolding add_ports_def mrp_port_init_eq
    by (auto simp: Let_def ENOMEM_def bare_def same_id_def releasable_def live_def split: if_splits intro!: slot)
qed

section \<open>Releasing and destroying\<close>

text \<open>The timers of an instance that is about to be destroyed.\<close>

definition timers_ok :: "mrp \<Rightarrow> bool" where
  "timers_ok m \<longleftrightarrow>
     (in_role m = BR_MRP_IN_ROLE_DISABLED \<longrightarrow> \<not> active (in_test_work m) \<and> \<not> active (in_topo_work m) \<and>
       \<not> active (in_link_up_work m) \<and> \<not> active (in_link_down_work m)) \<and>
     (in_mode m = MRP_IN_MODE_RC \<longrightarrow> \<not> active (in_link_status_work m) \<and> \<not> active (cfm_ccm_work m))"

lemma inv_timers_ok: "mrp_inv K s \<Longrightarrow> timers_ok (mrp s)"
  using inv_mode [of K s] inv_inter [of K s] by (auto simp: timers_ok_def in_inv_def)

lemma inv_releasable: "mrp_inv K s \<Longrightarrow> releasable 3 s"
  using core_okD [OF inv_facts(1), of K s]
  by (cases "i_port (mrp s)") (auto simp: releasable_def)

lemma mrp_port_uninit_wp:
  assumes "p = None \<or> live p (port s)" and "\<not> lock (mrp s)"
    and "\<And>pm. (\<forall>r. p \<noteq> Some r \<longrightarrow> pm r = port s r) \<Longrightarrow> Q (s\<lparr>port := pm\<rparr>)"
  shows "ok (mrp_port_uninit p s) Q"
proof (cases p)
  case None
  then show ?thesis using assms(3) [of "port s"] by (simp add: mrp_port_uninit_def)
next
  case (Some r)
  then obtain q where "port s r = Some q" "pmrp q"
    using assms(1) by (auto simp: live_def slot_ok_def)
  moreover have "s\<lparr>mrp := (mrp s)\<lparr>lock := False\<rparr>, port := pm\<rparr> = s\<lparr>port := pm\<rparr>" for pm
    using assms(2) by (cases s; cases "mrp s") simp
  ultimately have "mrp_port_uninit p s = Some (s\<lparr>port := (port s)(r := None)\<rparr>)"
    using assms(2) Some by (simp add: mrp_port_uninit_def deref_def mrp_lock_def mrp_unlock_def)
  then show ?thesis
    using assms(3) [of "(port s)(r := None)"] Some by simp
qed

lemma free_port_wp:
  assumes "p = None \<or> live p (port s)"
    and "\<And>pm. (\<forall>r. p \<noteq> Some r \<longrightarrow> pm r = port s r) \<Longrightarrow> Q (s\<lparr>port := pm\<rparr>)"
  shows "ok (free_port p s) Q"
proof (cases p)
  case None
  then show ?thesis using assms(2) [of "port s"] by (simp add: free_port_def)
next
  case (Some r)
  then show ?thesis
    using assms(1) assms(2) [of "(port s)(r := None)"]
    by (auto simp: free_port_def deref_def live_def slot_ok_def)
qed

lemma live_other:
  "live q pm \<Longrightarrow> q \<noteq> p \<Longrightarrow> (\<forall>r. p \<noteq> Some r \<longrightarrow> pm' r = pm r) \<Longrightarrow> live q pm'"
  by (auto simp: live_def slot_ok_def)

lemma live_other2:
  "live q pm \<Longrightarrow> q \<noteq> p \<Longrightarrow> q \<noteq> p' \<Longrightarrow> (\<forall>r. p \<noteq> Some r \<longrightarrow> pm' r = pm r) \<Longrightarrow>
   (\<forall>r. p' \<noteq> Some r \<longrightarrow> pm'' r = pm' r) \<Longrightarrow> live q pm''"
  by (rule live_other [OF live_other])

text \<open>After the release no pointer is left, and nothing else has changed.\<close>

lemma add_release_ok:
  assumes "releasable label s" and "\<not> lock (mrp s)"
  shows "ok (add_release label s) (\<lambda>s'. p_port (mrp s') = None \<and> s_port (mrp s') = None \<and> i_port (mrp s') = None \<and>
    same_id (cfg (mrp s)) (cfg (mrp s')) \<and> in_role (mrp s') = in_role (mrp s) \<and>
    (\<forall>t. work t (mrp s') = work t (mrp s)))"
proof -
  note u = mrp_port_uninit_wp
  have r: "i_port (mrp s) = None \<or> label \<ge> 3 \<and> live (i_port (mrp s)) (port s) \<and>
      i_port (mrp s) \<noteq> p_port (mrp s) \<and> i_port (mrp s) \<noteq> s_port (mrp s)"
    "label \<ge> 2 \<Longrightarrow> live (s_port (mrp s)) (port s) \<and> s_port (mrp s) \<noteq> p_port (mrp s)"
    "\<not> label \<ge> 2 \<Longrightarrow> s_port (mrp s) = None"
    "label \<ge> 1 \<Longrightarrow> live (p_port (mrp s)) (port s)" "\<not> label \<ge> 1 \<Longrightarrow> p_port (mrp s) = None"
    using assms(1) by (auto simp: releasable_def split: if_splits)
  have ne: "s_port (mrp s) \<noteq> i_port (mrp s)" "p_port (mrp s) \<noteq> i_port (mrp s)" if "label \<ge> 2"
    using r(1,2,4) that by (auto simp: live_def)
  have ls: "live (s_port (mrp s)) pm" if "label \<ge> 2" "\<forall>r. i_port (mrp s) \<noteq> Some r \<longrightarrow> pm r = port s r" for pm
    using r(2) that live_other [of "s_port (mrp s)" "port s" "i_port (mrp s)" pm] ne by blast
  have lp: "live (p_port (mrp s)) pm'" if "label \<ge> 2" "\<forall>r. i_port (mrp s) \<noteq> Some r \<longrightarrow> pm r = port s r"
    "\<forall>r. s_port (mrp s) \<noteq> Some r \<longrightarrow> pm' r = pm r" for pm pm'
    using live_other2 [of "p_port (mrp s)" "port s" "i_port (mrp s)" "s_port (mrp s)" pm pm'] r(2,4) that ne
    by (metis One_nat_def Suc_1 Suc_leD)
  consider "label \<ge> 3" | "label = 2" | "label = 1" | "label = 0" by linarith
  then show ?thesis
  proof cases
    case 1
    then have c: "3 \<le> label" "2 \<le> label" "1 \<le> label" by auto
    show ?thesis
      unfolding add_release_def
      apply (simp only: c if_True ok_bind ok_Some)
      apply (rule u)
      subgoal using r(1) by blast
      subgoal by (rule assms(2))
      apply (rule u)
      subgoal for pm using ls [OF c(2), of pm] by simp
      subgoal using assms(2) by simp
      apply (rule u)
      subgoal for pm pm' using lp [OF c(2), of pm pm'] by simp
      subgoal using assms(2) by simp
      subgoal by (simp add: same_id_def)
      done
  next
    case 2
    then show ?thesis
      using r(1) r(2,4) assms(2) ls [of "port s"] lp [of "port s"] by (auto simp: add_release_def same_id_def intro!: u)
  qed (use r assms(2) in \<open>auto simp: add_release_def same_id_def intro!: u\<close>)
qed

text \<open>Destroying an instance frees its ports once each.  In ring check mode no timer is left running.\<close>

definition freeable :: "st \<Rightarrow> bool" where
  "freeable s \<longleftrightarrow> (p_port (mrp s) = None \<or> live (p_port (mrp s)) (port s)) \<and>
     (s_port (mrp s) = None \<or> live (s_port (mrp s)) (port s) \<and> s_port (mrp s) \<noteq> p_port (mrp s)) \<and>
     (i_port (mrp s) = None \<or> live (i_port (mrp s)) (port s) \<and> i_port (mrp s) \<noteq> p_port (mrp s) \<and>
       i_port (mrp s) \<noteq> s_port (mrp s))"

lemma inv_freeable: "mrp_inv K s \<Longrightarrow> freeable s"
  using core_okD [OF inv_facts(1), of K s]
  by (cases "i_port (mrp s)") (auto simp: freeable_def)

lemma reset_keeps:
  "p_port (mrp (mrp_reset_ring_state e s)) = p_port (mrp s)" "s_port (mrp (mrp_reset_ring_state e s)) = s_port (mrp s)"
  "i_port (mrp (mrp_reset_ring_state e s)) = i_port (mrp s)" "port (mrp_reset_ring_state e s) = port s"
  "log (mrp_reset_ring_state e s) = log s"
  by (simp_all add: mrp_reset_ring_state_def mrp_timer_stop_def timer_defs Let_def)

lemma reset_stops:
  assumes e: "libev_timers e" and t: "timers_ok (mrp s)" and m: "in_mode (mrp s) = MRP_IN_MODE_RC"
  shows "\<not> active (work t (mrp (mrp_reset_ring_state e s)))"
  using t m
  by (cases "in_role (mrp s)"; cases t)
    (simp_all add: timers_ok_def mrp_reset_ring_state_def mrp_timer_stop_def timer_defs Let_def libev_simps [OF e])

lemma free_ports_ok:
  assumes "freeable s"
  shows "ok (free_port (p_port (mrp s)) s \<bind> (\<lambda>s. free_port (s_port (mrp s)) s \<bind>
      (\<lambda>s. free_port (i_port (mrp s)) s \<bind> (\<lambda>s. Some (mrp_unlock s))))) (\<lambda>s'. mrp s' = (mrp s)\<lparr>lock := False\<rparr>)"
  using assms unfolding freeable_def
  by (auto intro!: free_port_wp simp: mrp_unlock_def intro: live_other live_other2)

lemma destroy_inst_ok:
  assumes f: "freeable s" and l: "\<not> lock (mrp s)"
  shows "ok (destroy_inst e s) (\<lambda>s'. libev_timers e \<and> timers_ok (mrp s) \<and> in_mode (mrp s) = MRP_IN_MODE_RC
    \<longrightarrow> running (mrp s') = [])"
proof -
  let ?x = "mrp_reset_ring_state e (s\<lparr>mrp := (mrp s)\<lparr>lock := True\<rparr>\<rparr>)"
  let ?y = "if in_mode (mrp ?x) = MRP_IN_MODE_LC then mrp_delete_cfm ?x else ?x"
  have y: "mrp ?y = mrp ?x" "port ?y = port s" "p_port (mrp ?y) = p_port (mrp s)"
    "s_port (mrp ?y) = s_port (mrp s)" "i_port (mrp ?y) = i_port (mrp s)"
    by (simp_all add: mrp_delete_cfm_def emit_def reset_keeps)
  have "freeable ?y"
    using f by (simp add: freeable_def y reset_keeps)
  note free = free_ports_ok [OF this]
  have "timers_ok (mrp s) \<Longrightarrow> in_mode (mrp s) = MRP_IN_MODE_RC \<Longrightarrow> libev_timers e \<Longrightarrow> \<not> active (work t (mrp ?x))" for t
    by (rule reset_stops) (simp_all add: timers_ok_def)
  then show ?thesis
    using l unfolding destroy_inst_def mrp_lock_def Let_def
    by (simp only: if_False Option.bind.simps)
      (rule ok_mono [OF free], auto simp: y running_def filter_empty_conv)
qed

end
