(* ===== verification/Mrp_Inv_Timer.thy ===== *)
theory Mrp_Inv_Timer
  imports Mrp_Inv
begin

text \<open>
  Expiry of an active timer keeps the invariant of the instance and does not crash.
\<close>

section \<open>Handlers\<close>

lemma mrp_clear_fdb_expired_inv:
  assumes i: "mrp_inv K s"
  shows "ok (mrp_clear_fdb_expired e s) (mrp_inv K)"
  using inv_ring [OF i] 
  by - ((rule wp conjI impI | simp add: i mrp_clear_fdb_expired_def inv_facts [OF i] inv_inter [OF i]
      ring_simps mrp_inv_def ring_inv_def)+)

lemma mrp_mrm_ring_test_expired_inv:
  assumes i: "mrp_inv K s"
    and role: "ring_role (mrp s) = BR_MRP_RING_ROLE_MRM"
  shows "ok (mrp_mrm_ring_test_expired e s) (mrp_inv K)"
  using inv_ring [OF i] 
  by (cases "mrm_state (mrp s)") ((rule wp conjI impI | simp add: i mrp_mrm_ring_test_expired_def role inv_facts [OF i] inv_inter [OF i]
      ring_simps mrp_inv_def ring_inv_def)+)

lemma mrp_mrc_ring_test_expired_inv:
  assumes i: "mrp_inv K s"
    and mra: "mra_support (mrp s)"
  shows "ok (mrp_mrc_ring_test_expired e s) (mrp_inv K)"
  using inv_ring [OF i] 
  by (cases "mrc_state (mrp s)") ((rule wp conjI impI | simp add: i mrp_mrc_ring_test_expired_def become_mrm_def mrp_set_ring_role_def emit_def mra inv_facts [OF i] inv_inter [OF i]
      ring_simps mrp_inv_def ring_inv_def)+)

lemma mrp_lock_ok: "\<not> lock (mrp s) \<Longrightarrow> mrp_lock s = Some (s\<lparr>mrp := (mrp s)\<lparr>lock := True\<rparr>\<rparr>)"
  by (simp add: mrp_lock_def)

text \<open>A handler that takes the mutex, runs a body that keeps the invariant, and releases it.\<close>

lemma locked_inv:
  assumes "mrp_inv K s" and "\<not> lock (mrp s)"
    and "\<And>s. mrp_inv (relock True K) s \<Longrightarrow> P s \<Longrightarrow> ok (body s) (mrp_inv (relock True K))"
    and "P (s\<lparr>mrp := (mrp s)\<lparr>lock := True\<rparr>\<rparr>)"
  shows "ok (mrp_lock s \<bind> (\<lambda>s. body s \<bind> (\<lambda>s. Some (mrp_unlock s)))) (\<lambda>s. mrp_inv K s \<and> \<not> lock (mrp s))"
proof -
  have "ok (body (s\<lparr>mrp := (mrp s)\<lparr>lock := True\<rparr>\<rparr>)) (mrp_inv (relock True K))"
    using assms inv_relock by simp
  then show ?thesis
    using assms(2) inv_relock_False [OF assms(1,2)]
    by (auto simp: mrp_lock_ok elim!: ok_mono dest: inv_unlock)
qed

text \<open>What the invariant says when a timer runs.\<close>

lemma inv_ring_up:
  assumes "mrp_inv K s" and "active (ring_link_up_work (mrp s))" and "\<not> mra_support (mrp s)"
  shows "ring_role (mrp s) = BR_MRP_RING_ROLE_MRC" "mrc_state (mrp s) = MRP_MRC_STATE_PT"
    "fwd (p_port (mrp s)) (port s)" "\<not> fwd (s_port (mrp s)) (port s)"
    "\<not> active (ring_link_down_work (mrp s))"
  using assms inv_ring [OF assms(1)] by (auto simp: ring_inv_def)

lemma inv_ring_down:
  assumes "mrp_inv K s" and "active (ring_link_down_work (mrp s))" and "\<not> mra_support (mrp s)"
  shows "ring_role (mrp s) = BR_MRP_RING_ROLE_MRC" "mrc_state (mrp s) = MRP_MRC_STATE_DE"
    "fwd (p_port (mrp s)) (port s)" "\<not> fwd (s_port (mrp s)) (port s)"
    "\<not> active (ring_link_up_work (mrp s))"
  using assms inv_ring [OF assms(1)] by (auto simp: ring_inv_def)

lemma inv_in_test: "mrp_inv K s \<Longrightarrow> active (in_test_work (mrp s)) \<Longrightarrow> in_role (mrp s) = BR_MRP_IN_ROLE_MIM"
  using inv_inter [of K s] by (simp add: in_inv_def)

lemma inv_in_topo: "mrp_inv K s \<Longrightarrow> active (in_topo_work (mrp s)) \<Longrightarrow> in_role (mrp s) = BR_MRP_IN_ROLE_MIM"
  using inv_inter [of K s] by (simp add: in_inv_def)

lemma inv_in_up:
  assumes "mrp_inv K s" and "active (in_link_up_work (mrp s))"
  shows "in_role (mrp s) = BR_MRP_IN_ROLE_MIC" "mic_state (mrp s) = MRP_MIC_STATE_PT"
  using assms inv_inter [of K s] by (simp_all add: in_inv_def)

lemma inv_in_down: "mrp_inv K s \<Longrightarrow> active (in_link_down_work (mrp s)) \<Longrightarrow> in_role (mrp s) = BR_MRP_IN_ROLE_MIC"
  using inv_inter [of K s] by (simp add: in_inv_def)

text \<open>Each of the handlers behind a mutex is an instance of \<open>locked_inv\<close>; the body assumes what the
  invariant says of the timer that has expired.\<close>

lemma mrp_ring_test_expired_inv:
  assumes i: "mrp_inv K s" and l: "\<not> lock (mrp s)"
  shows "ok (mrp_ring_test_expired e s) (\<lambda>s. mrp_inv K s \<and> \<not> lock (mrp s))"
  unfolding mrp_ring_test_expired_def
  by (rule locked_inv [OF i l, where P = "\<lambda>_. True"])
    (simp_all add: mrp_mrm_ring_test_expired_inv mrp_mrc_ring_test_expired_inv)

lemma mrp_ring_topo_expired_inv:
  assumes "mrp_inv K s" and "\<not> lock (mrp s)" and e: "libev_timers e"
  shows "ok (mrp_ring_topo_expired e s) (\<lambda>s. mrp_inv K s \<and> \<not> lock (mrp s))"
  unfolding mrp_ring_topo_expired_def Let_def
  apply (rule locked_inv [OF assms(1,2), where P = "\<lambda>_. True"])
  subgoal premises i for s
    using inv_ring [OF i(1)]
    by - ((rule wp conjI impI | simp add: i  inv_facts [OF i(1)]  inv_inter [OF i(1)]
        libev_simps [OF e] ring_simps mrp_inv_def ring_inv_def)+)
  by (simp)

lemma mrp_ring_link_up_expired_inv:
  assumes "mrp_inv K s" and "\<not> lock (mrp s)" and e: "libev_timers e"
    and t: "active (ring_link_up_work (mrp s))"
  shows "ok (mrp_ring_link_up_expired e s) (\<lambda>s. mrp_inv K s \<and> \<not> lock (mrp s))"
  unfolding mrp_ring_link_up_expired_def Let_def
  apply (rule locked_inv [OF assms(1,2), where P = "\<lambda>s. active (ring_link_up_work (mrp s))"])
  subgoal premises i for s
    using inv_ring [OF i(1)]
    by (cases "mra_support (mrp s)") ((rule wp conjI impI | simp add: i inv_ring_up [OF i] inv_facts [OF i(1)]  inv_inter [OF i(1)]
        libev_simps [OF e] ring_simps mrp_inv_def ring_inv_def)+)
  by (simp add: t)

lemma mrp_ring_link_down_expired_inv:
  assumes "mrp_inv K s" and "\<not> lock (mrp s)" and e: "libev_timers e"
    and t: "active (ring_link_down_work (mrp s))"
  shows "ok (mrp_ring_link_down_expired e s) (\<lambda>s. mrp_inv K s \<and> \<not> lock (mrp s))"
  unfolding mrp_ring_link_down_expired_def Let_def
  apply (rule locked_inv [OF assms(1,2), where P = "\<lambda>s. active (ring_link_down_work (mrp s))"])
  subgoal premises i for s
    using inv_ring [OF i(1)]
    by (cases "mra_support (mrp s)") ((rule wp conjI impI | simp add: i inv_ring_down [OF i] inv_facts [OF i(1)]  inv_inter [OF i(1)]
        libev_simps [OF e] ring_simps mrp_inv_def ring_inv_def)+)
  by (simp add: t)

lemma mrp_in_test_expired_inv:
  assumes "mrp_inv K s" and "\<not> lock (mrp s)" and e: "libev_timers e"
    and t: "active (in_test_work (mrp s))"
  shows "ok (mrp_in_test_expired e s) (\<lambda>s. mrp_inv K s \<and> \<not> lock (mrp s))"
  unfolding mrp_in_test_expired_def Let_def
  apply (rule locked_inv [OF assms(1,2), where P = "\<lambda>s. active (in_test_work (mrp s))"])
  subgoal premises i for s
    using inv_inter [OF i(1)]
    by (cases "mim_state (mrp s)") ((rule wp conjI impI | simp del: not_None_eq add: i inv_in_test [OF i] rearm_in_test_def inv_facts [OF i(1)] inv_in [OF i(1)] inv_ring [OF i(1)]
        libev_simps [OF e] ring_simps mrp_inv_def in_inv_def)+)
  by (simp add: t)

lemma mrp_in_topo_expired_inv:
  assumes "mrp_inv K s" and "\<not> lock (mrp s)" and e: "libev_timers e"
    and t: "active (in_topo_work (mrp s))"
  shows "ok (mrp_in_topo_expired e s) (\<lambda>s. mrp_inv K s \<and> \<not> lock (mrp s))"
  unfolding mrp_in_topo_expired_def Let_def
  apply (rule locked_inv [OF assms(1,2), where P = "\<lambda>s. active (in_topo_work (mrp s))"])
  subgoal premises i for s
    using inv_inter [OF i(1)]
    by - ((rule wp conjI impI | simp del: not_None_eq add: i inv_in_topo [OF i] inv_facts [OF i(1)] inv_in [OF i(1)] inv_ring [OF i(1)]
        libev_simps [OF e] ring_simps mrp_inv_def in_inv_def)+)
  by (simp add: t)

lemma mrp_in_link_up_expired_inv:
  assumes "mrp_inv K s" and "\<not> lock (mrp s)" and e: "libev_timers e"
    and t: "active (in_link_up_work (mrp s))"
  shows "ok (mrp_in_link_up_expired e s) (\<lambda>s. mrp_inv K s \<and> \<not> lock (mrp s))"
  unfolding mrp_in_link_up_expired_def Let_def
  apply (rule locked_inv [OF assms(1,2), where P = "\<lambda>s. active (in_link_up_work (mrp s))"])
  subgoal premises i for s
    using inv_inter [OF i(1)]
    by - ((rule wp conjI impI | simp del: not_None_eq add: i inv_in_up [OF i] inv_facts [OF i(1)] inv_in [OF i(1)] inv_ring [OF i(1)]
        libev_simps [OF e] ring_simps mrp_inv_def in_inv_def)+)
  by (simp add: t)

lemma mrp_in_link_down_expired_inv:
  assumes "mrp_inv K s" and "\<not> lock (mrp s)" and e: "libev_timers e"
    and t: "active (in_link_down_work (mrp s))"
  shows "ok (mrp_in_link_down_expired e s) (\<lambda>s. mrp_inv K s \<and> \<not> lock (mrp s))"
  unfolding mrp_in_link_down_expired_def Let_def
  apply (rule locked_inv [OF assms(1,2), where P = "\<lambda>s. active (in_link_down_work (mrp s))"])
  subgoal premises i for s
    using inv_inter [OF i(1)]
    by - ((rule wp conjI impI | simp del: not_None_eq add: i inv_in_down [OF i] inv_facts [OF i(1)] inv_in [OF i(1)] inv_ring [OF i(1)]
        libev_simps [OF e] ring_simps mrp_inv_def in_inv_def)+)
  by (simp add: t)

lemma mrp_in_link_status_expired_inv:
  assumes "mrp_inv K s" and "\<not> lock (mrp s)" and e: "libev_timers e"
    and t: "active (in_link_status_work (mrp s))"
  shows "ok (mrp_in_link_status_expired e s) (\<lambda>s. mrp_inv K s \<and> \<not> lock (mrp s))"
  unfolding mrp_in_link_status_expired_def Let_def
  apply (rule locked_inv [OF assms(1,2), where P = "\<lambda>s. active (in_link_status_work (mrp s))"])
  subgoal premises i for s
    using inv_inter [OF i(1)] inv_facts(5) [OF i(1)] i(2)
    by - ((rule wp conjI impI | simp del: not_None_eq add: i  inv_facts [OF i(1)]  inv_ring [OF i(1)]
        libev_simps [OF e] ring_simps mrp_inv_def in_inv_def mode_inv_def)+)
  by (simp add: t)

lemma mrp_cfm_ccm_expired_inv:
  assumes "mrp_inv K s" and "active (cfm_ccm_work (mrp s))"
  shows "ok (mrp_cfm_ccm_expired e s) (mrp_inv K)"
  using assms by (simp add: mrp_cfm_ccm_expired_def mrp_inv_def mode_inv_def emit_def Let_def)

text \<open>The clear-FDB and CCM handlers do not take the mutex.\<close>

lemma unlocked_expired:
  assumes i: "mrp_inv K s"
  shows "ok (mrp_clear_fdb_expired e s) (\<lambda>x. lock (mrp x) = lock (mrp s))"
    "ok (mrp_cfm_ccm_expired e s) (\<lambda>x. lock (mrp x) = lock (mrp s))"
  by (simp_all add: mrp_clear_fdb_expired_def mrp_cfm_ccm_expired_def emit_def Let_def)
    (rule wp, simp_all add: inv_facts [OF i] ring_simps)

lemma timer_expired_inv:
  assumes "mrp_inv K s" and "\<not> lock (mrp s)" and "libev_timers e" and "active (work t (mrp s))"
  shows "ok (timer_expired e t s) (\<lambda>s. mrp_inv K s \<and> \<not> lock (mrp s))"
  using assms unlocked_expired [OF assms(1)]
  by (cases t)
    (auto simp: mrp_ring_test_expired_inv mrp_ring_topo_expired_inv mrp_ring_link_up_expired_inv
      mrp_ring_link_down_expired_inv mrp_in_test_expired_inv mrp_in_topo_expired_inv
      mrp_in_link_up_expired_inv mrp_in_link_down_expired_inv mrp_in_link_status_expired_inv
      intro!: ok_conj mrp_clear_fdb_expired_inv mrp_cfm_ccm_expired_inv)

end
