(* ===== verification/Mrp_Inv_Recv.thy ===== *)
theory Mrp_Inv_Recv
  imports Mrp_Inv
begin

text \<open>
  Reception of a frame, forwarding included, keeps the invariant of the instance and does not
  crash, for every frame of at least an Ethernet header that fits the receive buffer.
\<close>

section \<open>Forwarding\<close>

text \<open>The receive buffer: \<open>packet_rcv\<close> hands over an array of 2048 bytes and a length within it.\<close>

definition rx_ok :: "frame_buf \<Rightarrow> bool" where
  "rx_ok fb \<longleftrightarrow> length (fb_start fb) = 2048 \<and> fb_data fb = 14 \<and> 14 \<le> unat (fb_size fb) \<and> unat (fb_size fb) \<le> 2048"

text \<open>Forwarding only appends to the log, and hands on a buffer that is still sound.\<close>

lemma mrp_forward_wp [wp]:
  assumes l: "live p (port s)" and fb: "rx_ok fb"
    and Q: "\<And>fb' l. rx_ok fb' \<Longrightarrow> Q (fb', s\<lparr>log := log s @ l\<rparr>)"
  shows "ok (mrp_forward p fb s) Q"
proof -
  let ?fb = "if fb_size fb < 60 then fb\<lparr>fb_size := fb_size fb + (60 - fb_size fb)\<rparr> else fb"
  have r: "rx_ok ?fb"
    using fb by (auto simp: rx_ok_def)
  obtain q where q: "deref p s = Some q"
    using live_deref [OF l] by blast
  have "\<not> length (fb_start ?fb) < unat (fb_size ?fb)"
    using r by (simp add: rx_ok_def)
  moreover have "Q (?fb, s)"
    using Q [OF r, of "[]"] by simp
  ultimately show ?thesis
    unfolding mrp_forward_def Let_def q
    by (simp only: Option.bind.simps if_False ok_if ok_Some packet_send_def emit_def Q [OF r] simp_thms split: if_split)
qed

lemma forward_to_wp [wp]:
  assumes "t = None \<or> live t (port s)" and fb: "rx_ok fb"
    and Q: "\<And>fb' l. rx_ok fb' \<Longrightarrow> Q (fb', s\<lparr>log := log s @ l\<rparr>)"
  shows "ok (forward_to t fb s) Q"
  using assms(1) Q [OF fb, of "[]"]
  by (cases t) (auto simp: forward_to_def fb intro!: mrp_forward_wp Q)

text \<open>The ports a frame is forwarded to are ports of the instance.\<close>

definition targets_ok :: "targets \<Rightarrow> port_mem \<Rightarrow> bool" where
  "targets_ok t pm \<longleftrightarrow> (case t of (fp, fs, fi) \<Rightarrow>
     (fp = None \<or> live fp pm) \<and> (fs = None \<or> live fs pm) \<and> (fi = None \<or> live fi pm))"

lemma forward_ways_ok: "mrp_inv K s \<Longrightarrow> targets_ok (forward_ways (mrp s) p) (port s)"
  using core_okD [OF inv_facts(1), of K s]
  by (cases "i_port (mrp s)") (simp_all add: forward_ways_def targets_ok_def)

lemma forward_ring_ok: "targets_ok w pm \<Longrightarrow> forward_ring m p ty w = Some t \<Longrightarrow> targets_ok t pm"
  by (cases "ring_role m") (auto simp: forward_ring_def targets_ok_def split: prod.splits if_splits)

lemma forward_in_ok: "targets_ok w pm \<Longrightarrow> forward_in m q h ty w = Some t \<Longrightarrow> targets_ok t pm"
  by (cases "in_role m") (auto simp: forward_in_def targets_ok_def Let_def split: prod.splits if_splits)

lemma ring_ports_cut_ok:
  assumes i: "mrp_inv K s"
  shows "ok (ring_ports_cut q h s) (\<lambda>_. True)"
  by (cases "ring_role (mrp s)")
    ((rule wp conjI impI | simp add: ring_ports_cut_def inv_facts [OF i])+)

lemma forward_targets_wp:
  assumes i: "mrp_inv K s" and p: "live p (port s)"
  shows "ok (forward_targets p h ty s) (\<lambda>t. case t of None \<Rightarrow> True | Some t \<Rightarrow> targets_ok t (port s))"
proof -
  obtain q where q: "deref_mrp p s = Some q" using live_deref [OF p] by blast
  obtain cut where "ring_ports_cut q h s = Some cut"
    using ring_ports_cut_ok [OF i] by (auto simp: ok_def)
  moreover obtain fp fs fi where w: "forward_ways (mrp s) p = (fp, fs, fi)"
    using prod_cases3 by blast
  moreover have "targets_ok (fp, fs, fi) (port s)"
    using forward_ways_ok [OF i, of p] w by simp
  moreover from this have "targets_ok (None, None, fi) (port s)"
    by (simp add: targets_ok_def)
  ultimately show ?thesis
    by (auto simp: forward_targets_def q Let_def split: option.splits intro: forward_ring_ok forward_in_ok)
qed

lemma mrp_check_and_forward_wp [wp]:
  assumes i: "mrp_inv K s" and p: "live p (port s)" and fb: "rx_ok fb"
    and Q: "\<And>fb' l. rx_ok fb' \<Longrightarrow> Q (fb', s\<lparr>log := log s @ l\<rparr>)"
  shows "ok (mrp_check_and_forward p fb ty s) Q"
  unfolding mrp_check_and_forward_def ok_bind
  apply (rule ok_mono [OF forward_targets_wp [OF i p]])
  subgoal for t
    using Q [OF fb, of "[]"]
    by (cases t) (auto simp: targets_ok_def fb intro!: forward_to_wp Q)
  done

section \<open>Processing\<close>

lemma copy_frame_ok: "rx_ok fb \<Longrightarrow> ok (copy_frame e fb) (\<lambda>b. length b = 2048)"
  by (auto simp: copy_frame_def rx_ok_def Let_def)

lemma mrp_process_inv:
  assumes i: "mrp_inv K s" and e: "libev_timers e" and p: "live p (port s)" and b: "length buf = 2048"
    and pr: "mrp_should_process (mrp s) ty"
  shows "ok (mrp_process e p buf ty s) (mrp_inv K)"
  using pr b inv_ring [OF i]
  by (cases ty)
    (auto simp: ring_inv_def i e p intro!: mrp_recv_ring_test_inv mrp_recv_ring_topo_inv mrp_recv_ring_link_inv
      mrp_recv_option_inv mrp_recv_in_test_inv mrp_recv_in_topo_inv mrp_recv_in_link_inv)

lemma mrp_process_frame_inv:
  assumes i: "mrp_inv K s" and l: "\<not> lock (mrp s)" and e: "libev_timers e" and p: "live p (port s)"
    and fb: "rx_ok fb"
  shows "ok (mrp_process_frame e p fb ty s) (\<lambda>s. mrp_inv K s \<and> \<not> lock (mrp s))"
proof -
  obtain q where q: "deref_mrp p s = Some q" using live_deref [OF p] by blast
  let ?s = "s\<lparr>mrp := (mrp s)\<lparr>lock := True\<rparr>\<rparr>"
  have body: "ok (if mrp_should_process (mrp x) ty then do { nbuf \<leftarrow> copy_frame e fb'; mrp_process e p nbuf ty x }
      else Some x) (mrp_inv (relock True K))" if "rx_ok fb'" "x = ?s\<lparr>log := l\<rparr>" for fb' x l
  proof -
    have "mrp_inv (relock True K) x" "live p (port x)"
      using that(2) inv_relock [OF i, of True] p by (simp_all add: mrp_inv_def)
    then show ?thesis
      using copy_frame_ok [OF that(1), of e] mrp_process_inv [of "relock True K", OF _ e]
      by (auto elim!: ok_mono)
  qed
  have unlock: "mrp_inv (relock True K) x \<Longrightarrow> ok (Some (mrp_unlock x)) (\<lambda>s. mrp_inv K s \<and> \<not> lock (mrp s))" for x
    using inv_unlock [of K x] inv_relock_False [OF i l] by simp
  have "ok (mrp_check_and_forward p fb ty ?s) (\<lambda>(fb', x). rx_ok fb' \<and> (\<exists>l. x = ?s\<lparr>log := l\<rparr>))"
    by (rule mrp_check_and_forward_wp [OF inv_relock [OF i, of True]]) (use p fb in auto)
  then show ?thesis
    unfolding mrp_process_frame_def q mrp_lock_def
    by (simp only: l if_False Option.bind.simps ok_bind)
      (erule ok_mono, clarify, simp only: prod.case ok_bind, rule ok_mono [OF body], assumption, rule refl, erule unlock)
qed

lemma mrp_recv_port_inv:
  assumes i: "mrp_inv K s" and l: "\<not> lock (mrp s)" and e: "libev_timers e" and p: "live p (port s)"
    and b: "length buf = 2048" "14 \<le> unat n" "unat n \<le> 2048"
  shows "ok (mrp_recv_port e p buf n s) (\<lambda>s. mrp_inv K s \<and> \<not> lock (mrp s))"
proof -
  obtain q where q: "deref p s = Some q" using live_deref [OF p] by blast
  have "rx_ok \<lparr>fb_start = buf, fb_data = 14, fb_size = n\<rparr>"
    using b by (simp add: rx_ok_def)
  then show ?thesis
    using mrp_process_frame_inv [OF i l e p] i l by (simp add: mrp_recv_port_def q Let_def)
qed

end
