(* ===== verification/Mrp_Daemon_Inv.thy ===== *)
theory Mrp_Daemon_Inv
  imports Mrp_Inv_Config Mrp_Inv_Timer Mrp_Inv_Recv
begin

text \<open>
  The invariant of the daemon: every instance of the list satisfies its own invariant, no mutex
  is held, and no two instances have the same bridge and ring number.  Every operation that
  searches or changes the list keeps it.
\<close>

section \<open>Definitions\<close>

definition good :: "inst \<Rightarrow> bool" where
  "good x \<longleftrightarrow> mrp_inv (cfg (fst x)) (load x [])"

definition cfgs :: "daemon \<Rightarrow> config list" where
  "cfgs d = map (\<lambda>x. cfg (fst x)) (insts d)"

definition ckey :: "config \<Rightarrow> u32 \<times> u32" where
  "ckey K = (c_br K, c_ring_nr K)"

definition keys :: "daemon \<Rightarrow> (u32 \<times> u32) list" where
  "keys d = map ckey (cfgs d)"

definition all_good :: "daemon \<Rightarrow> bool" where
  "all_good d \<longleftrightarrow> (\<forall>x \<in> set (insts d). good x)"

definition daemon_inv :: "daemon \<Rightarrow> bool" where
  "daemon_inv d \<longleftrightarrow> all_good d \<and> distinct (keys d) \<and> (\<forall>K \<in> set (cfgs d). \<not> c_lock K)"

text \<open>The events of an instance change neither the list of configurations nor the timers left
  behind.\<close>

definition steady :: "daemon \<Rightarrow> daemon \<Rightarrow> bool" where
  "steady d d' \<longleftrightarrow> all_good d' \<and> cfgs d' = cfgs d \<and> stale d' = stale d"

lemma daemon_inv_init: "daemon_inv daemon_init"
  by (simp add: daemon_inv_def daemon_init_def all_good_def keys_def cfgs_def)

lemma steady_refl: "all_good d \<Longrightarrow> steady d d"
  by (simp add: steady_def)

lemma steady_trans: "steady d d' \<Longrightarrow> steady d' d'' \<Longrightarrow> steady d d''"
  by (simp add: steady_def)

lemma steady_inv: "daemon_inv d \<Longrightarrow> steady d d' \<Longrightarrow> daemon_inv d'"
  by (simp add: daemon_inv_def steady_def keys_def)

lemma inv_all_good: "daemon_inv d \<Longrightarrow> all_good d"
  by (simp add: daemon_inv_def)

section \<open>Running one instance\<close>

lemma mrp_inv_load: "mrp_inv K (load x l) = mrp_inv K (load x [])"
  by (simp add: mrp_inv_def load_def)

lemma load_back: "mrp_inv K (load (mrp s, port s) l) = mrp_inv K s"
  by (simp add: mrp_inv_def load_def)

lemma load_sel [simp]: "mrp (load x l) = fst x" "port (load x l) = snd x" "log (load x l) = l"
  by (simp_all add: load_def)

lemma on_inst_wp:
  assumes "k < length (insts d)"
    and "ok (f (load (insts d ! k) (dlog d))) (\<lambda>(r, s). Q (r, d\<lparr>insts := (insts d)[k := (mrp s, port s)], dlog := log s\<rparr>))"
  shows "ok (on_inst k f d) Q"
  using assms by (auto simp: on_inst_def ok_def)

lemma run_inst_wp:
  assumes "k < length (insts d)"
    and "ok (f (load (insts d ! k) (dlog d))) (\<lambda>s. Q (d\<lparr>insts := (insts d)[k := (mrp s, port s)], dlog := log s\<rparr>))"
  shows "ok (run_inst k f d) Q"
  using assms by (auto simp: run_inst_def on_inst_def ok_def)

lemma all_good_upd: "all_good d \<Longrightarrow> mrp_inv (cfg (mrp s)) s \<Longrightarrow>
    all_good (d\<lparr>insts := (insts d)[k := (mrp s, port s)], dlog := l\<rparr>)"
  using set_update_subset_insert [of "insts d" k "(mrp s, port s)"]
  by (auto simp: all_good_def good_def load_back)

lemma run_inst_steady:
  assumes d: "all_good d" and k: "k < length (insts d)"
    and f: "ok (f (load (insts d ! k) (dlog d))) (mrp_inv (cfg (fst (insts d ! k))))"
  shows "ok (run_inst k f d) (steady d)"
proof (rule run_inst_wp [OF k], rule ok_mono [OF f])
  fix s
  assume s: "mrp_inv (cfg (fst (insts d ! k))) s"
  then have c: "cfg (mrp s) = cfg (fst (insts d ! k))" by (simp add: mrp_inv_def)
  have "cfgs (d\<lparr>insts := (insts d)[k := (mrp s, port s)], dlog := log s\<rparr>) = (cfgs d)[k := cfg (fst (insts d ! k))]"
    by (simp add: cfgs_def map_update c)
  also have "\<dots> = cfgs d"
    using k by (metis (no_types, lifting) cfgs_def list_update_id nth_map)
  finally show "steady d (d\<lparr>insts := (insts d)[k := (mrp s, port s)], dlog := log s\<rparr>)"
    using all_good_upd [OF d, of s "log s" k] s c by (simp add: steady_def)
qed

lemma good_inst:
  "all_good d \<Longrightarrow> k < length (insts d) \<Longrightarrow> mrp_inv (cfg (fst (insts d ! k))) (load (insts d ! k) l)"
  using nth_mem [of k "insts d"] mrp_inv_load [of _ _ l] by (auto simp: all_good_def good_def)

lemma unlocked_inst:
  "daemon_inv d \<Longrightarrow> k < length (insts d) \<Longrightarrow> \<not> lock (fst (insts d ! k))"
  by (auto simp: daemon_inv_def cfgs_def)

section \<open>Searching\<close>

lemma find_index_Some: "find_index P xs = Some k \<Longrightarrow> k < length xs \<and> P (xs ! k)"
  by (induction xs arbitrary: k) (auto split: if_splits)

lemma find_index_None: "find_index P xs = None \<longleftrightarrow> (\<forall>x \<in> set xs. \<not> P x)"
  by (induction xs) auto

lemma find_index_append:
  "find_index P (xs @ ys) = (case find_index P xs of Some k \<Rightarrow> Some k
     | None \<Rightarrow> map_option (\<lambda>k. length xs + k) (find_index P ys))"
  by (induction xs; cases "find_index P ys") (auto split: option.splits)

text \<open>The port found has the interface index; when none is found, no port of any instance has it.\<close>

definition at_ifindex :: "u32 \<Rightarrow> port_ref option \<Rightarrow> port_mem \<Rightarrow> bool" where
  "at_ifindex idx p pm \<longleftrightarrow> (\<exists>r q. p = Some r \<and> pm r = Some q \<and> pifindex q = idx)"

definition ports_of :: "mrp \<Rightarrow> port_ref option set" where
  "ports_of m = {p_port m, s_port m, i_port m}"

definition owns :: "config \<Rightarrow> port_ref option \<Rightarrow> bool" where
  "owns K p \<longleftrightarrow> p = Some PORT_PRIMARY \<or> p = Some PORT_SECONDARY \<or> p = Some PORT_INTER \<and> c_i_port K = Some PORT_INTER"

lemma owns_live: "mrp_inv K s \<Longrightarrow> owns K p \<Longrightarrow> live p (port s)"
  using inv_facts(1) [of K s] inv_facts(6) [of K s]
  by (auto simp: owns_def core_ok_def live_def cfg_sel [symmetric] simp del: cfg_sel)

lemma ports_owned:
  assumes "mrp_inv (cfg m) (load (m, pm) l)" and "p \<in> ports_of m" and "p \<noteq> None"
  shows "owns (cfg m) p"
  using inv_facts(1) [OF assms(1)] assms(2,3)
  by (auto simp: owns_def core_ok_def ports_of_def)

lemma has_ifindex_ok:
  "p = None \<or> live p pm \<Longrightarrow> ok (has_ifindex idx p pm) (\<lambda>b. b = at_ifindex idx p pm)"
  by (auto simp: has_ifindex_def live_def slot_ok_def at_ifindex_def)

definition port_found :: "u32 \<Rightarrow> inst list \<Rightarrow> (nat \<times> port_ref option) option \<Rightarrow> bool" where
  "port_found idx xs r \<longleftrightarrow> (case r of
     None \<Rightarrow> \<forall>x \<in> set xs. \<forall>p \<in> ports_of (fst x). \<not> at_ifindex idx p (snd x)
   | Some (k, p) \<Rightarrow> k < length xs \<and> p \<in> ports_of (fst (xs ! k)) \<and> at_ifindex idx p (snd (xs ! k)) \<and>
       (\<forall>x \<in> set (take k xs). \<forall>p \<in> ports_of (fst x). \<not> at_ifindex idx p (snd x)))"

lemma get_port_from_ok:
  assumes "\<forall>x \<in> set xs. good x"
  shows "ok (get_port_from idx n xs) (\<lambda>r. port_found idx xs (map_option (map_prod (\<lambda>k. k - n) id) r) \<and>
    (\<forall>k p. r = Some (k, p) \<longrightarrow> n \<le> k))"
  using assms
proof (induction xs arbitrary: n)
  case (Cons x xs)
  obtain m pm where x: "x = (m, pm)" by (cases x)
  have i: "mrp_inv (cfg m) (load (m, pm) [])" using Cons.prems by (simp add: good_def x)
  have core: "core_ok (p_port m) (s_port m) (i_port m) (domain m) (macaddr m) (ring_mac m) pm"
    using inv_facts(1) [OF i] by simp
  note c = core_okD [OF core]
  have l: "p_port m = None \<or> live (p_port m) pm" "s_port m = None \<or> live (s_port m) pm" "i_port m = None \<or> live (i_port m) pm"
    using c by blast+
  have rest: "ok (get_port_from idx (Suc n) xs) (\<lambda>r. port_found idx (x # xs) (map_option (map_prod (\<lambda>k. k - n) id) r) \<and>
      (\<forall>k p. r = Some (k, p) \<longrightarrow> n \<le> k))"
    if "\<forall>p \<in> ports_of m. \<not> at_ifindex idx p pm"
    by (rule ok_mono [OF Cons.IH [of "Suc n"]])
      (use Cons.prems that in \<open>auto simp: port_found_def x Suc_le_eq nth_Cons' take_Cons' split: option.splits if_splits\<close>)
  have here: "port_found idx ((m, pm) # xs) (Some (0, p))" if "p \<in> ports_of m" "at_ifindex idx p pm" for p
    using that by (simp add: port_found_def)
  show ?case
    unfolding x get_port_from.simps ok_bind
    by (rule ok_mono [OF has_ifindex_ok [OF l(1)]], simp, intro conjI impI, use here in \<open>simp add: ports_of_def\<close>,
        rule ok_mono [OF has_ifindex_ok [OF l(2)]], simp, intro conjI impI, use here in \<open>simp add: ports_of_def\<close>,
        rule ok_mono [OF has_ifindex_ok [OF l(3)]], simp, intro conjI impI, use here in \<open>simp add: ports_of_def\<close>,
        use rest in \<open>simp add: ports_of_def x\<close>)
qed (simp add: port_found_def)

lemma mrp_get_port_ok:
  assumes "all_good d"
  shows "ok (mrp_get_port idx d) (port_found idx (insts d))"
proof -
  have "ok (get_port_from idx 0 (insts d)) (\<lambda>r. port_found idx (insts d) (map_option (map_prod (\<lambda>k. k) id) r))"
    using get_port_from_ok [of "insts d" idx 0] assms by (auto simp: all_good_def ok_def)
  then show ?thesis
    by (simp add: mrp_get_port_def map_prod.identity [unfolded id_def] id_def option.map_ident)
qed

lemma port_found_owned:
  assumes d: "all_good d" and f: "port_found idx (insts d) (Some (k, p))"
  shows "k < length (insts d)" "owns (cfgs d ! k) p"
proof -
  show k: "k < length (insts d)" using f by (simp add: port_found_def)
  obtain m pm where x: "insts d ! k = (m, pm)" by (cases "insts d ! k")
  show "owns (cfgs d ! k) p"
    using ports_owned [of m pm "[]" p] good_inst [OF d k, of "[]"] f k
    by (auto simp: port_found_def at_ifindex_def cfgs_def x)
qed

end
