(* ===== verification/Mrp_Events.thy ===== *)
theory Mrp_Events
  imports Mrp_Daemon_Inv
begin

text \<open>
  The events of the daemon: frames, timer expiries, link and connectivity changes keep the list of
  instances and the invariant; \<open>mrp_add\<close>, \<open>mrp_del\<close>, \<open>mrp_destroy\<close> and \<open>mrp_uninit\<close> change the
  list as a registry of bridges and ring numbers.
\<close>

section \<open>Events of one instance\<close>

lemma cfgs_nth: "k < length (insts d) \<Longrightarrow> cfgs d ! k = cfg (fst (insts d ! k))"
  by (simp add: cfgs_def)

lemma mrp_recv_steady:
  assumes d: "daemon_inv d" and e: "libev_timers e" and b: "length buf = 2048" "14 \<le> unat n" "unat n \<le> 2048"
  shows "ok (mrp_recv e idx buf n d) (steady d)"
proof -
  note g = inv_all_good [OF d]
  show ?thesis
    unfolding mrp_recv_def ok_bind
  proof (rule ok_mono [OF mrp_get_port_ok [OF g]])
    fix r
    assume r: "port_found idx (insts d) r"
    show "ok (case r of None \<Rightarrow> Some d | Some (k, p) \<Rightarrow> run_inst k (mrp_recv_port e p buf n) d) (steady d)"
    proof (cases r)
      case (Some kp)
      obtain k p where kp: "kp = (k, p)" by (cases kp)
      note o = port_found_owned [OF g r [unfolded Some kp]]
      have "ok (mrp_recv_port e p buf n (load (insts d ! k) (dlog d))) (mrp_inv (cfg (fst (insts d ! k))))"
        by (rule ok_mono [OF mrp_recv_port_inv [OF good_inst [OF g o(1)] _ e owns_live [OF good_inst [OF g o(1)]] b]])
          (use unlocked_inst [OF d o(1)] o(2) in \<open>simp_all add: cfgs_nth [OF o(1)]\<close>)
      then show ?thesis
        using run_inst_steady [OF g o(1)] by (simp add: Some kp)
    qed (simp add: steady_refl [OF g])
  qed
qed

lemma mrp_get_mrp_range: "mrp_get_mrp idx peer d = Some k \<Longrightarrow> k < length (insts d)"
  using find_index_Some by (auto simp: mrp_get_mrp_def)

lemma mrp_cfm_link_change_steady:
  assumes g: "all_good d" and e: "libev_timers e"
  shows "ok (mrp_cfm_link_change e br peer defect d) (steady d)"
proof (cases "mrp_get_mrp br peer d")
  case (Some k)
  have k: "k < length (insts d)" using mrp_get_mrp_range [OF Some] .
  show ?thesis
    using run_inst_steady [where f = "cfm_link_change e defect", OF g k] cfm_link_change_inv [OF good_inst [OF g k] e]
    by (simp add: mrp_cfm_link_change_def Some)
qed (simp add: mrp_cfm_link_change_def steady_refl [OF g])

lemma upd_mac_inv:
  assumes i: "mrp_inv K s" and p: "live p (port s)" and m: "6 \<le> length mac"
  shows "ok (upd_port p (\<lambda>q. q\<lparr>pmacaddr := take ETH_ALEN mac\<rparr>) s) (mrp_inv K)"
proof -
  obtain r q where r: "p = Some r" and q: "port s r = Some q" "pmrp q" "prole q = port_role_of r"
    using p by (auto simp: live_def slot_ok_def)
  let ?pm = "(port s)(r \<mapsto> q\<lparr>pmacaddr := take 6 mac\<rparr>)"
  have slot: "slot_ok r' (port s) \<Longrightarrow> slot_ok r' ?pm" for r'
    using q m by (auto simp: slot_ok_def)
  have pst: "pst r' ?pm = pst r' (port s)" for r'
    using q by (auto simp: pst_def split: option.splits)
  have "inst_ok (s\<lparr>port := ?pm\<rparr>)"
    using inv_facts(1) [OF i] slot by (auto simp: core_ok_def)
  then have "mrp_inv K (s\<lparr>port := ?pm\<rparr>)"
    using i by (simp add: mrp_inv_def pst)
  then show ?thesis
    by (simp add: upd_port_def r q)
qed

lemma inst_mac_inv:
  assumes "mrp_inv K s" and "length mac = 6"
  shows "mrp_inv K (s\<lparr>mrp := (mrp s)\<lparr>macaddr := mac\<rparr>\<rparr>)"
  using assms by (simp add: mrp_inv_def core_ok_def)

lemma mrp_mac_change_steady:
  assumes g: "all_good d" and m: "6 \<le> length mac"
  shows "ok (mrp_mac_change idx mac d) (steady d)"
  unfolding mrp_mac_change_def ok_bind
proof (rule ok_mono [OF mrp_get_port_ok [OF g]])
  fix r
  assume r: "port_found idx (insts d) r"
  let ?f = "\<lambda>(m, pm). (if ifindex m = idx then m\<lparr>macaddr := take ETH_ALEN mac\<rparr> else m, pm)"
  show "ok (case r of Some (k, p) \<Rightarrow> run_inst k (upd_port p (\<lambda>q. q\<lparr>pmacaddr := take ETH_ALEN mac\<rparr>)) d
      | None \<Rightarrow> Some (d\<lparr>insts := map ?f (insts d)\<rparr>)) (steady d)"
  proof (cases r)
    case None
    have cf: "cfg (fst (?f x)) = cfg (fst x)" for x
      by (cases x) simp
    have "good (?f x)" if "x \<in> set (insts d)" for x
    proof -
      obtain a pm where x: "x = (a, pm)" by (cases x)
      have "mrp_inv (cfg a) (load x [])" using g that x by (auto simp: all_good_def good_def)
      then show ?thesis
        using inst_mac_inv [of "cfg a" "load x []" "take 6 mac"] m
        by (simp add: good_def x load_def)
    qed
    moreover have "cfgs (d\<lparr>insts := map ?f (insts d)\<rparr>) = cfgs d"
      by (simp add: cfgs_def comp_def cf del: split_paired_all)
    ultimately show ?thesis
      by (simp add: None steady_def all_good_def)
  next
    case (Some kp)
    obtain k p where kp: "kp = (k, p)" by (cases kp)
    note o = port_found_owned [OF g r [unfolded Some kp]]
    show ?thesis
      using run_inst_steady [where f = "upd_port p (\<lambda>q. q\<lparr>pmacaddr := take ETH_ALEN mac\<rparr>)", OF g o(1)]
        upd_mac_inv [OF good_inst [OF g o(1)] owns_live [OF good_inst [OF g o(1)]] m] o(2)
      by (simp add: Some kp cfgs_nth [OF o(1)])
  qed
qed

lemma oper_change_inv:
  assumes i: "mrp_inv K s" and e: "libev_timers e" and p: "live p (port s)"
  shows "ok (oper_change e state p s) (mrp_inv K)"
proof -
  obtain q where q: "deref p s = Some q" using live_deref [OF p] by blast
  have set: "mrp_inv K (s\<lparr>port := set_oper p x (port s)\<rparr>)" for x
    using i by (simp add: mrp_inv_def)
  have link: "ok (mrp_port_link_change e p up (s\<lparr>port := set_oper p x (port s)\<rparr>)) (mrp_inv K)" for up x
    by (rule mrp_port_link_change_inv [OF set e]) (use p in simp)
  have link2: "ok (mrp_port_link_change e p up (s\<lparr>port := set_oper p y (set_oper p x (port s))\<rparr>)) (mrp_inv K)" for up x y
    by (rule mrp_port_link_change_inv [OF _ e]) (use i p in \<open>simp_all add: mrp_inv_def\<close>)
  show ?thesis
    unfolding oper_change_def q
    using i p set link link2 by (auto intro!: wp)
qed

lemma timer_expired_steady:
  assumes d: "daemon_inv d" and e: "libev_timers e" and k: "k < length (insts d)"
    and t: "active (work t (fst (insts d ! k)))"
  shows "ok (run_inst k (timer_expired e t) d) (steady d)"
proof -
  note g = inv_all_good [OF d]
  have "ok (timer_expired e t (load (insts d ! k) (dlog d))) (mrp_inv (cfg (fst (insts d ! k))))"
    by (rule ok_mono [OF timer_expired_inv [OF good_inst [OF g k] _ e]])
      (use unlocked_inst [OF d k] t in simp_all)
  then show ?thesis by (rule run_inst_steady [OF g k])
qed

end
