(* ===== verification/Mrp_Registry.thy ===== *)
theory Mrp_Registry
  imports Mrp_Events
begin

text \<open>
  The list of instances as a registry keyed by bridge and ring number: \<open>mrp_add\<close> appends one
  instance or leaves the list as it was, \<open>mrp_del\<close> and \<open>mrp_destroy\<close> remove one, and an
  instance that is destroyed in the ring check mode leaves no timer behind.
\<close>

section \<open>Destruction\<close>

definition ikey :: "inst \<Rightarrow> u32 \<times> u32" where
  "ikey x = (ifindex (fst x), ring_nr (fst x))"

lemma keys_ikey: "keys d = map ikey (insts d)"
  by (simp add: keys_def cfgs_def ckey_def ikey_def)

lemma mrp_find_ikey: "mrp_find br nr d = find_index (\<lambda>x. ikey x = (br, nr)) (insts d)"
  by (simp add: mrp_find_def ikey_def conj_commute)

lemma mrp_find_None: "mrp_find br nr d = None \<longleftrightarrow> (br, nr) \<notin> set (keys d)"
  unfolding mrp_find_ikey find_index_None keys_ikey by (force simp: image_iff)

lemma mrp_find_Some: "mrp_find br nr d = Some k \<Longrightarrow> k < length (insts d) \<and> ikey (insts d ! k) = (br, nr)"
  using find_index_Some by (fastforce simp: mrp_find_ikey)

lemma remove_nth_filter:
  assumes "distinct (map f xs)" and "k < length xs" and "f (xs ! k) = a"
  shows "remove_nth k xs = filter (\<lambda>x. f x \<noteq> a) xs"
proof -
  have xs: "xs = take k xs @ xs ! k # drop (Suc k) xs"
    using assms(2) by (simp add: id_take_nth_drop [symmetric])
  have "distinct (map f (take k xs @ xs ! k # drop (Suc k) xs))"
    using assms(1) xs by simp
  then have "\<forall>x \<in> set (take k xs @ drop (Suc k) xs). f x \<noteq> a"
    using assms(3) by (auto simp: image_iff)
  then have "filter (\<lambda>x. f x \<noteq> a) (take k xs @ xs ! k # drop (Suc k) xs) = take k xs @ drop (Suc k) xs"
    using assms(3) by (simp add: filter_True)
  then show ?thesis
    using xs by (simp add: remove_nth_def)
qed

lemma mrp_destroy_ok:
  assumes dist: "distinct (keys d)"
    and f: "\<And>k. mrp_find br nr d = Some k \<Longrightarrow>
      freeable (load (insts d ! k) (dlog d)) \<and> \<not> lock (fst (insts d ! k)) \<and> timers_ok (fst (insts d ! k))"
  shows "ok (mrp_destroy e br nr d) (\<lambda>d'. insts d' = filter (\<lambda>x. ikey x \<noteq> (br, nr)) (insts d) \<and>
    (libev_timers e \<longrightarrow> (\<forall>x \<in> set (insts d). ikey x = (br, nr) \<longrightarrow> in_mode (fst x) = MRP_IN_MODE_RC) \<longrightarrow>
      stale d' = stale d))"
proof (cases "mrp_find br nr d")
  case None
  then have "\<forall>x \<in> set (insts d). ikey x \<noteq> (br, nr)"
    by (auto simp: mrp_find_ikey find_index_None)
  then show ?thesis
    by (simp add: mrp_destroy_def None filter_True)
next
  case (Some k)
  note fk = mrp_find_Some [OF Some]
  have k: "k < length (insts d)" using fk by blast
  have rem: "remove_nth k ((insts d)[k := y]) = filter (\<lambda>x. ikey x \<noteq> (br, nr)) (insts d)" for y
    using remove_nth_filter [of ikey "insts d" k "(br, nr)"] dist fk
    by (simp add: remove_nth_def keys_ikey)
  have "ok (destroy_inst e (load (insts d ! k) (dlog d))) (\<lambda>s'. libev_timers e \<and>
      timers_ok (fst (insts d ! k)) \<and> in_mode (fst (insts d ! k)) = MRP_IN_MODE_RC \<longrightarrow> running (mrp s') = [])"
    using destroy_inst_ok [of "load (insts d ! k) (dlog d)" e] f [OF Some] by simp
  then have "ok (run_inst k (destroy_inst e) d) (\<lambda>d'. (\<exists>y l. d' = d\<lparr>insts := (insts d)[k := y], dlog := l\<rparr>) \<and>
      (libev_timers e \<and> timers_ok (fst (insts d ! k)) \<and> in_mode (fst (insts d ! k)) = MRP_IN_MODE_RC \<longrightarrow>
        running (fst (insts d' ! k)) = []))"
    by (auto intro!: run_inst_wp [OF k] elim!: ok_mono simp: k)
  then show ?thesis
    using fk f [OF Some] by (auto simp: mrp_destroy_def Some ok_def rem)
qed

lemma destroy_pre:
  assumes d: "daemon_inv d" and "mrp_find br nr d = Some k"
  shows "freeable (load (insts d ! k) (dlog d)) \<and> \<not> lock (fst (insts d ! k)) \<and> timers_ok (fst (insts d ! k))"
proof -
  have k: "k < length (insts d)" using mrp_find_Some [OF assms(2)] by simp
  note i = good_inst [OF inv_all_good [OF d] k, of "dlog d"]
  show ?thesis
    using inv_freeable [OF i] unlocked_inst [OF d k] inv_timers_ok [OF i] by simp
qed

lemma daemon_inv_filter:
  "daemon_inv d \<Longrightarrow> insts d' = filter P (insts d) \<Longrightarrow> daemon_inv d'"
  by (auto simp: daemon_inv_def all_good_def keys_def cfgs_def comp_def intro: distinct_map_filter)

definition rc_only :: "daemon \<Rightarrow> bool" where
  "rc_only d \<longleftrightarrow> (\<forall>K \<in> set (cfgs d). c_in_mode K = MRP_IN_MODE_RC)"

lemma mrp_destroy_inv:
  assumes d: "daemon_inv d"
  shows "ok (mrp_destroy e br nr d) (\<lambda>d'. daemon_inv d' \<and> keys d' = filter (\<lambda>k. k \<noteq> (br, nr)) (keys d) \<and>
    (libev_timers e \<longrightarrow> rc_only d \<longrightarrow> rc_only d' \<and> stale d' = stale d))"
proof (rule ok_mono [OF mrp_destroy_ok])
  show "distinct (keys d)" using d by (simp add: daemon_inv_def)
next
  fix k assume "mrp_find br nr d = Some k"
  then show "freeable (load (insts d ! k) (dlog d)) \<and> \<not> lock (fst (insts d ! k)) \<and> timers_ok (fst (insts d ! k))"
    by (rule destroy_pre [OF d])
next
  fix d' :: daemon
  assume a: "insts d' = filter (\<lambda>x. ikey x \<noteq> (br, nr)) (insts d) \<and>
    (libev_timers e \<longrightarrow> (\<forall>x \<in> set (insts d). ikey x = (br, nr) \<longrightarrow> in_mode (fst x) = MRP_IN_MODE_RC) \<longrightarrow>
      stale d' = stale d)"
  then have "keys d' = filter (\<lambda>k. k \<noteq> (br, nr)) (keys d)"
    by (simp add: keys_ikey filter_map comp_def)
  then show "daemon_inv d' \<and> keys d' = filter (\<lambda>k. k \<noteq> (br, nr)) (keys d) \<and>
    (libev_timers e \<longrightarrow> rc_only d \<longrightarrow> rc_only d' \<and> stale d' = stale d)"
    using a daemon_inv_filter [OF d] by (auto simp: rc_only_def cfgs_def)
qed

lemma mrp_del_inv:
  assumes d: "daemon_inv d"
  shows "ok (mrp_del e br nr d) (\<lambda>(err, d'). daemon_inv d' \<and>
    (if (br, nr) \<in> set (keys d) then err = 0 \<and> keys d' = filter (\<lambda>k. k \<noteq> (br, nr)) (keys d)
     else err = - EINVAL \<and> d' = d) \<and>
    (libev_timers e \<longrightarrow> rc_only d \<longrightarrow> rc_only d' \<and> stale d' = stale d))"
  using mrp_destroy_inv [OF d, of e br nr] d mrp_find_None [of br nr d]
  by (cases "mrp_find br nr d") (auto simp: mrp_del_def ok_def)

lemma uninit_loop_inv:
  assumes "daemon_inv d"
  shows "ok (uninit_loop e ks d) (\<lambda>d'. daemon_inv d' \<and> keys d' = filter (\<lambda>k. k \<notin> set ks) (keys d) \<and>
    (libev_timers e \<longrightarrow> rc_only d \<longrightarrow> rc_only d' \<and> stale d' = stale d))"
  using assms
proof (induction ks arbitrary: d)
  case (Cons k ks)
  obtain br nr where k: "k = (br, nr)" by (cases k)
  show ?case
    unfolding k uninit_loop.simps ok_bind
  proof (rule ok_mono [OF mrp_destroy_inv [OF Cons.prems]])
    fix d1
    assume a: "daemon_inv d1 \<and> keys d1 = filter (\<lambda>k. k \<noteq> (br, nr)) (keys d) \<and>
      (libev_timers e \<longrightarrow> rc_only d \<longrightarrow> rc_only d1 \<and> stale d1 = stale d)"
    show "ok (uninit_loop e ks d1) (\<lambda>d'. daemon_inv d' \<and> keys d' = filter (\<lambda>k. k \<notin> set ((br, nr) # ks)) (keys d) \<and>
      (libev_timers e \<longrightarrow> rc_only d \<longrightarrow> rc_only d' \<and> stale d' = stale d))"
      by (rule ok_mono [OF Cons.IH]) (use a in \<open>auto intro: filter_cong\<close>)
  qed
qed simp

lemma mrp_uninit_inv:
  assumes "daemon_inv d"
  shows "ok (mrp_uninit e d) (\<lambda>d'. insts d' = [] \<and> (libev_timers e \<longrightarrow> rc_only d \<longrightarrow> stale d' = stale d))"
proof -
  have ks: "map (\<lambda>(m, _). (ifindex m, ring_nr m)) (insts d) = keys d"
    by (simp add: keys_ikey ikey_def case_prod_beta)
  show ?thesis
    unfolding mrp_uninit_def ks
    by (rule ok_mono [OF uninit_loop_inv [OF assms]]) (auto simp: keys_ikey filter_empty_conv simp del: filter_map)
qed

section \<open>Creation\<close>

lemma on_inst_last:
  assumes "insts d = xs @ [x]" and "k = length xs"
    and "ok (f (load x (dlog d))) (\<lambda>(r, s). Q (r, d\<lparr>insts := xs @ [(mrp s, port s)], dlog := log s\<rparr>))"
  shows "ok (on_inst k f d) Q"
  using assms on_inst_wp [of k d f Q] by (simp add: nth_append)

lemma run_inst_last:
  assumes "insts d = xs @ [x]" and "k = length xs"
    and "ok (f (load x (dlog d))) (\<lambda>s. Q (d\<lparr>insts := xs @ [(mrp s, port s)], dlog := log s\<rparr>))"
  shows "ok (run_inst k f d) Q"
  using assms run_inst_wp [of k d f Q] by (simp add: nth_append)

lemma find_index_last: "(\<forall>x \<in> set xs. \<not> P x) \<Longrightarrow> P y \<Longrightarrow> find_index P (xs @ [y]) = Some (length xs)"
  by (induction xs) auto

text \<open>The error exits: the ports that exist are released, and the instance disappears.\<close>

lemma add_fail_ok:
  assumes d: "insts d = xs @ [x]" and r: "releasable label (load x (dlog d))" and l: "\<not> lock (fst x)"
    and t: "timers_ok (fst x)" and key: "ikey x = (a_br a, a_ring_nr a)" "ikey x \<notin> ikey ` set xs"
    and dist: "distinct (map ikey xs)"
  shows "ok (add_fail e a (length xs) label err d) (\<lambda>(err', d'). err' = err \<and> insts d' = xs \<and>
    (libev_timers e \<longrightarrow> in_mode (fst x) = MRP_IN_MODE_RC \<longrightarrow> stale d' = stale d))"
proof -
  have rel: "ok (add_release label (load x (dlog d))) (\<lambda>s'. freeable s' \<and> \<not> lock (mrp s') \<and> timers_ok (mrp s') \<and>
      ikey (mrp s', port s') = ikey x \<and> in_mode (mrp s') = in_mode (fst x))"
    by (rule ok_mono [OF add_release_ok [OF r]])
      (use l t in \<open>auto simp: freeable_def same_id_def ikey_def timers_ok_def work.simps [symmetric] simp del: work.simps\<close>)
  have run: "ok (run_inst (length xs) (add_release label) d) (\<lambda>d'. \<exists>s l. d' = d\<lparr>insts := xs @ [(mrp s, port s)], dlog := l\<rparr> \<and>
      freeable s \<and> \<not> lock (mrp s) \<and> timers_ok (mrp s) \<and> ikey (mrp s, port s) = ikey x \<and> in_mode (mrp s) = in_mode (fst x))"
    by (rule run_inst_last [OF d refl], rule ok_mono [OF rel]) blast
  show ?thesis
    unfolding add_fail_def ok_bind
  proof (rule ok_mono [OF run], elim exE conjE)
    fix d1 s l1
    assume d1: "d1 = d\<lparr>insts := xs @ [(mrp s, port s)], dlog := l1\<rparr>" and s: "freeable s" "\<not> lock (mrp s)"
      "timers_ok (mrp s)" "ikey (mrp s, port s) = ikey x" "in_mode (mrp s) = in_mode (fst x)"
    have pre: "freeable (load (insts d1 ! k) (dlog d1)) \<and> \<not> lock (fst (insts d1 ! k)) \<and> timers_ok (fst (insts d1 ! k))"
      if "mrp_find (a_br a) (a_ring_nr a) d1 = Some k" for k
    proof -
      have "mrp_find (a_br a) (a_ring_nr a) d1 = Some (length xs)"
        using key s(4) by (auto simp: mrp_find_ikey d1 image_iff intro!: find_index_last)
      then have "k = length xs" using that by simp
      then show ?thesis
        using s by (simp add: d1 freeable_def)
    qed
    have flt: "filter (\<lambda>y. ikey y \<noteq> (a_br a, a_ring_nr a)) xs = xs"
      using key by (auto simp: filter_id_conv image_iff)
    have "distinct (keys d1)"
      using dist key s(4) by (simp add: keys_ikey d1)
    then show "ok (mrp_destroy e (a_br a) (a_ring_nr a) d1) (\<lambda>d2. ok (Some (err, d2)) (\<lambda>(err', d'). err' = err \<and> insts d' = xs \<and>
      (libev_timers e \<longrightarrow> in_mode (fst x) = MRP_IN_MODE_RC \<longrightarrow> stale d' = stale d)))"
      using key s
      by (intro ok_mono [OF mrp_destroy_ok [of d1 "a_br a" "a_ring_nr a" e, OF _ pre]])
        (auto simp: d1 flt image_iff)
  qed
qed

text \<open>While an instance is being configured it is the last of the list and its mutex is held.\<close>

definition building :: "daemon \<Rightarrow> config \<Rightarrow> daemon \<Rightarrow> bool" where
  "building d0 K d \<longleftrightarrow> all_good d \<and> stale d = stale d0 \<and>
     (\<exists>K'. cfgs d = cfgs d0 @ [K'] \<and> same_id K K')"

lemma building_steady: "building d0 K d \<Longrightarrow> steady d d' \<Longrightarrow> building d0 K d'"
  by (auto simp: building_def steady_def)

lemma building_last:
  assumes "building d0 K d"
  obtains xs x where "insts d = xs @ [x]" and "length xs = length (insts d0)" and "map (cfg \<circ> fst) xs = cfgs d0"
    and "same_id K (cfg (fst x))" and "good x" and "\<forall>y \<in> set xs. good y"
proof -
  from assms obtain K' where c: "cfgs d = cfgs d0 @ [K']" "same_id K K'" "all_good d"
    by (auto simp: building_def)
  then obtain xs x where xs: "insts d = xs @ [x]" "map (cfg \<circ> fst) xs = cfgs d0" "cfg (fst x) = K'"
    by (auto simp: cfgs_def map_eq_append_conv comp_def)
  moreover have "length xs = length (insts d0)"
    using xs(2) by (metis cfgs_def length_map)
  ultimately show thesis
    using that c by (auto simp: all_good_def)
qed

lemma building_intro:
  assumes "insts d = xs @ [x]" and "map (cfg \<circ> fst) xs = cfgs d0" and "same_id K (cfg (fst x))" and "good x"
    and "\<forall>y \<in> set xs. good y" and "stale d = stale d0"
  shows "building d0 K d"
  using assms by (auto simp: building_def all_good_def cfgs_def comp_def)

lemma role_enter_port:
  "mim_role_enter e s = Some (Inr up, s') \<Longrightarrow> i_port (mrp s) \<noteq> None"
  "mic_role_enter e s = Some (Inr up, s') \<Longrightarrow> i_port (mrp s) \<noteq> None"
  by (auto simp: mim_role_enter_def mic_role_enter_def split: if_splits)

lemma enter_shape:
  assumes "ok m (\<lambda>(r, s). mrp_inv K s \<or> mrp_inv (K\<lparr>c_in_role := R\<rparr>) s)"
    and ip: "\<And>up s. m = Some (Inr up, s) \<Longrightarrow> c_i_port K = Some PORT_INTER"
  shows "ok m (\<lambda>(r, s). \<exists>K'. mrp_inv K' s \<and> same_id K K' \<and> (\<forall>up. r = Inr up \<longrightarrow> c_i_port K' = Some PORT_INTER))"
proof -
  from assms(1) obtain r s where m: "m = Some (r, s)" and "mrp_inv K s \<or> mrp_inv (K\<lparr>c_in_role := R\<rparr>) s"
    by (auto simp: ok_def)
  then obtain K' where "mrp_inv K' s" "same_id K K'" "c_i_port K' = c_i_port K"
    by (auto simp: same_id_def)
  then show ?thesis
    using ip [of _ s] by (auto simp: m intro!: exI [of _ K'])
qed

lemma in_role_ok:
  assumes b: "building d0 K d" and r: "c_in_role (last (cfgs d)) = BR_MRP_IN_ROLE_DISABLED"
    and e: "libev_timers e" and f: "f = mim_role_enter e \<or> f = mic_role_enter e" and k: "k = length (insts d0)"
  shows "ok (do { (r, d) \<leftarrow> on_inst k f d;
      (case r of Inl err \<Rightarrow> Some (err, d) | Inr up \<Rightarrow> do { d \<leftarrow> in_role_link e k up d; Some (0, d) }) })
    (\<lambda>(err, d'). building d0 K d')"
proof -
  obtain xs x where x: "insts d = xs @ [x]" "length xs = length (insts d0)" "map (cfg \<circ> fst) xs = cfgs d0"
    "same_id K (cfg (fst x))" "good x" "\<forall>y \<in> set xs. good y"
    using building_last [OF b] .
  let ?s = "load x (dlog d)"
  have i: "mrp_inv (cfg (fst x)) ?s" using x(5) by (simp add: good_def mrp_inv_load [of _ x "dlog d"])
  have dis: "in_role (mrp ?s) = BR_MRP_IN_ROLE_DISABLED" using r x(1) by (simp add: cfgs_def)
  have ip: "i_port (mrp ?s) \<noteq> None \<Longrightarrow> c_i_port (cfg (fst x)) = Some PORT_INTER"
    using inv_facts(1) [OF i] by (auto simp: core_ok_def)
  have enter: "ok (f ?s) (\<lambda>(r, s). \<exists>K'. mrp_inv K' s \<and> same_id (cfg (fst x)) K' \<and>
      (\<forall>up. r = Inr up \<longrightarrow> c_i_port K' = Some PORT_INTER))"
    using f
  proof
    assume "f = mim_role_enter e"
    then show ?thesis using enter_shape [OF in_role_enter_inv(1) [OF i dis]] ip role_enter_port(1) by blast
  next
    assume "f = mic_role_enter e"
    then show ?thesis using enter_shape [OF in_role_enter_inv(2) [OF i dis]] ip role_enter_port(2) by blast
  qed
  have on: "ok (on_inst k f d) (\<lambda>(r, d'). building d0 K d' \<and> (\<forall>up. r = Inr up \<longrightarrow> c_i_port (last (cfgs d')) = Some PORT_INTER))"
  proof (rule on_inst_last [OF x(1)], use k x(2) in simp, rule ok_mono [OF enter], clarify)
    fix r s K'
    assume a: "mrp_inv K' s" "same_id (cfg (fst x)) K'" "\<forall>up. r = Inr up \<longrightarrow> c_i_port K' = Some PORT_INTER"
    let ?d = "d\<lparr>insts := xs @ [(mrp s, port s)], dlog := log s\<rparr>"
    have K': "cfg (mrp s) = K'" using a(1) by (simp add: mrp_inv_def)
    have "building d0 K ?d"
      by (rule building_intro [of _ xs "(mrp s, port s)"])
        (use x a K' b in \<open>auto simp: good_def load_back same_id_def building_def\<close>)
    then show "building d0 K ?d \<and> (\<forall>up. r = Inr up \<longrightarrow> c_i_port (last (cfgs ?d)) = Some PORT_INTER)"
      using a(3) K' by (simp add: cfgs_def)
  qed
  show ?thesis
    unfolding ok_bind
  proof (rule ok_mono [OF on], clarify)
    fix r :: "int + bool" and d1
    assume b1: "building d0 K d1" and up: "\<forall>up. r = Inr up \<longrightarrow> c_i_port (last (cfgs d1)) = Some PORT_INTER"
    obtain ys y where y: "insts d1 = ys @ [y]" "length ys = length (insts d0)" using building_last [OF b1] by metis
    have g: "all_good d1" and k1: "k < length (insts d1)" and nth: "insts d1 ! k = y" using b1 y k by (simp_all add: building_def nth_append)
    have st: "ok (in_role_link e k u d1) (\<lambda>d2. building d0 K d2)" if "r = Inr u" for u
    proof -
      have "owns (cfg (fst (insts d1 ! k))) (i_port (fst (insts d1 ! k)))"
        using up that y(1) nth by (simp add: owns_def cfgs_def)
      then have l: "live (i_port (fst (insts d1 ! k))) (port (load (insts d1 ! k) (dlog d1)))"
        by (rule owns_live [OF good_inst [OF g k1]])
      have "ok (run_inst k (mrp_port_link_change e (i_port (fst (insts d1 ! k))) True) d1) (steady d1)"
        using run_inst_steady [where f = "mrp_port_link_change e (i_port (fst (insts d1 ! k))) True", OF g k1]
          mrp_port_link_change_inv [OF good_inst [OF g k1] e l] by blast
      then have "ok (in_role_link e k u d1) (steady d1)"
        using mrp_cfm_link_change_steady [OF g e] steady_refl [OF g] by (simp add: in_role_link_def Let_def)
      then show ?thesis by (rule ok_mono) (rule building_steady [OF b1])
    qed
    then show "ok (case r of Inl err \<Rightarrow> Some (err, d1)
        | Inr up \<Rightarrow> do { d \<leftarrow> in_role_link e k up d1; Some (0, d) }) (\<lambda>(err, d'). building d0 K d')"
      using b1 by (cases r) simp_all
  qed
qed

lemma add_in_ok:
  assumes "building d0 K d" and "c_in_role (last (cfgs d)) = BR_MRP_IN_ROLE_DISABLED"
    and "libev_timers e" and "k = length (insts d0)"
  shows "ok (add_in e a k err d) (\<lambda>(err, d'). building d0 K d')"
  using in_role_ok [OF assms(1-3) _ assms(4)] assms(1)
  by (simp add: add_in_def mrp_set_mim_role_def mrp_set_mic_role_def)

lemma building_unlock:
  assumes b: "building d0 K d" and l: "c_lock K" and k: "k = length (insts d0)"
  shows "ok (run_inst k (\<lambda>s. Some (mrp_unlock s)) d) (\<lambda>d'. building d0 (relock False K) d' \<and> dlog d' = dlog d)"
proof -
  obtain xs x where x: "insts d = xs @ [x]" "length xs = length (insts d0)" "map (cfg \<circ> fst) xs = cfgs d0"
    "same_id K (cfg (fst x))" "good x" "\<forall>y \<in> set xs. good y"
    using building_last [OF b] .
  have "mrp_inv (relock False (cfg (fst x))) (mrp_unlock (load x (dlog d)))"
    using inv_relock [of "cfg (fst x)" "load x (dlog d)" False] x(5) mrp_inv_load [of "cfg (fst x)" x "dlog d"]
    by (simp add: mrp_unlock_def good_def)
  then have g: "good ((fst x)\<lparr>lock := False\<rparr>, snd x)"
    by (simp add: good_def mrp_unlock_def mrp_inv_def load_def)
  show ?thesis
    using x b l g k
    by (intro run_inst_last [OF x(1)]) (auto simp: mrp_unlock_def same_id_def building_def all_good_def cfgs_def comp_def)
qed

text \<open>The outcome of an addition: on success one configuration is appended, otherwise the list is as
  before.\<close>

definition added :: "add_args \<Rightarrow> daemon \<Rightarrow> int \<times> daemon \<Rightarrow> bool" where
  "added a d r \<longleftrightarrow> (case r of (err, d') \<Rightarrow> all_good d' \<and>
     (if err = 0 then \<exists>K. cfgs d' = cfgs d @ [K] \<and> ckey K = (a_br a, a_ring_nr a) \<and> \<not> c_lock K \<and>
          c_in_mode K = in_mode_of (a_in_mode a) \<and> stale d' = stale d
      else cfgs d' = cfgs d \<and> (in_mode_of (a_in_mode a) = MRP_IN_MODE_RC \<longrightarrow> stale d' = stale d)))"

lemma added_fail:
  assumes d: "daemon_inv d" and e: "libev_timers e" and new: "(a_br a, a_ring_nr a) \<notin> set (keys d)"
    and x: "insts d1 = xs @ [x]" "map (cfg \<circ> fst) xs = cfgs d" "\<forall>y \<in> set xs. good y"
    and r: "releasable label (load x (dlog d1))" "\<not> lock (fst x)" "timers_ok (fst x)"
    and key: "ikey x = (a_br a, a_ring_nr a)" and m: "in_mode (fst x) = in_mode_of (a_in_mode a)"
    and st: "stale d1 = stale d" and err: "err \<noteq> 0"
  shows "ok (add_fail e a (length xs) label err d1) (added a d)"
proof -
  have "map ikey xs = keys d"
    using x(2) by (metis (no_types, lifting) cfgs_def keys_def keys_ikey list.map_comp ckey_def ikey_def comp_apply cfg_sel(1,2) map_eq_conv)
  then have "ikey x \<notin> ikey ` set xs" "distinct (map ikey xs)"
    using new key d by (metis list.set_map, simp add: daemon_inv_def)
  then show ?thesis
    by (intro ok_mono [OF add_fail_ok [OF x(1) r key]])
      (use x e m st err in \<open>auto simp: added_def all_good_def cfgs_def comp_def\<close>)
qed

lemma added_role_fail:
  assumes d: "daemon_inv d" and e: "libev_timers e" and new: "(a_br a, a_ring_nr a) \<notin> set (keys d)"
    and b: "building d K d1" and K: "ckey K = (a_br a, a_ring_nr a)" "\<not> c_lock K" "c_in_mode K = in_mode_of (a_in_mode a)"
  shows "ok (if err \<noteq> 0 then add_fail e a (length (insts d)) 3 err d1 else Some (0, d1)) (added a d)"
proof -
  obtain xs x where x: "insts d1 = xs @ [x]" "length xs = length (insts d)" "map (cfg \<circ> fst) xs = cfgs d"
    "same_id K (cfg (fst x))" "good x" "\<forall>y \<in> set xs. good y"
    using building_last [OF b] .
  have i: "mrp_inv (cfg (fst x)) (load x (dlog d1))"
    using x(5) by (simp add: good_def mrp_inv_load [of _ x "dlog d1"])
  have facts: "\<not> lock (fst x)" "ikey x = (a_br a, a_ring_nr a)" "in_mode (fst x) = in_mode_of (a_in_mode a)" "stale d1 = stale d"
    using x(4) K b by (auto simp: same_id_def ikey_def ckey_def building_def)
  show ?thesis
  proof (cases "err = 0")
    case True
    then show ?thesis
      using b x(4) K by (auto simp: building_def added_def same_id_def ckey_def)
  next
    case False
    have "timers_ok (fst x)" using inv_timers_ok [OF i] by simp
    then show ?thesis
      using added_fail [OF d e new x(1,3,6) inv_releasable [OF i] facts(1) _ facts(2-4) False] x(2) False by simp
  qed
qed

text \<open>The part of \<open>mrp_add\<close> after the initialisation of the ports, when this succeeded.\<close>

lemma add_roles_ok:
  assumes d: "daemon_inv d" and e: "libev_timers e" and a: "args_ok e a"
    and new: "(a_br a, a_ring_nr a) \<notin> set (keys d)"
    and d2: "insts d2 = insts d @ [(mrp s, port s)]" "stale d2 = stale d"
    and i: "mrp_inv K s" and K: "ckey K = (a_br a, a_ring_nr a)" "c_lock K" "c_in_mode K = in_mode_of (a_in_mode a)"
      "c_in_role K = BR_MRP_IN_ROLE_DISABLED" and ip: "a_iport a > 0 \<Longrightarrow> i_port (mrp s) \<noteq> None"
    and k: "k = length (insts d)"
  shows "ok (do { (err, d) \<leftarrow> on_inst k (add_ring e a) d2;
      (err, d) \<leftarrow> add_in e a k err d;
      d \<leftarrow> run_inst k (\<lambda>s. Some (mrp_unlock s)) d;
      if err \<noteq> 0 then add_fail e a k 3 err d else Some (0, d) }) (added a d)"
proof -
  let ?k = "length (insts d)"
  have Ks: "cfg (mrp s) = K" using i by (simp add: mrp_inv_def)
  have g: "\<forall>y \<in> set (insts d). good y" using inv_all_good [OF d] by (simp add: all_good_def)
  let ?l = "load (mrp s, port s) (dlog d2)"
  have il: "mrp_inv K ?l" using i by (simp add: load_back)
  have ring: "ok (on_inst ?k (add_ring e a) d2) (\<lambda>(err, d'). building d K d' \<and> c_in_role (last (cfgs d')) = BR_MRP_IN_ROLE_DISABLED)"
  proof (rule on_inst_last [OF d2(1) refl], rule ok_mono [OF add_ring_inv [OF il e a]], goal_cases)
    case 1
    then show ?case using K(3) Ks by (simp flip: cfg_sel)
  next
    case 2
    then show ?case using ip by simp
  next
    case (3 p)
    obtain err s' where p: "p = (err, s')" by (cases p)
    from 3 obtain K' where K': "mrp_inv K' s'" "same_id K K'" "c_in_role K' = c_in_role K" unfolding p by blast
    have "cfg (mrp s') = K'" using K'(1) by (simp add: mrp_inv_def)
    then show ?case
      unfolding p using K' K(4) g d2(2)
      by (auto simp: cfgs_def good_def load_back comp_def intro!: building_intro [of _ "insts d" "(mrp s', port s')"])
  qed
  show ?thesis
    unfolding k ok_bind
    apply (rule ok_mono [OF ring], clarify, unfold ok_bind)
    apply (rule ok_mono [OF add_in_ok [OF _ _ e refl]], assumption, assumption, clarify, unfold ok_bind)
    apply (rule ok_mono [OF building_unlock [OF _ K(2) refl]], assumption)
    apply (elim conjE, rule added_role_fail [OF d e new], assumption)
    using K by (simp_all add: ckey_def)
qed

lemma mrp_new_unlocked: "\<not> lock (mrp (mrp_new e br nr i s))" "log (mrp_new e br nr i s) = log s"
  by (simp_all add: mrp_new_def mrp_timer_init_def mrp_zero_def Let_def)

lemma mrp_new_lock:
  fixes e br nr i l
  defines "s \<equiv> mrp_new e br nr i (load (mrp_zero, \<lambda>_. None) l)"
  shows "mrp_lock (load (mrp s, port s) l) = Some (fresh e br nr i l)"
  using mrp_new_unlocked [of e br nr i "load (mrp_zero, \<lambda>_. None) l"]
  by (simp add: s_def mrp_lock_def fresh_def Let_def load_def)

lemma add_setup_ok:
  assumes e: "libev_timers e" and h: "hwaddr_ok e"
    and r: "add_setup e a (fresh e (a_br a) (a_ring_nr a) (a_in_id a) l) = (r, s)"
  shows "r = Inr u \<Longrightarrow> \<exists>K. mrp_inv K s \<and> ckey K = (a_br a, a_ring_nr a) \<and> c_lock K \<and>
      c_in_mode K = in_mode_of (a_in_mode a) \<and> c_in_role K = BR_MRP_IN_ROLE_DISABLED \<and> (a_iport a > 0 \<longrightarrow> i_port (mrp s) \<noteq> None)"
    and "r = Inl (label, err) \<Longrightarrow> err < 0 \<and> releasable label s \<and> timers_ok (mrp s) \<and> lock (mrp s) \<and>
      ifindex (mrp s) = a_br a \<and> ring_nr (mrp s) = a_ring_nr a \<and> in_mode (mrp s) = in_mode_of (a_in_mode a)"
proof -
  let ?f = "fresh e (a_br a) (a_ring_nr a) (a_in_id a) l"
  let ?g = "?f\<lparr>mrp := add_conf e a (log ?f) (mrp ?f)\<rparr>"
  note b = add_conf_bare [OF h fresh_bare [OF e], of a "log ?f" l]
  have p: "port ?g = (\<lambda>_. None)" by (simp add: fresh_facts [OF e])
  have m: "c_in_mode (cfg (mrp ?g)) = in_mode_of (a_in_mode a)" "ckey (cfg (mrp ?g)) = (a_br a, a_ring_nr a)" "c_lock (cfg (mrp ?g))"
    using b by (simp_all add: bare_def ckey_def)
  have bg: "bare a (mrp ?g)" using b(1) by simp
  have rg: "add_ports e a ?g = (r, s)" using r by (simp add: add_setup_def)
  note ports = add_ports_inv [OF h bg p rg]
  show "\<exists>K. mrp_inv K s \<and> ckey K = (a_br a, a_ring_nr a) \<and> c_lock K \<and>
      c_in_mode K = in_mode_of (a_in_mode a) \<and> c_in_role K = BR_MRP_IN_ROLE_DISABLED \<and> (a_iport a > 0 \<longrightarrow> i_port (mrp s) \<noteq> None)"
    if "r = Inr u"
    using ports(1) that m by (auto simp: same_id_def ckey_def simp del: cfg_sel)
  show "err < 0 \<and> releasable label s \<and> timers_ok (mrp s) \<and> lock (mrp s) \<and>
      ifindex (mrp s) = a_br a \<and> ring_nr (mrp s) = a_ring_nr a \<and> in_mode (mrp s) = in_mode_of (a_in_mode a)"
    if "r = Inl (label, err)"
  proof -
    from ports(2) [OF that] have t: "\<forall>t. \<not> active (work t (mrp s))" by blast
    have "timers_ok (mrp s)"
      using t unfolding timers_ok_def by (metis work.simps)
    then show ?thesis
      using ports(2) [OF that] m by (simp add: same_id_def ckey_def)
  qed
qed

text \<open>\<open>mrp_add\<close> of a new key once the instance could be allocated: what follows the set-up of the ports.\<close>

lemma mrp_add_body:
  fixes e a d
  defines "k \<equiv> length (insts d)"
  assumes e: "libev_timers e" and new: "(a_br a, a_ring_nr a) \<notin> set (keys d)" and m: "malloc_ok e (dlog d) (sizeof_mrp e)"
    and r: "add_setup e a (fresh e (a_br a) (a_ring_nr a) (a_in_id a) (dlog d)) = (r, s)"
  shows "mrp_add e a d = (let d2 = d\<lparr>insts := insts d @ [(mrp s, port s)], dlog := log s\<rparr> in case r of
      Inl (label, err) \<Rightarrow> do { d \<leftarrow> run_inst k (\<lambda>s. Some (mrp_unlock s)) d2; add_fail e a k label err d }
    | Inr _ \<Rightarrow> do { (err, d) \<leftarrow> on_inst k (add_ring e a) d2; (err, d) \<leftarrow> add_in e a k err d;
        d \<leftarrow> run_inst k (\<lambda>s. Some (mrp_unlock s)) d; if err \<noteq> 0 then add_fail e a k 3 err d else Some (0, d) })"
proof -
  let ?s = "mrp_new e (a_br a) (a_ring_nr a) (a_in_id a) (load (mrp_zero, \<lambda>_. None) (dlog d))"
  let ?d = "d\<lparr>insts := insts d @ [(mrp ?s, port ?s)]\<rparr>"
  let ?f = "fresh e (a_br a) (a_ring_nr a) (a_in_id a) (dlog d)"
  have key: "ikey (mrp ?s, port ?s) = (a_br a, a_ring_nr a)"
    using fresh_facts(6,7) [OF e, of "a_br a" "a_ring_nr a" "a_in_id a" "dlog d"]
    by (simp add: ikey_def fresh_def Let_def)
  have find: "mrp_find (a_br a) (a_ring_nr a) ?d = Some k"
    unfolding mrp_find_ikey k_def by simp (rule find_index_last, use new key in \<open>force simp: keys_ikey image_iff\<close>, rule key)
  have lk: "run_inst k mrp_lock ?d = Some (d\<lparr>insts := insts d @ [(mrp ?f, port ?f)], dlog := log ?f\<rparr>)"
    using mrp_new_lock [of e "a_br a" "a_ring_nr a" "a_in_id a" "dlog d"] by (simp add: run_inst_def on_inst_def k_def)
  have fl: "load (mrp ?f, port ?f) (log ?f) = ?f" by (simp add: load_def)
  let ?d2 = "d\<lparr>insts := insts d @ [(mrp s, port s)], dlog := log s\<rparr>"
  have su: "on_inst k (\<lambda>s. Some (add_setup e a s)) (d\<lparr>insts := insts d @ [(mrp ?f, port ?f)], dlog := log ?f\<rparr>) = Some (r, ?d2)"
    by (simp add: on_inst_def fl r k_def)
  show ?thesis
    using new m by (simp add: mrp_add_def mrp_find_None [of _ _ d] mrp_create_def Let_def find lk su)
qed

lemma mrp_add_new:
  assumes d: "daemon_inv d" and e: "libev_timers e" and h: "hwaddr_ok e" and a: "args_ok e a"
    and new: "(a_br a, a_ring_nr a) \<notin> set (keys d)"
  shows "ok (mrp_add e a d) (added a d)"
proof (cases "malloc_ok e (dlog d) (sizeof_mrp e)")
  case False
  then show ?thesis
    using new inv_all_good [OF d]
    by (simp add: mrp_add_def mrp_find_None mrp_create_def added_def ENOMEM_def)
next
  case True
  let ?k = "length (insts d)"
  let ?f = "fresh e (a_br a) (a_ring_nr a) (a_in_id a) (dlog d)"
  obtain r s where r: "add_setup e a ?f = (r, s)" by (cases "add_setup e a ?f")
  let ?d2 = "d\<lparr>insts := insts d @ [(mrp s, port s)], dlog := log s\<rparr>"
  have g: "map (cfg \<circ> fst) (insts d) = cfgs d" "\<forall>y \<in> set (insts d). good y"
    using inv_all_good [OF d] by (simp_all add: all_good_def cfgs_def comp_def)
  note body = mrp_add_body [OF e new True r, unfolded Let_def]
  show ?thesis
  proof (cases r)
    case (Inl le)
    obtain label err where le: "le = (label, err)" by (cases le)
    note f = add_setup_ok(2) [OF e h r, unfolded Inl le, OF refl]
    let ?x = "((mrp s)\<lparr>lock := False\<rparr>, port s)"
    have un: "run_inst ?k (\<lambda>s. Some (mrp_unlock s)) ?d2 = Some (d\<lparr>insts := insts d @ [?x], dlog := log s\<rparr>)"
      by (simp add: run_inst_def on_inst_def mrp_unlock_def)
    have "ok (add_fail e a ?k label err (d\<lparr>insts := insts d @ [?x], dlog := log s\<rparr>)) (added a d)"
      by (rule added_fail [OF d e new, of _ "insts d" ?x])
        (use f g in \<open>auto simp: releasable_def timers_ok_def ikey_def\<close>)
    then show ?thesis by (simp add: body Inl le un)
  next
    case (Inr u)
    from add_setup_ok(1) [OF e h r Inr] obtain K where K: "mrp_inv K s" "ckey K = (a_br a, a_ring_nr a)" "c_lock K"
      "c_in_mode K = in_mode_of (a_in_mode a)" "c_in_role K = BR_MRP_IN_ROLE_DISABLED" "a_iport a > 0 \<longrightarrow> i_port (mrp s) \<noteq> None"
      by blast
    have "ok (do { (err, d) \<leftarrow> on_inst ?k (add_ring e a) ?d2; (err, d) \<leftarrow> add_in e a ?k err d;
        d \<leftarrow> run_inst ?k (\<lambda>s. Some (mrp_unlock s)) d; if err \<noteq> 0 then add_fail e a ?k 3 err d else Some (0, d) }) (added a d)"
      by (rule add_roles_ok [OF d e a new, where s = s and K = K]) (use K in simp_all)
    then show ?thesis by (simp add: body Inr)
  qed
qed

text \<open>\<open>mrp_add\<close> of a key that exists is refused; otherwise the registry gains the key exactly when the
  result is 0.\<close>

lemma mrp_add_inv:
  assumes d: "daemon_inv d" and e: "libev_timers e" and h: "hwaddr_ok e" and a: "args_ok e a"
  shows "ok (mrp_add e a d) (\<lambda>(err, d'). daemon_inv d' \<and>
    (if (a_br a, a_ring_nr a) \<in> set (keys d) then err = - EINVAL \<and> d' = d
     else keys d' = keys d @ (if err = 0 then [(a_br a, a_ring_nr a)] else [])) \<and>
    (rc_only d \<longrightarrow> in_mode_of (a_in_mode a) = MRP_IN_MODE_RC \<longrightarrow> rc_only d' \<and> stale d' = stale d))"
proof (cases "(a_br a, a_ring_nr a) \<in> set (keys d)")
  case True
  then show ?thesis using d by (simp add: mrp_add_def mrp_find_None)
next
  case False
  show ?thesis
  proof (rule ok_mono [OF mrp_add_new [OF d e h a False]], clarify)
    fix err d'
    assume ad: "added a d (err, d')"
    show "daemon_inv d' \<and>
      (if (a_br a, a_ring_nr a) \<in> set (keys d) then err = - EINVAL \<and> d' = d
       else keys d' = keys d @ (if err = 0 then [(a_br a, a_ring_nr a)] else [])) \<and>
      (rc_only d \<longrightarrow> in_mode_of (a_in_mode a) = MRP_IN_MODE_RC \<longrightarrow> rc_only d' \<and> stale d' = stale d)"
      using ad d False by (cases "err = 0") (auto simp: added_def daemon_inv_def keys_def rc_only_def)
  qed
qed

end
