(* ===== verification/Mrp_Add.thy ===== *)
theory Mrp_Add
  imports Mrp_Registry
begin

text \<open>
  When \<open>mrp_add\<close> succeeds: with memory available and a driver that accepts its requests, a new instance
  whose interconnection role comes with an interconnection port is added.
\<close>

definition obliging :: "env \<Rightarrow> bool" where
  "obliging e \<longleftrightarrow> (\<forall>l n. malloc_ok e l n) \<and> (\<forall>l x. drv_ret e l x = 0)"

definition role_port :: "add_args \<Rightarrow> bool" where
  "role_port a \<longleftrightarrow> (a_in_role a = in_role_code BR_MRP_IN_ROLE_MIM \<or> a_in_role a = in_role_code BR_MRP_IN_ROLE_MIC \<longrightarrow> a_iport a > 0)"

lemma add_setup_succeeds: "obliging e \<Longrightarrow> \<exists>s'. add_setup e a s = (Inr (), s')"
  by (simp add: obliging_def add_setup_def add_ports_def mrp_port_init_def Let_def)

lemma enter_ring_role_succeeds: "obliging e \<Longrightarrow> enter_ring_role e role s = Some (err, s') \<Longrightarrow> err = 0"
  by (auto simp: obliging_def enter_ring_role_def mrp_set_ring_role_def Let_def split: bind_splits if_splits)

lemma ring_role_succeeds:
  assumes "obliging e" and "p_port (mrp s) \<noteq> None" and "s_port (mrp s) \<noteq> None"
  shows "mrp_set_mrm_role e s = Some (err, s') \<Longrightarrow> err = 0" "mrp_set_mrc_role e s = Some (err, s') \<Longrightarrow> err = 0"
    "mrp_set_mra_role e s = Some (err, s') \<Longrightarrow> err = 0"
  using assms enter_ring_role_succeeds
  by (auto simp: mrp_set_mrm_role_def mrp_set_mrc_role_def mrp_set_mra_role_def Let_def)

lemma start_cfm_ports:
  "mrp_start_cfm e i l m p md dm s = Some s' \<Longrightarrow> p_port (mrp s') = p_port (mrp s) \<and> s_port (mrp s') = s_port (mrp s)"
  by (auto simp: mrp_start_cfm_def mrp_cfm_ccm_start_def emit_def Let_def split: bind_splits if_splits)

lemma add_ring_succeeds:
  assumes "obliging e" and "p_port (mrp s) \<noteq> None" and "s_port (mrp s) \<noteq> None" and "add_ring e a s = Some (err, s')"
  shows "err = 0"
  using assms ring_role_succeeds start_cfm_ports
  by (auto simp: add_ring_def split: bind_splits if_splits) metis+

lemma role_enter_succeeds:
  assumes "obliging e" and "i_port (mrp s) \<noteq> None"
  shows "mim_role_enter e s = Some (r, s') \<Longrightarrow> \<exists>up. r = Inr up" "mic_role_enter e s = Some (r, s') \<Longrightarrow> \<exists>up. r = Inr up"
  using assms
  by (auto simp: obliging_def mim_role_enter_def mic_role_enter_def mrp_set_in_role_def Let_def split: bind_splits if_splits)

lemma add_in_succeeds:
  assumes "obliging e" and "role_port a" and "a_iport a > 0 \<Longrightarrow> i_port (fst (insts d ! k)) \<noteq> None"
    and "add_in e a k 0 d = Some (err, d')"
  shows "err = 0"
  using assms role_enter_succeeds [of e "load (insts d ! k) (dlog d)"]
  by (auto simp: add_in_def role_port_def mrp_set_mim_role_def mrp_set_mic_role_def on_inst_def split: bind_splits if_splits sum.splits)

lemma mrp_add_succeeds:
  assumes d: "daemon_inv d" and e: "libev_timers e" and h: "hwaddr_ok e" and a: "args_ok e a"
    and new: "(a_br a, a_ring_nr a) \<notin> set (keys d)" and ob: "obliging e" and rp: "role_port a"
  shows "\<exists>d'. mrp_add e a d = Some (0, d') \<and> daemon_inv d' \<and> keys d' = keys d @ [(a_br a, a_ring_nr a)]"
proof -
  let ?k = "length (insts d)"
  let ?f = "fresh e (a_br a) (a_ring_nr a) (a_in_id a) (dlog d)"
  obtain s where r: "add_setup e a ?f = (Inr (), s)" using add_setup_succeeds [OF ob] by blast
  let ?d2 = "d\<lparr>insts := insts d @ [(mrp s, port s)], dlog := log s\<rparr>"
  obtain K where i: "mrp_inv K s" and K: "c_in_mode K = in_mode_of (a_in_mode a)" and ip: "a_iport a > 0 \<Longrightarrow> i_port (mrp s) \<noteq> None"
    using add_setup_ok(1) [OF e h r refl] by blast
  have m: "malloc_ok e (dlog d) (sizeof_mrp e)" using ob by (simp add: obliging_def)
  note body = mrp_add_body [OF e new m r, unfolded Let_def]
  obtain err d' where res: "mrp_add e a d = Some (err, d')"
    "daemon_inv d'" "keys d' = keys d @ (if err = 0 then [(a_br a, a_ring_nr a)] else [])"
    using mrp_add_inv [OF d e h a] new by (auto simp: ok_def)
  let ?l = "load (mrp s, port s) (log s)"
  have il: "mrp_inv K ?l" using i by (simp add: load_back)
  have "in_mode (mrp s) = in_mode_of (a_in_mode a)" using i K by (auto simp: mrp_inv_def)
  then obtain e1 s1 K1 where ar: "add_ring e a ?l = Some (e1, s1)" "mrp_inv K1 s1" "c_i_port K1 = c_i_port K"
    using add_ring_inv [OF il e a] ip by (auto simp: ok_def)
  have e1: "e1 = 0"
    by (rule add_ring_succeeds [OF ob _ _ ar(1)]) (use inv_facts(7,8) [OF i] in \<open>auto simp: live_def\<close>)
  have "i_port (mrp s1) = i_port (mrp s)" using ar(2,3) i by (auto simp: mrp_inv_def)
  then have ip1: "a_iport a > 0 \<Longrightarrow> i_port (mrp s1) \<noteq> None" using ip by simp
  let ?d3 = "d\<lparr>insts := insts d @ [(mrp s1, port s1)], dlog := log s1\<rparr>"
  have on: "on_inst ?k (add_ring e a) ?d2 = Some (0, ?d3)" using ar(1) e1 by (simp add: on_inst_def)
  obtain e2 d4 where ai: "add_in e a ?k 0 ?d3 = Some (e2, d4)" and "err = e2"
    using res(1) unfolding body by (auto simp: on add_fail_def split: bind_splits if_splits)
  then have "err = 0" using add_in_succeeds [OF ob rp _ ai] ip1 by simp
  then show ?thesis using res by simp
qed

end
