(* ===== verification/Mrp_Netlink.thy ===== *)
theory Mrp_Netlink
  imports Utils
begin

text \<open>
  Netlink attributes, \<^verbatim>\<open>libnetlink.c\<close> with the macros of \<^verbatim>\<open>rtnetlink.h\<close>.  A received message is
  read at byte offsets of the receive buffer, and a read outside of the buffer is a crash.  A
  pointer to an attribute is its offset, and the table that \<open>parse_rtattr_flags\<close> fills is a map from
  attribute types to such offsets.  \<open>enc_attr\<close> is the layout of one attribute.
\<close>

section \<open>Memory\<close>

definition rdn :: "u8 list \<Rightarrow> nat \<Rightarrow> nat \<Rightarrow> u8 list option" where
  "rdn buf off n = (if off + n \<le> length buf then Some (take n (drop off buf)) else None)"

definition rd8 :: "u8 list \<Rightarrow> nat \<Rightarrow> u8 option" where
  "rd8 buf off = map_option hd (rdn buf off 1)"

definition rd16 :: "u8 list \<Rightarrow> nat \<Rightarrow> u16 option" where
  "rd16 buf off = map_option ld16 (rdn buf off 2)"

definition rd32 :: "u8 list \<Rightarrow> nat \<Rightarrow> u32 option" where
  "rd32 buf off = map_option ld32 (rdn buf off 4)"

section \<open>Attributes\<close>

definition sizeof_rtattr :: nat where [simp]: "sizeof_rtattr = 4"

definition RTA_ALIGN :: "nat \<Rightarrow> nat" where
  "RTA_ALIGN n = (n + 3) div 4 * 4"

definition NLA_F_NESTED :: u16 where "NLA_F_NESTED = 0x8000"

text \<open>The loop \<open>while (RTA_OK(rta, len)) ... rta = RTA_NEXT(rta, len)\<close>: the attributes it visits, and
  the pointer and the remaining length (which may be negative) after it.\<close>

function rta_walk :: "u8 list \<Rightarrow> nat \<Rightarrow> int \<Rightarrow> (nat list \<times> nat \<times> int) option" where
  "rta_walk buf rta len =
    (if len < int sizeof_rtattr then Some ([], rta, len)
     else (case rd16 buf rta of None \<Rightarrow> None
       | Some l \<Rightarrow>
           if unat l < sizeof_rtattr \<or> len < int (unat l) then Some ([], rta, len)
           else (case rta_walk buf (rta + RTA_ALIGN (unat l)) (len - int (RTA_ALIGN (unat l))) of None \<Rightarrow> None
             | Some (xs, p, n) \<Rightarrow> Some (rta # xs, p, n))))"
  by pat_completeness auto

lemma RTA_ALIGN_ge: "n \<le> RTA_ALIGN n" "RTA_ALIGN n < n + 4" "4 \<le> n \<Longrightarrow> 4 \<le> RTA_ALIGN n"
  unfolding RTA_ALIGN_def by presburger+

termination rta_walk
proof (relation "measure (\<lambda>(buf, rta, len). nat len)", goal_cases)
  case (2 buf rta len l)
  then have "4 \<le> RTA_ALIGN (unat l)" using RTA_ALIGN_ge(3) by simp
  then show ?case using 2 by simp
qed simp

declare rta_walk.simps [simp del]

type_synonym rtattr_table = "nat \<rightharpoonup> nat"

text \<open>\<open>type = rta->rta_type & ~flags; if (type <= max && !tb[type]) tb[type] = rta\<close>\<close>

fun parse_into :: "u8 list \<Rightarrow> nat \<Rightarrow> u16 \<Rightarrow> nat list \<Rightarrow> rtattr_table \<Rightarrow> rtattr_table option" where
  "parse_into buf mx flags [] tb = Some tb"
| "parse_into buf mx flags (x # xs) tb =
    (case rd16 buf (x + 2) of None \<Rightarrow> None
     | Some ty \<Rightarrow>
         let t = unat (ty AND NOT flags)
         in parse_into buf mx flags xs (if t \<le> mx \<and> tb t = None then tb(t \<mapsto> x) else tb))"

text \<open>\<open>sz\<close> is the number of entries of the caller's array, which \<open>memset\<close> clears up to \<open>max\<close>.  The
  length of the attribute the loop stopped at is printed when something is left.\<close>

definition parse_rtattr_flags :: "u8 list \<Rightarrow> nat \<Rightarrow> nat \<Rightarrow> nat \<Rightarrow> int \<Rightarrow> u16 \<Rightarrow> rtattr_table option" where
  "parse_rtattr_flags buf sz mx rta len flags =
    (if sz < mx + 1 then None
     else do {
       (xs, p, n) \<leftarrow> rta_walk buf rta len;
       tb \<leftarrow> parse_into buf mx flags xs (\<lambda>_. None);
       _ \<leftarrow> (if n \<noteq> 0 then rd16 buf p else Some 0);
       Some tb
     })"

definition parse_rtattr :: "u8 list \<Rightarrow> nat \<Rightarrow> nat \<Rightarrow> nat \<Rightarrow> int \<Rightarrow> rtattr_table option" where
  "parse_rtattr buf sz mx rta len = parse_rtattr_flags buf sz mx rta len 0"

text \<open>The first attribute of a type, or a NULL pointer.\<close>

function parse_rtattr_one :: "u8 list \<Rightarrow> u16 \<Rightarrow> nat \<Rightarrow> int \<Rightarrow> nat option option" where
  "parse_rtattr_one buf type rta len =
    (if len < int sizeof_rtattr then (if len \<noteq> 0 then map_option (\<lambda>_. None) (rd16 buf rta) else Some None)
     else (case rd16 buf rta of None \<Rightarrow> None
       | Some l \<Rightarrow>
           if unat l < sizeof_rtattr \<or> len < int (unat l) then Some None
           else (case rd16 buf (rta + 2) of None \<Rightarrow> None
             | Some ty \<Rightarrow>
                 if ty = type then Some (Some rta)
                 else parse_rtattr_one buf type (rta + RTA_ALIGN (unat l)) (len - int (RTA_ALIGN (unat l))))))"
  by pat_completeness auto

termination parse_rtattr_one
proof (relation "measure (\<lambda>(buf, type, rta, len). nat len)", goal_cases)
  case (2 buf type rta len l ty)
  then have "4 \<le> RTA_ALIGN (unat l)" using RTA_ALIGN_ge(3) by simp
  then show ?case using 2 by simp
qed simp

declare parse_rtattr_one.simps [simp del]

definition rta_getattr_u8 :: "u8 list \<Rightarrow> nat \<Rightarrow> u8 option" where
  "rta_getattr_u8 buf rta = rd8 buf (rta + sizeof_rtattr)"

definition rta_getattr_u16 :: "u8 list \<Rightarrow> nat \<Rightarrow> u16 option" where
  "rta_getattr_u16 buf rta = rd16 buf (rta + sizeof_rtattr)"

definition rta_getattr_u32 :: "u8 list \<Rightarrow> nat \<Rightarrow> u32 option" where
  "rta_getattr_u32 buf rta = rd32 buf (rta + sizeof_rtattr)"

text \<open>\<open>RTA_PAYLOAD\<close>\<close>

definition RTA_PAYLOAD :: "u8 list \<Rightarrow> nat \<Rightarrow> int option" where
  "RTA_PAYLOAD buf rta = map_option (\<lambda>l. int (unat l) - int sizeof_rtattr) (rd16 buf rta)"

section \<open>Composing requests\<close>

text \<open>\<open>struct request\<close> of \<^verbatim>\<open>ifdriver_netlink.c\<close>: the netlink header, the interface header, and 1024 bytes
  for attributes.  \<open>nlmsg_len\<close> counts from the start of the netlink header.\<close>

record request =
  nlmsg_len :: u32
  nlmsg_type :: u16
  nlmsg_flags :: u16
  ifi_family :: u8
  ifi_index :: u32
  rbuf :: "u8 list"

definition sizeof_hdrs :: nat where [simp]: "sizeof_hdrs = 16 + 16"
definition sizeof_request :: nat where [simp]: "sizeof_request = 16 + 16 + 1024"

definition request_init :: request where
  "request_init = \<lparr>nlmsg_len = 0, nlmsg_type = 0, nlmsg_flags = 0, ifi_family = 0, ifi_index = 0,
     rbuf = replicate 1024 0\<rparr>"

definition NLMSG_TAIL :: "request \<Rightarrow> nat" where
  "NLMSG_TAIL r = RTA_ALIGN (unat (nlmsg_len r))"

text \<open>A store at a byte offset from the start of the message; only the attribute area is written.\<close>

definition rstore :: "nat \<Rightarrow> u8 list \<Rightarrow> request \<Rightarrow> request option" where
  "rstore off bs r =
    (if sizeof_hdrs \<le> off \<and> off + length bs \<le> sizeof_hdrs + length (rbuf r)
     then let o' = off - sizeof_hdrs
          in Some (r\<lparr>rbuf := take o' (rbuf r) @ bs @ drop (o' + length bs) (rbuf r)\<rparr>)
     else None)"

definition addattr_l :: "nat \<Rightarrow> u16 \<Rightarrow> u8 list \<Rightarrow> request \<Rightarrow> (int \<times> request) option" where
  "addattr_l maxlen type data r = (
     let len = sizeof_rtattr + length data in
     if RTA_ALIGN (unat (nlmsg_len r)) + RTA_ALIGN len > maxlen then Some (- 1, r)
     else do {
       let rta = NLMSG_TAIL r;
       r \<leftarrow> rstore (rta + 2) (mem16 type) r;
       r \<leftarrow> rstore rta (mem16 (of_nat len)) r;
       r \<leftarrow> rstore (rta + sizeof_rtattr) data r;
       Some (0, r\<lparr>nlmsg_len := of_nat (RTA_ALIGN (unat (nlmsg_len r)) + RTA_ALIGN len)\<rparr>)
     })"

definition addattr :: "nat \<Rightarrow> u16 \<Rightarrow> request \<Rightarrow> (int \<times> request) option" where
  "addattr maxlen type r = addattr_l maxlen type [] r"

definition addattr8 :: "nat \<Rightarrow> u16 \<Rightarrow> u8 \<Rightarrow> request \<Rightarrow> (int \<times> request) option" where
  "addattr8 maxlen type data r = addattr_l maxlen type [data] r"

definition addattr16 :: "nat \<Rightarrow> u16 \<Rightarrow> u16 \<Rightarrow> request \<Rightarrow> (int \<times> request) option" where
  "addattr16 maxlen type data r = addattr_l maxlen type (mem16 data) r"

definition addattr32 :: "nat \<Rightarrow> u16 \<Rightarrow> u32 \<Rightarrow> request \<Rightarrow> (int \<times> request) option" where
  "addattr32 maxlen type data r = addattr_l maxlen type (mem32 data) r"

definition addattr_nest :: "nat \<Rightarrow> u16 \<Rightarrow> request \<Rightarrow> (nat \<times> request) option" where
  "addattr_nest maxlen type r = do {
     let nest = NLMSG_TAIL r;
     (_, r) \<leftarrow> addattr_l maxlen type [] r;
     Some (nest, r)
   }"

definition addattr_nest_end :: "nat \<Rightarrow> request \<Rightarrow> request option" where
  "addattr_nest_end nest r = rstore nest (mem16 (of_nat (NLMSG_TAIL r - nest))) r"

section \<open>Layout\<close>

type_synonym attr = "u16 \<times> u8 list"

definition pad4 :: "u8 list \<Rightarrow> u8 list" where
  "pad4 bs = bs @ replicate (RTA_ALIGN (length bs) - length bs) 0"

definition enc_attr :: "attr \<Rightarrow> u8 list" where
  "enc_attr a = mem16 (of_nat (4 + length (snd a))) @ mem16 (fst a) @ pad4 (snd a)"

definition attr_ok :: "attr \<Rightarrow> bool" where
  "attr_ok a \<longleftrightarrow> 4 + length (snd a) < 65536"

lemma RTA_ALIGN_mult: "4 dvd RTA_ALIGN n"
  by (simp add: RTA_ALIGN_def)

lemma RTA_ALIGN_id [simp]: "4 dvd n \<Longrightarrow> RTA_ALIGN n = n"
  by (auto simp: RTA_ALIGN_def elim!: dvdE)

lemma RTA_ALIGN_add4: "RTA_ALIGN (4 + n) = 4 + RTA_ALIGN n"
  unfolding RTA_ALIGN_def by presburger

lemma length_pad4 [simp]: "length (pad4 bs) = RTA_ALIGN (length bs)"
  using RTA_ALIGN_ge(1) [of "length bs"] by (simp add: pad4_def)

lemma length_enc_attr [simp]: "length (enc_attr a) = RTA_ALIGN (4 + length (snd a))"
  by (simp add: enc_attr_def RTA_ALIGN_add4)

text \<open>The macro's mask on 32 bit integers is the rounding used here.\<close>

lemma RTA_ALIGN_mask:
  fixes n :: u32
  assumes "unat n + 3 < 2 ^ 32"
  shows "unat ((n + 3) AND NOT 3) = RTA_ALIGN (unat n)"
proof -
  have two: "2 \<le> k \<Longrightarrow> Suc (Suc (k - 2)) = k" "\<not> k < 2 \<Longrightarrow> Suc (Suc (k - 2)) = k" for k :: nat by simp_all
  have three: "(3 :: u32) = mask 2" by (simp add: mask_eq_exp_minus_1)
  have add: "unat (n + 3) = unat n + 3"
    using assms by (subst unat_plus_if') auto
  have "(n + 3) AND NOT 3 = push_bit 2 (drop_bit 2 (n + 3))"
    unfolding three by (rule bit_word_eqI) (auto simp: bit_simps two)
  moreover have "unat ((n + 3) div 4 * 4) = (unat n + 3) div 4 * 4"
    using assms by (simp add: unat_word_ariths(2) unat_div add)
  ultimately show ?thesis
    by (simp add: RTA_ALIGN_def drop_bit_eq_div push_bit_eq_mult)
qed

section \<open>Composition gives the layout\<close>

text \<open>A request whose attribute area holds the bytes \<open>bs\<close>.\<close>

definition nl_set :: "request \<Rightarrow> u8 list \<Rightarrow> request" where
  "nl_set r bs = r\<lparr>nlmsg_len := of_nat (32 + length bs), rbuf := bs @ replicate (1024 - length bs) 0\<rparr>"

lemma nl_set_simps [simp]:
  "length bs \<le> 1024 \<Longrightarrow> unat (nlmsg_len (nl_set r bs)) = 32 + length bs"
  "rbuf (nl_set r bs) = bs @ replicate (1024 - length bs) 0"
  "nlmsg_type (nl_set r bs) = nlmsg_type r" "nlmsg_flags (nl_set r bs) = nlmsg_flags r"
  "ifi_family (nl_set r bs) = ifi_family r" "ifi_index (nl_set r bs) = ifi_index r"
  by (simp_all add: nl_set_def unat_word_ariths unat_of_nat)

lemma NLMSG_TAIL_set [simp]: "length bs \<le> 1024 \<Longrightarrow> 4 dvd length bs \<Longrightarrow> NLMSG_TAIL (nl_set r bs) = 32 + length bs"
  unfolding NLMSG_TAIL_def by (subst nl_set_simps) simp_all

lemma addattr_l_set:
  assumes a: "4 dvd length bs" and m: "32 + length bs + RTA_ALIGN (4 + length data) \<le> maxlen" "maxlen \<le> 1056"
  shows "addattr_l maxlen ty data (nl_set r bs) = Some (0, nl_set r (bs @ enc_attr (ty, data)))"
proof -
  let ?n = "length data" and ?z = "1024 - length bs"
  have le: "4 + ?n \<le> RTA_ALIGN (4 + ?n)" "length bs + RTA_ALIGN (4 + ?n) \<le> 1024" "length bs \<le> 1024"
    using RTA_ALIGN_ge(1) [of "4 + ?n"] m by auto
  have al: "RTA_ALIGN (unat (nlmsg_len (nl_set r bs))) = 32 + length bs"
    using a le(3) by (simp add: RTA_ALIGN_id)
  have al32: "RTA_ALIGN (32 + length bs) = 32 + length bs"
    using a by (intro RTA_ALIGN_id) simp
  have tail: "NLMSG_TAIL (nl_set r bs) = 32 + length bs"
    using a le(3) by simp
  let ?r = "nl_set r bs"
  have s1: "rstore (32 + length bs + 2) (mem16 ty) ?r =
      Some (?r\<lparr>rbuf := bs @ replicate 2 0 @ mem16 ty @ replicate (?z - 4) 0\<rparr>)"
    using le by (simp add: rstore_def Let_def)
  have s2: "rstore (32 + length bs) (mem16 v) (?r\<lparr>rbuf := bs @ replicate 2 0 @ ys\<rparr>) = Some (?r\<lparr>rbuf := bs @ mem16 v @ ys\<rparr>)"
    if "length ys = ?z - 2" for v ys
    using le that by (simp add: rstore_def Let_def)
  have s3: "rstore (32 + length bs + 4) data (?r\<lparr>rbuf := bs @ mem16 v @ mem16 ty @ replicate (?z - 4) 0\<rparr>) =
      Some (?r\<lparr>rbuf := bs @ mem16 v @ mem16 ty @ data @ replicate (?z - 4 - ?n) 0\<rparr>)" for v
    using le by (simp add: rstore_def Let_def)
  have pad: "pad4 data @ replicate (1020 - (length bs + RTA_ALIGN ?n)) 0 = data @ replicate (1020 - (length bs + ?n)) 0"
  proof -
    have "RTA_ALIGN ?n - ?n + (1020 - (length bs + RTA_ALIGN ?n)) = 1020 - (length bs + ?n)"
      using le RTA_ALIGN_ge(1) [of ?n] by (simp add: RTA_ALIGN_add4)
    then show ?thesis
      by (simp add: pad4_def replicate_add [symmetric])
  qed
  have "addattr_l maxlen ty data ?r = Some (0, (?r\<lparr>rbuf := bs @ mem16 (of_nat (4 + ?n)) @ mem16 ty @ data @ replicate (?z - 4 - ?n) 0\<rparr>)
      \<lparr>nlmsg_len := of_nat (32 + length bs + RTA_ALIGN (4 + ?n))\<rparr>)"
    unfolding addattr_l_def Let_def al tail sizeof_rtattr_def
    using m le s1 s2 s3 by (simp add: al tail al32)
  then show ?thesis
    by (simp add: nl_set_def enc_attr_def pad RTA_ALIGN_add4 add.assoc)
qed

lemma addattr_l_refused:
  assumes "4 dvd length bs" and "length bs \<le> 1024" and "\<not> 32 + length bs + RTA_ALIGN (4 + length data) \<le> maxlen"
  shows "addattr_l maxlen ty data (nl_set r bs) = Some (- 1, nl_set r bs)"
proof -
  have "RTA_ALIGN (32 + length bs) = 32 + length bs" using assms(1) by (intro RTA_ALIGN_id) simp
  then show ?thesis
    using assms(2,3) by (simp add: addattr_l_def Let_def)
qed

lemma enc_attr_nil: "enc_attr (ty, []) = mem16 4 @ mem16 ty"
  by (simp add: enc_attr_def pad4_def)

lemma enc_attr_aligned: "4 dvd length body \<Longrightarrow> enc_attr (ty, body) = mem16 (of_nat (4 + length body)) @ mem16 ty @ body"
  by (simp add: enc_attr_def pad4_def)

lemma addattr_nest_set:
  assumes "4 dvd length bs" and "36 + length bs \<le> maxlen" "maxlen \<le> 1056"
  shows "addattr_nest maxlen ty (nl_set r bs) = Some (32 + length bs, nl_set r (bs @ mem16 4 @ mem16 ty))"
  using assms addattr_l_set [of bs "[]" maxlen ty r]
  by (simp add: addattr_nest_def enc_attr_nil)

lemma addattr_nest_end_set:
  assumes "4 dvd length pre" and "4 dvd length body" and "length pre + 4 + length body \<le> 1024"
  shows "addattr_nest_end (32 + length pre) (nl_set r (pre @ mem16 4 @ mem16 ty @ body)) =
    Some (nl_set r (pre @ enc_attr (ty, body)))"
proof -
  have "4 dvd length (pre @ mem16 4 @ mem16 ty @ body)"
    using assms(1,2) by simp presburger
  then have "NLMSG_TAIL (nl_set r (pre @ mem16 4 @ mem16 ty @ body)) = 32 + length (pre @ mem16 4 @ mem16 ty @ body)"
    using assms(3) by (intro NLMSG_TAIL_set) simp_all
  then show ?thesis
    using assms by (simp add: addattr_nest_end_def rstore_def Let_def enc_attr_aligned nl_set_def)
qed

section \<open>Parsing a layout\<close>

lemma rd16_at: "rd16 (pre @ mem16 w @ post) (length pre) = Some w"
  by (simp add: rd16_def rdn_def)

text \<open>The offsets at which the attributes of a list lie when the list begins at \<open>p\<close>.\<close>

fun attr_offsets :: "nat \<Rightarrow> attr list \<Rightarrow> nat list" where
  "attr_offsets p [] = []"
| "attr_offsets p (a # as) = p # attr_offsets (p + length (enc_attr a)) as"

abbreviation enc_attrs :: "attr list \<Rightarrow> u8 list" where
  "enc_attrs as \<equiv> concat (map enc_attr as)"

lemma rta_walk_enc:
  assumes "\<forall>a \<in> set as. attr_ok a"
  shows "rta_walk (pre @ enc_attrs as @ post) (length pre) (int (length (enc_attrs as))) =
    Some (attr_offsets (length pre) as, length pre + length (enc_attrs as), 0)"
  using assms
proof (induction as arbitrary: pre)
  case Nil
  then show ?case by (simp add: rta_walk.simps)
next
  case (Cons a as)
  let ?n = "4 + length (snd a)"
  have l: "unat (of_nat ?n :: u16) = ?n"
    unfolding unat_of_nat using Cons.prems by (simp add: attr_ok_def)
  have rd: "rd16 (pre @ enc_attrs (a # as) @ post) (length pre) = Some (of_nat ?n)"
    using rd16_at [of pre "of_nat ?n"] by (simp add: enc_attr_def)
  have ge: "?n \<le> RTA_ALIGN ?n" by (rule RTA_ALIGN_ge)
  have "rta_walk (pre @ enc_attrs (a # as) @ post) (length pre + RTA_ALIGN ?n) (int (length (enc_attrs as))) =
      Some (attr_offsets (length pre + RTA_ALIGN ?n) as, length pre + RTA_ALIGN ?n + length (enc_attrs as), 0)"
    using Cons.IH [of "pre @ enc_attr a"] Cons.prems by simp
  then show ?case
    by (subst rta_walk.simps) (use rd l ge in simp)
qed

text \<open>The offset of the first attribute of a type.\<close>

fun first_attr :: "u16 \<Rightarrow> nat \<Rightarrow> nat \<Rightarrow> attr list \<Rightarrow> nat option" where
  "first_attr flags t p [] = None"
| "first_attr flags t p (a # as) =
    (if unat (fst a AND NOT flags) = t then Some p else first_attr flags t (p + length (enc_attr a)) as)"

lemma parse_into_enc:
  "parse_into (pre @ enc_attrs as @ post) mx flags (attr_offsets (length pre) as) tb =
    Some (\<lambda>t. case tb t of Some x \<Rightarrow> Some x | None \<Rightarrow> if t \<le> mx then first_attr flags t (length pre) as else None)"
proof (induction as arbitrary: pre tb)
  case Nil
  then show ?case by (auto split: option.splits)
next
  case (Cons a as)
  have rd: "rd16 (pre @ enc_attrs (a # as) @ post) (length pre + 2) = Some (fst a)"
    using rd16_at [of "pre @ mem16 (of_nat (4 + length (snd a)))" "fst a"] by (simp add: enc_attr_def)
  have IH: "parse_into (pre @ enc_attrs (a # as) @ post) mx flags (attr_offsets (length pre + length (enc_attr a)) as) tb' =
      Some (\<lambda>t. case tb' t of Some x \<Rightarrow> Some x
        | None \<Rightarrow> if t \<le> mx then first_attr flags t (length pre + length (enc_attr a)) as else None)" for tb'
    using Cons.IH [of "pre @ enc_attr a" tb'] by (simp only: length_append append_assoc list.map concat.simps)
  show ?case
    by (simp only: attr_offsets.simps parse_into.simps rd option.case Let_def IH)
      (auto intro!: ext split: option.splits)
qed

lemma parse_rtattr_flags_enc:
  assumes "\<forall>a \<in> set as. attr_ok a" and "mx < sz"
  shows "parse_rtattr_flags (pre @ enc_attrs as @ post) sz mx (length pre) (int (length (enc_attrs as))) flags =
    Some (\<lambda>t. if t \<le> mx then first_attr flags t (length pre) as else None)"
  using assms(2)
  by (simp only: parse_rtattr_flags_def rta_walk_enc [OF assms(1)] parse_into_enc Option.bind.simps prod.case) simp

section \<open>Parsing any bytes\<close>

text \<open>Whatever the bytes are, the walk ends, stays inside the message and visits attributes that lie
  inside it.\<close>

definition attr_at :: "u8 list \<Rightarrow> nat \<Rightarrow> nat \<Rightarrow> nat \<Rightarrow> bool" where
  "attr_at buf lo hi x \<longleftrightarrow> (\<exists>l. rd16 buf x = Some l \<and> 4 \<le> unat l \<and> lo \<le> x \<and> x + unat l \<le> hi)"

lemma rd_ok:
  "off + 2 \<le> length buf \<Longrightarrow> ok (rd16 buf off) (\<lambda>_. True)" "off + 4 \<le> length buf \<Longrightarrow> ok (rd32 buf off) (\<lambda>_. True)"
  "off + 1 \<le> length buf \<Longrightarrow> ok (rd8 buf off) (\<lambda>_. True)" "off + n \<le> length buf \<Longrightarrow> ok (rdn buf off n) (\<lambda>b. length b = n)"
  by (simp_all add: rd16_def rd32_def rd8_def rdn_def)

lemma rta_walk_safe:
  assumes "int rta + len \<le> int hi" and "hi \<le> length buf"
  shows "ok (rta_walk buf rta len) (\<lambda>(xs, p, n). (\<forall>x \<in> set xs. attr_at buf rta hi x) \<and> rta \<le> p \<and> (p = rta \<or> p \<le> hi + 3))"
  using assms
proof (induction buf rta len rule: rta_walk.induct)
  case (1 buf rta len)
  show ?case
  proof (cases "len < 4")
    case True
    then show ?thesis by (simp add: rta_walk.simps)
  next
    case False
    then have "rta + 2 \<le> length buf" using "1.prems" by linarith
    then obtain l where l: "rd16 buf rta = Some l" using rd_ok(1) by (auto simp: ok_def)
    show ?thesis
    proof (cases "unat l < 4 \<or> len < int (unat l)")
      case True
      then show ?thesis using False l by (simp add: rta_walk.simps)
    next
      case in_range: False
      let ?a = "RTA_ALIGN (unat l)"
      have a: "4 \<le> ?a" "unat l \<le> ?a" "?a < unat l + 4" using RTA_ALIGN_ge [of "unat l"] in_range by simp_all
      have "ok (rta_walk buf (rta + ?a) (len - int ?a)) (\<lambda>(xs, p, n). (\<forall>x \<in> set xs. attr_at buf (rta + ?a) hi x) \<and>
          rta + ?a \<le> p \<and> (p = rta + ?a \<or> p \<le> hi + 3))"
        by (rule "1.IH") (use False l in_range "1.prems" in simp_all)
      then obtain xs p n where w: "rta_walk buf (rta + ?a) (len - int ?a) = Some (xs, p, n)"
        "\<forall>x \<in> set xs. attr_at buf (rta + ?a) hi x" "rta + ?a \<le> p" "p = rta + ?a \<or> p \<le> hi + 3"
        by (auto simp: ok_def)
      have "rta + unat l \<le> hi" "4 \<le> unat l" using in_range "1.prems" by linarith+
      then have "attr_at buf rta hi rta" using l by (simp add: attr_at_def)
      moreover have "\<forall>x \<in> set xs. attr_at buf rta hi x" using w(2) by (auto simp: attr_at_def)
      moreover have "p \<le> hi + 3" using w(4) \<open>rta + unat l \<le> hi\<close> a(3) by linarith
      ultimately show ?thesis
        using False l in_range w by (simp add: rta_walk.simps [of buf rta])
    qed
  qed
qed

lemma parse_into_safe:
  assumes "\<forall>x \<in> set xs. attr_at buf lo hi x" and "hi \<le> length buf"
    and "\<forall>t x. tb t = Some x \<longrightarrow> attr_at buf lo hi x"
  shows "ok (parse_into buf mx flags xs tb) (\<lambda>tb. \<forall>t x. tb t = Some x \<longrightarrow> attr_at buf lo hi x)"
  using assms
proof (induction xs arbitrary: tb)
  case (Cons x xs)
  have "x + 4 \<le> length buf" using Cons.prems(1,2) by (auto simp: attr_at_def)
  then obtain ty where "rd16 buf (x + 2) = Some ty" using rd_ok(1) [of "x + 2" buf] by (auto simp: ok_def)
  then show ?case
    using Cons by (simp add: Let_def)
qed simp

lemma parse_rtattr_flags_safe:
  assumes "mx < sz" and "int rta + len \<le> int hi" and "rta \<le> hi" and "hi + 5 \<le> length buf"
  shows "ok (parse_rtattr_flags buf sz mx rta len flags) (\<lambda>tb. \<forall>t x. tb t = Some x \<longrightarrow> attr_at buf rta hi x)"
proof -
  have w: "ok (rta_walk buf rta len) (\<lambda>(xs, p, n). (\<forall>x \<in> set xs. attr_at buf rta hi x) \<and> rta \<le> p \<and> (p = rta \<or> p \<le> hi + 3))"
    using rta_walk_safe assms by simp
  show ?thesis
    unfolding parse_rtattr_flags_def
    using assms
    by (auto intro!: ok_mono [OF w] ok_mono [OF parse_into_safe [where lo = rta and hi = hi]] ok_mono [OF rd_ok(1)])
qed

end
