(* ===== verification/Mrp_Listen.thy ===== *)
theory Mrp_Listen
  imports Mrp_Netlink
begin

text \<open>
  The loop of \<open>rtnl_listen\<close> (\<^verbatim>\<open>libnetlink.c\<close>): datagrams are received until the socket has none left,
  and the messages of a datagram are given to a handler one after another.  The loop is generic
  in the handler, and the contract between the two is the locale \<open>nl_handler\<close>.  A datagram that
  is not well formed ends the process with \<open>exit\<close>, which is a result of its own.
\<close>

section \<open>The messages of a datagram\<close>

definition sizeof_nlmsghdr :: nat where [simp]: "sizeof_nlmsghdr = 16"

definition NLMSG_ALIGN :: "nat \<Rightarrow> nat" where
  "NLMSG_ALIGN n = (n + 3) div 4 * 4"

lemma NLMSG_ALIGN_ge: "n \<le> NLMSG_ALIGN n" "NLMSG_ALIGN n < n + 4"
  unfolding NLMSG_ALIGN_def by presburger+

type_synonym 'd nl_handler = "u8 list \<Rightarrow> nat \<Rightarrow> 'd \<Rightarrow> (int \<times> 'd) option"

datatype 'd loop_end = Done int 'd | Return int 'd | Exit

lemma sint_sub16:
  fixes n :: u32
  assumes "0 \<le> sint n" and "0 \<le> sint (n - 16)"
  shows "16 \<le> sint n"
proof (rule ccontr)
  assume n: "\<not> 16 \<le> sint n"
  have "sint (n - 16) = signed_take_bit 31 (sint n - 16)"
    by (simp add: sint_word_ariths)
  also have "\<dots> = sint n - 16"
    using assms(1) n by (intro signed_take_bit_int_eq_self) simp_all
  finally show False using assms(2) n by simp
qed

text \<open>The comparison \<open>status >= sizeof(*h)\<close> is one of unsigned integers, so that the loop goes on with a
  negative \<open>status\<close>.  A pointer before the buffer is a crash.\<close>

function nl_messages :: "'d nl_handler \<Rightarrow> bool \<Rightarrow> u8 list \<Rightarrow> nat \<Rightarrow> int \<Rightarrow> 'd \<Rightarrow> 'd loop_end option" where
  "nl_messages handler trunc buf h status d =
    (if 0 \<le> status \<and> status < int sizeof_nlmsghdr then Some (Done status d)
     else (case rd32 buf h of None \<Rightarrow> None
       | Some nlen \<Rightarrow>
           if sint (nlen - of_nat sizeof_nlmsghdr) < 0 \<or> sint nlen > status
           then Some (if trunc then Return (- 1) d else Exit)
           else (case handler buf h d of None \<Rightarrow> None
             | Some (err, d) \<Rightarrow>
                 if err < 0 then Some (Return err d)
                 else if sint nlen < 0 then None
                 else nl_messages handler trunc buf (h + NLMSG_ALIGN (nat (sint nlen)))
                        (status - int (NLMSG_ALIGN (nat (sint nlen)))) d)))"
  by pat_completeness auto

termination nl_messages
proof (relation "measure (\<lambda>(handler, trunc, buf, h, status, d). nat status)", goal_cases)
  case (2 handler trunc buf h status d nlen r err d')
  have "16 \<le> sint nlen" using 2 by (intro sint_sub16) simp_all
  moreover have "sint nlen \<le> status" using 2 by simp
  moreover have "nat (sint nlen) \<le> NLMSG_ALIGN (nat (sint nlen))" by (rule NLMSG_ALIGN_ge)
  ultimately show ?case by simp
qed simp

declare nl_messages.simps [simp del]

section \<open>Receiving\<close>

text \<open>What one \<open>recvmsg\<close> gives: an error number, or a datagram (possibly truncated) with the length of
  the sender's address right or wrong.\<close>

datatype recvmsg = Rcv_error int | Rcv "u8 list" bool bool

definition EINTR :: int where "EINTR = 4"
definition EAGAIN :: int where "EAGAIN = 11"
definition ENOBUFS :: int where "ENOBUFS = 105"

datatype 'd outcome = Returns int 'd | Exits

text \<open>The datagrams that are waiting, then \<open>EAGAIN\<close>.  \<open>RTNL_HANDLE_F_LISTEN_ALL_NSID\<close> is never set by the
  daemon.  A datagram overwrites the head of the buffer.\<close>

fun rtnl_listen :: "'d nl_handler \<Rightarrow> recvmsg list \<Rightarrow> u8 list \<Rightarrow> 'd \<Rightarrow> 'd outcome option" where
  "rtnl_listen handler [] buf d = Some (Returns 0 d)"
| "rtnl_listen handler (Rcv_error errno # rs) buf d =
    Some (Returns (if errno = EINTR \<or> errno = EAGAIN \<or> errno = ENOBUFS then 0 else - 1) d)"
| "rtnl_listen handler (Rcv bs namelen_ok trunc # rs) buf d =
    (if bs = [] then Some (Returns (- 1) d)
     else if \<not> namelen_ok then Some Exits
     else
       let buf = bs @ drop (length bs) buf in
       (case nl_messages handler trunc buf 0 (int (length bs)) d of
          None \<Rightarrow> None
        | Some (Return r d) \<Rightarrow> Some (Returns r d)
        | Some Exit \<Rightarrow> Some Exits
        | Some (Done status d) \<Rightarrow>
            if trunc then Some (Returns 0 d)
            else if status \<noteq> 0 then Some Exits
            else rtnl_listen handler rs buf d))"

section \<open>Well formed datagrams\<close>

text \<open>The offsets of the messages of a datagram: each has a length that covers its header and fits what
  is left, and the padded lengths use the datagram up.\<close>

function nl_offsets :: "u8 list \<Rightarrow> nat \<Rightarrow> nat \<Rightarrow> nat list option" where
  "nl_offsets buf h n =
    (if n = 0 then Some []
     else (case rd32 buf h of None \<Rightarrow> None
       | Some nlen \<Rightarrow>
           let l = NLMSG_ALIGN (unat nlen) in
           if unat nlen < 16 \<or> n < l \<or> 2 ^ 31 \<le> n then None
           else map_option (Cons h) (nl_offsets buf (h + l) (n - l))))"
  by pat_completeness auto

termination nl_offsets
proof (relation "measure (\<lambda>(buf, h, n). n)", goal_cases)
  case (2 buf h n nlen l)
  then show ?case using NLMSG_ALIGN_ge(1) [of "unat nlen"] by simp
qed simp

declare nl_offsets.simps [simp del]

lemma sint_small:
  fixes w :: u32
  assumes "unat w < 2 ^ 31"
  shows "sint w = int (unat w)"
proof -
  have u: "uint w = int (unat w)" by simp
  have "sint w = signed_take_bit 31 (uint w)" by (simp add: sint_uint)
  also have "\<dots> = uint w"
  proof (rule signed_take_bit_int_eq_self)
    show "- (2 ^ 31) \<le> uint w" by (rule order_trans [of _ 0]) simp_all
    have "int (unat w) < int (2 ^ 31)" using assms by (rule iffD2 [OF of_nat_less_iff])
    then show "uint w < 2 ^ 31" unfolding u by (simp only: of_nat_power of_nat_numeral)
  qed
  finally show ?thesis unfolding u .
qed

text \<open>One message of a well formed datagram.\<close>

lemma nl_messages_step:
  assumes rd: "rd32 buf h = Some nlen" and l: "16 \<le> unat nlen" "NLMSG_ALIGN (unat nlen) \<le> n" "n < 2 ^ 31"
    and hd: "handler buf h d = Some (r, d')"
  shows "nl_messages handler trunc buf h (int n) d =
    (if r < 0 then Some (Return r d')
     else nl_messages handler trunc buf (h + NLMSG_ALIGN (unat nlen)) (int (n - NLMSG_ALIGN (unat nlen))) d')"
proof -
  have le: "unat nlen \<le> n" using NLMSG_ALIGN_ge(1) [of "unat nlen"] l by linarith
  have s: "sint nlen = int (unat nlen)" using l le by (intro sint_small) linarith
  have u: "unat (nlen - 16) = unat nlen - 16" using l by (simp add: unat_sub word_le_nat_alt)
  have "sint (nlen - 16) = int (unat (nlen - 16))" using l le by (intro sint_small) (simp add: u)
  then have s16: "\<not> sint (nlen - 16) < 0" by linarith
  have c: "\<not> (0 \<le> int n \<and> int n < 16)" "\<not> int n < int (unat nlen)" "\<not> int (unat nlen) < 0"
    using l le by linarith+
  show ?thesis
    using l(2) by (subst nl_messages.simps)
      (simp only: rd s s16 c hd sizeof_nlmsghdr_def of_nat_numeral if_False simp_thms option.case prod.case nat_int of_nat_diff)
qed

text \<open>A datagram is well formed when the handler can take its messages in the buffer they arrive in,
  whatever the rest of the buffer holds.\<close>

definition gram_ok :: "(u8 list \<Rightarrow> nat \<Rightarrow> bool) \<Rightarrow> nat \<Rightarrow> recvmsg \<Rightarrow> bool" where
  "gram_ok msg_ok n r \<longleftrightarrow> (case r of Rcv_error _ \<Rightarrow> True
     | Rcv bs nok t \<Rightarrow> nok \<and> length bs \<le> n \<and>
        (\<forall>rest. length bs + length rest = n \<longrightarrow>
          (\<exists>hs. nl_offsets (bs @ rest) 0 (length bs) = Some hs \<and> (\<forall>h \<in> set hs. msg_ok (bs @ rest) h))))"

lemma gram_okD:
  assumes "gram_ok msg_ok (length buf) (Rcv bs nok t)"
  obtains hs where "nok" "length bs \<le> length buf"
    "nl_offsets (bs @ drop (length bs) buf) 0 (length bs) = Some hs" "\<forall>h \<in> set hs. msg_ok (bs @ drop (length bs) buf) h"
  using assms by (force simp: gram_ok_def)

section \<open>The contract of a handler\<close>

locale nl_handler =
  fixes handler :: "'d nl_handler"
    and inv :: "'d \<Rightarrow> bool"
    and msg_ok :: "u8 list \<Rightarrow> nat \<Rightarrow> bool"
  assumes handler_inv: "inv d \<Longrightarrow> msg_ok buf h \<Longrightarrow> ok (handler buf h d) (\<lambda>(r, d'). inv d')"
begin

lemma messages_inv:
  assumes "inv d" and "nl_offsets buf h n = Some hs" and "\<forall>x \<in> set hs. msg_ok buf x"
  shows "ok (nl_messages handler trunc buf h (int n) d)
    (\<lambda>r. (\<exists>err d'. r = Return err d' \<and> err < 0 \<and> inv d') \<or> (\<exists>d'. r = Done 0 d' \<and> inv d'))"
  using assms
proof (induction buf h n arbitrary: hs d rule: nl_offsets.induct)
  case (1 buf h n)
  show ?case
  proof (cases "n = 0")
    case True
    then show ?thesis using "1.prems"(1) by (simp add: nl_messages.simps)
  next
    case False
    then obtain nlen where rd: "rd32 buf h = Some nlen"
      using "1.prems"(2) by (subst (asm) nl_offsets.simps) (auto split: option.splits)
    let ?l = "NLMSG_ALIGN (unat nlen)"
    from False rd "1.prems"(2) have guard: "\<not> (unat nlen < 16 \<or> n < ?l \<or> 2 ^ 31 \<le> n)"
      by (subst (asm) nl_offsets.simps) (auto simp: Let_def split: if_splits)
    from False rd guard "1.prems"(2) obtain hs' where hs: "hs = h # hs'" "nl_offsets buf (h + ?l) (n - ?l) = Some hs'"
      by (subst (asm) nl_offsets.simps) (auto simp: Let_def split: if_splits)
    obtain r d' where hd: "handler buf h d = Some (r, d')" "inv d'"
      using handler_inv [OF "1.prems"(1), of buf h] "1.prems"(3) hs by (auto simp: ok_def)
    note step = nl_messages_step [where handler = handler, OF rd _ _ _ hd(1), of n trunc]
    show ?thesis
    proof (cases "r < 0")
      case True
      then show ?thesis using step guard hd(2) by simp
    next
      case r: False
      have "ok (nl_messages handler trunc buf (h + ?l) (int (n - ?l)) d')
        (\<lambda>r. (\<exists>err d'. r = Return err d' \<and> err < 0 \<and> inv d') \<or> (\<exists>d'. r = Done 0 d' \<and> inv d'))"
        by (rule "1.IH" [OF False rd refl guard hd(2) hs(2)]) (use "1.prems"(3) hs in simp)
      then show ?thesis using step guard r by simp
    qed
  qed
qed

lemma listen_inv:
  assumes "inv d" and "\<forall>r \<in> set rs. gram_ok msg_ok (length buf) r"
  shows "ok (rtnl_listen handler rs buf d) (\<lambda>r. \<exists>err d'. r = Returns err d' \<and> inv d')"
  using assms
proof (induction rs arbitrary: d buf)
  case (Cons r rs)
  show ?case
  proof (cases r)
    case (Rcv bs nok t)
    let ?buf = "bs @ drop (length bs) buf"
    have "gram_ok msg_ok (length buf) (Rcv bs nok t)" using Cons.prems(2) Rcv by simp
    then obtain hs where hs: "nok" "length bs \<le> length buf" "nl_offsets ?buf 0 (length bs) = Some hs"
      "\<forall>h \<in> set hs. msg_ok ?buf h"
      by (rule gram_okD)
    have rest: "ok (rtnl_listen handler rs ?buf d') (\<lambda>r. \<exists>err d'. r = Returns err d' \<and> inv d')" if "inv d'" for d'
      by (rule Cons.IH [OF that]) (use Cons.prems(2) hs(2) in simp)
    show ?thesis
    proof (cases "bs = []")
      case True
      then show ?thesis using Cons.prems(1) by (simp add: Rcv)
    next
      case False
      consider (ret) err d' where "nl_messages handler t ?buf 0 (int (length bs)) d = Some (Return err d')" "inv d'"
        | (fin) d' where "nl_messages handler t ?buf 0 (int (length bs)) d = Some (Done 0 d')" "inv d'"
        using messages_inv [OF Cons.prems(1) hs(3,4), of t] by (auto simp: ok_def)
      then show ?thesis
        using False hs(1) rest by cases (simp_all add: Rcv Let_def)
    qed
  qed (use Cons.prems(1) in simp)
qed simp

end

end
