(* ===== verification/Mrp_Server.thy ===== *)
theory Mrp_Server
  imports Mrp_Registry Mrp_Listen
begin

text \<open>
  \<^verbatim>\<open>server_cmds.c\<close>: the link notifications of the kernel.  \<open>netlink_listen\<close> reads one message of the
  receive buffer at its byte offset and changes the address, the operational state or the
  connectivity of the instance concerned, or destroys an instance whose port left its bridge.
\<close>

section \<open>Constants\<close>

definition NLMSG_DONE :: u16 where "NLMSG_DONE = 3"
definition RTM_NEWLINK :: u16 where "RTM_NEWLINK = 16"
definition RTM_DELLINK :: u16 where "RTM_DELLINK = 17"
definition AF_UNSPEC :: u8 where "AF_UNSPEC = 0"
definition AF_BRIDGE :: u8 where "AF_BRIDGE = 7"
definition IFLA_ADDRESS :: nat where "IFLA_ADDRESS = 1"
definition IFLA_IFNAME :: nat where "IFLA_IFNAME = 3"
definition IFLA_MASTER :: nat where "IFLA_MASTER = 10"
definition IFLA_OPERSTATE :: nat where "IFLA_OPERSTATE = 16"
definition IFLA_AF_SPEC :: nat where "IFLA_AF_SPEC = 26"
definition IFLA_MAX :: nat where "IFLA_MAX = 55"
definition IFLA_BRIDGE_CFM :: nat where "IFLA_BRIDGE_CFM = 5"
definition IFLA_BRIDGE_MAX :: nat where "IFLA_BRIDGE_MAX = 5"
definition IFLA_BRIDGE_CFM_CC_PEER_STATUS_INFO :: u16 where "IFLA_BRIDGE_CFM_CC_PEER_STATUS_INFO = 16"
definition IFLA_BRIDGE_CFM_MEP_STATUS_MAX :: nat where "IFLA_BRIDGE_CFM_MEP_STATUS_MAX = 4"
definition IFLA_BRIDGE_CFM_CC_PEER_STATUS_INSTANCE :: nat where "IFLA_BRIDGE_CFM_CC_PEER_STATUS_INSTANCE = 1"
definition IFLA_BRIDGE_CFM_CC_PEER_STATUS_PEER_MEPID :: nat where "IFLA_BRIDGE_CFM_CC_PEER_STATUS_PEER_MEPID = 2"
definition IFLA_BRIDGE_CFM_CC_PEER_STATUS_CCM_DEFECT :: nat where "IFLA_BRIDGE_CFM_CC_PEER_STATUS_CCM_DEFECT = 3"
definition IFLA_BRIDGE_CFM_CC_PEER_STATUS_MAX :: nat where "IFLA_BRIDGE_CFM_CC_PEER_STATUS_MAX = 9"

section \<open>Connectivity notifications\<close>

text \<open>The entries of the list \<open>IFLA_BRIDGE_CFM\<close> that report the state of a peer.\<close>

fun keep_peers :: "u8 list \<Rightarrow> nat list \<Rightarrow> nat list option" where
  "keep_peers buf [] = Some []"
| "keep_peers buf (x # xs) = do {
     ty \<leftarrow> rd16 buf (x + 2);
     ys \<leftarrow> keep_peers buf xs;
     Some (if ty = (IFLA_BRIDGE_CFM_CC_PEER_STATUS_INFO OR NLA_F_NESTED) then x # ys else ys)
   }"

definition cfm_peers :: "u8 list \<Rightarrow> rtattr_table \<Rightarrow> nat list option" where
  "cfm_peers buf tb =
    (case tb IFLA_AF_SPEC of None \<Rightarrow> Some []
     | Some af \<Rightarrow> do {
         n \<leftarrow> RTA_PAYLOAD buf af;
         aftb \<leftarrow> parse_rtattr_flags buf (IFLA_BRIDGE_MAX + 1) IFLA_BRIDGE_MAX (af + 4) n NLA_F_NESTED;
         (case aftb IFLA_BRIDGE_CFM of None \<Rightarrow> Some []
          | Some list \<Rightarrow> do {
              rem \<leftarrow> RTA_PAYLOAD buf list;
              (xs, _, _) \<leftarrow> rta_walk buf (list + 4) rem;
              keep_peers buf xs
            })
       })"

text \<open>A NULL entry of the table is read as an attribute: a crash.\<close>

definition info_u32 :: "u8 list \<Rightarrow> rtattr_table \<Rightarrow> nat \<Rightarrow> u32 option" where
  "info_u32 buf infotb t = (case infotb t of None \<Rightarrow> None | Some a \<Rightarrow> rta_getattr_u32 buf a)"

text \<open>\<open>sz\<close> is the number of entries of the array \<open>infotb\<close>.\<close>

fun cfm_loop :: "env \<Rightarrow> nat \<Rightarrow> u8 list \<Rightarrow> u32 \<Rightarrow> nat list \<Rightarrow> daemon \<Rightarrow> daemon option" where
  "cfm_loop e sz buf idx [] d = Some d"
| "cfm_loop e sz buf idx (i # is) d = do {
     n \<leftarrow> RTA_PAYLOAD buf i;
     infotb \<leftarrow> parse_rtattr_flags buf sz IFLA_BRIDGE_CFM_CC_PEER_STATUS_MAX (i + 4) n NLA_F_NESTED;
     (case infotb IFLA_BRIDGE_CFM_CC_PEER_STATUS_INSTANCE of None \<Rightarrow> cfm_loop e sz buf idx is d
      | Some a \<Rightarrow> do {
          _ \<leftarrow> rta_getattr_u32 buf a;
          peer \<leftarrow> info_u32 buf infotb IFLA_BRIDGE_CFM_CC_PEER_STATUS_PEER_MEPID;
          defect \<leftarrow> info_u32 buf infotb IFLA_BRIDGE_CFM_CC_PEER_STATUS_CCM_DEFECT;
          d \<leftarrow> mrp_cfm_link_change e idx peer defect d;
          cfm_loop e sz buf idx is d
        })
   }"

section \<open>Link notifications\<close>

text \<open>The address is six bytes from the attribute's data on, whatever its length is.\<close>

definition listen_address :: "u8 list \<Rightarrow> u32 \<Rightarrow> rtattr_table \<Rightarrow> daemon \<Rightarrow> daemon option" where
  "listen_address buf idx tb d =
    (case tb IFLA_ADDRESS of None \<Rightarrow> Some d
     | Some a \<Rightarrow> do { mac \<leftarrow> rdn buf (a + 4) ETH_ALEN; mrp_mac_change idx mac d })"

text \<open>The label \<open>mrp_process\<close>: \<open>port\<close> was looked up before the other attributes were handled.\<close>

definition listen_port :: "env \<Rightarrow> u8 list \<Rightarrow> rtattr_table \<Rightarrow> (nat \<times> port_ref option) option \<Rightarrow> daemon \<Rightarrow> daemon option" where
  "listen_port e buf tb found d =
    (case found of None \<Rightarrow> Some d
     | Some (k, p) \<Rightarrow> do {
         d \<leftarrow> (case tb IFLA_OPERSTATE of None \<Rightarrow> Some d
               | Some a \<Rightarrow> do { state \<leftarrow> rd8 buf (a + 4); run_inst k (oper_change e state p) d });
         if tb IFLA_MASTER = None then do {
           _ \<leftarrow> deref_mrp p (load (insts d ! k) (dlog d));
           mrp_destroy e (ifindex (fst (insts d ! k))) (ring_nr (fst (insts d ! k))) d
         }
         else Some d
       })"

definition link_table :: "u8 list \<Rightarrow> nat \<Rightarrow> u32 \<Rightarrow> rtattr_table option" where
  "link_table buf h nlen =
     parse_rtattr_flags buf (IFLA_MAX + 1) IFLA_MAX (h + 32) (sint (nlen - 32)) NLA_F_NESTED"

definition netlink_listen :: "env \<Rightarrow> u8 list \<Rightarrow> nat \<Rightarrow> daemon \<Rightarrow> (int \<times> daemon) option" where
  "netlink_listen e buf h d = do {
     nlen \<leftarrow> rd32 buf h;
     ntype \<leftarrow> rd16 buf (h + 4);
     if ntype = NLMSG_DONE then Some (0, d)
     else if sint (nlen - 32) < 0 then Some (- 1, d)
     else do {
       af_family \<leftarrow> rd8 buf (h + 16);
       idx \<leftarrow> rd32 buf (h + 20);
       found \<leftarrow> mrp_get_port idx d;
       if af_family \<noteq> AF_BRIDGE \<and> af_family \<noteq> AF_UNSPEC then Some (0, d)
       else if ntype \<noteq> RTM_NEWLINK \<and> ntype \<noteq> RTM_DELLINK then Some (0, d)
       else do {
         tb \<leftarrow> link_table buf h nlen;
         if tb IFLA_IFNAME = None then Some (- 1, d)
         else do {
           d \<leftarrow> listen_address buf idx tb d;
           peers \<leftarrow> cfm_peers buf tb;
           d \<leftarrow> cfm_loop e (IFLA_BRIDGE_CFM_MEP_STATUS_MAX + 1) buf idx peers d;
           d \<leftarrow> listen_port e buf tb found d;
           Some (0, d)
         }
       }
     }
   }"

definition netlink_rcv :: "env \<Rightarrow> recvmsg list \<Rightarrow> u8 list \<Rightarrow> daemon \<Rightarrow> daemon outcome option" where
  "netlink_rcv e rs buf d = rtnl_listen (netlink_listen e) rs buf d"

section \<open>Reading a message\<close>

text \<open>The message lies inside the buffer, with the room that reading the header of an attribute behind
  its end needs.\<close>

definition msg_fits :: "u8 list \<Rightarrow> nat \<Rightarrow> bool" where
  "msg_fits buf h \<longleftrightarrow> (case rd32 buf h of None \<Rightarrow> False
     | Some n \<Rightarrow> unat n < 2 ^ 31 \<and> h + unat n + 16 \<le> length buf)"

lemma attr_at_le: "attr_at buf lo hi x \<Longrightarrow> lo \<le> x \<and> x + 4 \<le> hi"
  by (auto simp: attr_at_def)

lemma sint_sub32:
  fixes n :: u32
  assumes "unat n < 2 ^ 31" and "\<not> sint (n - 32) < 0"
  shows "32 \<le> unat n \<and> sint (n - 32) = int (unat n) - 32"
proof -
  have u: "sint n = int (unat n)" using assms(1) by (rule sint_small)
  have "sint (n - 32) = signed_take_bit 31 (sint n - 32)"
    by (simp add: sint_word_ariths)
  also have "\<dots> = sint n - 32"
  proof (rule signed_take_bit_int_eq_self)
    have "int (unat n) < int (2 ^ 31)" using assms(1) by (rule iffD2 [OF of_nat_less_iff])
    then show "sint n - 32 < 2 ^ 31" unfolding u by (simp only: of_nat_power of_nat_numeral)
    show "- (2 ^ 31) \<le> sint n - 32" unfolding u by (rule order_trans [of _ "- 32"]) (simp_all del: of_nat_unat)
  qed
  finally show ?thesis using assms(2) u by linarith
qed

lemma link_table_ok:
  assumes "rd32 buf h = Some n" and "msg_fits buf h" and "\<not> sint (n - 32) < 0"
  shows "ok (link_table buf h n) (\<lambda>tb. \<forall>t x. tb t = Some x \<longrightarrow> attr_at buf (h + 32) (h + unat n) x)"
proof -
  have n: "unat n < 2 ^ 31" "h + unat n + 16 \<le> length buf" using assms(1,2) by (simp_all add: msg_fits_def)
  note s = sint_sub32 [OF n(1) assms(3)]
  show ?thesis
    unfolding link_table_def
    by (rule parse_rtattr_flags_safe) (use s n(2) in linarith)+
qed

lemma payload_ok:
  assumes "attr_at buf lo hi x"
  shows "ok (RTA_PAYLOAD buf x) (\<lambda>n. int (x + 4) + n \<le> int hi \<and> x + 4 \<le> hi)"
proof -
  obtain l where l: "rd16 buf x = Some l" "4 \<le> unat l" "x + unat l \<le> hi"
    using assms by (auto simp: attr_at_def)
  then have "int (x + 4) + (int (unat l) - int sizeof_rtattr) \<le> int hi" "x + 4 \<le> hi"
    unfolding sizeof_rtattr_def by linarith+
  then show ?thesis unfolding RTA_PAYLOAD_def l(1) option.map ok_Some by blast
qed

lemma keep_peers_ok:
  assumes "\<forall>x \<in> set xs. attr_at buf lo hi x" and "hi \<le> length buf"
  shows "ok (keep_peers buf xs) (\<lambda>ys. set ys \<subseteq> set xs)"
  using assms
proof (induction xs)
  case (Cons x xs)
  have "x + 2 + 2 \<le> length buf" using Cons.prems attr_at_le [of buf lo hi x] by simp
  then obtain ty where "rd16 buf (x + 2) = Some ty" using rd_ok(1) [of "x + 2"] by (auto simp: ok_def)
  then show ?case using Cons by (auto simp: ok_def)
qed simp

text \<open>Finding the peer reports never crashes.\<close>

lemma cfm_peers_ok:
  assumes tb: "\<forall>t x. tb t = Some x \<longrightarrow> attr_at buf lo hi x" and hi: "hi + 5 \<le> length buf"
  shows "ok (cfm_peers buf tb) (\<lambda>_. True)"
proof (cases "tb IFLA_AF_SPEC")
  case (Some af)
  have af: "attr_at buf lo hi af" using tb Some by simp
  show ?thesis
    unfolding cfm_peers_def Some option.case ok_bind
  proof (rule ok_mono [OF payload_ok [OF af]])
    fix n
    assume n: "int (af + 4) + n \<le> int hi \<and> af + 4 \<le> hi"
    have "ok (parse_rtattr_flags buf (IFLA_BRIDGE_MAX + 1) IFLA_BRIDGE_MAX (af + 4) n NLA_F_NESTED)
        (\<lambda>tb. \<forall>t x. tb t = Some x \<longrightarrow> attr_at buf (af + 4) hi x)"
      by (rule parse_rtattr_flags_safe) (use n hi in simp_all)
    then show "ok (parse_rtattr_flags buf (IFLA_BRIDGE_MAX + 1) IFLA_BRIDGE_MAX (af + 4) n NLA_F_NESTED)
      (\<lambda>aftb. ok (case aftb IFLA_BRIDGE_CFM of None \<Rightarrow> Some []
          | Some list \<Rightarrow> RTA_PAYLOAD buf list \<bind> (\<lambda>rem. rta_walk buf (list + 4) rem \<bind> (\<lambda>(xs, _, _). keep_peers buf xs))) (\<lambda>_. True))"
    proof (rule ok_mono)
      fix aftb :: rtattr_table
      assume a: "\<forall>t x. aftb t = Some x \<longrightarrow> attr_at buf (af + 4) hi x"
      show "ok (case aftb IFLA_BRIDGE_CFM of None \<Rightarrow> Some []
          | Some list \<Rightarrow> RTA_PAYLOAD buf list \<bind> (\<lambda>rem. rta_walk buf (list + 4) rem \<bind> (\<lambda>(xs, _, _). keep_peers buf xs))) (\<lambda>_. True)"
      proof (cases "aftb IFLA_BRIDGE_CFM")
        case (Some list)
        have l: "attr_at buf (af + 4) hi list" using a Some by simp
        show ?thesis
          unfolding Some option.case ok_bind
          by (rule ok_mono [OF payload_ok [OF l]], rule ok_mono [OF rta_walk_safe [where hi = hi]])
            (use hi in \<open>auto intro!: ok_mono [OF keep_peers_ok]\<close>)
      qed simp
    qed
  qed
qed (simp add: cfm_peers_def)

section \<open>The daemon under a link notification\<close>

lemma listen_address_steady:
  assumes g: "all_good d" and tb: "\<forall>t x. tb t = Some x \<longrightarrow> attr_at buf lo hi x" and hi: "hi + 6 \<le> length buf"
  shows "ok (listen_address buf idx tb d) (steady d)"
proof (cases "tb IFLA_ADDRESS")
  case (Some a)
  have "a + 4 + 6 \<le> length buf" using tb Some hi attr_at_le by fastforce
  then show ?thesis
    unfolding listen_address_def Some option.case ok_bind ETH_ALEN_def
    by (rule ok_mono [OF rd_ok(4)]) (use mrp_mac_change_steady [OF g] in simp)
qed (simp add: listen_address_def steady_refl [OF g])

definition port_known :: "daemon \<Rightarrow> (nat \<times> port_ref option) option \<Rightarrow> bool" where
  "port_known d found \<longleftrightarrow> (\<forall>k p. found = Some (k, p) \<longrightarrow> k < length (insts d) \<and> owns (cfgs d ! k) p)"

lemma port_known_steady: "steady d d' \<Longrightarrow> port_known d found \<Longrightarrow> port_known d' found"
  by (auto simp: port_known_def steady_def cfgs_def dest!: map_eq_imp_length_eq)

lemma oper_change_steady:
  assumes g: "all_good d" and e: "libev_timers e" and p: "port_known d (Some (k, p))"
  shows "ok (run_inst k (oper_change e state p) d) (steady d)"
proof -
  have k: "k < length (insts d)" "owns (cfgs d ! k) p" using p by (simp_all add: port_known_def)
  note i = good_inst [OF g k(1)]
  show ?thesis
    using run_inst_steady [where f = "oper_change e state p", OF g k(1)] oper_change_inv [OF i e owns_live [OF i]] k(2)
    by (simp add: cfgs_nth [OF k(1)])
qed

text \<open>The state after the notification: either every instance is as configured before, or the instance
  that owns the port is gone.\<close>

definition left :: "daemon \<Rightarrow> (nat \<times> port_ref option) option \<Rightarrow> rtattr_table \<Rightarrow> (u32 \<times> u32) list" where
  "left d found tb = (case found of None \<Rightarrow> keys d
     | Some (k, _) \<Rightarrow> if tb IFLA_MASTER = None then filter (\<lambda>x. x \<noteq> keys d ! k) (keys d) else keys d)"

lemma length_keys [simp]: "length (keys d) = length (insts d)"
  by (simp add: keys_ikey)

lemma left_cases:
  "port_known d found \<Longrightarrow> left d found tb = keys d \<or> (\<exists>k \<in> set (keys d). left d found tb = filter (\<lambda>x. x \<noteq> k) (keys d))"
  by (auto simp: left_def port_known_def split: option.splits)

lemma listen_port_inv:
  assumes d: "daemon_inv d" and e: "libev_timers e" and p: "port_known d found"
    and tb: "\<forall>t x. tb t = Some x \<longrightarrow> attr_at buf lo hi x" and hi: "hi + 1 \<le> length buf"
  shows "ok (listen_port e buf tb found d) (\<lambda>d'. daemon_inv d' \<and> keys d' = left d found tb \<and>
    (rc_only d \<longrightarrow> rc_only d' \<and> stale d' = stale d))"
proof (cases found)
  case (Some kp)
  obtain k p where kp: "kp = (k, p)" by (cases kp)
  note g = inv_all_good [OF d]
  have pk: "port_known d (Some (k, p))" using p Some kp by simp
  have op: "ok (case tb IFLA_OPERSTATE of None \<Rightarrow> Some d
      | Some a \<Rightarrow> rd8 buf (a + 4) \<bind> (\<lambda>state. run_inst k (oper_change e state p) d)) (steady d)"
  proof (cases "tb IFLA_OPERSTATE")
    case (Some a)
    have "a + 4 + 1 \<le> length buf" using tb Some hi attr_at_le by fastforce
    then show ?thesis
      unfolding Some option.case ok_bind
      by (rule ok_mono [OF rd_ok(3)]) (rule oper_change_steady [OF g e pk])
  qed (simp add: steady_refl [OF g])
  show ?thesis
    unfolding listen_port_def Some kp option.case prod.case ok_bind
  proof (rule ok_mono [OF op])
    fix d1
    assume st: "steady d d1"
    note d1 = steady_inv [OF d st]
    have pk1: "k < length (insts d1)" "owns (cfgs d1 ! k) p" using port_known_steady [OF st pk] by (simp_all add: port_known_def)
    have eq: "keys d1 = keys d" "rc_only d1 = rc_only d" "stale d1 = stale d"
      using st by (simp_all add: steady_def keys_def rc_only_def)
    note i = good_inst [OF inv_all_good [OF d1] pk1(1), of "dlog d1"]
    have live: "live p (snd (insts d1 ! k))" using owns_live [OF i] pk1 by (simp add: cfgs_nth)
    have key: "keys d1 ! k = (ifindex (fst (insts d1 ! k)), ring_nr (fst (insts d1 ! k)))"
      using pk1(1) by (simp add: keys_ikey ikey_def)
    show "ok (if tb IFLA_MASTER = None
         then deref_mrp p (load (insts d1 ! k) (dlog d1)) \<bind>
           (\<lambda>_. mrp_destroy e (ifindex (fst (insts d1 ! k))) (ring_nr (fst (insts d1 ! k))) d1)
         else Some d1)
      (\<lambda>d'. daemon_inv d' \<and> keys d' = left d (Some (k, p)) tb \<and> (rc_only d \<longrightarrow> rc_only d' \<and> stale d' = stale d))"
      using d1 live by (auto simp: left_def eq key [unfolded eq] intro!: deref_mrp_wp ok_mono [OF mrp_destroy_inv [OF d1]] e)
  qed
qed (use d in \<open>simp add: listen_port_def left_def\<close>)

definition quiet :: "u8 list \<Rightarrow> nat \<Rightarrow> bool" where
  "quiet buf h \<longleftrightarrow> (case rd32 buf h of None \<Rightarrow> True
     | Some n \<Rightarrow> (case link_table buf h n of None \<Rightarrow> True | Some tb \<Rightarrow> cfm_peers buf tb = Some []))"

text \<open>The messages that are not about a link, or not complete.\<close>

definition ignored :: "u8 list \<Rightarrow> nat \<Rightarrow> bool" where
  "ignored buf h \<longleftrightarrow> (\<forall>n ty fam tb. rd32 buf h = Some n \<longrightarrow> rd16 buf (h + 4) = Some ty \<longrightarrow>
     rd8 buf (h + 16) = Some fam \<longrightarrow> link_table buf h n = Some tb \<longrightarrow>
     ty = NLMSG_DONE \<or> sint (n - 32) < 0 \<or> fam \<noteq> AF_BRIDGE \<and> fam \<noteq> AF_UNSPEC \<or>
     ty \<noteq> RTM_NEWLINK \<and> ty \<noteq> RTM_DELLINK \<or> tb IFLA_IFNAME = None)"

lemma cfm_loop_overflow: "sz \<le> 9 \<Longrightarrow> peers \<noteq> [] \<Longrightarrow> cfm_loop e sz buf idx peers d = None"
  by (cases peers) (auto simp: parse_rtattr_flags_def IFLA_BRIDGE_CFM_CC_PEER_STATUS_MAX_def split: Option.bind_split)

lemma netlink_listen_inv:
  assumes d: "daemon_inv d" and e: "libev_timers e" and m: "msg_fits buf h" "quiet buf h"
  shows "ok (netlink_listen e buf h d) (\<lambda>(r, d'). daemon_inv d' \<and>
    (keys d' = keys d \<or> (\<exists>k \<in> set (keys d). keys d' = filter (\<lambda>x. x \<noteq> k) (keys d))) \<and>
    (rc_only d \<longrightarrow> rc_only d' \<and> stale d' = stale d))" (is "ok _ ?Q")
proof -
  note g = inv_all_good [OF d]
  obtain n where n: "rd32 buf h = Some n" "unat n < 2 ^ 31" "h + unat n + 16 \<le> length buf"
    using m(1) by (auto simp: msg_fits_def split: option.splits)
  obtain ty where ty: "rd16 buf (h + 4) = Some ty" using rd_ok(1) [of "h + 4" buf] n(3) by (auto simp: ok_def)
  have same: "?Q (r, d)" for r using d by simp
  show ?thesis
  proof (cases "ty = NLMSG_DONE \<or> sint (n - 32) < 0")
    case True
    then show ?thesis using same by (auto simp: netlink_listen_def n(1) ty)
  next
    case False
    then have len: "\<not> sint (n - 32) < 0" by simp
    note s = sint_sub32 [OF n(2) len]
    obtain fam where fam: "rd8 buf (h + 16) = Some fam" using rd_ok(3) [of "h + 16" buf] n(3) s by (auto simp: ok_def)
    obtain idx where idx: "rd32 buf (h + 20) = Some idx" using rd_ok(2) [of "h + 20" buf] n(3) s by (auto simp: ok_def)
    obtain found where found: "mrp_get_port idx d = Some found" "port_found idx (insts d) found"
      using mrp_get_port_ok [OF g, of idx] by (auto simp: ok_def)
    have pk: "port_known d found" using port_found_owned [OF g] found(2) by (auto simp: port_known_def)
    obtain tb where tb: "link_table buf h n = Some tb" "\<forall>t x. tb t = Some x \<longrightarrow> attr_at buf (h + 32) (h + unat n) x"
      using link_table_ok [OF n(1) m(1) len] by (auto simp: ok_def)
    have peers: "cfm_peers buf tb = Some []" using m(2) by (simp add: quiet_def n(1) tb(1))
    obtain d1 where d1: "listen_address buf idx tb d = Some d1" "steady d d1"
      using listen_address_steady [OF g tb(2), of idx] n(3) by (auto simp: ok_def)
    have eq: "keys d1 = keys d" "rc_only d1 = rc_only d" "stale d1 = stale d"
      using d1(2) by (simp_all add: steady_def keys_def rc_only_def)
    have "ok (listen_port e buf tb found d1) (\<lambda>d'. daemon_inv d' \<and> keys d' = left d1 found tb \<and>
        (rc_only d1 \<longrightarrow> rc_only d' \<and> stale d' = stale d1))"
      by (rule listen_port_inv [OF steady_inv [OF d d1(2)] e port_known_steady [OF d1(2) pk] tb(2)]) (use n(3) in simp)
    then obtain d2 where d2: "listen_port e buf tb found d1 = Some d2" "daemon_inv d2" "keys d2 = left d1 found tb"
      "rc_only d \<longrightarrow> rc_only d2 \<and> stale d2 = stale d"
      unfolding eq by (auto simp: ok_def)
    have "keys d2 = left d found tb" using d2(3) unfolding left_def eq .
    then have "?Q (0, d2)" using left_cases [OF pk, of tb] d2(2,4) by simp
    then show ?thesis
      using same by (simp add: netlink_listen_def n(1) ty fam idx found(1) tb(1) d1(1) peers d2(1))
  qed
qed

text \<open>The handler fulfils the contract of the listening loop.\<close>

interpretation link_events: nl_handler "netlink_listen e" "\<lambda>d. daemon_inv d \<and> libev_timers e \<and> (rc_only d0 \<longrightarrow> rc_only d \<and> stale d = stale d0)"
  "\<lambda>buf h. msg_fits buf h \<and> quiet buf h"
  by unfold_locales (auto elim!: ok_mono [OF netlink_listen_inv])

text \<open>A report of a peer's state overruns the array \<open>infotb\<close>: it has five entries and ten are cleared.\<close>

lemma netlink_listen_overflow:
  assumes d: "daemon_inv d" and m: "msg_fits buf h" "\<not> quiet buf h" "\<not> ignored buf h"
  shows "netlink_listen e buf h d = None"
proof -
  obtain n where n: "rd32 buf h = Some n" "h + unat n + 16 \<le> length buf"
    using m(1) by (auto simp: msg_fits_def split: option.splits)
  obtain ty fam tb where i: "rd16 buf (h + 4) = Some ty" "rd8 buf (h + 16) = Some fam" "link_table buf h n = Some tb"
    "ty \<noteq> NLMSG_DONE" "\<not> sint (n - 32) < 0" "fam = AF_BRIDGE \<or> fam = AF_UNSPEC" "ty = RTM_NEWLINK \<or> ty = RTM_DELLINK"
    "tb IFLA_IFNAME \<noteq> None"
    using m(3) n(1) unfolding ignored_def by auto
  have "cfm_peers buf tb \<noteq> Some []" using m(2) by (simp add: quiet_def n(1) i(3))
  then show ?thesis
    using i n(1) cfm_loop_overflow [of 5]
    by (auto simp: netlink_listen_def IFLA_BRIDGE_CFM_MEP_STATUS_MAX_def split: Option.bind_split)
qed

end
