(* ===== verification/Mrp_Ctl.thy ===== *)
theory Mrp_Ctl
  imports Mrp_Registry
begin

text \<open>
  The control protocol of \<^verbatim>\<open>utils.h\<close> and its server, \<^verbatim>\<open>server_socket.c\<close>: a request is a header and the
  input struct of a command, the answer is the header with the result and the output struct.
  The structs are memory images of the little endian host.
\<close>

section \<open>Messages\<close>

record ctl_msg_hdr =
  h_cmd :: u32
  h_lin :: u32
  h_lout :: u32
  h_res :: u32

definition enc_hdr :: "ctl_msg_hdr \<Rightarrow> u8 list" where
  "enc_hdr h = mem32 (h_cmd h) @ mem32 (h_lin h) @ mem32 (h_lout h) @ mem32 (h_res h)"

definition dec_hdr :: "u8 list \<Rightarrow> ctl_msg_hdr" where
  "dec_hdr bs = \<lparr>h_cmd = ld32 bs, h_lin = ld32 (drop 4 bs), h_lout = ld32 (drop 8 bs), h_res = ld32 (drop 12 bs)\<rparr>"

definition CFM_MAID_LENGTH :: nat where "CFM_MAID_LENGTH = 48"
definition MAX_MRP_INSTANCES :: nat where "MAX_MRP_INSTANCES = 20"
definition MSG_BUF_LEN :: int where "MSG_BUF_LEN = 10000"
definition CMD_CODE_addmrp :: u32 where "CMD_CODE_addmrp = 101"
definition CMD_CODE_delmrp :: u32 where "CMD_CODE_delmrp = 102"
definition CMD_CODE_getmrp :: u32 where "CMD_CODE_getmrp = 103"

text \<open>\<open>struct addmrp_IN\<close>: every number is an \<open>int\<close>, and two bytes of padding (\<open>pad\<close>) follow.\<close>

definition addmrp_COPY_IN :: "u8 list \<Rightarrow> add_args \<Rightarrow> u8 list" where
  "addmrp_COPY_IN pad a =
     mem32 (a_br a) @ mem32 (a_pport a) @ mem32 (a_sport a) @ mem32 (a_ring_nr a) @ mem32 (a_ring_role a) @
     mem32 (ucast (a_prio a)) @ mem32 (ucast (a_ring_recv a)) @ mem32 (ucast (a_react_on_link_change a)) @
     mem32 (a_in_role a) @ mem32 (ucast (a_in_id a)) @ mem32 (a_iport a) @ mem32 (a_in_mode a) @
     mem32 (ucast (a_in_recv a)) @ mem32 (a_cfm_instance a) @ mem32 (a_cfm_level a) @ mem32 (a_cfm_mepid a) @
     mem32 (a_cfm_peer_mepid a) @ take CFM_MAID_LENGTH (a_cfm_maid a) @ take ETH_ALEN (a_cfm_dmac a) @ pad"

definition sizeof_addmrp_IN :: nat where "sizeof_addmrp_IN = 17 * 4 + 48 + 6 + 2"

text \<open>The call: the numbers are cut to the widths of the parameters.\<close>

definition addmrp_CALL :: "u8 list \<Rightarrow> add_args" where
  "addmrp_CALL bs = \<lparr>a_br = ld32 bs, a_ring_nr = ld32 (drop 12 bs), a_pport = ld32 (drop 4 bs),
     a_sport = ld32 (drop 8 bs), a_ring_role = ld32 (drop 16 bs), a_prio = ucast (ld32 (drop 20 bs)),
     a_ring_recv = ucast (ld32 (drop 24 bs)), a_react_on_link_change = ucast (ld32 (drop 28 bs)),
     a_in_role = ld32 (drop 32 bs), a_in_id = ucast (ld32 (drop 36 bs)), a_iport = ld32 (drop 40 bs),
     a_in_mode = ld32 (drop 44 bs), a_in_recv = ucast (ld32 (drop 48 bs)), a_cfm_instance = ld32 (drop 52 bs),
     a_cfm_level = ld32 (drop 56 bs), a_cfm_mepid = ld32 (drop 60 bs), a_cfm_peer_mepid = ld32 (drop 64 bs),
     a_cfm_maid = take CFM_MAID_LENGTH (drop 68 bs), a_cfm_dmac = take ETH_ALEN (drop 116 bs)\<rparr>"

definition delmrp_COPY_IN :: "u32 \<times> u32 \<Rightarrow> u8 list" where
  "delmrp_COPY_IN k = mem32 (fst k) @ mem32 (snd k)"

definition delmrp_CALL :: "u8 list \<Rightarrow> u32 \<times> u32" where
  "delmrp_CALL bs = (ld32 bs, ld32 (drop 4 bs))"

definition sizeof_delmrp_IN :: nat where "sizeof_delmrp_IN = 8"

definition enc_status :: "mrp_status \<Rightarrow> u8 list" where
  "enc_status x = mem32 (st_br x) @ mem32 (st_ring_nr x) @ mem32 (st_pport x) @ mem32 (st_sport x) @
     mem32 (st_mra_support x) @ mem32 (st_ring_role x) @ mem32 (word_of_int (st_ring_state x)) @ mem32 (st_prio x) @
     mem32 (st_ring_recv x) @ mem32 (st_react_on_link_change x) @ mem32 (st_in_role x) @
     mem32 (word_of_int (st_in_state x)) @ mem32 (st_iport x) @ mem32 (st_in_id x) @ mem32 (st_in_mode x) @
     mem32 (st_in_recv x)"

definition dec_status :: "u8 list \<Rightarrow> mrp_status" where
  "dec_status bs = \<lparr>st_br = ld32 bs, st_ring_nr = ld32 (drop 4 bs), st_pport = ld32 (drop 8 bs),
     st_sport = ld32 (drop 12 bs), st_mra_support = ld32 (drop 16 bs), st_ring_role = ld32 (drop 20 bs),
     st_ring_state = sint (ld32 (drop 24 bs)), st_prio = ld32 (drop 28 bs), st_ring_recv = ld32 (drop 32 bs),
     st_react_on_link_change = ld32 (drop 36 bs), st_in_role = ld32 (drop 40 bs),
     st_in_state = sint (ld32 (drop 44 bs)), st_iport = ld32 (drop 48 bs), st_in_id = ld32 (drop 52 bs),
     st_in_mode = ld32 (drop 56 bs), st_in_recv = ld32 (drop 60 bs)\<rparr>"

definition sizeof_status :: nat where "sizeof_status = 64"
definition sizeof_getmrp_OUT :: nat where "sizeof_getmrp_OUT = 4 + 20 * 64"

definition enc_getmrp_OUT :: "nat \<Rightarrow> mrp_status list \<Rightarrow> u8 list" where
  "enc_getmrp_OUT count status = mem32 (of_nat count) @ concat (map enc_status status)"

text \<open>\<open>*count = out->count; memcpy(status, out->status, sizeof(struct mrp_status) * (*count))\<close>: the
  entries that the client reads.\<close>

definition getmrp_COPY_OUT :: "u8 list \<Rightarrow> nat \<times> mrp_status list" where
  "getmrp_COPY_OUT bs = (unat (ld32 bs),
     map (\<lambda>i. dec_status (drop (4 + sizeof_status * i) bs)) [0..<unat (ld32 bs)])"

section \<open>Commands\<close>

definition CTL_addmrp :: "env \<Rightarrow> add_args \<Rightarrow> daemon \<Rightarrow> (int \<times> daemon) option" where
  "CTL_addmrp e a d = mrp_add e a d"

definition CTL_delmrp :: "env \<Rightarrow> u32 \<times> u32 \<Rightarrow> daemon \<Rightarrow> (int \<times> daemon) option" where
  "CTL_delmrp e k d = mrp_del e (fst k) (snd k) d"

definition CTL_getmrp :: "daemon \<Rightarrow> mrp_status list \<Rightarrow> (nat \<times> mrp_status list) option" where
  "CTL_getmrp d status = mrp_get d status"

text \<open>The output struct is a variable on the stack that is not initialised.\<close>

definition stack_status :: "env \<Rightarrow> nat \<Rightarrow> mrp_status" where
  "stack_status e i = dec_status (map (stack_byte e) [4 + sizeof_status * i..<4 + sizeof_status * (i + 1)])"

definition handle_message :: "env \<Rightarrow> u32 \<Rightarrow> u8 list \<Rightarrow> int \<Rightarrow> u8 list \<Rightarrow> int \<Rightarrow> daemon \<Rightarrow> (int \<times> u8 list \<times> daemon) option" where
  "handle_message e cmd inbuf lin outbuf lout d =
    (if cmd = CMD_CODE_addmrp then
       (if int sizeof_addmrp_IN \<noteq> lin \<or> 0 \<noteq> lout then Some (- 1, outbuf, d)
        else do { (r, d) \<leftarrow> CTL_addmrp e (addmrp_CALL inbuf) d; Some (r, outbuf, d) })
     else if cmd = CMD_CODE_delmrp then
       (if int sizeof_delmrp_IN \<noteq> lin \<or> 0 \<noteq> lout then Some (- 1, outbuf, d)
        else do { (r, d) \<leftarrow> CTL_delmrp e (delmrp_CALL inbuf) d; Some (r, outbuf, d) })
     else if cmd = CMD_CODE_getmrp then
       (if 0 \<noteq> lin \<or> int sizeof_getmrp_OUT \<noteq> lout then Some (- 1, outbuf, d)
        else do {
          (count, status) \<leftarrow> CTL_getmrp d (map (stack_status e) [0..<MAX_MRP_INSTANCES]);
          let out = enc_getmrp_OUT count status;
          Some (0, out @ drop (length out) outbuf, d)
        })
     else Some (- 1, outbuf, d))"

text \<open>One datagram that arrived, and the flags of \<open>recvmsg\<close> (truncation among them); the answer is the
  datagram that is sent back.  \<open>memset\<close> with a negative length, converted to a huge one, is a crash.\<close>

definition ctl_rcv_handler :: "env \<Rightarrow> u8 list \<Rightarrow> u32 \<Rightarrow> u8 list \<Rightarrow> daemon \<Rightarrow> (u8 list option \<times> u8 list \<times> daemon) option" where
  "ctl_rcv_handler e msg msg_flags msg_outbuf d = (
     let l = int (length msg);
         mhdr = dec_hdr msg;
         lin = sint (h_lin mhdr);
         lout = sint (h_lout mhdr)
     in if msg_flags \<noteq> 0 \<or> 16 > l \<or> l \<noteq> 16 + lin \<or> MSG_BUF_LEN < lout \<or> 0 > sint (h_cmd mhdr)
        then Some (None, msg_outbuf, d)
        else do {
          (res, msg_outbuf, d) \<leftarrow> handle_message e (h_cmd mhdr) (drop 16 msg) lin msg_outbuf lout d;
          msg_outbuf \<leftarrow> (if 0 > res
             then (if lout < 0 then None else Some (replicate (nat lout) 0 @ drop (nat lout) msg_outbuf))
             else Some msg_outbuf);
          Some (Some (enc_hdr (mhdr\<lparr>h_res := word_of_int res\<rparr>) @ take (nat lout) msg_outbuf), msg_outbuf, d)
        })"

section \<open>Codecs\<close>

definition wf_args :: "add_args \<Rightarrow> bool" where
  "wf_args a \<longleftrightarrow> length (a_cfm_maid a) = 48 \<and> length (a_cfm_dmac a) = 6"

definition wf_status :: "mrp_status \<Rightarrow> bool" where
  "wf_status x \<longleftrightarrow> - (2 ^ 31) \<le> st_ring_state x \<and> st_ring_state x < 2 ^ 31 \<and>
     - (2 ^ 31) \<le> st_in_state x \<and> st_in_state x < 2 ^ 31"

lemma sint_word_of_int: "- (2 ^ 31) \<le> i \<Longrightarrow> i < 2 ^ 31 \<Longrightarrow> sint (word_of_int i :: u32) = i"
  by (simp add: sint_sbintrunc' signed_take_bit_int_eq_self)

lemma ucast_up_down [simp]:
  "(ucast (ucast (w :: u16) :: u32) :: u16) = w" "(ucast (ucast (b :: u8) :: u32) :: u8) = b"
  by (simp_all add: bit_eq_iff bit_simps)

interpretation hdr: codec "\<lambda>_. True" enc_hdr dec_hdr 16
  by unfold_locales (auto simp: enc_hdr_def dec_hdr_def)

interpretation addmrp_IN: codec wf_args "addmrp_COPY_IN [p, q]" addmrp_CALL 124
  by unfold_locales (auto simp: addmrp_COPY_IN_def addmrp_CALL_def wf_args_def CFM_MAID_LENGTH_def)

interpretation delmrp_IN: codec "\<lambda>_. True" delmrp_COPY_IN delmrp_CALL 8
  by unfold_locales (auto simp: delmrp_COPY_IN_def delmrp_CALL_def)

interpretation status: codec wf_status enc_status dec_status 64
  by unfold_locales (simp_all add: enc_status_def dec_status_def wf_status_def sint_word_of_int)

lemma wf_dec_status: "wf_status (dec_status bs)"
  using sint_greater_eq [of "ld32 (drop 24 bs)"] sint_less [of "ld32 (drop 24 bs)"]
    sint_greater_eq [of "ld32 (drop 44 bs)"] sint_less [of "ld32 (drop 44 bs)"]
  by (simp add: wf_status_def dec_status_def)

lemma drop_statuses:
  assumes "\<forall>x \<in> set xs. wf_status x" and "i \<le> length xs"
  shows "drop (64 * i) (concat (map enc_status xs) @ rest) = concat (map enc_status (drop i xs)) @ rest"
  using assms
proof (induction i arbitrary: xs)
  case (Suc i)
  then obtain x ys where xs: "xs = x # ys" by (cases xs) auto
  have "length (enc_status x) = 64" using Suc.prems xs by (intro status.enc_length) simp
  then show ?case using Suc.IH [of ys] Suc.prems by (simp add: xs)
qed simp

text \<open>What the client reads back is what the server wrote.\<close>

lemma getmrp_COPY_OUT_enc:
  assumes w: "\<forall>x \<in> set status. wf_status x" and c: "count \<le> length status" "length status < 2 ^ 32"
  shows "getmrp_COPY_OUT (enc_getmrp_OUT count status @ rest) = (count, take count status)"
proof -
  have u: "unat (of_nat count :: u32) = count" using c by (simp add: unat_of_nat)
  have "dec_status (drop (64 * i) (concat (map enc_status status) @ rest)) = status ! i" if "i < count" for i
  proof -
    have i: "i < length status" using that c by simp
    have "drop i status = status ! i # drop (Suc i) status" using i by (simp add: Cons_nth_drop_Suc)
    then show ?thesis
      using drop_statuses [OF w, of i rest] i w by (simp add: status.dec_enc_append)
  qed
  then show ?thesis
    using c by (auto simp: getmrp_COPY_OUT_def enc_getmrp_OUT_def sizeof_status_def u add.commute
        drop_append intro!: nth_equalityI)
qed

section \<open>Status\<close>

text \<open>What an entry tells of its instance.  The ring state of an auto-manager or of an instance without a
  role is not filled in.\<close>

definition port_index :: "port_ref option \<Rightarrow> port_mem \<Rightarrow> u32 \<Rightarrow> bool" where
  "port_index p pm i \<longleftrightarrow> (\<forall>r q. p = Some r \<longrightarrow> pm r = Some q \<longrightarrow> i = pifindex q)"

definition status_shows :: "inst \<Rightarrow> mrp_status \<Rightarrow> bool" where
  "status_shows x y \<longleftrightarrow> (let m = fst x; pm = snd x in
     st_br y = ifindex m \<and> st_ring_nr y = ring_nr m \<and> st_ring_role y = ring_role_code (ring_role m) \<and>
     port_index (p_port m) pm (st_pport y) \<and> port_index (s_port m) pm (st_sport y) \<and> port_index (i_port m) pm (st_iport y) \<and>
     st_mra_support y = (if mra_support m then 1 else 0) \<and> st_prio y = ucast (prio m) \<and>
     (ring_role m = BR_MRP_RING_ROLE_MRM \<longrightarrow> st_ring_state y = mrm_state_code (mrm_state m)) \<and>
     (ring_role m = BR_MRP_RING_ROLE_MRC \<longrightarrow> st_ring_state y = mrc_state_code (mrc_state m)) \<and>
     st_in_role y = in_role_code (in_role m) \<and> st_in_id y = ucast (in_id m) \<and>
     (in_role m = BR_MRP_IN_ROLE_MIM \<longrightarrow> st_in_state y = mim_state_code (mim_state m)) \<and>
     (in_role m = BR_MRP_IN_ROLE_MIC \<longrightarrow> st_in_state y = mic_state_code (mic_state m)) \<and>
     (in_role m = BR_MRP_IN_ROLE_DISABLED \<longrightarrow> st_in_state y = - 1))"

lemma state_codes:
  "0 \<le> mrm_state_code a" "mrm_state_code a < 2 ^ 31" "0 \<le> mrc_state_code b" "mrc_state_code b < 2 ^ 31"
  "0 \<le> mim_state_code c" "mim_state_code c < 2 ^ 31" "0 \<le> mic_state_code f" "mic_state_code f < 2 ^ 31"
  by (cases a; cases b; cases c; cases f; simp)+

lemma status_port_wp:
  assumes "p = None \<or> live p (port s)" and "p = None \<Longrightarrow> Q x"
    and "\<And>r q. p = Some r \<Longrightarrow> port s r = Some q \<Longrightarrow> Q (g q)"
  shows "ok (case p of None \<Rightarrow> Some x | Some _ \<Rightarrow> deref p s \<bind> (\<lambda>q. Some (g q))) Q"
  using assms by (cases p) (auto simp: live_def slot_ok_def deref_def)

lemma status_of_ok:
  assumes "good x" and "wf_status y"
  shows "ok (status_of (load x l) y) (\<lambda>z. status_shows x z \<and> wf_status z)"
proof -
  obtain m pm where x: "x = (m, pm)" by (cases x)
  let ?s = "load (m, pm) l"
  have "mrp_inv (cfg m) (load (m, pm) [])" using assms(1) by (simp add: good_def x)
  then have core: "core_ok (p_port m) (s_port m) (i_port m) (domain m) (macaddr m) (ring_mac m) pm"
    using inv_facts(1) by fastforce
  have live: "p_port m = None \<or> live (p_port m) (port ?s)" "s_port m = None \<or> live (s_port m) (port ?s)"
    "i_port m = None \<or> live (i_port m) (port ?s)"
    using core_okD(1,2,9) [OF core] by (simp, simp, cases "i_port m") simp_all
  have le: "- 2147483648 \<le> n" if "0 \<le> n" for n :: int using that by simp
  note codes = state_codes(1,3,5,7) [THEN le] state_codes(2,4,6,8) [simplified]
  show ?thesis
    unfolding x status_of_def Let_def load_sel fst_conv ok_bind
    by (intro status_port_wp live; cases "in_role m")
      (use assms(2) in \<open>simp_all add: status_shows_def wf_status_def port_index_def codes\<close>)
qed

lemma get_loop_ok:
  assumes "\<forall>x \<in> set xs. good x \<and> \<not> lock (fst x)" and "i + length xs \<le> length ys" and "\<forall>y \<in> set ys. wf_status y"
  shows "ok (get_loop xs i ys) (\<lambda>(n, zs). n = i + length xs \<and> length zs = length ys \<and> (\<forall>z \<in> set zs. wf_status z) \<and>
    (\<forall>j < length ys. if i \<le> j \<and> j < i + length xs then status_shows (xs ! (j - i)) (zs ! j) else zs ! j = ys ! j))"
  using assms
proof (induction xs arbitrary: i ys)
  case (Cons x xs)
  have lk: "mrp_lock (load x []) = Some ((load x [])\<lparr>mrp := (fst x)\<lparr>lock := True\<rparr>\<rparr>)"
    using Cons.prems(1) by (simp add: mrp_lock_def)
  let ?x = "((fst x)\<lparr>lock := True\<rparr>, snd x)"
  have ld: "(load x [])\<lparr>mrp := (fst x)\<lparr>lock := True\<rparr>\<rparr> = load ?x []" by (simp add: load_def)
  have "good ?x" using Cons.prems(1) by (auto simp: good_def load_def mrp_inv_def)
  then obtain y where y: "status_of (load ?x []) (ys ! i) = Some y" "status_shows ?x y" "wf_status y"
    using status_of_ok [of ?x "ys ! i" "[]"] Cons.prems(2,3) by (auto simp: ok_def)
  have sx: "status_shows x y" using y(2) by (simp add: status_shows_def)
  have w: "\<forall>z \<in> set (ys[i := y]). wf_status z" using Cons.prems(3) y(3) set_update_subset_insert [of ys i y] by auto
  have lt: "i < length ys" using Cons.prems(2) by simp
  have "ok (get_loop xs (Suc i) (ys[i := y])) (\<lambda>(n, zs). n = Suc i + length xs \<and> length zs = length (ys[i := y]) \<and>
      (\<forall>z \<in> set zs. wf_status z) \<and>
      (\<forall>j < length (ys[i := y]). if Suc i \<le> j \<and> j < Suc i + length xs then status_shows (xs ! (j - Suc i)) (zs ! j) else zs ! j = ys[i := y] ! j))"
    by (rule Cons.IH) (use Cons.prems w in auto)
  then obtain zs where zs: "get_loop xs (Suc i) (ys[i := y]) = Some (Suc i + length xs, zs)" "length zs = length ys" "\<forall>z \<in> set zs. wf_status z"
    "\<forall>j < length ys. if Suc i \<le> j \<and> j < Suc i + length xs then status_shows (xs ! (j - Suc i)) (zs ! j) else zs ! j = ys[i := y] ! j"
    by (auto simp: ok_def)
  have "if i \<le> j \<and> j < i + length (x # xs) then status_shows ((x # xs) ! (j - i)) (zs ! j) else zs ! j = ys ! j"
    if "j < length ys" for j
    using zs(4) that sx lt by (cases "j = i") (force simp: nth_Cons')+
  then show ?case
    using zs lt by (simp add: lk ld y(1))
qed auto

text \<open>\<open>mrp_get\<close> writes one entry for each instance, in the order of the list; with more instances than
  entries it writes outside of the array.\<close>

lemma mrp_get_ok:
  assumes "daemon_inv d" and "length (insts d) \<le> length ys" and "\<forall>y \<in> set ys. wf_status y"
  shows "ok (mrp_get d ys) (\<lambda>(n, zs). n = length (insts d) \<and> length zs = length ys \<and> (\<forall>z \<in> set zs. wf_status z) \<and>
    (\<forall>j < n. status_shows (insts d ! j) (zs ! j)))"
proof -
  have "\<forall>x \<in> set (insts d). good x \<and> \<not> lock (fst x)"
    using assms(1) by (auto simp: daemon_inv_def all_good_def cfgs_def)
  then show ?thesis
    unfolding mrp_get_def
    by (rule ok_mono [OF get_loop_ok]) (use assms(2,3) in \<open>auto split: if_splits\<close>)
qed

lemma get_loop_overflow: "length ys < i + length xs \<Longrightarrow> i \<le> length ys \<Longrightarrow> get_loop xs i ys = None"
proof (induction xs arbitrary: i ys)
  case (Cons x xs)
  show ?case
  proof (cases "length ys \<le> i")
    case False
    then have "get_loop xs (Suc i) (ys[i := y]) = None" for y
      using Cons.prems by (intro Cons.IH) simp_all
    then show ?thesis by (simp split: Option.bind_split)
  qed (simp split: Option.bind_split)
qed simp

section \<open>The server\<close>

text \<open>A command keeps the invariant: the registry gains or loses one key, or stays as it is.\<close>

definition cmd_keys :: "(u32 \<times> u32) list \<Rightarrow> (u32 \<times> u32) list \<Rightarrow> bool" where
  "cmd_keys ks ks' \<longleftrightarrow> ks' = ks \<or> (\<exists>k. k \<notin> set ks \<and> ks' = ks @ [k]) \<or> (\<exists>k \<in> set ks. ks' = filter (\<lambda>x. x \<noteq> k) ks)"

definition rc_args :: "add_args \<Rightarrow> bool" where
  "rc_args a \<longleftrightarrow> in_mode_of (a_in_mode a) = MRP_IN_MODE_RC"

lemma handle_message_inv:
  assumes d: "daemon_inv d" and e: "libev_timers e" "hwaddr_ok e"
    and a: "cmd = CMD_CODE_addmrp \<Longrightarrow> args_ok e (addmrp_CALL inbuf)"
    and g: "cmd = CMD_CODE_getmrp \<Longrightarrow> length (insts d) \<le> 20"
  shows "ok (handle_message e cmd inbuf lin outbuf lout d) (\<lambda>(r, ob, d'). daemon_inv d' \<and> cmd_keys (keys d) (keys d') \<and>
    (rc_only d \<longrightarrow> (cmd = CMD_CODE_addmrp \<longrightarrow> rc_args (addmrp_CALL inbuf)) \<longrightarrow> rc_only d' \<and> stale d' = stale d))"
    (is "ok _ ?Q")
proof -
  have same: "?Q (r, ob, d)" for r ob using d by (simp add: cmd_keys_def)
  consider (add) "cmd = CMD_CODE_addmrp" | (del) "cmd = CMD_CODE_delmrp" | (get) "cmd = CMD_CODE_getmrp"
    | (other) "cmd \<noteq> CMD_CODE_addmrp" "cmd \<noteq> CMD_CODE_delmrp" "cmd \<noteq> CMD_CODE_getmrp" by blast
  then show ?thesis
  proof cases
    case add
    have "ok (CTL_addmrp e (addmrp_CALL inbuf) d) (\<lambda>(r, d'). ?Q (r, outbuf, d'))"
      unfolding CTL_addmrp_def
      by (rule ok_mono [OF mrp_add_inv [OF d e a [OF add]]]) (auto simp: cmd_keys_def rc_args_def add split: if_splits)
    then show ?thesis using same by (auto simp: handle_message_def add ok_def)
  next
    case del
    have "ok (CTL_delmrp e (delmrp_CALL inbuf) d) (\<lambda>(r, d'). ?Q (r, outbuf, d'))"
      unfolding CTL_delmrp_def
      by (rule ok_mono [OF mrp_del_inv [OF d]]) (auto simp: cmd_keys_def e split: if_splits)
    then show ?thesis
      using same by (auto simp: handle_message_def del ok_def CMD_CODE_addmrp_def CMD_CODE_delmrp_def)
  next
    case get
    have "ok (CTL_getmrp d (map (stack_status e) [0..<MAX_MRP_INSTANCES])) (\<lambda>_. True)"
      unfolding CTL_getmrp_def
      by (rule ok_mono [OF mrp_get_ok [OF d]])
        (use g [OF get] in \<open>auto simp: MAX_MRP_INSTANCES_def stack_status_def wf_dec_status\<close>)
    then show ?thesis
      using same by (auto simp: handle_message_def get ok_def CMD_CODE_addmrp_def CMD_CODE_delmrp_def CMD_CODE_getmrp_def Let_def)
  next
    case other
    then show ?thesis using same by (simp add: handle_message_def)
  qed
qed

lemma ctl_rcv_handler_post:
  assumes "ok (handle_message e (h_cmd (dec_hdr msg)) (drop 16 msg) (sint (h_lin (dec_hdr msg))) outbuf
      (sint (h_lout (dec_hdr msg))) d) (\<lambda>(r, ob, d'). Q d')"
    and "Q d" and "0 \<le> sint (h_lout (dec_hdr msg))"
  shows "ok (ctl_rcv_handler e msg flags outbuf d) (\<lambda>(r, ob, d'). Q d')"
  using assms by (auto simp: ctl_rcv_handler_def Let_def ok_def not_less)

lemma ctl_rcv_handler_inv:
  assumes d: "daemon_inv d" and e: "libev_timers e" "hwaddr_ok e"
    and a: "h_cmd (dec_hdr msg) = CMD_CODE_addmrp \<Longrightarrow> args_ok e (addmrp_CALL (drop 16 msg))"
    and g: "h_cmd (dec_hdr msg) = CMD_CODE_getmrp \<Longrightarrow> length (insts d) \<le> 20"
    and l: "0 \<le> sint (h_lout (dec_hdr msg))"
  shows "ok (ctl_rcv_handler e msg flags outbuf d) (\<lambda>(r, ob, d'). daemon_inv d' \<and> cmd_keys (keys d) (keys d') \<and>
    (rc_only d \<longrightarrow> (h_cmd (dec_hdr msg) = CMD_CODE_addmrp \<longrightarrow> rc_args (addmrp_CALL (drop 16 msg))) \<longrightarrow>
      rc_only d' \<and> stale d' = stale d))"
  by (rule ctl_rcv_handler_post [OF handle_message_inv [OF d e]])
    (use a g l d in \<open>simp_all add: cmd_keys_def\<close>)

text \<open>A negative length of the answer is not refused: no command has such an answer, and clearing it
  overruns the buffer.\<close>

lemma ctl_negative_lout:
  assumes "length msg = 16 + nat (sint (h_lin (dec_hdr msg)))" and "0 \<le> sint (h_lin (dec_hdr msg))"
    and "0 \<le> sint (h_cmd (dec_hdr msg))" and "sint (h_lout (dec_hdr msg)) < 0"
  shows "ctl_rcv_handler e msg 0 outbuf d = None"
  using assms by (auto simp: ctl_rcv_handler_def Let_def handle_message_def MSG_BUF_LEN_def split: if_splits)

text \<open>A message that fails a check of its sizes, or holds an unknown command, changes nothing.\<close>

lemma ctl_bad_message:
  assumes l: "0 \<le> sint (h_lout (dec_hdr msg))"
    and bad: "flags \<noteq> 0 \<or> length msg < 16 \<or> int (length msg) \<noteq> 16 + sint (h_lin (dec_hdr msg)) \<or> 10000 < sint (h_lout (dec_hdr msg)) \<or>
      (h_cmd (dec_hdr msg) = CMD_CODE_addmrp \<longrightarrow> length msg \<noteq> 140 \<or> h_lout (dec_hdr msg) \<noteq> 0) \<and>
      (h_cmd (dec_hdr msg) = CMD_CODE_delmrp \<longrightarrow> length msg \<noteq> 24 \<or> h_lout (dec_hdr msg) \<noteq> 0) \<and>
      (h_cmd (dec_hdr msg) = CMD_CODE_getmrp \<longrightarrow> length msg \<noteq> 16 \<or> sint (h_lout (dec_hdr msg)) \<noteq> 1284)"
  shows "\<exists>ob. ctl_rcv_handler e msg flags outbuf d = Some (None, ob, d) \<or>
    ctl_rcv_handler e msg flags outbuf d =
      Some (Some (enc_hdr ((dec_hdr msg)\<lparr>h_res := - 1\<rparr>) @ replicate (nat (sint (h_lout (dec_hdr msg)))) 0), ob, d)"
proof (cases "flags \<noteq> 0 \<or> length msg < 16 \<or> int (length msg) \<noteq> 16 + sint (h_lin (dec_hdr msg)) \<or>
    10000 < sint (h_lout (dec_hdr msg)) \<or> sint (h_cmd (dec_hdr msg)) < 0")
  case True
  then show ?thesis by (auto simp: ctl_rcv_handler_def Let_def MSG_BUF_LEN_def)
next
  case False
  then have n: "int (length msg) = 16 + sint (h_lin (dec_hdr msg))" by blast
  have z: "h_lout (dec_hdr msg) \<noteq> 0 \<Longrightarrow> sint (h_lout (dec_hdr msg)) \<noteq> 0" by (simp add: signed_eq_0_iff)
  have "handle_message e (h_cmd (dec_hdr msg)) (drop 16 msg) (sint (h_lin (dec_hdr msg))) outbuf (sint (h_lout (dec_hdr msg))) d =
      Some (- 1, outbuf, d)"
    using bad False n z
    by (auto simp: handle_message_def sizeof_addmrp_IN_def sizeof_delmrp_IN_def sizeof_getmrp_OUT_def)
  then show ?thesis
    using False l by (auto simp: ctl_rcv_handler_def Let_def MSG_BUF_LEN_def not_less)
qed

text \<open>The answers to the three commands that a client sends.\<close>

definition request_hdr :: "u32 \<Rightarrow> nat \<Rightarrow> nat \<Rightarrow> u32 \<Rightarrow> ctl_msg_hdr" where
  "request_hdr cmd lin lout junk = \<lparr>h_cmd = cmd, h_lin = of_nat lin, h_lout = of_nat lout, h_res = junk\<rparr>"

lemma sint_of_nat: "n < 2 ^ 31 \<Longrightarrow> sint (of_nat n :: u32) = int n"
  using sint_word_of_int [of "int n"] by (simp add: order_trans [of _ 0])

lemma ctl_request:
  assumes "length inp < 2 ^ 31" and "n \<le> 10000" and "0 \<le> sint cmd"
  shows "ctl_rcv_handler e (enc_hdr (request_hdr cmd (length inp) n j) @ inp) 0 outbuf d =
    (case handle_message e cmd inp (int (length inp)) outbuf (int n) d of None \<Rightarrow> None
     | Some (res, ob, d) \<Rightarrow> let ob = (if res < 0 then replicate n 0 @ drop n ob else ob) in
         Some (Some (enc_hdr (request_hdr cmd (length inp) n (word_of_int res)) @ take n ob), ob, d))"
proof -
  let ?h = "request_hdr cmd (length inp) n j"
  have h: "dec_hdr (enc_hdr ?h @ inp) = ?h" by (rule hdr.dec_enc_append) simp
  have l: "length (enc_hdr ?h) = 16" by (rule hdr.enc_length) simp
  have c: "sint (h_lin ?h) = int (length inp)" "sint (h_lout ?h) = int n" "h_cmd ?h = cmd"
    "?h\<lparr>h_res := r\<rparr> = request_hdr cmd (length inp) n r" for r
    using assms by (simp_all add: request_hdr_def sint_of_nat)
  show ?thesis
    unfolding ctl_rcv_handler_def h c Let_def using assms(2,3) l
    by (simp add: MSG_BUF_LEN_def split: option.splits)
qed

end
