(* ===== verification/Mrp_Client.thy ===== *)
theory Mrp_Client
  imports Mrp_Ctl
begin

text \<open>
  The command line client, \<^verbatim>\<open>mrp.c\<close>: the words and numbers of a command line, the parsing of the
  commands, the exchange of a request and its answer with the daemon, and the report that
  \<open>getmrp\<close> prints.  The names of interfaces are those of the host (\<open>c_nametoindex\<close>,
  \<open>c_indextoname\<close>), and \<open>c_junk\<close> are the bytes of variables that are not initialised.
\<close>

section \<open>Words\<close>

definition valid_ring_role :: "string \<Rightarrow> bool" where
  "valid_ring_role arg \<longleftrightarrow> arg = ''disabled'' \<or> arg = ''mrc'' \<or> arg = ''mrm'' \<or> arg = ''mra''"

definition ring_role_int :: "string \<Rightarrow> br_mrp_ring_role_type" where
  "ring_role_int arg =
    (if arg = ''disabled'' then BR_MRP_RING_ROLE_DISABLED
     else if arg = ''mrc'' then BR_MRP_RING_ROLE_MRC
     else if arg = ''mrm'' then BR_MRP_RING_ROLE_MRM
     else if arg = ''mra'' then BR_MRP_RING_ROLE_MRA
     else BR_MRP_RING_ROLE_DISABLED)"

definition valid_in_role :: "string \<Rightarrow> bool" where
  "valid_in_role arg \<longleftrightarrow> arg = ''disabled'' \<or> arg = ''mic'' \<or> arg = ''mim''"

definition in_role_int :: "string \<Rightarrow> br_mrp_in_role_type" where
  "in_role_int arg =
    (if arg = ''disabled'' then BR_MRP_IN_ROLE_DISABLED
     else if arg = ''mic'' then BR_MRP_IN_ROLE_MIC
     else if arg = ''mim'' then BR_MRP_IN_ROLE_MIM
     else BR_MRP_IN_ROLE_DISABLED)"

definition valid_in_mode :: "string \<Rightarrow> bool" where
  "valid_in_mode arg \<longleftrightarrow> arg = ''rc'' \<or> arg = ''lc''"

definition in_mode_int :: "string \<Rightarrow> mrp_in_mode_type" where
  "in_mode_int arg =
    (if arg = ''rc'' then MRP_IN_MODE_RC else if arg = ''lc'' then MRP_IN_MODE_LC else MRP_IN_MODE_RC)"

definition valid_ring_recv :: "string \<Rightarrow> bool" where
  "valid_ring_recv arg \<longleftrightarrow> arg = ''500'' \<or> arg = ''200'' \<or> arg = ''30'' \<or> arg = ''10''"

definition ring_recv_int :: "string \<Rightarrow> mrp_ring_recovery_type" where
  "ring_recv_int arg =
    (if arg = ''500'' then MRP_RING_RECOVERY_500
     else if arg = ''200'' then MRP_RING_RECOVERY_200
     else if arg = ''30'' then MRP_RING_RECOVERY_30
     else if arg = ''10'' then MRP_RING_RECOVERY_10
     else MRP_RING_RECOVERY_500)"

definition valid_in_recv :: "string \<Rightarrow> bool" where
  "valid_in_recv arg \<longleftrightarrow> arg = ''500'' \<or> arg = ''200''"

definition in_recv_int :: "string \<Rightarrow> mrp_in_recovery_type" where
  "in_recv_int arg =
    (if arg = ''500'' then MRP_IN_RECOVERY_500 else if arg = ''200'' then MRP_IN_RECOVERY_200 else MRP_IN_RECOVERY_500)"

text \<open>The functions that print take the integer of the status.\<close>

definition in_mode_str :: "u32 \<Rightarrow> string" where
  "in_mode_str i = (if i = 0 then ''RC'' else if i = 1 then ''LC'' else ''Unknown in mode'')"

definition ring_recv_str :: "u32 \<Rightarrow> string" where
  "ring_recv_str i = (if i = 0 then ''500'' else if i = 1 then ''200'' else if i = 2 then ''30''
     else if i = 3 then ''10'' else ''Unknown ring recovery'')"

definition in_recv_str :: "u32 \<Rightarrow> string" where
  "in_recv_str i = (if i = 0 then ''500'' else if i = 1 then ''200'' else ''Unknown interconnect recovery'')"

definition mrm_state_str :: "int \<Rightarrow> string" where
  "mrm_state_str i = (if i = 0 then ''AC_STAT1'' else if i = 1 then ''PRM_UP'' else if i = 2 then ''CHK_RO''
     else if i = 3 then ''CHK_RC'' else ''Unknown mrm_state'')"

definition mrc_state_str :: "int \<Rightarrow> string" where
  "mrc_state_str i = (if i = 0 then ''AC_STAT1'' else if i = 1 then ''DE_IDLE'' else if i = 2 then ''PT''
     else if i = 3 then ''DE'' else if i = 4 then ''PT_IDLE'' else ''Unknwon mrc_state'')"

definition mim_state_str :: "int \<Rightarrow> string" where
  "mim_state_str i = (if i = 0 then ''AC_STAT1'' else if i = 1 then ''CHK_IO'' else if i = 2 then ''CHK_IC''
     else ''Unknown mim_state'')"

definition mic_state_str :: "int \<Rightarrow> string" where
  "mic_state_str i = (if i = 0 then ''AC_STAT1'' else if i = 1 then ''PT'' else if i = 2 then ''IP_IDLE''
     else ''Unknwon mic_state'')"

section \<open>Numbers\<close>

text \<open>\<open>atoi\<close> of the C library: white space, a sign, digits; the value saturates at the width of a
  \<open>long\<close> and is cut to an \<open>int\<close>.\<close>

definition isspace :: "char \<Rightarrow> bool" where
  "isspace c \<longleftrightarrow> c = CHR '' '' \<or> (9 \<le> (of_char c :: nat) \<and> (of_char c :: nat) \<le> 13)"

definition isdigit :: "char \<Rightarrow> bool" where
  "isdigit c \<longleftrightarrow> 48 \<le> (of_char c :: nat) \<and> (of_char c :: nat) \<le> 57"

definition digits :: "string \<Rightarrow> int" where
  "digits s = foldl (\<lambda>n c. 10 * n + (of_char c - 48)) 0 (takeWhile isdigit s)"

definition strtol10 :: "string \<Rightarrow> int" where
  "strtol10 s = (case dropWhile isspace s of
     [] \<Rightarrow> 0
   | c # cs \<Rightarrow> if c = CHR ''-'' then max (- (2 ^ 63)) (- digits cs)
               else if c = CHR ''+'' then min (2 ^ 63 - 1) (digits cs)
               else min (2 ^ 63 - 1) (digits (c # cs)))"

definition atoi :: "string \<Rightarrow> u32" where
  "atoi s = word_of_int (strtol10 s)"

text \<open>\<open>sscanf\<close> with \<open>%x\<close>: white space, a sign, an optional \<open>0x\<close>, and hexadecimal digits.\<close>

definition hexval :: "char \<Rightarrow> nat option" where
  "hexval c = (let n = of_char c :: nat in
     if isdigit c then Some (n - 48) else if 97 \<le> n \<and> n \<le> 102 then Some (n - 87)
     else if 65 \<le> n \<and> n \<le> 70 then Some (n - 55) else None)"

fun hexdigits :: "string \<Rightarrow> nat \<Rightarrow> nat \<times> string" where
  "hexdigits [] n = (n, [])"
| "hexdigits (c # cs) n = (case hexval c of None \<Rightarrow> (n, c # cs) | Some v \<Rightarrow> hexdigits cs (16 * n + v))"

definition scan_x :: "string \<Rightarrow> (u32 \<times> string) option" where
  "scan_x s = (
     let s = dropWhile isspace s;
         neg = (s \<noteq> [] \<and> hd s = CHR ''-'');
         s = (if s \<noteq> [] \<and> (hd s = CHR ''-'' \<or> hd s = CHR ''+'') then tl s else s);
         s = (case s of z # x # c # cs \<Rightarrow>
                if z = CHR ''0'' \<and> (x = CHR ''x'' \<or> x = CHR ''X'') \<and> hexval c \<noteq> None then c # cs else s
              | _ \<Rightarrow> s)
     in case s of [] \<Rightarrow> None
        | c # cs \<Rightarrow> if hexval c = None then None
            else let (n, rest) = hexdigits s 0; v = of_nat (min n (2 ^ 64 - 1))
                 in Some (if neg then - v else v, rest))"

text \<open>The values that \<open>%x:%x:...\<close> with \<open>n\<close> conversions assigns.\<close>

fun scan_macs :: "nat \<Rightarrow> string \<Rightarrow> u32 list" where
  "scan_macs 0 s = []"
| "scan_macs (Suc n) s = (case scan_x s of None \<Rightarrow> []
     | Some (v, rest) \<Rightarrow> v # (case rest of [] \<Rightarrow> [] | c # cs \<Rightarrow> if c = CHR '':'' then scan_macs n cs else []))"

section \<open>Environment and errors\<close>

record cenv =
  c_nametoindex :: "string \<Rightarrow> u32"
  c_indextoname :: "u32 \<Rightarrow> string option"
  c_junk :: "nat \<Rightarrow> u8"

datatype cl_error = Incomplete | Failed | Overflow

definition cfm_dmac_get :: "cenv \<Rightarrow> string \<Rightarrow> u8 list" where
  "cfm_dmac_get ce arg = (let vs = scan_macs ETH_ALEN arg in
     map (\<lambda>i. if i < length vs then ucast (vs ! i) else c_junk ce i) [0..<ETH_ALEN])"

text \<open>The length byte is written at index 3 and then overwritten by the text.\<close>

definition cfm_maid_get :: "string \<Rightarrow> u8 list option" where
  "cfm_maid_get arg = (
     let maid = (replicate CFM_MAID_LENGTH 0)[0 := 1, 1 := 2, 3 := of_nat (length arg)] in
     if 3 + length arg \<le> CFM_MAID_LENGTH
     then Some (take 3 maid @ map of_char arg @ drop (3 + length arg) maid)
     else None)"

section \<open>addmrp\<close>

record addmrp_opts = add_args +
  o_prio_set :: bool

definition addmrp_defaults :: "cenv \<Rightarrow> addmrp_opts" where
  "addmrp_defaults ce = \<lparr>a_br = 0, a_ring_nr = 0, a_pport = 0, a_sport = 0, a_ring_role = 0,
     a_prio = MRP_DEFAULT_PRIO, a_ring_recv = 0, a_react_on_link_change = 1,
     a_in_role = in_role_code BR_MRP_IN_ROLE_DISABLED, a_in_id = 0, a_iport = 0,
     a_in_mode = in_mode_code MRP_IN_MODE_RC, a_in_recv = 0, a_cfm_instance = 0, a_cfm_level = 0,
     a_cfm_mepid = 0, a_cfm_peer_mepid = 0, a_cfm_maid = map (c_junk ce) [8..<8 + CFM_MAID_LENGTH],
     a_cfm_dmac = map (c_junk ce) [0..<ETH_ALEN], o_prio_set = False\<rparr>"

text \<open>One branch of the chain of \<open>strcmp\<close>: \<open>None\<close> when the word is no keyword.\<close>

definition addmrp_arg :: "cenv \<Rightarrow> string \<Rightarrow> (string \<Rightarrow> addmrp_opts \<Rightarrow> cl_error + addmrp_opts) option" where
  "addmrp_arg ce k =
    (if k = ''bridge'' then Some (\<lambda>v x. Inr (x\<lparr>a_br := c_nametoindex ce v\<rparr>))
     else if k = ''ring_nr'' then Some (\<lambda>v x. Inr (x\<lparr>a_ring_nr := atoi v\<rparr>))
     else if k = ''pport'' then Some (\<lambda>v x. Inr (x\<lparr>a_pport := c_nametoindex ce v\<rparr>))
     else if k = ''sport'' then Some (\<lambda>v x. Inr (x\<lparr>a_sport := c_nametoindex ce v\<rparr>))
     else if k = ''ring_role'' then Some (\<lambda>v x. if valid_ring_role v
       then Inr (x\<lparr>a_ring_role := ring_role_code (ring_role_int v)\<rparr>) else Inl Failed)
     else if k = ''prio'' then Some (\<lambda>v x. Inr (x\<lparr>a_prio := ucast (atoi v), o_prio_set := True\<rparr>))
     else if k = ''ring_recv'' then Some (\<lambda>v x. if valid_ring_recv v
       then Inr (x\<lparr>a_ring_recv := ring_recv_code (ring_recv_int v)\<rparr>) else Inl Failed)
     else if k = ''react_on_link_change'' then Some (\<lambda>v x. Inr (x\<lparr>a_react_on_link_change := (if atoi v \<noteq> 0 then 1 else 0)\<rparr>))
     else if k = ''in_role'' then Some (\<lambda>v x. if valid_in_role v
       then Inr (x\<lparr>a_in_role := in_role_code (in_role_int v)\<rparr>) else Inl Failed)
     else if k = ''in_recv'' then Some (\<lambda>v x. if valid_in_recv v
       then Inr (x\<lparr>a_in_recv := in_recv_code (in_recv_int v)\<rparr>) else Inl Failed)
     else if k = ''in_id'' then Some (\<lambda>v x. Inr (x\<lparr>a_in_id := ucast (atoi v)\<rparr>))
     else if k = ''iport'' then Some (\<lambda>v x. Inr (x\<lparr>a_iport := c_nametoindex ce v\<rparr>))
     else if k = ''in_mode'' then Some (\<lambda>v x. if valid_in_mode v
       then Inr (x\<lparr>a_in_mode := in_mode_code (in_mode_int v)\<rparr>) else Inl Failed)
     else if k = ''cfm_instance'' then Some (\<lambda>v x. Inr (x\<lparr>a_cfm_instance := atoi v\<rparr>))
     else if k = ''cfm_level'' then Some (\<lambda>v x. Inr (x\<lparr>a_cfm_level := atoi v\<rparr>))
     else if k = ''cfm_mepid'' then Some (\<lambda>v x. Inr (x\<lparr>a_cfm_mepid := atoi v\<rparr>))
     else if k = ''cfm_maid'' then Some (\<lambda>v x. case cfm_maid_get v of None \<Rightarrow> Inl Overflow
       | Some m \<Rightarrow> Inr (x\<lparr>a_cfm_maid := m\<rparr>))
     else if k = ''cfm_peer_mepid'' then Some (\<lambda>v x. Inr (x\<lparr>a_cfm_peer_mepid := atoi v\<rparr>))
     else if k = ''cfm_dmac'' then Some (\<lambda>v x. Inr (x\<lparr>a_cfm_dmac := cfm_dmac_get ce v\<rparr>))
     else None)"

text \<open>The loop over the words; a word that is no keyword is passed over, and a keyword at the end ends
  the process.\<close>

fun arg_loop :: "(string \<Rightarrow> (string \<Rightarrow> 'o \<Rightarrow> cl_error + 'o) option) \<Rightarrow> string list \<Rightarrow> 'o \<Rightarrow> cl_error + 'o" where
  "arg_loop f [] x = Inr x"
| "arg_loop f [k] x = (case f k of None \<Rightarrow> Inr x | Some g \<Rightarrow> Inl Incomplete)"
| "arg_loop f (k # v # ws) x = (case f k of None \<Rightarrow> arg_loop f (v # ws) x
     | Some g \<Rightarrow> (case g v x of Inl err \<Rightarrow> Inl err | Inr y \<Rightarrow> arg_loop f ws y))"

definition MRP_MRA_PRIO :: u16 where "MRP_MRA_PRIO = 0xa000"

text \<open>The arguments with which \<open>cmd_addmrp\<close> calls \<open>CTL_addmrp\<close>.\<close>

definition cmd_addmrp :: "cenv \<Rightarrow> string list \<Rightarrow> cl_error + add_args" where
  "cmd_addmrp ce argv =
    (case arg_loop (addmrp_arg ce) (tl argv) (addmrp_defaults ce) of
       Inl err \<Rightarrow> Inl err
     | Inr x \<Rightarrow>
         if a_br x = 0 \<or> a_pport x = 0 \<or> a_sport x = 0 \<or> a_ring_nr x = 0 \<or> a_ring_role x = 0 then Inl Failed
         else if a_ring_role x = ring_role_code BR_MRP_RING_ROLE_MRA \<and> \<not> o_prio_set x
         then Inr (add_args.truncate (x\<lparr>a_prio := MRP_MRA_PRIO\<rparr>))
         else Inr (add_args.truncate x))"

definition delmrp_arg :: "cenv \<Rightarrow> string \<Rightarrow> (string \<Rightarrow> u32 \<times> u32 \<Rightarrow> cl_error + u32 \<times> u32) option" where
  "delmrp_arg ce k =
    (if k = ''bridge'' then Some (\<lambda>v x. Inr (c_nametoindex ce v, snd x))
     else if k = ''ring_nr'' then Some (\<lambda>v x. Inr (fst x, atoi v))
     else None)"

definition cmd_delmrp :: "cenv \<Rightarrow> string list \<Rightarrow> cl_error + u32 \<times> u32" where
  "cmd_delmrp ce argv =
    (case arg_loop (delmrp_arg ce) (tl argv) (0, 0) of
       Inl err \<Rightarrow> Inl err
     | Inr k \<Rightarrow> if fst k = 0 \<or> snd k = 0 then Inl Failed else Inr k)"

section \<open>The exchange with the daemon\<close>

text \<open>\<open>client_send_message\<close> gets an answer (or none: a send error, a timeout, a receive error): the
  result of the call is \<open>Inl\<close> of the return value on failure, or the server's result and output.  The
  receive buffers hold the header and \<open>lout\<close> bytes, the rest of a longer answer is cut off.\<close>

definition client_request :: "u32 \<Rightarrow> u8 list \<Rightarrow> nat \<Rightarrow> u32 \<Rightarrow> u8 list" where
  "client_request cmd inbuf lout junk = enc_hdr (request_hdr cmd (length inbuf) lout junk) @ inbuf"

definition client_receive :: "u32 \<Rightarrow> nat \<Rightarrow> u8 list option \<Rightarrow> int + u32 \<times> u8 list" where
  "client_receive cmd lout answer =
    (case answer of None \<Rightarrow> Inl (- 1)
     | Some bs \<Rightarrow>
         let bs = take (16 + lout) bs; mhdr = dec_hdr bs in
         if 16 > length bs \<or> int (length bs) \<noteq> 16 + sint (h_lout mhdr) \<or> h_cmd mhdr \<noteq> cmd then Inl (- 1)
         else if sint (h_lout mhdr) \<noteq> int lout then Inl (- 1)
         else Inr (h_res mhdr, drop 16 bs))"

text \<open>A call of the client while the daemon is in state \<open>d\<close>.  The answer is lost when the daemon sends
  none.\<close>

definition client_send_message ::
  "env \<Rightarrow> u32 \<Rightarrow> u32 \<Rightarrow> u8 list \<Rightarrow> nat \<Rightarrow> u8 list \<Rightarrow> daemon \<Rightarrow> ((int + u32 \<times> u8 list) \<times> u8 list \<times> daemon) option" where
  "client_send_message e junk cmd inbuf lout outbuf d = do {
     (answer, outbuf, d) \<leftarrow> ctl_rcv_handler e (client_request cmd inbuf lout junk) 0 outbuf d;
     Some (client_receive cmd lout answer, outbuf, d)
   }"

text \<open>\<open>CLIENT_SIDE_FUNCTION\<close>: the result is \<open>r\<close>, else \<open>res\<close>, else the copied output.\<close>

definition client_result :: "int + u32 \<times> u8 list \<Rightarrow> int + u8 list" where
  "client_result r = (case r of Inl r \<Rightarrow> Inl r
     | Inr (res, out) \<Rightarrow> if res \<noteq> 0 then Inl (sint res) else Inr out)"

definition client_addmrp :: "env \<Rightarrow> u32 \<Rightarrow> u8 list \<Rightarrow> add_args \<Rightarrow> u8 list \<Rightarrow> daemon \<Rightarrow> ((int + u8 list) \<times> daemon) option" where
  "client_addmrp e junk pad a outbuf d = do {
     (r, _, d) \<leftarrow> client_send_message e junk CMD_CODE_addmrp (addmrp_COPY_IN pad a) 0 outbuf d;
     Some (client_result r, d)
   }"

definition client_delmrp :: "env \<Rightarrow> u32 \<Rightarrow> u32 \<times> u32 \<Rightarrow> u8 list \<Rightarrow> daemon \<Rightarrow> ((int + u8 list) \<times> daemon) option" where
  "client_delmrp e junk k outbuf d = do {
     (r, _, d) \<leftarrow> client_send_message e junk CMD_CODE_delmrp (delmrp_COPY_IN k) 0 outbuf d;
     Some (client_result r, d)
   }"

definition client_getmrp :: "env \<Rightarrow> u32 \<Rightarrow> u8 list \<Rightarrow> daemon \<Rightarrow> ((int + nat \<times> mrp_status list) \<times> daemon) option" where
  "client_getmrp e junk outbuf d = do {
     (r, _, d) \<leftarrow> client_send_message e junk CMD_CODE_getmrp [] sizeof_getmrp_OUT outbuf d;
     Some (map_sum id getmrp_COPY_OUT (client_result r), d)
   }"

section \<open>getmrp\<close>

text \<open>\<open>%d\<close> of an \<open>int\<close>.\<close>

fun dec_of_nat :: "nat \<Rightarrow> string" where
  "dec_of_nat n = (if n < 10 then [char_of (48 + n)] else dec_of_nat (n div 10) @ [char_of (48 + n mod 10)])"

definition dec_of_int :: "int \<Rightarrow> string" where
  "dec_of_int i = (if i < 0 then CHR ''-'' # dec_of_nat (nat (- i)) else dec_of_nat (nat i))"

definition d_u32 :: "u32 \<Rightarrow> string" where
  "d_u32 w = dec_of_int (sint w)"

text \<open>\<open>%s\<close> of a NULL pointer prints \<open>(null)\<close> in the C library that is used.\<close>

definition name_of :: "cenv \<Rightarrow> u32 \<Rightarrow> string" where
  "name_of ce i = (case c_indextoname ce i of None \<Rightarrow> ''(null)'' | Some n \<Rightarrow> n)"

text \<open>The functions of \<^verbatim>\<open>utils.h\<close> on the integers of the status.\<close>

definition ring_role_str_of :: "u32 \<Rightarrow> string" where
  "ring_role_str_of i = (if i = 0 then ''Disabled'' else if i = 1 then ''MRC'' else if i = 2 then ''MRM''
     else if i = 3 then ''MRA'' else ''Unknown ring role'')"

definition in_role_str_of :: "u32 \<Rightarrow> string" where
  "in_role_str_of i = (if i = 0 then ''Disabled'' else if i = 1 then ''MIC'' else if i = 2 then ''MIM''
     else ''Unknown int role'')"

definition nl :: string where "nl = [char_of (10 :: nat)]"

definition status_text :: "cenv \<Rightarrow> mrp_status \<Rightarrow> string" where
  "status_text ce x =
     ''bridge: '' @ name_of ce (st_br x) @ '' '' @
     ''ring_nr: '' @ d_u32 (st_ring_nr x) @ '' '' @
     ''pport: '' @ name_of ce (st_pport x) @ '' '' @
     ''sport: '' @ name_of ce (st_sport x) @ '' '' @
     ''mra_support: '' @ d_u32 (st_mra_support x) @ '' '' @
     ''ring_role: '' @ ring_role_str_of (st_ring_role x) @ '' '' @
     ''prio: '' @ d_u32 (st_prio x) @ '' '' @
     ''ring_recv: '' @ ring_recv_str (st_ring_recv x) @ '' '' @ nl @
     ''react_on_link_change: '' @ d_u32 (st_react_on_link_change x) @ '' '' @
     (if st_ring_role x = ring_role_code BR_MRP_RING_ROLE_MRM
      then ''ring_state: '' @ mrm_state_str (st_ring_state x) @ '' '' @ nl else []) @
     (if st_ring_role x = ring_role_code BR_MRP_RING_ROLE_MRC
      then ''ring_state: '' @ mrc_state_str (st_ring_state x) @ '' '' @ nl else []) @
     (if st_in_role x = in_role_code BR_MRP_IN_ROLE_DISABLED then []
      else ''iport: '' @ name_of ce (st_iport x) @ '' '' @
        ''in_id: '' @ d_u32 (st_in_id x) @ '' '' @
        ''in_role: '' @ in_role_str_of (st_in_role x) @ '' '' @
        ''in_recv: '' @ in_recv_str (st_in_recv x) @ '' '' @ nl @
        ''in_mode: '' @ in_mode_str (st_in_mode x) @ '' '' @
        (if st_in_role x = in_role_code BR_MRP_IN_ROLE_MIM
         then ''in_state: '' @ mim_state_str (st_in_state x) @ '' '' @ nl else []) @
        (if st_in_role x = in_role_code BR_MRP_IN_ROLE_MIC
         then ''in_state: '' @ mic_state_str (st_in_state x) @ '' '' @ nl else []))"

text \<open>The text that \<open>cmd_getmrp\<close> prints from the answer.\<close>

definition cmd_getmrp :: "cenv \<Rightarrow> int + nat \<times> mrp_status list \<Rightarrow> int \<times> string" where
  "cmd_getmrp ce r = (case r of Inl _ \<Rightarrow> (- 1, [])
     | Inr (count, status) \<Rightarrow> (0, concat (map (\<lambda>i. status_text ce (status ! i)) [0..<count])))"

section \<open>Command table\<close>

datatype command = Cmd_addmrp | Cmd_delmrp | Cmd_getmrp

definition commands :: "(string \<times> command) list" where
  "commands = [(''addmrp'', Cmd_addmrp), (''delmrp'', Cmd_delmrp), (''getmrp'', Cmd_getmrp)]"

definition command_lookup :: "string \<Rightarrow> command option" where
  "command_lookup cmd = map_of commands cmd"

section \<open>Words and numbers\<close>

lemma ring_role_int_inj: "valid_ring_role v \<Longrightarrow> valid_ring_role w \<Longrightarrow> ring_role_int v = ring_role_int w \<Longrightarrow> v = w"
  by (auto simp: valid_ring_role_def ring_role_int_def)

text \<open>A recovery time is printed as it was entered.\<close>

lemma recv_round_trip:
  "valid_ring_recv v \<Longrightarrow> ring_recv_str (ucast (ring_recv_code (ring_recv_int v))) = v"
  "valid_in_recv w \<Longrightarrow> in_recv_str (ucast (in_recv_code (in_recv_int w))) = w"
  by (auto simp: valid_ring_recv_def valid_in_recv_def ring_recv_int_def in_recv_int_def ring_recv_str_def in_recv_str_def)

lemma of_char_digit: "(n :: nat) < 10 \<Longrightarrow> (of_char (char_of (48 + n) :: char) :: int) = 48 + int n"
  unfolding of_nat_of_char [symmetric, where 'a = int] by simp

lemma isdigit_char_of: "(n :: nat) < 10 \<Longrightarrow> isdigit (char_of (48 + n))"
  by (simp add: isdigit_def)

declare dec_of_nat.simps [simp del]

lemma dec_of_nat_digits: "\<forall>c \<in> set (dec_of_nat n). isdigit c"
proof (induction n rule: dec_of_nat.induct)
  case (1 n)
  then show ?case
    by (subst dec_of_nat.simps) (auto intro: isdigit_char_of)
qed

lemma digits_snoc: "\<forall>c \<in> set s. isdigit c \<Longrightarrow> isdigit c \<Longrightarrow> digits (s @ [c]) = 10 * digits s + (of_char c - 48)"
  by (simp add: digits_def takeWhile_eq_all_conv [THEN iffD2])

lemma digits_dec_of_nat: "digits (dec_of_nat n) = int n"
proof (induction n rule: dec_of_nat.induct)
  case (1 n)
  show ?case
  proof (cases "n < 10")
    case True
    then show ?thesis
      using digits_snoc [of "[]" "char_of (48 + n)"] isdigit_char_of [OF True]
      by (subst dec_of_nat.simps) (simp add: digits_def of_char_digit)
  next
    case False
    have "n mod 10 < 10" by simp
    from isdigit_char_of [OF this]
    have "digits (dec_of_nat n) = 10 * int (n div 10) + (of_char (char_of (48 + n mod 10) :: char) - 48)"
      using False 1 digits_snoc [OF dec_of_nat_digits] by (subst dec_of_nat.simps) simp
    also have "\<dots> = int n"
      by (simp add: of_char_digit) presburger
    finally show ?thesis .
  qed
qed

lemma atoi_dec_of_nat:
  assumes "n < 2 ^ 31"
  shows "atoi (dec_of_nat n) = of_nat n"
proof -
  obtain c cs where c: "dec_of_nat n = c # cs" by (cases "dec_of_nat n") (simp_all add: dec_of_nat.simps [of n] split: if_splits)
  then have "isdigit c" using dec_of_nat_digits [of n] by simp
  then have "\<not> isspace c" "c \<noteq> CHR ''-''" "c \<noteq> CHR ''+''" by (auto simp: isdigit_def isspace_def)
  then have "strtol10 (dec_of_nat n) = min (2 ^ 63 - 1) (int n)"
    using digits_dec_of_nat [of n] by (simp add: strtol10_def c)
  then show ?thesis using assms by (simp add: atoi_def)
qed

text \<open>A command line of keywords, each with its value: the settings are made from left to right.\<close>

lemma arg_loop_pairs:
  assumes "\<forall>kv \<in> set kvs. f (fst kv) = Some (\<lambda>w x. Inr (upd (fst kv) w x))"
  shows "arg_loop f (concat (map (\<lambda>kv. [fst kv, snd kv]) kvs)) x = Inr (foldl (\<lambda>x kv. upd (fst kv) (snd kv) x) x kvs)"
  using assms by (induction kvs arbitrary: x) auto

section \<open>The client against the daemon\<close>

lemma client_receive_answer:
  assumes "length out = n" and "n < 2 ^ 31"
  shows "client_receive cmd n (Some (enc_hdr (request_hdr cmd lin n res) @ out)) = Inr (res, out)"
proof -
  let ?h = "request_hdr cmd lin n res"
  have h: "dec_hdr (enc_hdr ?h @ out) = ?h" by (rule hdr.dec_enc_append) simp
  have l: "length (enc_hdr ?h) = 16" by (rule hdr.enc_length) simp
  have s: "sint (h_lout ?h) = int n" "h_cmd ?h = cmd" "h_res ?h = res"
    using assms by (simp_all add: request_hdr_def sint_of_nat)
  have t: "take (16 + n) (enc_hdr ?h @ out) = enc_hdr ?h @ out" using l assms(1) by simp
  show ?thesis
    unfolding client_receive_def option.case t Let_def h s using l assms(1) by simp
qed

lemma client_call:
  assumes h: "handle_message e cmd inp (int (length inp)) outbuf (int n) d = Some (res, ob, d')"
    and l: "length inp < 2 ^ 31" "n \<le> 10000" "0 \<le> sint cmd" and ob: "n \<le> length ob"
  shows "\<exists>ob'. client_send_message e j cmd inp n outbuf d = Some (Inr (word_of_int res, take n ob'), ob', d') \<and>
    (0 \<le> res \<longrightarrow> ob' = ob)"
proof -
  let ?ob = "if res < 0 then replicate n 0 @ drop n ob else ob"
  have "ctl_rcv_handler e (client_request cmd inp n j) 0 outbuf d =
      Some (Some (enc_hdr (request_hdr cmd (length inp) n (word_of_int res)) @ take n ?ob), ?ob, d')"
    unfolding client_request_def ctl_request [OF l] h by (simp add: Let_def)
  moreover have "client_receive cmd n (Some (enc_hdr (request_hdr cmd (length inp) n (word_of_int res)) @ take n ?ob)) =
      Inr (word_of_int res, take n ?ob)"
    by (rule client_receive_answer) (use l(2) ob in simp_all)
  ultimately show ?thesis
    by (auto simp: client_send_message_def)
qed

definition ctl_result :: "int \<Rightarrow> int + u8 list" where
  "ctl_result r = (if (word_of_int r :: u32) = 0 then Inr [] else Inl (sint (word_of_int r :: u32)))"

lemma client_addmrp_eq:
  assumes "wf_args a" and "mrp_add e a d = Some (r, d')"
  shows "client_addmrp e j [p, q] a outbuf d = Some (ctl_result r, d')"
proof -
  have l: "length (addmrp_COPY_IN [p, q] a) = 124" by (rule addmrp_IN.enc_length [OF assms(1)])
  have "addmrp_CALL (addmrp_COPY_IN [p, q] a) = a" by (rule addmrp_IN.dec_enc [OF assms(1)])
  then have "handle_message e CMD_CODE_addmrp (addmrp_COPY_IN [p, q] a) (int (length (addmrp_COPY_IN [p, q] a))) outbuf (int 0) d =
      Some (r, outbuf, d')"
    using l by (simp add: handle_message_def sizeof_addmrp_IN_def CTL_addmrp_def assms(2))
  from client_call [OF this, of j] show ?thesis
    using l by (auto simp: client_addmrp_def client_result_def ctl_result_def CMD_CODE_addmrp_def)
qed

lemma client_delmrp_eq:
  assumes "mrp_del e br nr d = Some (r, d')"
  shows "client_delmrp e j (br, nr) outbuf d = Some (ctl_result r, d')"
proof -
  have l: "length (delmrp_COPY_IN (br, nr)) = 8" by (rule delmrp_IN.enc_length) simp
  have "delmrp_CALL (delmrp_COPY_IN (br, nr)) = (br, nr)" by (rule delmrp_IN.dec_enc) simp
  then have "handle_message e CMD_CODE_delmrp (delmrp_COPY_IN (br, nr)) (int (length (delmrp_COPY_IN (br, nr)))) outbuf (int 0) d =
      Some (r, outbuf, d')"
    using l by (simp add: handle_message_def sizeof_delmrp_IN_def CTL_delmrp_def assms CMD_CODE_delmrp_def CMD_CODE_addmrp_def)
  from client_call [OF this, of j] show ?thesis
    using l by (auto simp: client_delmrp_def client_result_def ctl_result_def CMD_CODE_delmrp_def)
qed

lemma length_enc_getmrp: "\<forall>x \<in> set xs. wf_status x \<Longrightarrow> length (enc_getmrp_OUT n xs) = 4 + 64 * length xs"
proof -
  assume "\<forall>x \<in> set xs. wf_status x"
  then have "length (concat (map enc_status xs)) = 64 * length xs"
    by (induction xs) (simp_all add: status.enc_length)
  then show ?thesis by (simp add: enc_getmrp_OUT_def)
qed

text \<open>The client sees one entry for each instance.\<close>

lemma client_getmrp_eq:
  assumes d: "daemon_inv d" "length (insts d) \<le> 20"
  shows "\<exists>zs. client_getmrp e j outbuf d = Some (Inr (length (insts d), zs), d) \<and> length zs = length (insts d) \<and>
    (\<forall>i < length (insts d). status_shows (insts d ! i) (zs ! i))"
proof -
  let ?ys = "map (stack_status e) [0..<MAX_MRP_INSTANCES]" and ?n = "length (insts d)"
  have y: "length ?ys = 20" "\<forall>y \<in> set ?ys. wf_status y"
    by (auto simp: MAX_MRP_INSTANCES_def stack_status_def wf_dec_status)
  obtain zs where zs: "mrp_get d ?ys = Some (?n, zs)" "length zs = 20" "\<forall>z \<in> set zs. wf_status z"
      "\<forall>i < ?n. status_shows (insts d ! i) (zs ! i)"
    using mrp_get_ok [OF d(1), of ?ys] d(2) y by (auto simp: ok_def)
  let ?out = "enc_getmrp_OUT ?n zs"
  have lo: "length ?out = 1284" using length_enc_getmrp [OF zs(3)] zs(2) by simp
  have "handle_message e CMD_CODE_getmrp [] (int (length ([] :: u8 list))) outbuf (int 1284) d =
      Some (0, ?out @ drop (length ?out) outbuf, d)"
    by (simp add: handle_message_def CMD_CODE_addmrp_def CMD_CODE_delmrp_def CMD_CODE_getmrp_def sizeof_getmrp_OUT_def
        CTL_getmrp_def zs(1) Let_def)
  from client_call [OF this, of j] lo
  have "client_send_message e j CMD_CODE_getmrp [] 1284 outbuf d = Some (Inr (0, ?out), ?out @ drop 1284 outbuf, d)"
    by (simp add: CMD_CODE_getmrp_def)
  moreover have "getmrp_COPY_OUT ?out = (?n, take ?n zs)"
    using getmrp_COPY_OUT_enc [OF zs(3), of ?n "[]"] d(2) zs(2) by simp
  ultimately have "client_getmrp e j outbuf d = Some (Inr (?n, take ?n zs), d)"
    by (simp add: client_getmrp_def client_result_def sizeof_getmrp_OUT_def)
  then show ?thesis using zs d(2) by auto
qed

text \<open>More instances than the answer has entries.\<close>

lemma getmrp_too_many:
  assumes "20 < length (insts d)"
  shows "client_getmrp e j outbuf d = None"
proof -
  have "CTL_getmrp d (map (stack_status e) [0..<MAX_MRP_INSTANCES]) = None"
    using assms get_loop_overflow [of "map (stack_status e) [0..<MAX_MRP_INSTANCES]" 0 "insts d"]
    by (simp add: CTL_getmrp_def mrp_get_def MAX_MRP_INSTANCES_def)
  then have "handle_message e CMD_CODE_getmrp [] 0 outbuf 1284 d = None"
    by (simp add: handle_message_def CMD_CODE_addmrp_def CMD_CODE_delmrp_def CMD_CODE_getmrp_def sizeof_getmrp_OUT_def)
  then show ?thesis
    using ctl_request [of "[]" 1284 CMD_CODE_getmrp e j outbuf d]
    by (simp add: client_getmrp_def client_send_message_def client_request_def sizeof_getmrp_OUT_def CMD_CODE_getmrp_def)
qed

end
