(* ===== verification/Mrp_System.thy ===== *)
theory Mrp_System
  imports Mrp_Server Mrp_Client
begin

text \<open>
  The daemon as a transition system: the packet socket with its filter (\<^verbatim>\<open>packet.c\<close>), and the steps
  that the event loop makes, each of which runs one handler to its end.  A step ends in a state or
  in a crash (\<open>None\<close>).  The list of instances refines a registry of keys: the locale \<open>registry\<close> is
  its contract, and \<open>reg_step\<close> the transition system on keys that the daemon simulates.
\<close>

section \<open>The packet socket\<close>

record sock_filter =
  f_code :: u16
  f_jt :: u8
  f_jf :: u8
  f_k :: u32

definition mrp_filter :: "sock_filter list" where
  "mrp_filter = [
     \<lparr>f_code = 0x28, f_jt = 0, f_jf = 0, f_k = 0x0000000c\<rparr>,
     \<lparr>f_code = 0x15, f_jt = 0, f_jf = 1, f_k = 0x000088e3\<rparr>,
     \<lparr>f_code = 0x6, f_jt = 0, f_jf = 0, f_k = 0xffffffff\<rparr>,
     \<lparr>f_code = 0x6, f_jt = 0, f_jf = 0, f_k = 0x00000000\<rparr>]"

text \<open>The three instructions that the filter uses, as the kernel documents them: load the half word in
  network order at an offset (a load outside of the packet drops it), compare and jump, and return
  the number of bytes to accept.  Jumps go forward only, so that the fuel is the number of
  instructions.\<close>

fun bpf_run :: "nat \<Rightarrow> sock_filter list \<Rightarrow> nat \<Rightarrow> u32 \<Rightarrow> u8 list \<Rightarrow> u32" where
  "bpf_run 0 prog pc a pkt = 0"
| "bpf_run (Suc n) prog pc a pkt =
    (if length prog \<le> pc then 0
     else
       let i = prog ! pc in
       if f_code i = 0x28 then
         (if unat (f_k i) + 2 \<le> length pkt
          then bpf_run n prog (pc + 1) (ucast (be16_to_cpu (ld16 (drop (unat (f_k i)) pkt)))) pkt
          else 0)
       else if f_code i = 0x15 then
         bpf_run n prog (pc + 1 + unat (if a = f_k i then f_jt i else f_jf i)) a pkt
       else if f_code i = 0x6 then f_k i
       else 0)"

definition accepted :: "u8 list \<Rightarrow> bool" where
  "accepted pkt \<longleftrightarrow> bpf_run (length mrp_filter) mrp_filter 0 0 pkt \<noteq> 0"

text \<open>\<open>recvfrom\<close> gives \<open>cc\<close>; the buffer has 2048 bytes.\<close>

definition packet_rcv :: "env \<Rightarrow> u32 \<Rightarrow> u8 list \<Rightarrow> int \<Rightarrow> daemon \<Rightarrow> daemon option" where
  "packet_rcv e idx buf cc d = (if cc \<le> 0 then Some d else mrp_recv e idx buf (word_of_int cc) d)"

lemma accepted_iff: "accepted pkt \<longleftrightarrow> 14 \<le> length pkt \<and> be16_to_cpu (ld16 (drop 12 pkt)) = 0x88e3"
proof -
  have four: "length mrp_filter = Suc (Suc (Suc (Suc 0)))" by (simp add: mrp_filter_def)
  have "(ucast (w :: u16) :: u32) = 0x88e3 \<longleftrightarrow> w = 0x88e3" for w
  proof
    assume "(ucast w :: u32) = 0x88e3"
    then have "(ucast (ucast w :: u32) :: u16) = ucast (0x88e3 :: u32)" by (rule arg_cong)
    then show "w = 0x88e3" by simp
  qed simp
  then show ?thesis
    unfolding accepted_def four by (auto simp: mrp_filter_def Let_def)
qed

section \<open>Steps\<close>

text \<open>What the daemon assumes of its inputs.  A control message asks for a status only while there are at
  most twenty instances, has no negative answer length, and adds an instance with sensible
  connectivity arguments; with \<open>rc\<close>, only instances in the ring check mode are added.\<close>

definition ctl_ok :: "env \<Rightarrow> bool \<Rightarrow> u8 list \<Rightarrow> daemon \<Rightarrow> bool" where
  "ctl_ok e rc msg d \<longleftrightarrow>
     (h_cmd (dec_hdr msg) = CMD_CODE_addmrp \<longrightarrow> args_ok e (addmrp_CALL (drop 16 msg)) \<and> (rc \<longrightarrow> rc_args (addmrp_CALL (drop 16 msg)))) \<and>
     (h_cmd (dec_hdr msg) = CMD_CODE_getmrp \<longrightarrow> length (insts d) \<le> 20) \<and>
     0 \<le> sint (h_lout (dec_hdr msg))"

definition link_ok :: "u8 list \<Rightarrow> nat \<Rightarrow> bool" where
  "link_ok buf h \<longleftrightarrow> msg_fits buf h \<and> quiet buf h"

definition listened :: "daemon outcome option \<Rightarrow> daemon option" where
  "listened r = (case r of Some (Returns _ d) \<Rightarrow> Some d | _ \<Rightarrow> None)"

inductive step :: "env \<Rightarrow> bool \<Rightarrow> daemon \<Rightarrow> daemon option \<Rightarrow> bool" for e rc where
  frame: "accepted pkt \<Longrightarrow> cc = min (length pkt) 2048 \<Longrightarrow> length rest = 2048 - cc \<Longrightarrow>
    step e rc d (packet_rcv e idx (take cc pkt @ rest) (int cc) d)"
| no_frame: "cc \<le> 0 \<Longrightarrow> step e rc d (packet_rcv e idx buf cc d)"
| expire: "k < length (insts d) \<Longrightarrow> active (work t (fst (insts d ! k))) \<Longrightarrow> step e rc d (run_inst k (timer_expired e t) d)"
| stale: "t \<in> set (stale d) \<Longrightarrow> step e rc d None"
| link: "\<forall>r \<in> set rs. gram_ok link_ok (length buf) r \<Longrightarrow> step e rc d (listened (netlink_rcv e rs buf d))"
| control: "ctl_ok e rc msg d \<Longrightarrow> step e rc d (map_option (\<lambda>(_, _, d'). d') (ctl_rcv_handler e msg flags outbuf d))"

inductive_cases stepE: "step e rc d r"

inductive reachable :: "env \<Rightarrow> bool \<Rightarrow> daemon \<Rightarrow> bool" for e rc where
  init: "reachable e rc daemon_init"
| step: "reachable e rc d \<Longrightarrow> step e rc d (Some d') \<Longrightarrow> reachable e rc d'"

section \<open>The registry as an abstract system\<close>

inductive reg_step :: "'k list \<Rightarrow> 'k list \<Rightarrow> bool" where
  add: "k \<notin> set ks \<Longrightarrow> reg_step ks (ks @ [k])"
| del: "k \<in> set ks \<Longrightarrow> reg_step ks (filter (\<lambda>x. x \<noteq> k) ks)"

inductive_simps reg_step_iff: "reg_step ks ks'"

lemma reg_steps_distinct: "reg_step\<^sup>*\<^sup>* ks ks' \<Longrightarrow> distinct ks \<Longrightarrow> distinct ks'"
  by (induction rule: rtranclp_induct) (auto simp: reg_step_iff)

lemma cmd_keys_reg: "cmd_keys ks ks' \<Longrightarrow> reg_step\<^sup>*\<^sup>* ks ks'"
  by (auto simp: cmd_keys_def intro: reg_step.intros r_into_rtranclp)

text \<open>What a step keeps: the invariant, the keys by registry steps, and in the ring check mode the absence
  of timers of freed instances.\<close>

definition keeps :: "bool \<Rightarrow> daemon \<Rightarrow> daemon \<Rightarrow> bool" where
  "keeps rc d d' \<longleftrightarrow> daemon_inv d' \<and> reg_step\<^sup>*\<^sup>* (keys d) (keys d') \<and>
     (rc \<longrightarrow> rc_only d \<longrightarrow> rc_only d' \<and> stale d' = stale d)"

lemma steady_keeps: "daemon_inv d \<Longrightarrow> steady d d' \<Longrightarrow> keeps rc d d'"
  using steady_inv by (auto simp: keeps_def steady_def keys_def rc_only_def)

lemma link_keeps:
  assumes "daemon_inv d0" and e: "libev_timers e" and "keeps rc d0 d" and "link_ok buf h"
  shows "ok (netlink_listen e buf h d) (\<lambda>(r, d'). keeps rc d0 d')"
proof -
  have d: "daemon_inv d" using assms(3) by (simp add: keeps_def)
  have m: "msg_fits buf h" "quiet buf h" using assms(4) by (simp_all add: link_ok_def)
  show ?thesis
  proof (rule ok_mono [OF netlink_listen_inv [OF d e m]], clarify)
    fix r d'
    assume a: "daemon_inv d'" "keys d' = keys d \<or> (\<exists>k \<in> set (keys d). keys d' = filter (\<lambda>x. x \<noteq> k) (keys d))"
      "rc_only d \<longrightarrow> rc_only d' \<and> stale d' = stale d"
    have "cmd_keys (keys d) (keys d')" using a(2) unfolding cmd_keys_def by blast
    then have "reg_step\<^sup>*\<^sup>* (keys d) (keys d')" by (rule cmd_keys_reg)
    then show "keeps rc d0 d'"
      using a assms(3) by (auto simp: keeps_def intro: rtranclp_trans)
  qed
qed

text \<open>The link handler under the contract of the listening loop, relative to a start state.\<close>

interpretation links: nl_handler "netlink_listen e" "\<lambda>d. daemon_inv d0 \<and> libev_timers e \<and> keeps rc d0 d" link_ok
proof
  fix d buf h
  assume "daemon_inv d0 \<and> libev_timers e \<and> keeps rc d0 d" and "link_ok buf h"
  then show "ok (netlink_listen e buf h d) (\<lambda>(r, d'). daemon_inv d0 \<and> libev_timers e \<and> keeps rc d0 d')"
    using link_keeps by (fastforce elim: ok_mono)
qed

lemma step_keeps:
  assumes d: "daemon_inv d" and e: "libev_timers e" "hwaddr_ok e" and s: "step e rc d r"
    and st: "stale d = []"
  shows "ok r (keeps rc d)"
  using s
proof cases
  case (frame pkt cc rest idx)
  have n: "14 \<le> cc" "cc \<le> 2048" using frame by (auto simp: accepted_iff)
  have len: "length (take cc pkt @ rest) = 2048" using frame n by simp
  have u: "unat (word_of_int (int cc) :: u32) = cc" using n by (simp add: unat_of_nat)
  have "ok (mrp_recv e idx (take cc pkt @ rest) (word_of_int (int cc)) d) (steady d)"
    by (rule mrp_recv_steady [OF d e(1)]) (use len n in \<open>simp_all only: u\<close>)
  then show ?thesis
    unfolding frame(1) packet_rcv_def using n by (auto intro: ok_mono steady_keeps [OF d])
next
  case no_frame
  then show ?thesis using steady_keeps [OF d steady_refl [OF inv_all_good [OF d]]] by (simp add: packet_rcv_def)
next
  case (expire k t)
  then show ?thesis
    using timer_expired_steady [OF d e(1)] by (auto intro: ok_mono steady_keeps [OF d])
next
  case stale
  then show ?thesis using st by simp
next
  case (link rs buf)
  have "keeps rc d d" by (rule steady_keeps [OF d steady_refl [OF inv_all_good [OF d]]])
  then have "ok (rtnl_listen (netlink_listen e) rs buf d) (\<lambda>r. \<exists>err d'. r = Returns err d' \<and> daemon_inv d \<and> libev_timers e \<and> keeps rc d d')"
    by (intro links.listen_inv [OF _ link(2)]) (simp add: d e)
  then show ?thesis
    by (auto simp: link(1) listened_def netlink_rcv_def ok_def)
next
  case (control msg flags outbuf)
  have "ok (ctl_rcv_handler e msg flags outbuf d) (\<lambda>(r, ob, d'). keeps rc d d')"
    by (rule ok_mono [OF ctl_rcv_handler_inv [OF d e]])
      (use control(2) in \<open>auto simp: ctl_ok_def keeps_def dest: cmd_keys_reg\<close>)
  then show ?thesis by (auto simp: control(1) ok_def)
qed

lemma init_clean: "rc_only daemon_init" "stale daemon_init = []"
  by (simp_all add: daemon_init_def rc_only_def cfgs_def)

text \<open>As long as only instances in the ring check mode are added, every reachable state is sound and no
  timer of a freed instance is left.\<close>

lemma reachable_inv:
  assumes "reachable e True d" and e: "libev_timers e" "hwaddr_ok e"
  shows "daemon_inv d \<and> rc_only d \<and> stale d = []"
  using assms(1)
proof induction
  case init
  then show ?case using daemon_inv_init init_clean by simp
next
  case (step d d')
  then have "keeps True d d'" using step_keeps [OF _ e step.hyps(2)] by auto
  then show ?case using step.IH by (simp add: keeps_def)
qed

section \<open>The contract of the registry\<close>

locale registry =
  fixes inv :: "'d \<Rightarrow> bool"
    and ks :: "'d \<Rightarrow> 'k list"
    and find :: "'k \<Rightarrow> 'd \<Rightarrow> nat option"
    and key :: "'a \<Rightarrow> 'k"
    and arg_ok :: "'a \<Rightarrow> bool"
    and add :: "'a \<Rightarrow> 'd \<Rightarrow> (int \<times> 'd) option"
    and del :: "'k \<Rightarrow> 'd \<Rightarrow> (int \<times> 'd) option"
    and EINVAL :: int
  assumes inv_distinct: "inv d \<Longrightarrow> distinct (ks d)"
    and find_None: "find k d = None \<longleftrightarrow> k \<notin> set (ks d)"
    and find_Some: "find k d = Some i \<Longrightarrow> i < length (ks d) \<and> ks d ! i = k"
    and add_law: "inv d \<Longrightarrow> arg_ok a \<Longrightarrow> ok (add a d) (\<lambda>(err, d'). inv d' \<and>
      (if key a \<in> set (ks d) then err = - EINVAL \<and> d' = d
       else ks d' = ks d @ (if err = 0 then [key a] else [])))"
    and del_law: "inv d \<Longrightarrow> ok (del k d) (\<lambda>(err, d'). inv d' \<and>
      (if k \<in> set (ks d) then err = 0 \<and> ks d' = filter (\<lambda>x. x \<noteq> k) (ks d) else err = - EINVAL \<and> d' = d))"
    and EINVAL_pos: "0 < EINVAL"
begin

lemma find_unique:
  assumes d: "inv d" and i: "i < length (ks d)"
  shows "find (ks d ! i) d = Some i"
proof (cases "find (ks d ! i) d")
  case None
  then show ?thesis using find_None i by force
next
  case (Some j)
  have "j = i"
    using find_Some [OF Some] nth_eq_iff_index_eq [OF inv_distinct [OF d], of j i] i by blast
  then show ?thesis using Some by simp
qed

text \<open>After an addition that succeeded, the new key is found at the end and every other key where it was.\<close>

lemma find_after_add:
  assumes "inv d" and "arg_ok a" and "add a d = Some (0, d')"
  shows "find (key a) d = None" "find (key a) d' = Some (length (ks d))" "find k d = Some i \<Longrightarrow> find k d' = Some i"
proof -
  have a: "inv d'" "key a \<notin> set (ks d)" "ks d' = ks d @ [key a]"
    using add_law [OF assms(1,2)] assms(3) EINVAL_pos by (auto simp: ok_def split: if_splits)
  show "find (key a) d = None" using a(2) find_None by simp
  show "find (key a) d' = Some (length (ks d))"
    using find_unique [OF a(1), of "length (ks d)"] a(3) by simp
  assume "find k d = Some i"
  then show "find k d' = Some i"
    using find_Some [of k d i] find_unique [OF a(1), of i] a(3) by (simp add: nth_append)
qed

lemma add_twice:
  assumes "inv d" and "arg_ok a" and "add a d = Some (0, d')" and "arg_ok b" and "key b = key a"
  shows "add b d' = Some (- EINVAL, d')"
proof -
  have "inv d'" "key b \<in> set (ks d')"
    using add_law [OF assms(1,2)] assms(3,5) EINVAL_pos by (auto simp: ok_def split: if_splits)
  then show ?thesis using add_law [OF _ assms(4), of d'] by (auto simp: ok_def)
qed

lemma add_del:
  assumes "inv d" and "arg_ok a" and "add a d = Some (0, d')"
  shows "\<exists>d''. del (key a) d' = Some (0, d'') \<and> inv d'' \<and> ks d'' = ks d"
proof -
  have a: "inv d'" "key a \<notin> set (ks d)" "ks d' = ks d @ [key a]"
    using add_law [OF assms(1,2)] assms(3) EINVAL_pos by (auto simp: ok_def split: if_splits)
  have "filter (\<lambda>x. x \<noteq> key a) (ks d) = ks d" using a(2) by (auto intro!: filter_True)
  then show ?thesis using del_law [OF a(1), of "key a"] a(3) by (auto simp: ok_def)
qed

lemma del_find:
  assumes "inv d" and "del k d = Some (0, d')"
  shows "k \<in> set (ks d)" "find k d' = None" "k' \<noteq> k \<Longrightarrow> (find k' d' = None) = (find k' d = None)" "del k d' = Some (- EINVAL, d')"
proof -
  have a: "inv d'" "k \<in> set (ks d)" "ks d' = filter (\<lambda>x. x \<noteq> k) (ks d)"
    using del_law [OF assms(1), of k] assms(2) EINVAL_pos by (auto simp: ok_def split: if_splits)
  show "k \<in> set (ks d)" by (rule a(2))
  show "find k d' = None" "k' \<noteq> k \<Longrightarrow> (find k' d' = None) = (find k' d = None)" using a(3) by (simp_all add: find_None)
  show "del k d' = Some (- EINVAL, d')" using del_law [OF a(1), of k] a(3) by (auto simp: ok_def)
qed

end

definition arg_key :: "add_args \<Rightarrow> u32 \<times> u32" where
  "arg_key a = (a_br a, a_ring_nr a)"

text \<open>The list of instances provides it, in an environment whose timers and addresses are as documented.\<close>

interpretation instances: registry
  "\<lambda>d. daemon_inv d \<and> libev_timers e \<and> hwaddr_ok e" keys "\<lambda>k. mrp_find (fst k) (snd k)"
  arg_key "args_ok e" "mrp_add e" "\<lambda>k. mrp_del e (fst k) (snd k)" EINVAL
proof (unfold_locales, goal_cases)
  case (1 d)
  then show ?case by (simp add: daemon_inv_def)
next
  case (2 k d)
  then show ?case by (simp add: mrp_find_None)
next
  case (3 k d i)
  then show ?case using mrp_find_Some [of "fst k" "snd k" d i] by (auto simp: keys_ikey)
next
  case (4 d a)
  then have "daemon_inv d" "libev_timers e" "hwaddr_ok e" "args_ok e a" by simp_all
  then show ?case by (rule ok_mono [OF mrp_add_inv]) (auto simp: arg_key_def 4 split: if_splits)
next
  case (5 d k)
  then have "daemon_inv d" by simp
  then show ?case by (rule ok_mono [OF mrp_del_inv]) (auto simp: 5 split: if_splits)
next
  case 6
  then show ?case by (simp add: EINVAL_def)
qed

end
