(* ===== verification/Mrp_Main.thy ===== *)
theory Mrp_Main
  imports Mrp_System
begin

text \<open>
  The two programs: \<open>main\<close> of the server (\<^verbatim>\<open>mrp_server.c\<close>) with its options, the order in which it acquires and
  releases its resources (\<^verbatim>\<open>server_socket.c\<close>, \<^verbatim>\<open>server_cmds.c\<close>, \<^verbatim>\<open>packet.c\<close>, \<^verbatim>\<open>dbus.c\<close>), and \<open>main\<close> of the client (\<^verbatim>\<open>mrp.c\<close>)
  with its exchange with the daemon.  The answers of the system calls are parameters.
\<close>

section \<open>getopt\<close>

text \<open>The options of a word such as \<open>-dT5\<close>: a character that is not an option gives \<open>?\<close>; an option with an argument
  takes the rest of the word, or else the next word.  The second component tells whether the next word
  was taken.\<close>

fun getopt_word :: "(char \<Rightarrow> bool option) \<Rightarrow> string \<Rightarrow> string option \<Rightarrow> (char \<times> string) list \<times> bool" where
  "getopt_word spec [] nx = ([], False)"
| "getopt_word spec (c # cs) nx =
    (case spec c of
       None \<Rightarrow> (let (os, b) = getopt_word spec cs nx in ((CHR ''?'', []) # os, b))
     | Some False \<Rightarrow> (let (os, b) = getopt_word spec cs nx in ((c, []) # os, b))
     | Some True \<Rightarrow>
         (if cs \<noteq> [] then ([(c, cs)], False)
          else (case nx of None \<Rightarrow> ([(CHR ''?'', [])], False) | Some v \<Rightarrow> ([(c, v)], True))))"

text \<open>The options in order and the other words.  \<open>long\<close> is the answer for a word that begins with two
  dashes.\<close>

fun getopt :: "(string \<Rightarrow> (char \<times> string) list) \<Rightarrow> (char \<Rightarrow> bool option) \<Rightarrow> string list \<Rightarrow> (char \<times> string) list \<times> string list" where
  "getopt long spec [] = ([], [])"
| "getopt long spec (w # ws) =
    (if w = ''--'' then ([], ws)
     else if take 2 w = ''--'' \<and> long (drop 2 w) \<noteq> [] then
       (let (os, rest) = getopt long spec ws in (long (drop 2 w) @ os, rest))
     else if take 1 w = ''-'' \<and> w \<noteq> ''-'' then
       (let (os, b) = getopt_word spec (tl w) (case ws of [] \<Rightarrow> None | v # _ \<Rightarrow> Some v);
            (os', rest) = getopt long spec (if b then tl ws else ws)
        in (os @ os', rest))
     else (let (os, rest) = getopt long spec ws in (os, w # rest)))"

section \<open>Resources of the server\<close>

datatype resource =
    Ctl_socket | Ctl_watcher | Dbus_connection | Rtnl_socket | Netlink_watcher | Net_socket
  | Ifdriver | Cfm_offload | Packet_socket | Packet_watcher

datatype action = Acquire resource | Release resource

text \<open>The results of the system and library calls.\<close>

record sys =
  ctl_fd :: int
  ctl_bind :: int
  dbus_bus :: bool
  dbus_name :: bool
  rtnl_open_ret :: int
  netsock :: int
  ifdriver_ret :: int
  cfm_ret :: int
  packet_fd :: int
  packet_filter :: int
  packet_ignore :: int
  packet_prio :: int
  packet_nonblock :: int

definition server_socket :: "sys \<Rightarrow> int \<times> action list" where
  "server_socket a =
    (if 0 > ctl_fd a then (- 1, [])
     else if 0 \<noteq> ctl_bind a then (- 1, [Acquire Ctl_socket, Release Ctl_socket])
     else (ctl_fd a, [Acquire Ctl_socket]))"

definition dbus_init :: "sys \<Rightarrow> int \<times> action list" where
  "dbus_init a =
    (if \<not> dbus_bus a then (- 1, [])
     else if \<not> dbus_name a then (- 1, [Acquire Dbus_connection])
     else (0, [Acquire Dbus_connection]))"

definition netlink_init :: "sys \<Rightarrow> int \<times> action list" where
  "netlink_init a =
    (if rtnl_open_ret a \<noteq> 0 then (rtnl_open_ret a, [])
     else (0, [Acquire Rtnl_socket, Acquire Netlink_watcher]))"

definition netlink_uninit :: "action list" where
  "netlink_uninit = [Release Netlink_watcher, Release Rtnl_socket]"

text \<open>The check is for the descriptor \<open>0\<close>, not for a negative one.\<close>

definition if_init :: "sys \<Rightarrow> int \<times> action list" where
  "if_init a = (if netsock a = 0 then (- 1, []) else (0, if netsock a < 0 then [] else [Acquire Net_socket]))"

definition CTL_init :: "sys \<Rightarrow> int \<times> action list" where
  "CTL_init a = (
     let (r1, l1) = dbus_init a in
     if r1 \<noteq> 0 then (- 1, l1)
     else let (r2, l2) = netlink_init a in
     if r2 \<noteq> 0 then (- 1, l1 @ l2)
     else let (r3, l3) = if_init a in
     if r3 \<noteq> 0 then (- 1, l1 @ l2 @ l3)
     else if ifdriver_ret a \<noteq> 0 then (- 1, l1 @ l2 @ l3)
     else if cfm_ret a \<noteq> 0 then (- 1, l1 @ l2 @ l3 @ [Acquire Ifdriver])
     else (0, l1 @ l2 @ l3 @ [Acquire Ifdriver, Acquire Cfm_offload]))"

text \<open>\<open>dbus_uninit\<close> does nothing; \<open>mrp_uninit\<close> is last.\<close>

definition CTL_cleanup :: "env \<Rightarrow> daemon \<Rightarrow> (action list \<times> daemon) option" where
  "CTL_cleanup e d = do { d \<leftarrow> mrp_uninit e d; Some ([Release Ifdriver] @ netlink_uninit, d) }"

definition ctl_socket_init :: "sys \<Rightarrow> int \<times> action list" where
  "ctl_socket_init a = (
     let (s, l1) = server_socket a in
     if 0 > s then (- 1, l1)
     else let (ret, l2) = CTL_init a in
     if ret = 0 then (0, l1 @ [Acquire Ctl_watcher] @ l2)
     else (ret, l1 @ [Acquire Ctl_watcher] @ l2 @ [Release Ctl_watcher, Release Ctl_socket]))"

definition ctl_socket_cleanup :: "env \<Rightarrow> daemon \<Rightarrow> (action list \<times> daemon) option" where
  "ctl_socket_cleanup e d = do { (l, d) \<leftarrow> CTL_cleanup e d; Some (l @ [Release Ctl_watcher, Release Ctl_socket], d) }"

definition packet_socket_init :: "sys \<Rightarrow> int \<times> action list" where
  "packet_socket_init a =
    (if packet_fd a < 0 then (- 1, [])
     else if packet_filter a < 0 then (- 1, [Acquire Packet_socket, Release Packet_socket])
     else if packet_ignore a < 0 then (- 1, [Acquire Packet_socket, Release Packet_socket])
     else if packet_prio a \<noteq> 0 then (- 1, [Acquire Packet_socket, Release Packet_socket])
     else if packet_nonblock a < 0 then (- 1, [Acquire Packet_socket, Release Packet_socket])
     else (0, [Acquire Packet_socket, Acquire Packet_watcher]))"

definition packet_socket_cleanup :: "action list" where
  "packet_socket_cleanup = [Release Packet_watcher, Release Packet_socket]"

section \<open>The server\<close>

datatype start = Exit int | Run u32 nat

definition server_spec :: "char \<Rightarrow> bool option" where
  "server_spec c = (if c \<in> {CHR ''h'', CHR ''v'', CHR ''d''} then Some False else if c = CHR ''T'' then Some True else None)"

text \<open>The loop over the options: the time factor and the debug level, or an early end.  \<open>time_factor\<close> is
  unsigned, so that \<open>time_factor <= 0\<close> holds for zero only.\<close>

fun server_options :: "(char \<times> string) list \<Rightarrow> u32 \<Rightarrow> nat \<Rightarrow> start" where
  "server_options [] tf dl = Run tf dl"
| "server_options ((c, v) # os) tf dl =
    (if c = CHR ''T'' then (if atoi v \<le> 0 then Exit 1 else server_options os (atoi v) dl)
     else if c = CHR ''d'' then server_options os tf (dl + 1)
     else Exit 0)"

text \<open>Up to the event loop: the exit code, or the start of the loop with the time factor.\<close>

definition server_start :: "sys \<Rightarrow> string list \<Rightarrow> start \<times> action list" where
  "server_start a argv =
    (case server_options (fst (getopt (\<lambda>_. []) server_spec (tl argv))) 1 0 of
       Exit n \<Rightarrow> (Exit n, [])
     | Run tf dl \<Rightarrow>
         let (ret, l1) = ctl_socket_init a in
         if ret < 0 then (Exit 1, l1)
         else let (ret, l2) = packet_socket_init a in
         if ret < 0 then (Exit 1, l1 @ l2)
         else (Run tf dl, l1 @ l2))"

definition server_stop :: "env \<Rightarrow> daemon \<Rightarrow> (action list \<times> daemon) option" where
  "server_stop e d = do { (l, d) \<leftarrow> ctl_socket_cleanup e d; Some (packet_socket_cleanup @ l, d) }"

section \<open>The client\<close>

definition incomplete_command :: string where
  "incomplete_command = ''Command line is not complete. Try option '' @ [CHR 0x22] @ ''help'' @ [CHR 0x22] @ nl"

definition help_text :: string where
  "help_text = concat (map (\<lambda>l. l @ nl)
    [''Usage: mrp [options] [commands]'',
     ''options:'',
     ''  -h | --help              Show this help text'',
     ''commands:'', '''',
     ''addmrp: Create MRP instance'',
     ''Mandatory arguments:'',
     ''  bridge          [bridge]    Bridge name on which to create MRP instance'',
     ''  ring_nr         [id]        The ID of MRP instance'',
     ''  pport           [port]      Primary port name'',
     ''  sport           [port]      Secondary port name'',
     ''  ring_role       [role]      Ring role (mrm, mrc, mra)'',
     ''Optional arguments:'',
     ''  ring_recv       [recovery]    Ring recovery time(500,200,30,10)'',
     ''  prio            [priority]    Instance priority'',
     ''  react_on_link_change [status]    enable/disable property (1,0)'',
     ''  in_role         [in_role]     Interconnect role(mim, mic)'',
     ''  iport           [port]        Interconnect port name'',
     ''  in_id           [in_id]       Interconnect ring id'',
     ''  in_mode         [in_mode]     Interconnect operating mode(lc, rc)'',
     ''  in_recv         [in_recv]     Interconnect recovery time(500,200)'',
     ''  cfm_instance    [instance]    CFM instance ID'',
     ''  cfm_level       [level]       CFM level'',
     ''  cfm_mepid       [mepid]       CFM mepid'',
     ''  cfm_peer_mepid  [peer_mepid]  CFM peer mepid'',
     ''  cfm_maid        [maid]        CFM maid'',
     ''  cfm_dmac        [dmac]        CFM destination MAC'', '''',
     ''delmrp: Delete MRP instance'',
     ''Mandatory arguments:'',
     ''  bridge          [bridge]    Bridge name on which the MRP instance exists'',
     ''  ring_nr         [id]        The ID of MRP instance'', '''',
     ''getmrp: Show MRP instance'', ''''])"

text \<open>\<open>line_num\<close> is 0 in every call.\<close>

definition command_lookup_and_validate :: "string \<Rightarrow> nat \<Rightarrow> command option \<times> string" where
  "command_lookup_and_validate cmd line_num =
    (case command_lookup cmd of
       Some c \<Rightarrow> (Some c, [])
     | None \<Rightarrow> (None, (if line_num > 0 then ''Error on line '' @ dec_of_nat line_num @ '':'' @ nl else []) @
         ''Unknown command ['' @ cmd @ '']'' @ nl @ (if line_num = 0 then help_text else [])))"

definition return_of :: "int + 'a \<Rightarrow> int" where
  "return_of r = (case r of Inl n \<Rightarrow> n | Inr _ \<Rightarrow> 0)"

text \<open>A command that could not be read ends with \<open>-1\<close>, before anything is sent; a name that is too long for the
  buffer is a crash.\<close>

definition parsed :: "cl_error + 'a \<Rightarrow> ('a \<Rightarrow> daemon \<Rightarrow> (int \<times> string \<times> daemon) option) \<Rightarrow> daemon \<Rightarrow> (int \<times> string \<times> daemon) option" where
  "parsed p f d = (case p of
     Inl Incomplete \<Rightarrow> Some (- 1, incomplete_command, d)
   | Inl Failed \<Rightarrow> Some (- 1, [], d)
   | Inl Overflow \<Rightarrow> None
   | Inr a \<Rightarrow> f a d)"

definition run_command ::
  "env \<Rightarrow> cenv \<Rightarrow> u32 \<Rightarrow> u8 list \<Rightarrow> u8 list \<Rightarrow> command \<Rightarrow> string list \<Rightarrow> daemon \<Rightarrow> (int \<times> string \<times> daemon) option" where
  "run_command e ce junk pad outbuf c argv d =
    (case c of
       Cmd_addmrp \<Rightarrow> parsed (cmd_addmrp ce argv) (\<lambda>a d. do {
         (r, d) \<leftarrow> client_addmrp e junk pad a outbuf d; Some (return_of r, [], d) }) d
     | Cmd_delmrp \<Rightarrow> parsed (cmd_delmrp ce argv) (\<lambda>k d. do {
         (r, d) \<leftarrow> client_delmrp e junk k outbuf d; Some (return_of r, [], d) }) d
     | Cmd_getmrp \<Rightarrow> do {
         (r, d) \<leftarrow> client_getmrp e junk outbuf d;
         let (ret, out) = cmd_getmrp ce r;
         Some (ret, out, d) })"

definition client_spec :: "char \<Rightarrow> bool option" where
  "client_spec c = (if c = CHR ''h'' then Some False else None)"

text \<open>A prefix of the only long option is that option.\<close>

definition client_long :: "string \<Rightarrow> (char \<times> string) list" where
  "client_long s = (if s \<noteq> [] \<and> take (length s) ''help'' = s then [(CHR ''h'', [])] else [(CHR ''?'', [])])"

text \<open>The results of the calls of \<open>client_init\<close>, and the text of the last error.\<close>

record csys =
  c_fd :: int
  c_bind :: int
  c_connect :: int
  c_error :: string

definition apostrophe :: string where "apostrophe = [CHR 0x27]"

definition client_init :: "csys \<Rightarrow> int \<times> string" where
  "client_init a =
    (if 0 > c_fd a then (- 1, ''Couldn'' @ apostrophe @ ''t open unix socket: '' @ c_error a)
     else if 0 \<noteq> c_bind a then (- 1, ''Couldn'' @ apostrophe @ ''t bind socket: '' @ c_error a)
     else if 0 \<noteq> c_connect a then (- 1, ''Couldn'' @ apostrophe @ ''t connect to server'')
     else (0, []))"

text \<open>The result is the exit status, the output
  and the state of the daemon; the texts that report a failed exchange are not part of the output.\<close>

definition client_main ::
  "env \<Rightarrow> cenv \<Rightarrow> csys \<Rightarrow> u32 \<Rightarrow> u8 list \<Rightarrow> u8 list \<Rightarrow> string list \<Rightarrow> daemon \<Rightarrow> (int \<times> string \<times> daemon) option" where
  "client_main e ce a junk pad outbuf argv d = (
     let (os, ws) = getopt client_long client_spec (tl argv) in
     if CHR ''h'' \<in> fst ` set os then Some (0, help_text, d)
     else (case client_init a of (ret, msg) \<Rightarrow>
         if ret \<noteq> 0 then Some (1, msg @ ''can'' @ apostrophe @ ''t setup control connection'' @ nl, d)
         else (case ws of [] \<Rightarrow> Some (1, help_text, d)
            | cmd # _ \<Rightarrow>
                (case command_lookup_and_validate cmd 0 of
                   (None, msg) \<Rightarrow> Some (1, msg, d)
                 | (Some c, _) \<Rightarrow> run_command e ce junk pad outbuf c ws d))))"

section \<open>Start and stop of the server\<close>

text \<open>What is held after a sequence of actions.\<close>

definition held :: "action list \<Rightarrow> resource set" where
  "held xs = foldl (\<lambda>R x. case x of Acquire r \<Rightarrow> insert r R | Release r \<Rightarrow> R - {r}) {} xs"

text \<open>Every call succeeds.\<close>

definition all_ok :: "sys \<Rightarrow> bool" where
  "all_ok a \<longleftrightarrow> 0 \<le> ctl_fd a \<and> ctl_bind a = 0 \<and> dbus_bus a \<and> dbus_name a \<and> rtnl_open_ret a = 0 \<and> netsock a \<noteq> 0 \<and>
     ifdriver_ret a = 0 \<and> cfm_ret a = 0 \<and> 0 \<le> packet_fd a \<and> 0 \<le> packet_filter a \<and> 0 \<le> packet_ignore a \<and>
     packet_prio a = 0 \<and> 0 \<le> packet_nonblock a"

lemmas start_defs = server_start_def ctl_socket_init_def server_socket_def CTL_init_def dbus_init_def netlink_init_def if_init_def
  packet_socket_init_def Let_def

lemma server_options_run: "server_options os tf dl = Run tf' dl' \<Longrightarrow> tf \<noteq> 0 \<Longrightarrow> tf' \<noteq> 0"
proof (induction os arbitrary: tf dl)
  case (Cons x os)
  then show ?case by (cases x) (auto split: if_splits)
qed simp

lemma server_start_run:
  assumes "server_start a argv = (Run tf dl, l)"
  shows "tf \<noteq> 0" "all_ok a"
    "held l = {Ctl_socket, Ctl_watcher, Dbus_connection, Rtnl_socket, Netlink_watcher, Ifdriver, Cfm_offload, Packet_socket,
       Packet_watcher} \<union> (if 0 < netsock a then {Net_socket} else {})"
proof -
  show "tf \<noteq> 0"
    using assms server_options_run [of "fst (getopt (\<lambda>_. []) server_spec (tl argv))" 1 0]
    by (auto simp: server_start_def split: start.splits prod.splits if_splits)
  show "all_ok a"
    using assms by (simp add: start_defs all_ok_def split: start.splits prod.splits if_splits)
  then show "held l = {Ctl_socket, Ctl_watcher, Dbus_connection, Rtnl_socket, Netlink_watcher, Ifdriver, Cfm_offload, Packet_socket,
       Packet_watcher} \<union> (if 0 < netsock a then {Net_socket} else {})"
    using assms by (auto simp: start_defs all_ok_def held_def split: start.splits prod.splits if_splits)
qed

lemma held_append: "held (l @ m) = foldl (\<lambda>R x. case x of Acquire r \<Rightarrow> insert r R | Release r \<Rightarrow> R - {r}) (held l) m"
  by (simp add: held_def)

lemma not_acquired: "Acquire r \<notin> set l \<Longrightarrow> r \<notin> held l"
  by (induction l rule: rev_induct) (auto simp: held_def split: action.splits)

lemma CTL_init_acquires: "set (snd (CTL_init a)) \<subseteq> Acquire ` {Dbus_connection, Rtnl_socket, Netlink_watcher, Net_socket, Ifdriver, Cfm_offload}"
  by (simp add: CTL_init_def dbus_init_def netlink_init_def if_init_def Let_def split: prod.splits)

lemma ctl_socket_init_held:
  assumes "ctl_socket_init a = (ret, l)"
  shows "Packet_socket \<notin> held l" "Packet_watcher \<notin> held l" "ret < 0 \<Longrightarrow> Ctl_socket \<notin> held l \<and> Ctl_watcher \<notin> held l"
proof -
  obtain r m where c: "CTL_init a = (r, m)" by (cases "CTL_init a")
  then have m: "set m \<subseteq> Acquire ` {Dbus_connection, Rtnl_socket, Netlink_watcher, Net_socket, Ifdriver, Cfm_offload}"
    using CTL_init_acquires [of a] by simp
  show "Packet_socket \<notin> held l" "Packet_watcher \<notin> held l"
    by (rule not_acquired; use assms m in \<open>auto simp: ctl_socket_init_def server_socket_def c split: if_splits\<close>)+
  show "Ctl_socket \<notin> held l \<and> Ctl_watcher \<notin> held l" if "ret < 0"
    using assms that by (auto simp: ctl_socket_init_def server_socket_def c held_append held_def split: if_splits)
qed

lemma server_start_fails:
  assumes "server_start a argv = (Exit n, l)"
  shows "Packet_socket \<notin> held l \<and> Packet_watcher \<notin> held l \<and>
    (fst (ctl_socket_init a) < 0 \<longrightarrow> Ctl_socket \<notin> held l \<and> Ctl_watcher \<notin> held l)"
proof -
  obtain ret m where c: "ctl_socket_init a = (ret, m)" by (cases "ctl_socket_init a")
  have "l = [] \<or> l = m \<or> 0 \<le> ret \<and> l = m @ snd (packet_socket_init a) \<and> fst (packet_socket_init a) < 0"
    using assms by (auto simp: server_start_def c split: start.splits prod.splits if_splits)
  then show ?thesis
    using ctl_socket_init_held [OF c]
    by (auto simp: c held_def [of "[]"] held_append packet_socket_init_def split: if_splits)
qed

text \<open>After a clean end the connection to the bus, the socket of \<open>if_init\<close> and the CFM library are still held:
  nothing closes them.\<close>

lemma server_stop_releases:
  assumes "server_start a argv = (Run tf dl, l)" and "server_stop e d = Some (l', d')"
  shows "held (l @ l') = {Dbus_connection, Cfm_offload} \<union> (if 0 < netsock a then {Net_socket} else {})"
proof -
  have "l' = packet_socket_cleanup @ [Release Ifdriver] @ netlink_uninit @ [Release Ctl_watcher, Release Ctl_socket]"
    using assms(2) by (auto simp: server_stop_def ctl_socket_cleanup_def CTL_cleanup_def split: Option.bind_splits)
  then show ?thesis
    using server_start_run(3) [OF assms(1)] by (auto simp: held_append packet_socket_cleanup_def netlink_uninit_def)
qed

section \<open>The client against the daemon\<close>

lemma getopt_words:
  "\<forall>w \<in> set ws. take 1 w \<noteq> ''-'' \<Longrightarrow> getopt long spec ws = ([], ws)"
proof (induction ws)
  case (Cons w ws)
  then show ?case by (cases w) auto
qed simp

lemma arg_loop_inv:
  assumes "\<And>k g v x y. f k = Some g \<Longrightarrow> P x \<Longrightarrow> g v x = Inr y \<Longrightarrow> P y"
    and "arg_loop f ws x = Inr y" and "P x"
  shows "P y"
  using assms(2,3)
proof (induction ws arbitrary: x rule: length_induct)
  case (1 ws)
  consider "ws = []" | k where "ws = [k]" | k v vs where "ws = k # v # vs" by (metis list.exhaust)
  then show ?case
  proof cases
    case (3 k v vs)
    show ?thesis
    proof (cases "f k")
      case None
      then have "arg_loop f (v # vs) x = Inr y" using 1(2) 3 by simp
      then show ?thesis using 1(1,3) 3 by (auto dest!: spec [of _ "v # vs"])
    next
      case (Some g)
      then obtain z where z: "g v x = Inr z" "arg_loop f vs z = Inr y"
        using 1(2) 3 by (auto split: sum.splits)
      then have "P z" using assms(1) Some 1(3) by blast
      then show ?thesis using 1(1) z(2) 3 by (auto dest!: spec [of _ vs])
    qed
  qed (use 1 in \<open>auto split: option.splits\<close>)
qed

text \<open>The arguments that the client sends have the sizes of the message.\<close>

lemma addmrp_arg_sizes:
  assumes "addmrp_arg ce k = Some g" and "g v x = Inr y" and "length (a_cfm_maid x) = 48 \<and> length (a_cfm_dmac x) = 6"
  shows "length (a_cfm_maid y) = 48 \<and> length (a_cfm_dmac y) = 6"
proof -
  have "cfm_maid_get w = Some m \<Longrightarrow> length m = 48" for w m
    by (auto simp: cfm_maid_get_def CFM_MAID_LENGTH_def Let_def split: if_splits)
  moreover have "length (cfm_dmac_get ce w) = 6" for w by (simp add: cfm_dmac_get_def Let_def)
  ultimately show ?thesis
    using assms by (auto simp: addmrp_arg_def split: if_splits option.splits)
qed

lemma cmd_addmrp_wf:
  assumes "cmd_addmrp ce argv = Inr a"
  shows "wf_args a"
proof -
  obtain x where x: "arg_loop (addmrp_arg ce) (tl argv) (addmrp_defaults ce) = Inr x"
      "a_cfm_maid a = a_cfm_maid x" "a_cfm_dmac a = a_cfm_dmac x"
    using assms by (auto simp: cmd_addmrp_def add_args.defs split: sum.splits if_splits)
  have "length (a_cfm_maid x) = 48 \<and> length (a_cfm_dmac x) = 6"
    by (rule arg_loop_inv [OF _ x(1)])
      (auto simp: addmrp_defaults_def CFM_MAID_LENGTH_def dest: addmrp_arg_sizes)
  then show ?thesis by (simp add: wf_args_def x)
qed

text \<open>A command line does what the function of the daemon does.\<close>

lemma client_main_add:
  assumes "cmd_addmrp ce (''addmrp'' # ws) = Inr a" and "mrp_add e a d = Some (r, d')" and "\<forall>w \<in> set ws. take 1 w \<noteq> ''-''"
    and "fst (client_init a0) = 0"
  shows "client_main e ce a0 j [p, q] outbuf (prog # ''addmrp'' # ws) d = Some (sint (word_of_int r :: u32), [], d')"
proof -
  have "getopt client_long client_spec (''addmrp'' # ws) = ([], ''addmrp'' # ws)" by (rule getopt_words) (use assms(3) in simp)
  then show ?thesis
    using client_addmrp_eq [OF cmd_addmrp_wf [OF assms(1)] assms(2), of j p q outbuf] assms(1,4)
    by (cases "client_init a0") (simp add: client_main_def command_lookup_and_validate_def command_lookup_def commands_def run_command_def parsed_def
        return_of_def ctl_result_def)
qed

lemma client_main_del:
  assumes "cmd_delmrp ce (''delmrp'' # ws) = Inr (br, nr)" and "mrp_del e br nr d = Some (r, d')" and "\<forall>w \<in> set ws. take 1 w \<noteq> ''-''"
    and "fst (client_init a0) = 0"
  shows "client_main e ce a0 j pad outbuf (prog # ''delmrp'' # ws) d = Some (sint (word_of_int r :: u32), [], d')"
proof -
  have "getopt client_long client_spec (''delmrp'' # ws) = ([], ''delmrp'' # ws)" by (rule getopt_words) (use assms(3) in simp)
  then show ?thesis
    using client_delmrp_eq [OF assms(2), of j outbuf] assms(1,4)
    by (cases "client_init a0") (simp add: client_main_def command_lookup_and_validate_def command_lookup_def commands_def run_command_def parsed_def
        return_of_def ctl_result_def)
qed

text \<open>A command line that is not understood does not reach the daemon.\<close>

lemma client_main_refuses:
  assumes "cmd_addmrp ce (''addmrp'' # ws) = Inl err" and "err \<noteq> Overflow" and "\<forall>w \<in> set ws. take 1 w \<noteq> ''-''"
    and "fst (client_init a0) = 0"
  shows "\<exists>out. client_main e ce a0 j pad outbuf (prog # ''addmrp'' # ws) d = Some (- 1, out, d)"
proof -
  have "getopt client_long client_spec (''addmrp'' # ws) = ([], ''addmrp'' # ws)" by (rule getopt_words) (use assms(3) in simp)
  then show ?thesis
    using assms(1,2,4)
    by (cases "client_init a0"; cases err) (simp_all add: client_main_def command_lookup_and_validate_def command_lookup_def commands_def run_command_def parsed_def)
qed

end
