(* ===== verification/Mrp_Relay.thy ===== *)
theory Mrp_Relay
  imports Mrp_Inv_Recv
begin

text \<open>
  Which frames an instance relays.  \<open>passes\<close> is the relaying table as a specification: one line per
  kind of frame and role, in terms of the arrival port and the departure port.  The switches of
  \<open>mrp_check_and_forward\<close>, which strike out target variables one after another, implement it.
\<close>

section \<open>The relaying table\<close>

text \<open>The ring of a manager is closed when one of its ring ports does not forward.  \<open>cut\<close> says that
  interconnection frames do not cross from ring port to ring port.\<close>

definition ring_closed :: "st \<Rightarrow> bool" where
  "ring_closed s \<longleftrightarrow> \<not> (fwd (p_port (mrp s)) (port s) \<and> fwd (s_port (mrp s)) (port s))"

definition cut :: "u16 \<Rightarrow> st \<Rightarrow> bool" where
  "cut n s \<longleftrightarrow> (if ring_role (mrp s) = BR_MRP_RING_ROLE_MRM then ring_closed s
     else in_role (mrp s) \<noteq> BR_MRP_IN_ROLE_DISABLED \<and> in_id (mrp s) = n)"

text \<open>\<open>own\<close>: the frame carries the address of the instance.\<close>

definition ring_passes :: "mrp \<Rightarrow> br_mrp_tlv_header_type \<Rightarrow> port_ref option \<Rightarrow> port_ref option \<Rightarrow> bool" where
  "ring_passes m ty p r \<longleftrightarrow> ring_role m = BR_MRP_RING_ROLE_MRC \<and> p \<noteq> i_port m \<and> r \<noteq> i_port m \<and>
     (ty = BR_MRP_TLV_HEADER_OPTION \<longrightarrow> mra_support m)"

definition in_passes :: "mrp \<Rightarrow> bool \<Rightarrow> br_mrp_tlv_header_type \<Rightarrow> port_ref option \<Rightarrow> port_ref option \<Rightarrow> bool" where
  "in_passes m own ty p r \<longleftrightarrow> (case in_role m of
     BR_MRP_IN_ROLE_DISABLED \<Rightarrow> True
   | BR_MRP_IN_ROLE_MIM \<Rightarrow> p \<noteq> i_port m \<and> r \<noteq> i_port m \<and> (ty = BR_MRP_TLV_HEADER_IN_TEST \<longrightarrow> \<not> own)
   | BR_MRP_IN_ROLE_MIC \<Rightarrow>
       (if ty = BR_MRP_TLV_HEADER_IN_TEST then True
        else if ty = BR_MRP_TLV_HEADER_IN_TOPO then r \<noteq> i_port m
        else if ty = BR_MRP_TLV_HEADER_IN_LINK_STATUS then p \<noteq> i_port m \<and> r = i_port m
        else p \<noteq> i_port m))"

definition passes :: "br_mrp_in_test_hdr \<Rightarrow> br_mrp_tlv_header_type \<Rightarrow> st \<Rightarrow> port_ref option \<Rightarrow> port_ref option \<Rightarrow> bool" where
  "passes h ty s p r \<longleftrightarrow> r \<noteq> None \<and> r \<noteq> p \<and>
     (if mrp_is_ring_frame ty then ring_passes (mrp s) ty p r
      else if mrp_is_in_frame ty then
        in_passes (mrp s) (ether_addr_equal (it_sa h) (macaddr (mrp s))) ty p r \<and>
        (cut (ntohs (it_id h)) s \<longrightarrow> p = i_port (mrp s) \<or> r = i_port (mrp s))
      else True)"

section \<open>The switches implement the table\<close>

text \<open>A target variable holds the port that the table passes the frame to, or NULL.\<close>

definition target :: "br_mrp_in_test_hdr \<Rightarrow> br_mrp_tlv_header_type \<Rightarrow> st \<Rightarrow> port_ref option \<Rightarrow> port_ref option \<Rightarrow> port_ref option" where
  "target h ty s p r = (if passes h ty s p r then r else None)"

definition targets_of :: "targets option \<Rightarrow> targets" where
  "targets_of t = (case t of None \<Rightarrow> (None, None, None) | Some t \<Rightarrow> t)"

lemma ring_ports_cut_eq:
  assumes i: "mrp_inv K s"
  shows "ring_ports_cut q h s = Some (cut (ntohs (it_id h)) s \<and> mrp_is_ring_port q)"
proof -
  obtain a b where d: "deref (p_port (mrp s)) s = Some a" "pstate a = pst (p_port (mrp s)) (port s)"
    "deref (s_port (mrp s)) s = Some b" "pstate b = pst (s_port (mrp s)) (port s)"
    using live_deref [OF inv_facts(7) [OF i]] live_deref [OF inv_facts(8) [OF i]] by blast
  have "ring_role (mrp s) = BR_MRP_RING_ROLE_MRM \<or> ring_role (mrp s) = BR_MRP_RING_ROLE_MRC"
    using inv_ring [OF i] by (simp add: ring_inv_def)
  then show ?thesis
    by (auto simp: ring_ports_cut_def cut_def ring_closed_def d)
qed

lemma frame_kinds:
  "mrp_is_in_frame ty \<Longrightarrow> ty \<noteq> BR_MRP_TLV_HEADER_OPTION \<and> \<not> mrp_is_ring_frame ty"
  by (auto simp: mrp_is_ring_frame_def mrp_is_in_frame_def)

lemma arrival_port:
  assumes i: "mrp_inv K s" and q: "deref_mrp p s = Some q" and l: "live p (port s)"
  shows "mrp_is_ring_port q \<longleftrightarrow> p = p_port (mrp s) \<or> p = s_port (mrp s)"
    "p = i_port (mrp s) \<Longrightarrow> mrp_is_in_port q \<and> \<not> mrp_is_ring_port q"
    "mrp_is_ring_port q \<Longrightarrow> \<not> mrp_is_in_port q"
proof -
  obtain r where r: "p = Some r" "prole q = port_role_of r"
    using live_deref [OF l] q l by (auto simp: live_def)
  have c: "inst_ok s" by (rule inv_facts(1) [OF i])
  then show "mrp_is_ring_port q \<longleftrightarrow> p = p_port (mrp s) \<or> p = s_port (mrp s)"
    by (cases r) (auto simp: mrp_is_ring_port_def r core_ok_def)
  show "p = i_port (mrp s) \<Longrightarrow> mrp_is_in_port q \<and> \<not> mrp_is_ring_port q"
    using c by (auto simp: mrp_is_ring_port_def mrp_is_in_port_def r core_ok_def)
  show "mrp_is_ring_port q \<Longrightarrow> \<not> mrp_is_in_port q"
    by (auto simp: mrp_is_ring_port_def mrp_is_in_port_def)
qed

lemma forward_targets_eq:
  assumes i: "mrp_inv K s" and l: "live p (port s)"
    and p: "p \<in> {p_port (mrp s), s_port (mrp s), i_port (mrp s)}"
  shows "map_option targets_of (forward_targets p h ty s) =
    Some (target h ty s p (p_port (mrp s)), target h ty s p (s_port (mrp s)), target h ty s p (i_port (mrp s)))"
proof -
  obtain q where q: "deref_mrp p s = Some q" using live_deref [OF l] by blast
  have roles: "ring_role (mrp s) = BR_MRP_RING_ROLE_MRM \<or> ring_role (mrp s) = BR_MRP_RING_ROLE_MRC"
    using inv_ring [OF i] by (simp add: ring_inv_def)
  have some: "p_port (mrp s) \<noteq> None" "s_port (mrp s) \<noteq> None"
    using inv_facts(7,8) [OF i] by (auto simp: live_def)
  note facts = inv_facts(9-14) [OF i] some
  show ?thesis
  proof (cases "mrp_is_ring_frame ty")
    case True
    then show ?thesis
      using p roles facts
      by (auto simp: forward_targets_def q Let_def target_def passes_def ring_passes_def forward_ring_def
          forward_ways_def targets_of_def)
  next
    case nr: False
    show ?thesis
    proof (cases "mrp_is_in_frame ty")
      case True
      have f: "forward_targets p h ty s = Some (forward_in (mrp s) q h ty (let (fp, fs, fi) = forward_ways (mrp s) p in
          if cut (ntohs (it_id h)) s \<and> mrp_is_ring_port q then (None, None, fi) else (fp, fs, fi)))"
        by (simp add: forward_targets_def q nr True ring_ports_cut_eq [OF i] split: prod.splits)
      show ?thesis
        using p facts arrival_port [OF i q l] True unfolding f
        by (elim insertE emptyE; cases "in_role (mrp s)")
          (auto simp: Let_def forward_ways_def forward_in_def target_def passes_def in_passes_def nr mrp_is_in_frame_def targets_of_def)
    next
      case False
      then show ?thesis
        using p facts nr by (auto simp: forward_targets_def q Let_def target_def passes_def forward_ways_def targets_of_def)
    qed
  qed
qed

section \<open>What is sent\<close>

text \<open>The frame as it goes out: short frames are padded with the bytes that follow in the buffer.\<close>

definition outgoing :: "frame_buf \<Rightarrow> u8 list" where
  "outgoing fb = take (max 60 (unat (fb_size fb))) (fb_start fb)"

definition sends_on :: "u8 list \<Rightarrow> st \<Rightarrow> port_ref option \<Rightarrow> effect list" where
  "sends_on bs s r = (case deref r s of None \<Rightarrow> []
     | Some q \<Rightarrow> if poperstate q = IF_OPER_UP then [Packet_send (pifindex q) bs] else [])"

definition relayed :: "br_mrp_in_test_hdr \<Rightarrow> br_mrp_tlv_header_type \<Rightarrow> u8 list \<Rightarrow> st \<Rightarrow> port_ref option \<Rightarrow> effect list" where
  "relayed h ty bs s p = concat (map (\<lambda>r. if passes h ty s p r then sends_on bs s r else [])
     [p_port (mrp s), s_port (mrp s), i_port (mrp s)])"

lemma forward_to_eq:
  assumes "t = None \<or> live t (port s)" and fb: "rx_ok fb"
  shows "\<exists>fb'. forward_to t fb s = Some (fb', s\<lparr>log := log s @ sends_on (outgoing fb) s t\<rparr>) \<and>
    rx_ok fb' \<and> outgoing fb' = outgoing fb"
proof (cases t)
  case None
  then show ?thesis using fb by (auto simp: forward_to_def sends_on_def deref_def)
next
  case (Some r)
  let ?fb = "if fb_size fb < 60 then fb\<lparr>fb_size := fb_size fb + (60 - fb_size fb)\<rparr> else fb"
  obtain q where q: "deref t s = Some q" using live_deref assms(1) Some by blast
  have n: "unat (fb_size ?fb) = max 60 (unat (fb_size fb))"
    by (auto simp: word_less_nat_alt)
  have r: "rx_ok ?fb" "outgoing ?fb = outgoing fb" "fb_start ?fb = fb_start fb" "unat (fb_size ?fb) \<le> length (fb_start ?fb)"
    using fb n by (auto simp: rx_ok_def outgoing_def)
  have "forward_to t fb s = Some (?fb, s\<lparr>log := log s @ sends_on (outgoing fb) s t\<rparr>)"
    using r(4) by (simp add: forward_to_def Some mrp_forward_def Let_def q [unfolded Some] sends_on_def outgoing_def n [symmetric]
        packet_send_def emit_def del: max.bounded_iff)
  then show ?thesis using r by blast
qed

lemma sends_on_log [simp]: "sends_on bs (s\<lparr>log := l\<rparr>) r = sends_on bs s r"
  by (cases r) (simp_all add: sends_on_def deref_def)

lemma sends_on_target:
  "sends_on bs s (target h ty s p r) = (if passes h ty s p r then sends_on bs s r else [])"
  by (simp add: target_def sends_on_def deref_def)

lemma target_live:
  assumes "r \<noteq> None \<Longrightarrow> live r (port s)"
  shows "target h ty s p r = None \<or> live (target h ty s p r) (port s)"
  using assms by (cases r) (auto simp: target_def)

text \<open>Forwarding changes nothing but what is sent, and sends the received bytes exactly where the table
  says, once per port whose link is up.\<close>

lemma mrp_check_and_forward_eq:
  assumes i: "mrp_inv K s" and l: "live p (port s)" and fb: "rx_ok fb"
    and p: "p \<in> {p_port (mrp s), s_port (mrp s), i_port (mrp s)}"
  shows "\<exists>fb'. mrp_check_and_forward p fb ty s = Some (fb', s\<lparr>log := log s @
      relayed (mrp_get_in_test_hdr (drop (fb_data fb) (fb_start fb))) ty (outgoing fb) s p\<rparr>) \<and> rx_ok fb' \<and> outgoing fb' = outgoing fb"
proof -
  let ?h = "mrp_get_in_test_hdr (drop (fb_data fb) (fb_start fb))"
  let ?t = "target ?h ty s p"
  obtain t where t: "forward_targets p ?h ty s = Some t"
    and tt: "targets_of t = (?t (p_port (mrp s)), ?t (s_port (mrp s)), ?t (i_port (mrp s)))"
    using forward_targets_eq [OF i l p, of ?h ty] by auto
  have all: "mrp_check_and_forward p fb ty s = (case targets_of t of (fp, fs, fi) \<Rightarrow> do {
      (fb, s) \<leftarrow> forward_to fp fb s; (fb, s) \<leftarrow> forward_to fs fb s; forward_to fi fb s })"
    unfolding mrp_check_and_forward_def t
    by (cases t) (auto simp: targets_of_def forward_to_def [of None])
  have live: "live (p_port (mrp s)) (port s)" "live (s_port (mrp s)) (port s)" "i_port (mrp s) \<noteq> None \<Longrightarrow> live (i_port (mrp s)) (port s)"
    using inv_facts [OF i] core_okD(9) by blast+
  obtain f1 where f1: "forward_to (?t (p_port (mrp s))) fb s =
      Some (f1, s\<lparr>log := log s @ sends_on (outgoing fb) s (?t (p_port (mrp s)))\<rparr>)" "rx_ok f1" "outgoing f1 = outgoing fb"
    using forward_to_eq [OF target_live [OF live(1)] fb] by blast
  let ?s1 = "s\<lparr>log := log s @ sends_on (outgoing fb) s (?t (p_port (mrp s)))\<rparr>"
  obtain f2 where f2: "forward_to (?t (s_port (mrp s))) f1 ?s1 =
      Some (f2, s\<lparr>log := log ?s1 @ sends_on (outgoing fb) s (?t (s_port (mrp s)))\<rparr>)" "rx_ok f2" "outgoing f2 = outgoing fb"
    using forward_to_eq [where s = ?s1, OF _ f1(2), of "?t (s_port (mrp s))"] target_live [OF live(2)] f1(3) by auto
  let ?s2 = "s\<lparr>log := log ?s1 @ sends_on (outgoing fb) s (?t (s_port (mrp s)))\<rparr>"
  obtain f3 where f3: "forward_to (?t (i_port (mrp s))) f2 ?s2 =
      Some (f3, s\<lparr>log := log ?s2 @ sends_on (outgoing fb) s (?t (i_port (mrp s)))\<rparr>)" "rx_ok f3" "outgoing f3 = outgoing fb"
    using forward_to_eq [where s = ?s2, OF _ f2(2), of "?t (i_port (mrp s))"] target_live [OF live(3)] f2(3) by auto
  have "mrp_check_and_forward p fb ty s = Some (f3, s\<lparr>log := log ?s2 @ sends_on (outgoing fb) s (?t (i_port (mrp s)))\<rparr>)"
    unfolding all tt prod.case f1(1) Option.bind.simps f2(1) by (rule f3(1))
  also have "log ?s2 @ sends_on (outgoing fb) s (?t (i_port (mrp s))) = log s @ relayed ?h ty (outgoing fb) s p"
    by (simp add: relayed_def sends_on_target)
  finally show ?thesis using f3(2,3) by blast
qed

text \<open>What a frame never does: it does not go back to the port it came from, a manager passes no ring
  frame on, no ring frame crosses the interconnection port, and across a closed ring the manager
  passes interconnection frames from a ring port to the interconnection port only.\<close>

lemma passes_safe:
  assumes "passes h ty s p r"
  shows "r \<noteq> p" "mrp_is_ring_frame ty \<Longrightarrow> ring_role (mrp s) \<noteq> BR_MRP_RING_ROLE_MRM \<and> p \<noteq> i_port (mrp s) \<and> r \<noteq> i_port (mrp s)"
    "mrp_is_in_frame ty \<Longrightarrow> ring_role (mrp s) = BR_MRP_RING_ROLE_MRM \<Longrightarrow> ring_closed s \<Longrightarrow> p \<noteq> i_port (mrp s) \<Longrightarrow> r = i_port (mrp s)"
  using assms frame_kinds [of ty] by (auto simp: passes_def ring_passes_def cut_def split: if_splits)

lemma relayed_passes:
  assumes "x \<in> set (relayed h ty bs s p)"
  shows "\<exists>r q. port s r = Some q \<and> x = Packet_send (pifindex q) bs \<and> passes h ty s p (Some r)"
proof -
  obtain r where r: "passes h ty s p r" "x \<in> set (sends_on bs s r)"
    using assms by (auto simp: relayed_def split: if_splits)
  from r(2) obtain t q where "r = Some t" "port s t = Some q" "x = Packet_send (pifindex q) bs"
    by (cases r) (auto simp: sends_on_def deref_def split: option.splits if_splits dest: sym)
  with r(1) show ?thesis by blast
qed

lemma manager_keeps_ring_frames:
  assumes "deref_mrp p s = Some q" and "ring_role (mrp s) = BR_MRP_RING_ROLE_MRM" and "mrp_is_ring_frame ty"
  shows "mrp_check_and_forward p fb ty s = Some (fb, s)"
  using assms by (simp add: mrp_check_and_forward_def forward_targets_def forward_ring_def split: prod.splits)

end
