(* ===== verification/Mrp_Elect.thy ===== *)
theory Mrp_Elect
  imports Mrp_Relay Mrp_Protocol "HOL-Library.Product_Lexorder"
begin

text \<open>
  Test frames: the bytes that a manager sends are recognised when they come back around the ring,
  and close it; the test frames of different managers order them, so that the election of
  auto-managers has one winner.
\<close>

section \<open>Test frames on the wire\<close>

text \<open>\<open>bs\<close> is a test frame of the manager \<open>m\<close>, sent through some port at some time.\<close>

definition test_frame :: "mrp \<Rightarrow> u8 list \<Rightarrow> bool" where
  "test_frame m bs \<longleftrightarrow> (\<exists>q t sq uuid. length (pmacaddr q) = 6 \<and> length uuid = 16 \<and>
     bs = pad60 (eth (pmacaddr q) mrp_test_dmac @
       pdu (tlv_code BR_MRP_TLV_HEADER_RING_TEST) 18 (enc_rt (ring_test_hdr m t q)) sq uuid))"

lemma test_frameI:
  "length (pmacaddr q) = 6 \<Longrightarrow> length uuid = 16 \<Longrightarrow> test_frame m (pad60 (eth (pmacaddr q) mrp_test_dmac @
     pdu (tlv_code BR_MRP_TLV_HEADER_RING_TEST) 18 (enc_rt (ring_test_hdr m t q)) sq uuid))"
  unfolding test_frame_def by blast

lemma sent_test_frame:
  assumes p: "port_ok p s" and d: "length (domain (mrp s)) = 16"
    and s: "mrp_send_ring_test e p s = Some s'"
  shows "log s' = log s \<or> (\<exists>idx bs. log s' = log s @ [Packet_send idx bs] \<and> test_frame (mrp s) bs)"
proof -
  obtain q where q: "deref_mrp p s = Some q" "length (pmacaddr q) = 6"
    using port_okD [OF p] by blast
  show ?thesis
    using s test_frameI [OF q(2) d] unfolding mrp_send_ring_test_eq [OF p d] send_pdu_def
    by (auto simp: q(1) Let_def mrp_next_seq_def packet_send_def emit_def split: if_splits)
qed

lemma test_frame_parse:
  assumes "test_frame m bs" and "length (bs @ rest) = 2048"
  shows "length bs = 60" "tlv_of (tlv_type (mrp_get_tlv_hdr (drop 14 (bs @ rest)))) = BR_MRP_TLV_HEADER_RING_TEST"
    "\<exists>q t. dec_rt (drop 4 (take 46 (drop 14 bs) @ junk)) = ring_test_hdr m t q"
proof -
  obtain q t sq uuid where f: "length (pmacaddr q) = 6" "length uuid = 16"
    and bs: "bs = pad60 (eth (pmacaddr q) mrp_test_dmac @
       pdu (tlv_code BR_MRP_TLV_HEADER_RING_TEST) 18 (enc_rt (ring_test_hdr m t q)) sq uuid)"
    using assms(1) unfolding test_frame_def by blast
  have e: "length (eth (pmacaddr q) mrp_test_dmac) = 14" using f by (simp add: mrp_test_dmac_def)
  have p: "length (pdu (tlv_code BR_MRP_TLV_HEADER_RING_TEST) 18 (enc_rt (ring_test_hdr m t q)) sq uuid) = 44"
    using f by (simp add: length_pdu)
  show "length bs = 60" using e p by (simp add: bs pad60_def)
  show "tlv_of (tlv_type (mrp_get_tlv_hdr (drop 14 (bs @ rest)))) = BR_MRP_TLV_HEADER_RING_TEST"
    using e by (simp add: bs pad60_def pdu_def mrp_get_tlv_hdr_def dec_tlv_def tlv_of_def)
  have "take 46 (drop 14 bs) = pdu (tlv_code BR_MRP_TLV_HEADER_RING_TEST) 18 (enc_rt (ring_test_hdr m t q)) sq uuid @ [0, 0]"
    using e p by (simp add: bs pad60_def numeral_2_eq_2)
  then have "dec_rt (drop 4 (take 46 (drop 14 bs) @ junk)) = ring_test_hdr m t q"
    by (simp add: pdu_def rt.dec_enc_append)
  then show "\<exists>q t. dec_rt (drop 4 (take 46 (drop 14 bs) @ junk)) = ring_test_hdr m t q" by blast
qed

section \<open>Closing the ring\<close>

lemma mrp_mrm_recv_ring_test_closes:
  assumes i: "mrp_inv K s" and st: "mrm_state (mrp s) \<noteq> MRP_MRM_STATE_AC_STAT1" and c: "ring_test_conf_max (mrp s) = c"
  shows "ok (mrp_mrm_recv_ring_test e s) (\<lambda>s'. mrm_state (mrp s') = MRP_MRM_STATE_CHK_RC \<and>
    (mrm_state (mrp s) = MRP_MRM_STATE_CHK_RO \<longrightarrow> pst (s_port (mrp s')) (port s') = BR_MRP_PORT_STATE_BLOCKED) \<and>
    ring_test_curr (mrp s') = 0 \<and> ring_test_curr_max (mrp s') = c - 1 \<and> ring_role (mrp s') = ring_role (mrp s))"
  using st unfolding mrp_mrm_recv_ring_test_def
  by (cases "mrm_state (mrp s)")
    (simp_all add: Let_def, (rule wp conjI impI | simp add: inv_facts [OF i] ring_simps rearm_ring_test_def clear_no_tc_def c)+)

text \<open>A manager hears one of its own test frames on a ring port.\<close>

lemma own_test_frame:
  assumes i: "mrp_inv K s" and l: "\<not> lock (mrp s)" and e: "libev_timers e" and p: "p \<in> {p_port (mrp s), s_port (mrp s)}"
    and r: "ring_role (mrp s) = BR_MRP_RING_ROLE_MRM" and st: "mrm_state (mrp s) \<noteq> MRP_MRM_STATE_AC_STAT1"
    and en: "pst p (port s) \<noteq> BR_MRP_PORT_STATE_DISABLED"
    and f: "test_frame m bs" "macaddr m = macaddr (mrp s)" "length (bs @ rest) = 2048"
  shows "ok (mrp_recv_port e p (bs @ rest) (of_nat (length bs)) s) (\<lambda>s'. mrm_state (mrp s') = MRP_MRM_STATE_CHK_RC \<and>
    (mrm_state (mrp s) = MRP_MRM_STATE_CHK_RO \<longrightarrow> pst (s_port (mrp s')) (port s') = BR_MRP_PORT_STATE_BLOCKED) \<and>
    ring_test_curr (mrp s') = 0 \<and> ring_test_curr_max (mrp s') = ring_test_conf_max (mrp s) - 1 \<and>
    ring_role (mrp s') = BR_MRP_RING_ROLE_MRM)"
proof -
  let ?fb = "\<lparr>fb_start = bs @ rest, fb_data = 14, fb_size = of_nat (length bs)\<rparr>"
  let ?s = "s\<lparr>mrp := (mrp s)\<lparr>lock := True\<rparr>\<rparr>"
  note tf = test_frame_parse [OF f(1,3)]
  have lp: "live p (port s)" using p inv_facts(7,8) [OF i] by blast
  obtain q where q: "deref p s = Some q" "deref_mrp p s = Some q" "pstate q = pst p (port s)" "pmrp q"
    using live_deref [OF lp] by blast
  have nodrop: "\<not> mrp_should_drop q BR_MRP_TLV_HEADER_RING_TEST"
    using arrival_port(1,3) [OF i q(2) lp] p q en by (auto simp: mrp_should_drop_def mrp_is_mrp_port_def)
  have ql: "deref_mrp p ?s = Some q" using q(2) by (cases p) (simp_all add: deref_mrp_def deref_def)
  have il: "mrp_inv (relock True K) ?s" by (rule inv_relock [OF i])
  have fw: "mrp_check_and_forward p ?fb BR_MRP_TLV_HEADER_RING_TEST ?s = Some (?fb, ?s)"
    by (rule manager_keeps_ring_frames [OF ql]) (use r in \<open>simp_all add: mrp_is_ring_frame_def\<close>)
  obtain junk where cp: "copy_frame e ?fb = Some (take 46 (drop 14 bs) @ junk)"
    using tf(1) f(3) by (simp add: copy_frame_def Let_def)
  obtain q' t where h: "dec_rt (drop 4 (take 46 (drop 14 bs) @ junk)) = ring_test_hdr m t q'"
    using tf(3) by blast
  have own: "mrp_recv_ring_test e p (take 46 (drop 14 bs) @ junk) ?s = mrp_mrm_recv_ring_test e ?s"
    using h f(2) inv_facts(1) [OF i] by (simp add: mrp_recv_ring_test_def Let_def ql ring_test_hdr_def core_ok_def)
  have "mrp_recv_port e p (bs @ rest) (of_nat (length bs)) s = map_option mrp_unlock (mrp_mrm_recv_ring_test e ?s)"
    using tf(2) nodrop
    by (simp add: mrp_recv_port_def q(1) mrp_process_frame_def q(2) mrp_lock_def l fw cp r own Let_def
        map_conv_bind_option comp_def del: drop_append)
  then show ?thesis
    using mrp_mrm_recv_ring_test_closes [OF il, of "ring_test_conf_max (mrp s)" e] st r
    by (simp add: ok_def mrp_unlock_def) force
qed

text \<open>The manager then tolerates all but one of the configured number of lost test frames.\<close>

lemma own_test_rearms:
  assumes i: "mrp_inv K s" and l: "\<not> lock (mrp s)" and e: "libev_timers e" and p: "p \<in> {p_port (mrp s), s_port (mrp s)}"
    and r: "ring_role (mrp s) = BR_MRP_RING_ROLE_MRM" and st: "mrm_state (mrp s) \<noteq> MRP_MRM_STATE_AC_STAT1"
    and en: "pst p (port s) \<noteq> BR_MRP_PORT_STATE_DISABLED"
    and f: "test_frame m bs" "macaddr m = macaddr (mrp s)" "length (bs @ rest) = 2048"
    and c: "unat (ring_test_conf_max (mrp s)) = Suc n"
  shows "ok (mrp_recv_port e p (bs @ rest) (of_nat (length bs)) s) (watching K n)"
proof -
  have lp: "live p (port s)" using p inv_facts(7,8) [OF i] by blast
  have n: "unat (of_nat (length bs) :: u32) = 60" using test_frame_parse(1) [OF f(1,3)] by simp
  have inv: "ok (mrp_recv_port e p (bs @ rest) (of_nat (length bs)) s) (\<lambda>s. mrp_inv K s \<and> \<not> lock (mrp s))"
    by (rule mrp_recv_port_inv [OF i l e lp f(3)]) (simp_all add: n)
  show ?thesis
    by (rule ok_mono [OF ok_conj [OF own_test_frame [OF i l e p r st en f] inv]])
      (use unat_pred [OF c] in \<open>simp add: watching_def\<close>)
qed

section \<open>Recovery times\<close>

text \<open>The time that gives a profile its name, in microseconds.\<close>

fun recovery_us :: "mrp_ring_recovery_type \<Rightarrow> nat" where
  "recovery_us MRP_RING_RECOVERY_500 = 500000"
| "recovery_us MRP_RING_RECOVERY_200 = 200000"
| "recovery_us MRP_RING_RECOVERY_30 = 30000"
| "recovery_us MRP_RING_RECOVERY_10 = 10000"
| "recovery_us (MRP_RING_RECOVERY_OTHER n) = 0"

fun in_recovery_us :: "mrp_in_recovery_type \<Rightarrow> nat" where
  "in_recovery_us MRP_IN_RECOVERY_500 = 500000"
| "in_recovery_us MRP_IN_RECOVERY_200 = 200000"
| "in_recovery_us (MRP_IN_RECOVERY_OTHER n) = 0"

lemma unat_scale:
  assumes "unat (f :: u32) \<le> 42949" and "unat (c :: u32) \<le> 100000"
  shows "unat (c * f) = unat c * unat f"
proof -
  have "unat c * unat f \<le> 100000 * 42949" by (rule mult_le_mono [OF assms(2,1)])
  then have "unat c * unat f < 2 ^ LENGTH(32)" by simp
  then show ?thesis by (rule iffD1 [OF unat_mult_lem])
qed

text \<open>Losing the configured number of test frames and announcing the change that many times takes less
  than the recovery time, scaled by the time factor; up to a factor of 42949 no interval wraps.\<close>

lemma ring_recovery_bound:
  fixes m :: mrp and ir :: mrp_in_recovery_type
  assumes "recovery_us r \<noteq> 0" and "0 < unat (time_factor e)" and "unat (time_factor e) \<le> 42949"
  defines "m' \<equiv> mrp_update_recovery e r ir m"
  shows "unat (ring_test_conf_max m') * unat (ring_test_conf_interval m') +
      unat (ring_topo_conf_max m') * unat (ring_topo_conf_interval m') < recovery_us r * unat (time_factor e)"
  using assms(1,2) unfolding m'_def
  by (cases r; cases ir) (simp_all add: mrp_update_recovery_def Let_def ms_def unat_scale [OF assms(3)])

lemma in_recovery_bound:
  fixes m :: mrp and r :: mrp_ring_recovery_type
  assumes "in_recovery_us ir \<noteq> 0" and "0 < unat (time_factor e)" and "unat (time_factor e) \<le> 42949"
  defines "m' \<equiv> mrp_update_recovery e r ir m"
  shows "unat (in_test_conf_max m') * unat (in_test_conf_interval m') +
      unat (in_topo_conf_max m') * unat (in_topo_conf_interval m') < in_recovery_us ir * unat (time_factor e)"
  using assms(1,2) unfolding m'_def
  by (cases r; cases ir) (simp_all add: mrp_update_recovery_def Let_def ms_def unat_scale [OF assms(3)])

section \<open>Election\<close>

text \<open>\<open>a\<close> beats \<open>b\<close>: \<open>b\<close> finds the test frames of \<open>a\<close> better than its own.\<close>

definition beats :: "mrp \<Rightarrow> mrp \<Rightarrow> bool" where
  "beats a b \<longleftrightarrow> (\<exists>t q. mrp_better_than_own b (ring_test_hdr a t q))"

text \<open>The order as a specification: the pair of priority and address, ordered lexicographically; the
  lower pair wins.\<close>

definition rank :: "mrp \<Rightarrow> nat \<times> nat" where
  "rank m = (unat (prio m), unat (ether_addr_to_u64 (macaddr m)))"

lemma beats_iff:
  assumes "length (macaddr a) = 6"
  shows "beats a b \<longleftrightarrow> rank a < rank b"
    "mrp_better_than_own b (ring_test_hdr a t q) \<longleftrightarrow> beats a b"
  using assms by (auto simp: beats_def mrp_better_than_own_def Let_def ring_test_hdr_def rank_def less_prod_def' word_less_nat_alt word_unat_eq_iff)

lemma rank_inj:
  assumes "length (macaddr a) = 6" and "length (macaddr b) = 6" and "rank a = rank b"
  shows "macaddr a = macaddr b"
  using assms ether_addr_to_u64_inj [of "macaddr a" "macaddr b"] by (simp add: rank_def word_unat_eq_iff)

text \<open>Among managers of one ring with different addresses there is exactly one that no other beats, and
  it beats every other.\<close>

lemma election:
  assumes fin: "finite M" and ne: "M \<noteq> {}" and len: "\<And>m. m \<in> M \<Longrightarrow> length (macaddr m) = 6"
    and inj: "inj_on macaddr M"
  shows "\<exists>!w. w \<in> M \<and> (\<forall>m \<in> M. m \<noteq> w \<longrightarrow> beats w m)"
proof -
  have inj_rank: "a = b" if "a \<in> M" "b \<in> M" "rank a = rank b" for a b
    using rank_inj [OF len len] inj_onD [OF inj] that by blast
  obtain w where w: "w \<in> M" "\<forall>m \<in> M. rank w \<le> rank m"
    using ex_min_if_finite [of "rank ` M"] fin ne by (auto simp: not_less)
  show ?thesis
  proof (rule ex1I [of _ w])
    show "w \<in> M \<and> (\<forall>m \<in> M. m \<noteq> w \<longrightarrow> beats w m)"
      using w inj_rank beats_iff(1) [OF len] by (metis order_le_less)
    show "v = w" if "v \<in> M \<and> (\<forall>m \<in> M. m \<noteq> v \<longrightarrow> beats v m)" for v
      using that w beats_iff(1) [OF len] by (metis not_le)
  qed
qed

end
