(* ===== verification/Mrp_Example.thy ===== *)
theory Mrp_Example
  imports Mrp_Add Mrp_Main Mrp_Elect
begin

text \<open>
  Concrete inputs for the witnesses: an environment in which every allocation succeeds, every
  interface exists and has a link, the interface driver accepts every request and the timers
  behave as libev documents; instances in the roles of manager and client; and the arguments
  of an \<open>addmrp\<close> command.
\<close>

section \<open>Environment\<close>

definition demo_mac :: ether where
  "demo_mac = [0x02, 0, 0, 0, 0, 0x11]"

definition demo_env :: env where
  "demo_env = \<lparr>
     malloc_ok = (\<lambda>_ _. True), sizeof_mrp = 1000, sizeof_mrp_port = 64, sizeof_maid_data = 48,
     clock = (\<lambda>_. \<lparr>tv_sec = 5, tv_nsec = 0\<rparr>),
     if_indextoname = (\<lambda>_. Some ''eth''),
     ioctl_hwaddr = (\<lambda>_ _. Some demo_mac), ioctl_flags = (\<lambda>_ _. Some 0x41),
     drv_ret = (\<lambda>_ _. 0),
     ev_init = (\<lambda>w. w\<lparr>active := False\<rparr>), ev_timer_again = (\<lambda>w. w\<lparr>active := (repeat w \<noteq> 0)\<rparr>),
     ev_timer_stop = (\<lambda>w. w\<lparr>active := False\<rparr>),
     stack_byte = (\<lambda>_. 0), time_factor = 1\<rparr>"

lemma demo_env_libev: "libev_timers demo_env"
  by (simp add: libev_timers_def demo_env_def)

lemma demo_env_hwaddr: "hwaddr_ok demo_env"
  by (simp add: hwaddr_ok_def demo_env_def demo_mac_def)

section \<open>Instances\<close>

definition demo_port :: "br_mrp_port_role_type \<Rightarrow> br_mrp_port_state_type \<Rightarrow> u32 \<Rightarrow> mrp_port" where
  "demo_port role x idx = \<lparr>pmrp = True, pstate = x, prole = role, pifindex = idx, pifname = ''eth'',
     pmacaddr = demo_mac, poperstate = IF_OPER_UP\<rparr>"

text \<open>A manager of a closed ring: the secondary port is blocked and the test timer runs.\<close>

definition demo_mrm :: st where
  "demo_mrm = \<lparr>
     mrp = (set_ring_profile MRP_RING_RECOVERY_500 mrp_zero)\<lparr>ifindex := 1, ring_nr := 1, macaddr := demo_mac,
       p_port := Some PORT_PRIMARY, s_port := Some PORT_SECONDARY, ring_role := BR_MRP_RING_ROLE_MRM,
       mrm_state := MRP_MRM_STATE_CHK_RC, blocked := 1, prio := 0x8000,
       ring_test_work := \<lparr>repeat = 50000, active = True\<rparr>\<rparr>,
     port = [PORT_PRIMARY \<mapsto> demo_port BR_MRP_PORT_ROLE_PRIMARY BR_MRP_PORT_STATE_FORWARDING 2,
             PORT_SECONDARY \<mapsto> demo_port BR_MRP_PORT_ROLE_SECONDARY BR_MRP_PORT_STATE_BLOCKED 3],
     log = []\<rparr>"

text \<open>A client that passes frames between its two ring ports, and is the interconnection manager of
  a closed interconnection.\<close>

definition demo_mrc :: st where
  "demo_mrc = \<lparr>
     mrp = (set_in_profile MRP_IN_RECOVERY_500 (set_ring_profile MRP_RING_RECOVERY_500 mrp_zero))\<lparr>
       ifindex := 1, ring_nr := 1, macaddr := demo_mac, in_id := 7,
       p_port := Some PORT_PRIMARY, s_port := Some PORT_SECONDARY, i_port := Some PORT_INTER,
       ring_role := BR_MRP_RING_ROLE_MRC, mrc_state := MRP_MRC_STATE_PT_IDLE,
       in_role := BR_MRP_IN_ROLE_MIM, mim_state := MRP_MIM_STATE_CHK_IC,
       blocked := 1, prio := 0x8000, in_test_work := \<lparr>repeat = 50000, active = True\<rparr>\<rparr>,
     port = [PORT_PRIMARY \<mapsto> demo_port BR_MRP_PORT_ROLE_PRIMARY BR_MRP_PORT_STATE_FORWARDING 2,
             PORT_SECONDARY \<mapsto> demo_port BR_MRP_PORT_ROLE_SECONDARY BR_MRP_PORT_STATE_FORWARDING 3,
             PORT_INTER \<mapsto> demo_port BR_MRP_PORT_ROLE_INTER BR_MRP_PORT_STATE_BLOCKED 4],
     log = []\<rparr>"

lemmas demo_defs = demo_mrm_def demo_mrc_def demo_port_def mrp_zero_def timer_zero_def demo_mac_def

lemma demo_mrm_inv: "mrp_inv (cfg (mrp demo_mrm)) demo_mrm"
  by (simp add: mrp_inv_def demo_defs core_ok_def slot_ok_def ring_inv_def in_inv_def mode_inv_def pst_def)

lemma demo_mrc_inv: "mrp_inv (cfg (mrp demo_mrc)) demo_mrc"
  by (simp add: mrp_inv_def demo_defs core_ok_def slot_ok_def ring_inv_def in_inv_def mode_inv_def pst_def)

lemma demo_unlocked: "\<not> lock (mrp demo_mrm)" "\<not> lock (mrp demo_mrc)"
  by (simp_all add: demo_defs)

section \<open>Frames and commands\<close>

text \<open>A receive buffer holding an MRP_Test frame of the given sender.\<close>

definition demo_test_frame :: "ether \<Rightarrow> u8 list" where
  "demo_test_frame sa = (let fr = eth sa mrp_test_dmac @
       pdu (tlv_code BR_MRP_TLV_HEADER_RING_TEST) 18 (enc_rt \<lparr>rt_prio = cpu_to_be16 0x8000, rt_sa = sa,
         rt_port_role = cpu_to_be16 0, rt_state = cpu_to_be16 1, rt_transitions = cpu_to_be16 0, rt_timestamp = cpu_to_be32 0\<rparr>) 1 (replicate 16 0xFF)
     in fr @ replicate (2048 - length fr) 0)"

definition demo_args :: add_args where
  "demo_args = \<lparr>a_br = 1, a_ring_nr = 1, a_pport = 2, a_sport = 3, a_ring_role = 2, a_prio = 0x8000,
     a_ring_recv = 0, a_react_on_link_change = 1, a_in_role = 0, a_in_id = 0, a_iport = 0, a_in_mode = 0,
     a_in_recv = 0, a_cfm_instance = 0, a_cfm_level = 0, a_cfm_mepid = 0, a_cfm_peer_mepid = 0,
     a_cfm_maid = replicate 48 0, a_cfm_dmac = replicate 6 0\<rparr>"

lemma length_demo_test_frame [simp]: "length sa = 6 \<Longrightarrow> length (demo_test_frame sa) = 2048"
  by (simp add: demo_test_frame_def Let_def eth_def pdu_def enc_rt_def mrp_test_dmac_def)

lemma demo_args_ok: "args_ok e demo_args"
  by (simp add: args_ok_def demo_args_def in_mode_of_def)

lemma demo_test_frame_own: "test_frame (mrp demo_mrm) (take 60 (demo_test_frame demo_mac))"
proof -
  let ?q = "demo_port BR_MRP_PORT_ROLE_PRIMARY BR_MRP_PORT_STATE_FORWARDING 2"
  let ?f = "eth demo_mac mrp_test_dmac @ pdu (tlv_code BR_MRP_TLV_HEADER_RING_TEST) 18 (enc_rt (ring_test_hdr (mrp demo_mrm) 0 ?q)) 1 (replicate 16 0xFF)"
  have h: "ring_test_hdr (mrp demo_mrm) 0 ?q = \<lparr>rt_prio = cpu_to_be16 0x8000, rt_sa = demo_mac,
      rt_port_role = cpu_to_be16 0, rt_state = cpu_to_be16 1, rt_transitions = cpu_to_be16 0, rt_timestamp = cpu_to_be32 0\<rparr>"
    by (simp add: ring_test_hdr_def demo_defs)
  have n: "length ?f = 58" by (simp add: length_pdu demo_mac_def mrp_test_dmac_def)
  have "demo_test_frame demo_mac = ?f @ replicate (2048 - length ?f) 0"
    by (simp only: demo_test_frame_def Let_def h)
  then have "take 60 (demo_test_frame demo_mac) = pad60 ?f"
    using n by (simp add: pad60_def)
  moreover have "test_frame (mrp demo_mrm) (pad60 ?f)"
    using test_frameI [of ?q "replicate 16 0xFF" "mrp demo_mrm" 0 1] by (simp add: demo_port_def demo_mac_def)
  ultimately show ?thesis by simp
qed

text \<open>A client that reports a recovered link.\<close>

definition demo_reporting :: st where
  "demo_reporting = demo_mrm\<lparr>mrp := (mrp demo_mrm)\<lparr>ring_role := BR_MRP_RING_ROLE_MRC, mrc_state := MRP_MRC_STATE_PT,
     ring_link_curr_max := 4, ring_link_up_work := \<lparr>repeat = 100000, active = True\<rparr>\<rparr>\<rparr>"

lemma demo_reporting_4: "reporting (cfg (mrp demo_reporting)) 4 demo_reporting"
  by (simp add: reporting_def demo_reporting_def mrp_inv_def demo_defs ms_def core_ok_def slot_ok_def ring_inv_def in_inv_def
      mode_inv_def pst_def)

section \<open>A daemon with one instance\<close>

lemma demo_env_obliging: "obliging demo_env"
  by (simp add: obliging_def demo_env_def)

definition demo_d :: daemon where
  "demo_d = (case mrp_add demo_env demo_args daemon_init of None \<Rightarrow> daemon_init | Some (_, d) \<Rightarrow> d)"

lemma demo_add: "mrp_add demo_env demo_args daemon_init = Some (0, demo_d)" "daemon_inv demo_d" "keys demo_d = [(1, 1)]"
proof -
  have k: "keys daemon_init = []" by (simp add: daemon_init_def keys_def cfgs_def)
  have a: "a_br demo_args = 1" "a_ring_nr demo_args = 1" by (simp_all add: demo_args_def)
  have "role_port demo_args" by (simp add: role_port_def demo_args_def)
  then have "\<exists>d'. mrp_add demo_env demo_args daemon_init = Some (0, d') \<and> daemon_inv d' \<and> keys d' = [(1, 1)]"
    using mrp_add_succeeds [OF daemon_inv_init demo_env_libev demo_env_hwaddr demo_args_ok _ demo_env_obliging]
    by (simp add: k a)
  then show "mrp_add demo_env demo_args daemon_init = Some (0, demo_d)" "daemon_inv demo_d" "keys demo_d = [(1, 1)]"
    by (auto simp: demo_d_def)
qed

lemma demo_insts: "insts demo_d = [hd (insts demo_d)]" "ikey (hd (insts demo_d)) = (1, 1)"
  using demo_add(3) by (auto simp: keys_ikey)

lemma demo_wf_args: "wf_args demo_args"
  by (simp add: wf_args_def demo_args_def)

lemma demo_rc_args: "rc_args demo_args"
  by (simp add: rc_args_def demo_args_def in_mode_of_def)

definition demo_request :: "u8 list" where
  "demo_request = enc_hdr (request_hdr CMD_CODE_addmrp 124 0 0) @ addmrp_COPY_IN [0, 0] demo_args"

lemma demo_request_parts: "dec_hdr demo_request = request_hdr CMD_CODE_addmrp 124 0 0" "addmrp_CALL (drop 16 demo_request) = demo_args"
  using addmrp_IN.dec_enc [OF demo_wf_args] hdr.enc_length [of "request_hdr CMD_CODE_addmrp 124 0 0"]
  by (simp_all add: demo_request_def hdr.dec_enc_append)

lemma demo_ctl_ok: "ctl_ok demo_env True demo_request d"
  using demo_args_ok demo_rc_args
  by (simp add: ctl_ok_def demo_request_parts request_hdr_def CMD_CODE_addmrp_def CMD_CODE_getmrp_def)

lemma demo_control: "map_option (\<lambda>(_, _, d). d) (ctl_rcv_handler demo_env demo_request 0 [] daemon_init) = Some demo_d"
proof -
  have n: "length (addmrp_COPY_IN [0, 0] demo_args) = 124" by (rule addmrp_IN.enc_length [OF demo_wf_args])
  have c: "addmrp_CALL (addmrp_COPY_IN [0, 0] demo_args) = demo_args" by (rule addmrp_IN.dec_enc [OF demo_wf_args])
  have "handle_message demo_env CMD_CODE_addmrp (addmrp_COPY_IN [0, 0] demo_args) 124 [] 0 daemon_init = Some (0, [], demo_d)"
    by (simp add: handle_message_def sizeof_addmrp_IN_def c CTL_addmrp_def demo_add(1))
  then show ?thesis
    using ctl_request [of "addmrp_COPY_IN [0, 0] demo_args" 0 CMD_CODE_addmrp demo_env 0 "[]" daemon_init]
    by (simp add: demo_request_def n CMD_CODE_addmrp_def Let_def)
qed

lemma demo_step: "step demo_env True daemon_init (Some demo_d)"
  using step.control [OF demo_ctl_ok, where flags = 0 and outbuf = "[]" and d = daemon_init] by (simp only: demo_control)

lemma demo_reachable: "reachable demo_env True demo_d"
  by (rule reachable.step [OF reachable.init demo_step])

section \<open>Link notifications\<close>

text \<open>A notification of the kernel about interface \<open>idx\<close> with the given attributes.\<close>

definition demo_link :: "u32 \<Rightarrow> attr list \<Rightarrow> u8 list" where
  "demo_link idx as = mem32 (of_nat (32 + length (enc_attrs as))) @ mem16 RTM_NEWLINK @ mem16 0 @ mem32 0 @ mem32 0 @
     [AF_BRIDGE, 0] @ mem16 0 @ mem32 idx @ mem32 0 @ mem32 0 @ enc_attrs as"

lemma demo_link_reads:
  assumes a: "\<forall>a \<in> set as. attr_ok a" and n: "length (enc_attrs as) < 1000"
  shows "rd32 (demo_link idx as @ rest) 0 = Some (of_nat (32 + length (enc_attrs as)))" "rd16 (demo_link idx as @ rest) 4 = Some RTM_NEWLINK"
    "rd8 (demo_link idx as @ rest) 16 = Some AF_BRIDGE"
    "link_table (demo_link idx as @ rest) 0 (of_nat (32 + length (enc_attrs as))) =
       Some (\<lambda>t. if t \<le> IFLA_MAX then first_attr NLA_F_NESTED t 32 as else None)"
proof -
  show "rd32 (demo_link idx as @ rest) 0 = Some (of_nat (32 + length (enc_attrs as)))"
    by (simp add: demo_link_def rd32_def rdn_def)
  show "rd16 (demo_link idx as @ rest) 4 = Some RTM_NEWLINK" by (simp add: demo_link_def rd16_def rdn_def)
  show "rd8 (demo_link idx as @ rest) 16 = Some AF_BRIDGE" by (simp add: demo_link_def rd8_def rdn_def)
  let ?h = "take 32 (demo_link idx as)"
  have l: "length ?h = 32" and s: "demo_link idx as @ rest = ?h @ enc_attrs as @ rest" by (simp_all add: demo_link_def)
  have "unat (of_nat (length (enc_attrs as)) :: u32) = length (enc_attrs as)" using n by (simp add: unat_of_nat)
  then have "sint (of_nat (length (enc_attrs as)) :: u32) = int (length (enc_attrs as))"
    using n sint_small [of "of_nat (length (enc_attrs as)) :: u32"] by simp
  then show "link_table (demo_link idx as @ rest) 0 (of_nat (32 + length (enc_attrs as))) =
       Some (\<lambda>t. if t \<le> IFLA_MAX then first_attr NLA_F_NESTED t 32 as else None)"
    using parse_rtattr_flags_enc [OF a, of IFLA_MAX "IFLA_MAX + 1" ?h rest NLA_F_NESTED]
    unfolding link_table_def s l by simp
qed

text \<open>The link of a port goes down.\<close>

definition demo_link_down :: "u8 list" where
  "demo_link_down = demo_link 2 [(3, [101, 0]), (10, mem32 1), (16, [2])]"

lemma demo_link_down_ok: "gram_ok link_ok 2048 (Rcv demo_link_down True False)"
proof -
  let ?as = "[(3, [101, 0]), (10, mem32 1), (16, [2])] :: attr list"
  have ok: "\<forall>a \<in> set ?as. attr_ok a" by (simp add: attr_ok_def)
  have n: "length (enc_attrs ?as) = 24" by (simp add: RTA_ALIGN_def)
  have l: "length demo_link_down = 56" by (simp add: demo_link_down_def demo_link_def RTA_ALIGN_def)
  note rd = demo_link_reads [OF ok, unfolded n, of 2, folded demo_link_down_def, simplified]
  have q: "quiet (demo_link_down @ rest) 0" for rest
    by (simp add: quiet_def rd cfm_peers_def IFLA_AF_SPEC_def NLA_F_NESTED_def)
  have o: "nl_offsets (demo_link_down @ rest) 0 56 = Some [0]" for rest
    by (subst nl_offsets.simps, simp add: rd NLMSG_ALIGN_def Let_def) (subst nl_offsets.simps, simp)
  show ?thesis
    unfolding gram_ok_def by (simp add: l link_ok_def q o msg_fits_def rd)
qed

text \<open>A report of the state of a peer.\<close>

definition demo_peer_report :: "u8 list" where
  "demo_peer_report = demo_link 2 [(3, [101, 0]),
     (26, enc_attr (5 OR 0x8000, enc_attr (16 OR 0x8000, enc_attr (1, mem32 1))))] @ replicate 16 0"

lemma demo_peer_report_not_quiet: "\<not> quiet demo_peer_report 0"
  by code_simp

lemma demo_peer_report_link: "msg_fits demo_peer_report 0" "\<not> ignored demo_peer_report 0"
proof -
  let ?as = "[(3, [101, 0]), (26, enc_attr (5 OR 0x8000, enc_attr (16 OR 0x8000, enc_attr (1, mem32 1))))] :: attr list"
  have ok: "\<forall>a \<in> set ?as. attr_ok a" by (simp add: attr_ok_def RTA_ALIGN_def)
  have n: "length (enc_attrs ?as) = 28" by (simp add: RTA_ALIGN_def)
  have l: "length demo_peer_report = 76" by (simp add: demo_peer_report_def demo_link_def RTA_ALIGN_def)
  note rd = demo_link_reads [OF ok, unfolded n, of 2 "replicate 16 0", folded demo_peer_report_def, simplified]
  show "msg_fits demo_peer_report 0" by (simp add: msg_fits_def rd l)
  show "\<not> ignored demo_peer_report 0"
    by (auto simp: ignored_def rd NLMSG_DONE_def RTM_NEWLINK_def IFLA_IFNAME_def IFLA_MAX_def NLA_F_NESTED_def)
qed

section \<open>Programs\<close>

definition demo_cenv :: cenv where
  "demo_cenv = \<lparr>c_nametoindex = (\<lambda>s. if s = ''br0'' then 1 else if s = ''eth0'' then 2 else if s = ''eth1'' then 3 else 0),
     c_indextoname = (\<lambda>_. None), c_junk = (\<lambda>_. 0)\<rparr>"

definition demo_csys :: csys where
  "demo_csys = \<lparr>c_fd = 3, c_bind = 0, c_connect = 0, c_error = []\<rparr>"

lemma demo_command:
  "cmd_addmrp demo_cenv [''addmrp'', ''bridge'', ''br0'', ''ring_nr'', ''1'', ''pport'', ''eth0'', ''sport'', ''eth1'', ''ring_role'', ''mrm''] =
    Inr demo_args"
proof -
  have "atoi ''1'' = 1" by code_simp
  moreover have "map (\<lambda>_. 0 :: u8) [8..<8 + 48] = replicate 48 0" "map (\<lambda>_. 0 :: u8) [0..<6] = replicate 6 0"
    by (simp_all add: numeral_eq_Suc)
  ultimately show ?thesis
    by (simp add: cmd_addmrp_def addmrp_arg_def addmrp_defaults_def demo_cenv_def demo_args_def valid_ring_role_def ring_role_int_def
        CFM_MAID_LENGTH_def add_args.defs MRP_DEFAULT_PRIO_def)
qed

definition demo_sys :: sys where
  "demo_sys = \<lparr>ctl_fd = 3, ctl_bind = 0, dbus_bus = True, dbus_name = True, rtnl_open_ret = 0, netsock = 5, ifdriver_ret = 0, cfm_ret = 0,
     packet_fd = 6, packet_filter = 0, packet_ignore = 0, packet_prio = 0, packet_nonblock = 0\<rparr>"

text \<open>A negative time factor is accepted.\<close>

lemma demo_start: "fst (server_start demo_sys [''mrp_server'', ''-T'', ''-1'']) = Run (- 1) 0"
proof -
  have "server_options (fst (getopt (\<lambda>_. []) server_spec [''-T'', ''-1''])) 1 0 = Run (- 1) 0" by code_simp
  then show ?thesis by (simp add: start_defs demo_sys_def)
qed

end
