(* ===== verification/Mrp_Process.thy ===== *)
theory Mrp_Process
  imports Mrp_Main
begin

text \<open>
  What the two processes are to the system: the addresses of their control sockets (\<^verbatim>\<open>utils.h\<close>, \<^verbatim>\<open>server_socket.c\<close>,
  \<^verbatim>\<open>mrp.c\<close>), the descriptor of the client, the reaction of the server to signals (\<^verbatim>\<open>mrp_server.c\<close>), and the
  clock in milliseconds (\<^verbatim>\<open>utils.c\<close>).
\<close>

section \<open>Addresses of the control sockets\<close>

text \<open>\<open>struct sockaddr_un\<close>: the family and 108 characters.  The name is copied behind a first zero, which puts it
  into the abstract name space; copying a name that does not fit is \<open>None\<close>.\<close>

record sockaddr_un =
  sun_family :: u16
  sun_path :: "char list"

definition UNIX_PATH_MAX :: nat where "UNIX_PATH_MAX = 108"
definition AF_UNIX :: u16 where "AF_UNIX = 1"
definition ZERO :: char where "ZERO = CHR 0x00"

definition set_socket_address :: "string \<Rightarrow> sockaddr_un option" where
  "set_socket_address name =
    (if UNIX_PATH_MAX < 1 + length name + 1 then None
     else Some \<lparr>sun_family = AF_UNIX, sun_path = ZERO # name @ replicate (UNIX_PATH_MAX - 1 - length name) ZERO\<rparr>)"

definition MRP_SERVER_SOCK_NAME :: string where "MRP_SERVER_SOCK_NAME = ''.mrp_server''"

definition server_address :: "sockaddr_un option" where
  "server_address = set_socket_address MRP_SERVER_SOCK_NAME"

text \<open>The name of the client is printed into an array of 64 characters first.\<close>

definition client_address :: "int \<Rightarrow> sockaddr_un option" where
  "client_address pid = (let tmpname = ''MRPCTL_'' @ dec_of_int pid in if 64 < length tmpname + 1 then None else set_socket_address tmpname)"

lemma length_dec_of_nat: "0 < k \<Longrightarrow> n < 10 ^ k \<Longrightarrow> length (dec_of_nat n) \<le> k"
proof (induction n arbitrary: k rule: dec_of_nat.induct)
  case (1 n)
  then show ?case
  proof (cases "n < 10")
    case False
    then obtain j where j: "k = Suc j" "0 < j" using "1.prems" by (cases k; cases "k - 1") auto
    then have "length (dec_of_nat (n div 10)) \<le> j"
      using "1.IH" [OF False, of j] "1.prems"(2) by (simp add: less_mult_imp_div_less mult.commute)
    then show ?thesis using False j by (subst dec_of_nat.simps) simp
  qed (simp add: dec_of_nat.simps)
qed

lemma length_dec_of_int: "\<bar>i\<bar> < 10 ^ k \<Longrightarrow> 0 < k \<Longrightarrow> length (dec_of_int i) \<le> Suc k"
proof -
  assume i: "\<bar>i\<bar> < 10 ^ k" and k: "0 < k"
  have n: "nat \<bar>i\<bar> < 10 ^ k" using i by (simp add: nat_less_iff)
  show ?thesis
  proof (cases "i < 0")
    case True
    then show ?thesis using length_dec_of_nat [OF k, of "nat (- i)"] n by (simp add: dec_of_int_def)
  next
    case False
    then show ?thesis using length_dec_of_nat [OF k, of "nat i"] n by (simp add: dec_of_int_def)
  qed
qed

lemma dec_of_nat_inj: "dec_of_nat m = dec_of_nat n \<Longrightarrow> m = n"
  by (metis digits_dec_of_nat of_nat_eq_iff)

lemma ZERO_not_digit: "ZERO \<notin> set (dec_of_nat n)"
  using dec_of_nat_digits [of n] by (auto simp: ZERO_def isdigit_def)

lemma padded_inj:
  assumes "xs @ replicate m z = ys @ replicate n z" and "z \<notin> set xs" and "z \<notin> set ys"
  shows "xs = ys"
proof -
  have "takeWhile (\<lambda>c. c \<noteq> z) (ws @ replicate k z) = ws" if "z \<notin> set ws" for ws k
    using that by (induction ws) (auto simp: takeWhile_eq_Nil_iff)
  then show ?thesis using assms by metis
qed

text \<open>No copy runs over its array, and the sockets of the server and of clients with different process numbers have
  different addresses.\<close>

lemma addresses_fit:
  assumes "\<bar>pid\<bar> < 2 ^ 31"
  shows "client_address pid \<noteq> None" and "server_address \<noteq> None"
proof -
  have "length (dec_of_int pid) \<le> Suc 10" using assms by (intro length_dec_of_int) simp_all
  then show "client_address pid \<noteq> None" by (simp add: client_address_def set_socket_address_def UNIX_PATH_MAX_def Let_def)
  show "server_address \<noteq> None" by (simp add: server_address_def set_socket_address_def UNIX_PATH_MAX_def MRP_SERVER_SOCK_NAME_def)
qed

lemma set_socket_address_inj:
  assumes "set_socket_address s = Some a" and "set_socket_address t = Some a" and "ZERO \<notin> set s" and "ZERO \<notin> set t"
  shows "s = t"
proof -
  have "s @ replicate (UNIX_PATH_MAX - 1 - length s) ZERO = t @ replicate (UNIX_PATH_MAX - 1 - length t) ZERO"
    using assms(1,2) by (auto simp: set_socket_address_def split: if_splits)
  then show ?thesis using assms(3,4) by (rule padded_inj)
qed

lemma addresses_distinct:
  assumes "0 \<le> p" and "p < 2 ^ 31" and "0 \<le> q" and "q < 2 ^ 31"
  shows "client_address p = client_address q \<longleftrightarrow> p = q" and "client_address p \<noteq> server_address"
proof -
  obtain a b where ab: "client_address p = Some a" "client_address q = Some b" "server_address \<noteq> None"
    using addresses_fit(1) [of p] addresses_fit(1) [of q] addresses_fit(2) [of p] assms by auto
  have c: "set_socket_address (''MRPCTL_'' @ dec_of_nat (nat i)) = Some x" if "client_address i = Some x" "0 \<le> i" for i x
    using that by (simp add: client_address_def dec_of_int_def Let_def split: if_splits)
  have z: "ZERO \<notin> set (''MRPCTL_'' @ dec_of_nat (nat i))" for i using ZERO_not_digit by (simp add: ZERO_def)
  show "client_address p = client_address q \<longleftrightarrow> p = q"
  proof
    assume "client_address p = client_address q"
    then have "''MRPCTL_'' @ dec_of_nat (nat p) = ''MRPCTL_'' @ dec_of_nat (nat q)"
      using set_socket_address_inj [OF c c z z, of p a q] ab assms(1,3) by simp
    then have "nat p = nat q" by (intro dec_of_nat_inj) simp
    then show "p = q" using assms(1,3) by simp
  qed simp
  show "client_address p \<noteq> server_address"
  proof
    assume "client_address p = server_address"
    then have "set_socket_address MRP_SERVER_SOCK_NAME = Some a" using ab(1) by (simp add: server_address_def)
    then show False
      using set_socket_address_inj [OF c [OF ab(1) assms(1)], of MRP_SERVER_SOCK_NAME] z [of p]
      by (auto simp: MRP_SERVER_SOCK_NAME_def ZERO_def)
  qed
qed

section \<open>The descriptor of the client\<close>

text \<open>The variable \<open>fd\<close> of \<^verbatim>\<open>mrp.c\<close> with the descriptors that are open.\<close>

record cfd =
  client_fd :: int
  open_fds :: "int set"

definition client_init_fd :: "csys \<Rightarrow> cfd \<Rightarrow> cfd" where
  "client_init_fd a f =
    (if 0 > c_fd a then f
     else if 0 \<noteq> c_bind a \<or> 0 \<noteq> c_connect a then f
     else f\<lparr>client_fd := c_fd a, open_fds := insert (c_fd a) (open_fds f)\<rparr>)"

definition client_cleanup :: "cfd \<Rightarrow> cfd" where
  "client_cleanup f = (if client_fd f \<ge> 0 then f\<lparr>client_fd := - 1, open_fds := open_fds f - {client_fd f}\<rparr> else f)"

text \<open>The socket is closed after the command, and not twice.\<close>

lemma client_closes:
  assumes "fst (client_init a) = 0" and "c_fd a \<notin> open_fds f"
  shows "open_fds (client_cleanup (client_init_fd a f)) = open_fds f"
    and "client_cleanup (client_cleanup (client_init_fd a f)) = client_cleanup (client_init_fd a f)"
  using assms by (auto simp: client_init_def client_init_fd_def client_cleanup_def split: if_splits)

section \<open>The socket of \<open>if_init\<close>\<close>

definition if_cleanup :: "action list" where
  "if_cleanup = [Release Net_socket]"

text \<open>The server does not call \<open>if_cleanup\<close>; with it nothing but the connections to the bus and the CFM library would be
  left at its end.\<close>

lemma if_cleanup_completes:
  assumes "server_start a argv = (Run tf dl, l)" and "server_stop e d = Some (l', d')"
  shows "held (l @ l' @ if_cleanup) = {Dbus_connection, Cfm_offload}"
  using server_stop_releases [OF assms] by (auto simp: held_def if_cleanup_def foldl_append split: if_splits)

section \<open>Signals\<close>

datatype disposition = SIG_DFL | SIG_IGN | Handle_signal

datatype signal = SIGHUP | SIGINT | SIGPIPE | SIGTERM | SIGUSR2

text \<open>The default action of all these signals ends the process.\<close>

datatype reaction = Loop_ends | Process_dies | Nothing

definition signal_init :: "(signal \<Rightarrow> disposition) \<Rightarrow> signal \<Rightarrow> disposition" where
  "signal_init g = g(SIGTERM := Handle_signal, SIGINT := Handle_signal, SIGHUP := Handle_signal, SIGUSR2 := Handle_signal, SIGPIPE := SIG_IGN)"

definition handle_signal :: reaction where
  "handle_signal = Loop_ends"

definition deliver :: "(signal \<Rightarrow> disposition) \<Rightarrow> signal \<Rightarrow> reaction" where
  "deliver g s = (case g s of SIG_DFL \<Rightarrow> Process_dies | SIG_IGN \<Rightarrow> Nothing | Handle_signal \<Rightarrow> handle_signal)"

text \<open>With \<open>signal_init\<close> every one of these signals but \<open>SIGPIPE\<close> ends the event loop, so that the clean-up is reached, and
  none ends the process.  \<open>main\<close> does not call it: the dispositions are the default ones, and each of these signals
  ends the process without the clean-up.\<close>

lemma signal_init_reactions:
  "deliver (signal_init g) s = (if s = SIGPIPE then Nothing else Loop_ends)" "deliver (\<lambda>_. SIG_DFL) s = Process_dies"
  by (cases s; simp add: deliver_def signal_init_def handle_signal_def)+

section \<open>The clock\<close>

text \<open>\<open>get_ms\<close>: computed in the width of \<open>long\<close>, and cut to 32 bits when it is returned.\<close>

definition get_ms :: "int \<Rightarrow> int \<Rightarrow> u32" where
  "get_ms tv_s tv_us = word_of_int (tv_s * 1000 + tv_us div 1000)"

text \<open>Differences are right over the wrap-around, up to 49 days.\<close>

lemma get_ms_difference:
  assumes "0 \<le> (s' * 1000 + us' div 1000) - (s * 1000 + us div 1000)" and "(s' * 1000 + us' div 1000) - (s * 1000 + us div 1000) < 2 ^ 32"
  shows "uint (get_ms s' us' - get_ms s us) = (s' * 1000 + us' div 1000) - (s * 1000 + us div 1000)"
proof -
  have "get_ms s' us' - get_ms s us = word_of_int ((s' * 1000 + us' div 1000) - (s * 1000 + us div 1000))"
    by (simp add: get_ms_def)
  then show ?thesis using assms by (simp only: uint_word_of_int_eq take_bit_int_eq_self_iff) (simp add: take_bit_int_eq_self)
qed

end
