(* ===== verification/Linked_List.thy ===== *)
theory Linked_List
  imports Prelude
begin

text \<open>
  The doubly linked lists of \<^verbatim>\<open>list.h\<close>, on a heap of nodes: a pointer may be NULL, one of the two poison
  values or the address of a node, and following anything but the address of a live node is a
  crash (\<open>None\<close>).  \<open>dll hp h xs\<close> says that the circular list with head \<open>h\<close> holds the nodes \<open>xs\<close>; every
  operation refines the operation on \<open>xs\<close> that its comment promises, and leaves all other nodes
  alone.
\<close>

section \<open>Heap\<close>

datatype 'a ptr = NULL | LIST_POISON1 | LIST_POISON2 | Ptr 'a

record 'a list_head =
  nxt :: "'a ptr"
  prv :: "'a ptr"

type_synonym 'a lheap = "'a \<rightharpoonup> 'a list_head"

definition fetch :: "'a lheap \<Rightarrow> 'a ptr \<Rightarrow> 'a list_head option" where
  "fetch hp p = (case p of Ptr a \<Rightarrow> hp a | _ \<Rightarrow> None)"

definition set_next :: "'a ptr \<Rightarrow> 'a ptr \<Rightarrow> 'a lheap \<Rightarrow> 'a lheap option" where
  "set_next p v hp = (case p of Ptr a \<Rightarrow> map_option (\<lambda>n. hp(a \<mapsto> n\<lparr>nxt := v\<rparr>)) (hp a) | _ \<Rightarrow> None)"

definition set_prev :: "'a ptr \<Rightarrow> 'a ptr \<Rightarrow> 'a lheap \<Rightarrow> 'a lheap option" where
  "set_prev p v hp = (case p of Ptr a \<Rightarrow> map_option (\<lambda>n. hp(a \<mapsto> n\<lparr>prv := v\<rparr>)) (hp a) | _ \<Rightarrow> None)"

section \<open>Operations\<close>

definition INIT_LIST_HEAD :: "'a ptr \<Rightarrow> 'a lheap \<Rightarrow> 'a lheap option" where
  "INIT_LIST_HEAD p hp = do { hp \<leftarrow> set_next p p hp; set_prev p p hp }"

definition list_add_between :: "'a ptr \<Rightarrow> 'a ptr \<Rightarrow> 'a ptr \<Rightarrow> 'a lheap \<Rightarrow> 'a lheap option" where
  "list_add_between new p n hp = do {
     hp \<leftarrow> set_prev n new hp;
     hp \<leftarrow> set_next new n hp;
     hp \<leftarrow> set_prev new p hp;
     set_next p new hp
   }"

definition list_add :: "'a ptr \<Rightarrow> 'a ptr \<Rightarrow> 'a lheap \<Rightarrow> 'a lheap option" where
  "list_add new head hp = do { h \<leftarrow> fetch hp head; list_add_between new head (nxt h) hp }"

definition list_add_tail :: "'a ptr \<Rightarrow> 'a ptr \<Rightarrow> 'a lheap \<Rightarrow> 'a lheap option" where
  "list_add_tail new head hp = do { h \<leftarrow> fetch hp head; list_add_between new (prv h) head hp }"

definition list_del_between :: "'a ptr \<Rightarrow> 'a ptr \<Rightarrow> 'a lheap \<Rightarrow> 'a lheap option" where
  "list_del_between p n hp = do { hp \<leftarrow> set_prev n p hp; set_next p n hp }"

definition list_del :: "'a ptr \<Rightarrow> 'a lheap \<Rightarrow> 'a lheap option" where
  "list_del entry hp = do {
     x \<leftarrow> fetch hp entry;
     hp \<leftarrow> list_del_between (prv x) (nxt x) hp;
     hp \<leftarrow> set_next entry LIST_POISON1 hp;
     set_prev entry LIST_POISON2 hp
   }"

definition list_del_init :: "'a ptr \<Rightarrow> 'a lheap \<Rightarrow> 'a lheap option" where
  "list_del_init entry hp = do {
     x \<leftarrow> fetch hp entry;
     hp \<leftarrow> list_del_between (prv x) (nxt x) hp;
     INIT_LIST_HEAD entry hp
   }"

definition list_move :: "'a ptr \<Rightarrow> 'a ptr \<Rightarrow> 'a lheap \<Rightarrow> 'a lheap option" where
  "list_move list head hp = do {
     x \<leftarrow> fetch hp list;
     hp \<leftarrow> list_del_between (prv x) (nxt x) hp;
     list_add list head hp
   }"

definition list_move_tail :: "'a ptr \<Rightarrow> 'a ptr \<Rightarrow> 'a lheap \<Rightarrow> 'a lheap option" where
  "list_move_tail list head hp = do {
     x \<leftarrow> fetch hp list;
     hp \<leftarrow> list_del_between (prv x) (nxt x) hp;
     list_add_tail list head hp
   }"

definition list_empty :: "'a ptr \<Rightarrow> 'a lheap \<Rightarrow> bool option" where
  "list_empty head hp = do { h \<leftarrow> fetch hp head; Some (nxt h = head) }"

definition list_splice_nonempty :: "'a ptr \<Rightarrow> 'a ptr \<Rightarrow> 'a lheap \<Rightarrow> 'a lheap option" where
  "list_splice_nonempty list head hp = do {
     l \<leftarrow> fetch hp list;
     h \<leftarrow> fetch hp head;
     let first = nxt l;
     let last = prv l;
     let at = nxt h;
     hp \<leftarrow> set_prev first head hp;
     hp \<leftarrow> set_next head first hp;
     hp \<leftarrow> set_next last at hp;
     set_prev at last hp
   }"

definition list_splice :: "'a ptr \<Rightarrow> 'a ptr \<Rightarrow> 'a lheap \<Rightarrow> 'a lheap option" where
  "list_splice list head hp = do {
     e \<leftarrow> list_empty list hp;
     if \<not> e then list_splice_nonempty list head hp else Some hp
   }"

definition list_splice_init :: "'a ptr \<Rightarrow> 'a ptr \<Rightarrow> 'a lheap \<Rightarrow> 'a lheap option" where
  "list_splice_init list head hp = do {
     e \<leftarrow> list_empty list hp;
     if \<not> e then do { hp \<leftarrow> list_splice_nonempty list head hp; INIT_LIST_HEAD list hp } else Some hp
   }"

text \<open>The loops.  A plain loop has a body that may crash, or stop it with a result (\<open>break\<close> or \<open>return\<close>), and does not
  change the list; a safe loop has a body that changes the heap.  A loop over a broken list does not end
  or crashes: both are \<open>None\<close>.\<close>

partial_function (option) for_each :: "('a \<Rightarrow> 'b option option) \<Rightarrow> 'a \<Rightarrow> 'a ptr \<Rightarrow> 'a lheap \<Rightarrow> 'b option option" where
  "for_each body head pos hp =
    (if pos = Ptr head then Some None
     else (case pos of Ptr a \<Rightarrow> do {
         r \<leftarrow> body a;
         if r \<noteq> None then Some r
         else do { n \<leftarrow> fetch hp pos; for_each body head (nxt n) hp }
       } | _ \<Rightarrow> None))"

definition list_for_each_entry :: "('a \<Rightarrow> 'b option option) \<Rightarrow> 'a \<Rightarrow> 'a lheap \<Rightarrow> 'b option option" where
  "list_for_each_entry body head hp = do { h \<leftarrow> fetch hp (Ptr head); for_each body head (nxt h) hp }"

partial_function (option) for_each_safe ::
  "('a \<Rightarrow> 'a lheap \<times> 's \<Rightarrow> ('a lheap \<times> 's) option) \<Rightarrow> 'a \<Rightarrow> 'a ptr \<Rightarrow> 'a ptr \<Rightarrow> 'a lheap \<times> 's \<Rightarrow> ('a lheap \<times> 's) option" where
  "for_each_safe body head pos n s =
    (if pos = Ptr head then Some s
     else (case pos of Ptr a \<Rightarrow> do {
         s \<leftarrow> body a s;
         m \<leftarrow> fetch (fst s) n;
         for_each_safe body head n (nxt m) s
       } | _ \<Rightarrow> None))"

definition list_for_each_entry_safe ::
  "('a \<Rightarrow> 'a lheap \<times> 's \<Rightarrow> ('a lheap \<times> 's) option) \<Rightarrow> 'a \<Rightarrow> 'a lheap \<times> 's \<Rightarrow> ('a lheap \<times> 's) option" where
  "list_for_each_entry_safe body head s = do {
     h \<leftarrow> fetch (fst s) (Ptr head);
     p \<leftarrow> fetch (fst s) (nxt h);
     for_each_safe body head (nxt h) (nxt p) s
   }"

declare for_each.simps [code] for_each_safe.simps [code]

section \<open>Representation\<close>

definition link :: "'a lheap \<Rightarrow> 'a \<Rightarrow> 'a \<Rightarrow> bool" where
  "link hp x y \<longleftrightarrow> map_option nxt (hp x) = Some (Ptr y) \<and> map_option prv (hp y) = Some (Ptr x)"

fun links :: "'a lheap \<Rightarrow> 'a list \<Rightarrow> bool" where
  "links hp (x # y # zs) \<longleftrightarrow> link hp x y \<and> links hp (y # zs)"
| "links hp _ \<longleftrightarrow> True"

definition dll :: "'a lheap \<Rightarrow> 'a \<Rightarrow> 'a list \<Rightarrow> bool" where
  "dll hp h xs \<longleftrightarrow> distinct (h # xs) \<and> links hp (h # xs @ [h])"

lemma links_append:
  "us \<noteq> [] \<Longrightarrow> vs \<noteq> [] \<Longrightarrow> links hp (us @ vs) \<longleftrightarrow> links hp us \<and> link hp (last us) (hd vs) \<and> links hp vs"
proof (induction us)
  case (Cons u us)
  then show ?case by (cases us; cases vs) auto
qed simp

text \<open>A list can be cut at any place; a link determines the pointers at both of its ends.\<close>

lemma dll_split:
  "dll hp h (us @ vs) \<longleftrightarrow> distinct (h # us @ vs) \<and> links hp (h # us) \<and> link hp (last (h # us)) (hd (vs @ [h])) \<and> links hp (vs @ [h])"
  using links_append [of "h # us" "vs @ [h]" hp] by (simp add: dll_def)

lemma linkD:
  assumes "link hp x y"
  obtains n m where "hp x = Some n" "nxt n = Ptr y" "hp y = Some m" "prv m = Ptr x"
  using assms by (auto simp: link_def)

text \<open>Links depend on the next pointers of all nodes but the last, and the previous pointers of all but
  the first.\<close>

lemma links_frame:
  assumes "links hp zs"
    and "\<And>x. x \<in> set (butlast zs) \<Longrightarrow> map_option nxt (hp' x) = map_option nxt (hp x)"
    and "\<And>x. x \<in> set (tl zs) \<Longrightarrow> map_option prv (hp' x) = map_option prv (hp x)"
  shows "links hp' zs"
  using assms
proof (induction hp zs rule: links.induct)
  case (1 hp x y zs)
  then show ?case by (auto simp: link_def)
qed auto

lemma dll_frame:
  assumes "dll hp h xs" and "\<And>x. x \<in> set (h # xs) \<Longrightarrow> hp' x = hp x"
  shows "dll hp' h xs"
  using assms links_frame [of hp "h # xs @ [h]" hp']
  by (auto simp: dll_def butlast_append)

definition untouched :: "'a lheap \<Rightarrow> 'a lheap \<Rightarrow> 'a list \<Rightarrow> bool" where
  "untouched hp hp' xs \<longleftrightarrow> (\<forall>x. x \<notin> set xs \<longrightarrow> hp' x = hp x)"

lemma dll_untouched:
  assumes "dll hp h xs" and "untouched hp hp' ys" and "set ys \<inter> set (h # xs) = {}"
  shows "dll hp' h xs"
  by (rule dll_frame [OF assms(1)]) (use assms(2,3) in \<open>auto simp: untouched_def\<close>)

section \<open>The elementary operations\<close>

abbreviation nx :: "'a lheap \<Rightarrow> 'a \<Rightarrow> 'a ptr option" where "nx hp x \<equiv> map_option nxt (hp x)"
abbreviation pv :: "'a lheap \<Rightarrow> 'a \<Rightarrow> 'a ptr option" where "pv hp x \<equiv> map_option prv (hp x)"

lemma fetch_Ptr [simp]: "fetch hp (Ptr a) = hp a"
  by (simp add: fetch_def)

text \<open>What an operation changes: \<open>dn\<close> and \<open>dp\<close> are the new next and previous pointers, at no other nodes than
  \<open>A\<close>.\<close>

definition changes :: "'a lheap \<Rightarrow> 'a lheap \<Rightarrow> ('a \<rightharpoonup> 'a ptr) \<Rightarrow> ('a \<rightharpoonup> 'a ptr) \<Rightarrow> bool" where
  "changes hp hp' dn dp \<longleftrightarrow> (\<forall>x. nx hp' x = (case dn x of None \<Rightarrow> nx hp x | v \<Rightarrow> v) \<and>
     pv hp' x = (case dp x of None \<Rightarrow> pv hp x | v \<Rightarrow> v))"

lemma changes_node:
  assumes "changes hp hp' dn dp" and "dn x = None" and "dp x = None"
  shows "hp' x = hp x"
proof -
  have "nx hp' x = nx hp x" "pv hp' x = pv hp x" using assms by (simp_all add: changes_def)
  then show ?thesis by (cases "hp x"; cases "hp' x") (auto intro: list_head.equality)
qed

lemma changes_links:
  assumes "changes hp hp' dn dp" and "links hp zs" and "dom dn \<inter> set (butlast zs) = {}" and "dom dp \<inter> set (tl zs) = {}"
  shows "links hp' zs"
  by (rule links_frame [OF assms(2)])
    (use assms(1,3,4) in \<open>auto simp: changes_def domIff disjoint_iff split: option.splits\<close>)

lemma add_between_ok:
  assumes "hp p \<noteq> None" "hp n \<noteq> None" "hp new \<noteq> None" "new \<noteq> p" "new \<noteq> n"
  shows "ok (list_add_between (Ptr new) (Ptr p) (Ptr n) hp)
    (\<lambda>hp'. changes hp hp' [new \<mapsto> Ptr n, p \<mapsto> Ptr new] [new \<mapsto> Ptr p, n \<mapsto> Ptr new])"
  using assms by (auto simp: list_add_between_def set_next_def set_prev_def changes_def)

lemma del_between_ok:
  assumes "hp p \<noteq> None" "hp n \<noteq> None"
  shows "ok (list_del_between (Ptr p) (Ptr n) hp) (\<lambda>hp'. changes hp hp' [p \<mapsto> Ptr n] [n \<mapsto> Ptr p])"
  using assms by (auto simp: list_del_between_def set_next_def set_prev_def changes_def)

lemma init_ok:
  assumes "hp h \<noteq> None"
  shows "ok (INIT_LIST_HEAD (Ptr h) hp) (\<lambda>hp'. untouched hp hp' [h] \<and> dll hp' h [])"
  using assms by (auto simp: INIT_LIST_HEAD_def set_next_def set_prev_def untouched_def dll_def link_def)

section \<open>Insertion and removal at a place\<close>

text \<open>The neighbours of a place of the list.\<close>

lemma dll_place:
  assumes "dll hp h (us @ vs)"
  shows "nx hp (last (h # us)) = Some (Ptr (hd (vs @ [h])))" "pv hp (hd (vs @ [h])) = Some (Ptr (last (h # us)))"
    "hp (last (h # us)) \<noteq> None" "hp (hd (vs @ [h])) \<noteq> None"
  using assms by (auto simp: dll_split link_def)

lemma last_in: "last (h # us) \<in> set (h # us)"
  by (rule last_in_set) simp

lemma hd_in: "hd (vs @ [h]) \<in> insert h (set vs)"
  by (cases vs) simp_all

lemma hd_not_tl: "distinct (h # vs) \<Longrightarrow> hd (vs @ [h]) \<notin> set (tl (vs @ [h]))"
  by (cases vs) auto

lemma last_not_butlast: "distinct (h # us) \<Longrightarrow> last (h # us) \<notin> set (butlast (h # us))"
  by (metis append_butlast_last_id distinct_append distinct.simps(2) list.distinct(1) disjoint_iff list.set_intros(1))

lemma ends:
  assumes "distinct (h # us @ vs)"
  shows "last (h # us) \<in> insert h (set us)" "last (h # us) \<notin> set (butlast (h # us))" "last (h # us) \<notin> set vs"
    "hd (vs @ [h]) \<in> insert h (set vs)" "hd (vs @ [h]) \<notin> set us" "hd (vs @ [h]) \<notin> set (tl (vs @ [h]))"
proof -
  show p: "last (h # us) \<in> insert h (set us)" using last_in [of h us] by (simp del: last.simps)
  show n: "hd (vs @ [h]) \<in> insert h (set vs)" by (rule hd_in)
  show "last (h # us) \<notin> set vs" using p assms by (auto simp del: last.simps)
  show "hd (vs @ [h]) \<notin> set us" using n assms by auto
  show "last (h # us) \<notin> set (butlast (h # us))" by (rule last_not_butlast) (use assms in simp)
  show "hd (vs @ [h]) \<notin> set (tl (vs @ [h]))" by (rule hd_not_tl) (use assms in simp)
qed

text \<open>Joining two pieces again after a change of the pointers at their ends.\<close>

lemma dll_join:
  assumes "dll hp h (us @ vs)" and "changes hp hp' dn dp" and "dom dn \<inter> set (butlast (h # us)) = {}" and "dom dp \<inter> set us = {}"
    and "dom dn \<inter> set vs = {}" and "dom dp \<inter> set (tl (vs @ [h])) = {}"
  shows "links hp' (h # us)" "links hp' (vs @ [h])"
  using assms(1) changes_links [OF assms(2), of "h # us"] changes_links [OF assms(2), of "vs @ [h]"] assms(3-6)
  by (simp_all add: dll_split)

lemma add_at:
  assumes d: "dll hp h (us @ vs)" and new: "hp new \<noteq> None" "new \<notin> set (h # us @ vs)"
  shows "ok (list_add_between (Ptr new) (Ptr (last (h # us))) (Ptr (hd (vs @ [h]))) hp)
    (\<lambda>hp'. dll hp' h (us @ new # vs) \<and> (\<forall>x. x \<notin> set (h # us @ new # vs) \<longrightarrow> hp' x = hp x))"
proof -
  let ?p = "last (h # us)" and ?n = "hd (vs @ [h])"
  note pl = dll_place [OF d]
  have dist: "distinct (h # us @ vs)" using d by (simp add: dll_def)
  note p = ends(1-3) [OF dist] and n = ends(4-6) [OF dist]
  have ne: "new \<noteq> ?p" "new \<noteq> ?n" using p(1) n(1) new(2) by auto
  have nb: "new \<notin> set (butlast (h # us))" "new \<notin> set (tl (vs @ [h]))"
    using new(2) by (auto dest: in_set_butlastD list.set_sel(2) [rotated])
  show ?thesis
  proof (rule ok_mono [OF add_between_ok [OF pl(3,4) new(1) ne]])
    fix hp' assume c: "changes hp hp' [new \<mapsto> Ptr ?n, ?p \<mapsto> Ptr new] [new \<mapsto> Ptr ?p, ?n \<mapsto> Ptr new]"
    have l: "links hp' (h # us)" "links hp' (vs @ [h])"
      using dll_join [OF d c] p n nb new(2) by auto
    have "link hp' ?p new" "link hp' new ?n"
      using c ne unfolding link_def changes_def by auto
    then have "dll hp' h (us @ new # vs)"
      using l dist new(2) links_append [of "[new]" "vs @ [h]" hp'] by (auto simp: dll_split)
    moreover have "hp' x = hp x" if "x \<notin> set (h # us @ new # vs)" for x
    proof (rule changes_node [OF c])
      have "x \<noteq> ?p" "x \<noteq> ?n" "x \<noteq> new" using that p(1) n(1) by (metis UnCI insert_iff list.simps(15) set_append)+
      then show "[new \<mapsto> Ptr ?n, ?p \<mapsto> Ptr new] x = None" "[new \<mapsto> Ptr ?p, ?n \<mapsto> Ptr new] x = None"
        by (simp_all del: last.simps)
    qed
    ultimately show "dll hp' h (us @ new # vs) \<and> (\<forall>x. x \<notin> set (h # us @ new # vs) \<longrightarrow> hp' x = hp x)" by blast
  qed
qed

lemma del_at:
  assumes d: "dll hp h (us @ x # vs)"
  shows "ok (list_del_between (Ptr (last (h # us))) (Ptr (hd (vs @ [h]))) hp)
    (\<lambda>hp'. dll hp' h (us @ vs) \<and> (\<forall>y. y \<notin> set (h # us @ vs) \<longrightarrow> hp' y = hp y))"
proof -
  let ?p = "last (h # us)" and ?n = "hd (vs @ [h])"
  have dist: "distinct (h # us @ x # vs)" using d by (simp add: dll_def)
  then have dist': "distinct (h # us @ vs)" by simp
  note p = ends(1-3) [OF dist'] and n = ends(4-6) [OF dist']
  have lv: "links hp (h # us)" "links hp (vs @ [h])" "hp ?p \<noteq> None" "hp ?n \<noteq> None"
    using d dll_place(3) [OF d] dll_place(4) [of hp h "us @ [x]" vs] links_append [of "[x]" "vs @ [h]" hp]
    by (auto simp: dll_split)
  show ?thesis
  proof (rule ok_mono [OF del_between_ok [OF lv(3,4)]])
    fix hp' assume c: "changes hp hp' [?p \<mapsto> Ptr ?n] [?n \<mapsto> Ptr ?p]"
    have "links hp' (h # us)" "links hp' (vs @ [h])"
      using changes_links [OF c lv(1)] changes_links [OF c lv(2)] p n by auto
    moreover have "link hp' ?p ?n" using c unfolding link_def changes_def by auto
    ultimately have "dll hp' h (us @ vs)" using dist by (auto simp: dll_split)
    moreover have "hp' y = hp y" if "y \<notin> set (h # us @ vs)" for y
    proof (rule changes_node [OF c])
      have "y \<noteq> ?p" "y \<noteq> ?n" using that p(1) n(1) by (metis UnCI insert_iff list.simps(15) set_append)+
      then show "[?p \<mapsto> Ptr ?n] y = None" "[?n \<mapsto> Ptr ?p] y = None" by (simp_all del: last.simps)
    qed
    ultimately show "dll hp' h (us @ vs) \<and> (\<forall>y. y \<notin> set (h # us @ vs) \<longrightarrow> hp' y = hp y)" by blast
  qed
qed

section \<open>The operations refine those on lists\<close>

lemma head_pointers:
  assumes "dll hp h xs"
  shows "\<exists>n. hp h = Some n \<and> nxt n = Ptr (hd (xs @ [h])) \<and> prv n = Ptr (last (h # xs))"
  using dll_place(1) [of hp h "[]" xs] dll_place(2) [of hp h xs "[]"] assms by auto

lemma entry_pointers:
  assumes "dll hp h (us @ x # vs)"
  shows "\<exists>n. hp x = Some n \<and> nxt n = Ptr (hd (vs @ [h])) \<and> prv n = Ptr (last (h # us))"
  using dll_place(1) [of hp h "us @ [x]" vs] dll_place(2) [OF assms] assms by auto

lemma list_add_ok:
  assumes "dll hp h xs" and "hp new \<noteq> None" and "new \<notin> set (h # xs)"
  shows "ok (list_add (Ptr new) (Ptr h) hp) (\<lambda>hp'. dll hp' h (new # xs) \<and> untouched hp hp' (h # new # xs))"
  using head_pointers [OF assms(1)] add_at [of hp h "[]" xs, OF _ assms(2)] assms
  by (auto simp: list_add_def untouched_def)

lemma list_add_tail_ok:
  assumes "dll hp h xs" and "hp new \<noteq> None" and "new \<notin> set (h # xs)"
  shows "ok (list_add_tail (Ptr new) (Ptr h) hp) (\<lambda>hp'. dll hp' h (xs @ [new]) \<and> untouched hp hp' (h # xs @ [new]))"
  using head_pointers [OF assms(1)] add_at [of hp h xs "[]", OF _ assms(2)] assms
  by (auto simp: list_add_tail_def untouched_def simp del: last.simps)

lemma delete_node:
  assumes "dll hp h (us @ x # vs)" and "\<And>hp'. hp' x = hp x \<Longrightarrow> dll hp' h (us @ vs) \<Longrightarrow> untouched hp hp' (h # us @ x # vs) \<Longrightarrow> ok (f hp') Q"
  shows "ok (do { n \<leftarrow> fetch hp (Ptr x); hp \<leftarrow> list_del_between (prv n) (nxt n) hp; f hp }) Q"
proof -
  have "x \<notin> set (h # us @ vs)" using assms(1) by (auto simp: dll_def)
  then have "ok (list_del_between (Ptr (last (h # us))) (Ptr (hd (vs @ [h]))) hp) (\<lambda>hp'. ok (f hp') Q)"
    by (intro ok_mono [OF del_at [OF assms(1)]] assms(2)) (auto simp: untouched_def)
  then show ?thesis using entry_pointers [OF assms(1)] by (auto simp del: last.simps)
qed

lemma poison_ok:
  assumes "hp x = Some n"
  shows "ok (set_next (Ptr x) v hp \<bind> set_prev (Ptr x) w) (\<lambda>hp'. hp' = hp(x \<mapsto> \<lparr>nxt = v, prv = w\<rparr>))"
  using assms by (cases n) (simp add: set_next_def set_prev_def)

lemma list_del_ok:
  assumes "dll hp h (us @ x # vs)"
  shows "ok (list_del (Ptr x) hp) (\<lambda>hp'. dll hp' h (us @ vs) \<and> hp' x = Some \<lparr>nxt = LIST_POISON1, prv = LIST_POISON2\<rparr> \<and>
    untouched hp hp' (h # us @ x # vs))"
  unfolding list_del_def
proof (rule delete_node [OF assms])
  fix hp' assume a: "hp' x = hp x" "dll hp' h (us @ vs)" "untouched hp hp' (h # us @ x # vs)"
  have x: "x \<notin> set (h # us @ vs)" using assms by (auto simp: dll_def)
  have "dll (hp'(x \<mapsto> n)) h (us @ vs)" for n by (rule dll_frame [OF a(2)]) (use x in auto)
  moreover obtain m where "hp' x = Some m" using entry_pointers [OF assms] a(1) by auto
  ultimately show "ok (set_next (Ptr x) LIST_POISON1 hp' \<bind> set_prev (Ptr x) LIST_POISON2) (\<lambda>hp'. dll hp' h (us @ vs) \<and>
      hp' x = Some \<lparr>nxt = LIST_POISON1, prv = LIST_POISON2\<rparr> \<and> untouched hp hp' (h # us @ x # vs))"
    using a(3) by (intro ok_mono [OF poison_ok]) (auto simp: untouched_def)
qed

lemma list_del_init_ok:
  assumes "dll hp h (us @ x # vs)"
  shows "ok (list_del_init (Ptr x) hp) (\<lambda>hp'. dll hp' h (us @ vs) \<and> dll hp' x [] \<and> untouched hp hp' (h # us @ x # vs))"
  unfolding list_del_init_def
proof (rule delete_node [OF assms])
  fix hp' assume a: "hp' x = hp x" "dll hp' h (us @ vs)" "untouched hp hp' (h # us @ x # vs)"
  have x: "x \<notin> set (h # us @ vs)" using assms by (auto simp: dll_def)
  have "hp' x \<noteq> None" using entry_pointers [OF assms] a(1) by auto
  then show "ok (INIT_LIST_HEAD (Ptr x) hp') (\<lambda>hp'. dll hp' h (us @ vs) \<and> dll hp' x [] \<and> untouched hp hp' (h # us @ x # vs))"
    using a(3) x
    by (intro ok_mono [OF init_ok]) (auto intro!: dll_frame [OF a(2)] simp: untouched_def)
qed

lemma list_move_ok:
  assumes "dll hp h (us @ x # vs)" and "dll hp k ys" and "set (h # us @ x # vs) \<inter> set (k # ys) = {}"
  shows "ok (list_move (Ptr x) (Ptr k) hp) (\<lambda>hp'. dll hp' h (us @ vs) \<and> dll hp' k (x # ys))"
    "ok (list_move_tail (Ptr x) (Ptr k) hp) (\<lambda>hp'. dll hp' h (us @ vs) \<and> dll hp' k (ys @ [x]))"
proof -
  have pre: "dll hp' k ys \<and> hp' x \<noteq> None \<and> x \<notin> set (k # ys)" if "hp' x = hp x" "untouched hp hp' zs" "set zs \<inter> set (k # ys) = {}" for hp' zs
    using dll_untouched [OF assms(2) that(2,3)] that(1) assms(3) entry_pointers [OF assms(1)] by auto
  have post: "dll hp'' h (us @ vs)" if "dll hp' h (us @ vs)" "untouched hp' hp'' zs" "set zs \<subseteq> set (x # k # ys)" for hp' hp'' zs
    by (rule dll_frame [OF that(1)]) (use that(2,3) assms(1,3) in \<open>auto simp: untouched_def dll_def disjoint_iff subset_iff\<close>)
  show "ok (list_move (Ptr x) (Ptr k) hp) (\<lambda>hp'. dll hp' h (us @ vs) \<and> dll hp' k (x # ys))"
    unfolding list_move_def
    by (rule delete_node [OF assms(1)], rule ok_mono [OF list_add_ok]) (use pre [OF _ _ assms(3)] in \<open>auto dest: post\<close>)
  show "ok (list_move_tail (Ptr x) (Ptr k) hp) (\<lambda>hp'. dll hp' h (us @ vs) \<and> dll hp' k (ys @ [x]))"
    unfolding list_move_tail_def
    by (rule delete_node [OF assms(1)], rule ok_mono [OF list_add_tail_ok]) (use pre [OF _ _ assms(3)] in \<open>auto dest: post\<close>)
qed

lemma list_empty_ok:
  assumes "dll hp h xs"
  shows "list_empty (Ptr h) hp = Some (xs = [])"
  using head_pointers [OF assms] assms by (cases xs) (auto simp: list_empty_def dll_def)

lemma splice_changes:
  assumes "hp l = Some nl" "hp h = Some nh" "nxt nl = Ptr f" "prv nl = Ptr z" "nxt nh = Ptr a"
    and "hp f \<noteq> None" "hp z \<noteq> None" "hp a \<noteq> None" and "z \<noteq> h" "f \<noteq> a"
  shows "ok (list_splice_nonempty (Ptr l) (Ptr h) hp)
    (\<lambda>hp'. changes hp hp' [h \<mapsto> Ptr f, z \<mapsto> Ptr a] [f \<mapsto> Ptr h, a \<mapsto> Ptr z])"
  using assms by (auto simp: list_splice_nonempty_def set_next_def set_prev_def changes_def)

text \<open>The nodes of the spliced list come first; its head is left as it is.\<close>

lemma splice_nonempty_ok:
  assumes l: "dll hp l xs" and h: "dll hp h ys" and dj: "set (l # xs) \<inter> set (h # ys) = {}" and ne: "xs \<noteq> []"
  shows "ok (list_splice_nonempty (Ptr l) (Ptr h) hp) (\<lambda>hp'. dll hp' h (xs @ ys) \<and> untouched hp hp' (h # xs @ ys))"
proof -
  let ?a = "hd (ys @ [h])"
  have xs: "hd xs \<in> set xs" "last xs \<in> set xs" "last (l # xs) = last xs" "hd (xs @ [l]) = hd xs" using ne by simp_all
  have a: "?a \<in> insert h (set ys)" by (rule hd_in)
  have dx: "distinct xs" "distinct (h # ys)" using l h by (simp_all add: dll_def)
  have "links hp (xs @ [l])" "links hp (ys @ [h])"
    using dll_split [of hp l "[]" xs] dll_split [of hp h "[]" ys] l h by simp_all
  then have lk: "links hp xs" "links hp (ys @ [h])" using links_append [of xs "[l]" hp] ne by auto
  have pl: "hp (hd xs) \<noteq> None" "hp (last xs) \<noteq> None" "hp ?a \<noteq> None"
    using dll_place(4) [of hp l "[]" xs] dll_place(3) [of hp l xs "[]"] dll_place(4) [of hp h "[]" ys] l h xs by simp_all
  obtain nl nh where n: "hp l = Some nl" "hp h = Some nh" "nxt nl = Ptr (hd xs)" "prv nl = Ptr (last xs)" "nxt nh = Ptr ?a"
    using head_pointers [OF l] head_pointers [OF h] xs(3,4) by auto
  have ne': "last xs \<noteq> h" "hd xs \<noteq> ?a" using xs(1,2) a dj by auto
  show ?thesis
  proof (rule ok_mono [OF splice_changes [OF n pl ne']])
    fix hp' assume c: "changes hp hp' [h \<mapsto> Ptr (hd xs), last xs \<mapsto> Ptr ?a] [hd xs \<mapsto> Ptr h, ?a \<mapsto> Ptr (last xs)]"
    have "last xs \<notin> set (butlast xs)" "hd xs \<notin> set (tl xs)" "?a \<notin> set (tl (ys @ [h]))"
      using dx ne hd_not_tl [OF dx(2)]
      by (simp_all add: distinct_butlast) (metis append_butlast_last_id distinct_append disjoint_iff list.set_intros(1),
        metis distinct.simps(2) list.collapse)
    moreover have "set (butlast xs) \<subseteq> set xs" "set (tl xs) \<subseteq> set xs" "set (tl (ys @ [h])) \<subseteq> insert h (set ys)"
      by (auto dest: in_set_butlastD) (cases xs, simp_all, cases ys, simp_all)
    moreover have "?a \<notin> set xs" "h \<notin> set xs" "hd xs \<notin> insert h (set ys)" "last xs \<notin> set ys" using dj xs(1,2) a by auto
    ultimately have "links hp' xs" "links hp' (ys @ [h])"
      using changes_links [OF c lk(1)] changes_links [OF c lk(2)] dx by (auto simp: subset_iff)
    moreover have "link hp' h (hd xs)" "link hp' (last xs) ?a"
      using c ne' unfolding link_def changes_def by auto
    ultimately have "links hp' (h # xs @ ys @ [h])"
      using links_append [of "[h]" "xs @ ys @ [h]" hp'] links_append [of xs "ys @ [h]" hp'] ne by simp
    then have "dll hp' h (xs @ ys)" using dj dx by (auto simp: dll_def)
    moreover have "untouched hp hp' (h # xs @ ys)"
      unfolding untouched_def using xs(1,2) a by (auto intro!: changes_node [OF c])
    ultimately show "dll hp' h (xs @ ys) \<and> untouched hp hp' (h # xs @ ys)" by blast
  qed
qed

lemma list_splice_ok:
  assumes "dll hp l xs" and "dll hp h ys" and "set (l # xs) \<inter> set (h # ys) = {}"
  shows "ok (list_splice (Ptr l) (Ptr h) hp) (\<lambda>hp'. dll hp' h (xs @ ys))"
    "ok (list_splice_init (Ptr l) (Ptr h) hp) (\<lambda>hp'. dll hp' h (xs @ ys) \<and> dll hp' l [])"
proof -
  have e: "list_empty (Ptr l) hp = Some (xs = [])" by (rule list_empty_ok [OF assms(1)])
  show "ok (list_splice (Ptr l) (Ptr h) hp) (\<lambda>hp'. dll hp' h (xs @ ys))"
    using splice_nonempty_ok [OF assms] assms(2) by (auto simp: list_splice_def e intro: ok_mono)
  have "ok (INIT_LIST_HEAD (Ptr l) hp') (\<lambda>hp'. dll hp' h (xs @ ys) \<and> dll hp' l [])"
    if "dll hp' h (xs @ ys) \<and> untouched hp hp' (h # xs @ ys)" for hp'
  proof -
    have n: "l \<notin> set (h # xs @ ys)" using assms(1,3) by (auto simp: dll_def)
    then have "hp' l \<noteq> None" using that head_pointers [OF assms(1)] by (auto simp: untouched_def)
    then show ?thesis
      using that n by (intro ok_mono [OF init_ok]) (auto intro: dll_untouched)
  qed
  then show "ok (list_splice_init (Ptr l) (Ptr h) hp) (\<lambda>hp'. dll hp' h (xs @ ys) \<and> dll hp' l [])"
    using splice_nonempty_ok [OF assms] assms(1,2) by (auto simp: list_splice_init_def e intro: ok_mono)
qed

section \<open>Loops\<close>

fun first_of :: "('a \<Rightarrow> 'b option option) \<Rightarrow> 'a list \<Rightarrow> 'b option option" where
  "first_of f [] = Some None"
| "first_of f (x # xs) = do { r \<leftarrow> f x; if r \<noteq> None then Some r else first_of f xs }"

lemma for_each_from:
  "dll hp h (us @ vs) \<Longrightarrow> for_each body h (Ptr (hd (vs @ [h]))) hp = first_of body vs"
proof (induction vs arbitrary: us)
  case Nil
  then show ?case by (simp add: for_each.simps)
next
  case (Cons v vs)
  have v: "v \<noteq> h" using Cons.prems by (auto simp: dll_def)
  obtain n where n: "hp v = Some n" "nxt n = Ptr (hd (vs @ [h]))" using entry_pointers [OF Cons.prems] by blast
  have "for_each body h (Ptr (hd (vs @ [h]))) hp = first_of body vs"
    using Cons.IH [of "us @ [v]"] Cons.prems by simp
  then show ?case
    using v n by (subst for_each.simps) (auto split: Option.bind_splits)
qed

text \<open>A loop over a list ends, and visits the nodes in order until the body stops it.\<close>

lemma list_for_each_entry_ok:
  assumes "dll hp h xs"
  shows "list_for_each_entry body h hp = first_of body xs"
  using head_pointers [OF assms] for_each_from [of hp h "[]" xs body] assms
  by (auto simp: list_for_each_entry_def)

text \<open>A safe loop ends and visits every node once, whether its body leaves the visited node in the list or takes
  it out: \<open>I xs\<close> says that \<open>xs\<close> are the nodes still to visit.\<close>

lemma entry_or_head:
  assumes "dll hp h (us @ xs)"
  obtains m where "hp (hd (xs @ [h])) = Some m" "xs \<noteq> [] \<Longrightarrow> nxt m = Ptr (hd (tl xs @ [h]))"
proof (cases xs)
  case Nil
  then show ?thesis using head_pointers [OF assms] that by auto
next
  case (Cons y ys)
  then show ?thesis using entry_pointers [of hp h us y ys] assms that by auto
qed

lemma for_each_safe_rest:
  assumes "\<And>hp s xs. I xs (hp, s) \<Longrightarrow> \<exists>us. dll hp h (us @ xs)"
    and "\<And>a xs hp s. I (a # xs) (hp, s) \<Longrightarrow> ok (body a (hp, s)) (I xs)"
    and "I xs s" and "xs \<noteq> [] \<Longrightarrow> n = Ptr (hd (tl xs @ [h]))"
  shows "ok (for_each_safe body h (Ptr (hd (xs @ [h]))) n s) (I [])"
  using assms(3,4)
proof (induction xs arbitrary: n s)
  case Nil
  then show ?case by (simp add: for_each_safe.simps)
next
  case (Cons a xs)
  obtain hp t where s: "s = (hp, t)" by (cases s)
  obtain us where "dll hp h (us @ a # xs)" using assms(1) Cons.prems(1) unfolding s by blast
  then have a: "a \<noteq> h" by (auto simp: dll_def)
  have n: "n = Ptr (hd (xs @ [h]))" using Cons.prems(2) by simp
  obtain hp' t' where b: "body a s = Some (hp', t')" "I xs (hp', t')"
    using assms(2) Cons.prems(1) by (fastforce simp: s ok_def)
  obtain us' where d: "dll hp' h (us' @ xs)" using assms(1) b(2) by blast
  obtain m where m: "hp' (hd (xs @ [h])) = Some m" "xs \<noteq> [] \<Longrightarrow> nxt m = Ptr (hd (tl xs @ [h]))"
    using d that by (rule entry_or_head)
  have "ok (for_each_safe body h n (nxt m) (hp', t')) (I [])"
    unfolding n by (rule Cons.IH [OF b(2) m(2)])
  then show ?case
    using a b(1) m(1) n by (subst for_each_safe.simps) simp
qed

lemma list_for_each_entry_safe_ok:
  assumes "\<And>hp s xs. I xs (hp, s) \<Longrightarrow> dll hp h xs"
    and "\<And>a xs hp s. I (a # xs) (hp, s) \<Longrightarrow> ok (body a (hp, s)) (I xs)" and "I xs s"
  shows "ok (list_for_each_entry_safe body h s) (I [])"
proof -
  obtain hp t where s: "s = (hp, t)" by (cases s)
  have d: "dll hp h xs" using assms(1,3) s by blast
  obtain n where n: "hp h = Some n" "nxt n = Ptr (hd (xs @ [h]))" using head_pointers [OF d] by blast
  obtain m where m: "hp (hd (xs @ [h])) = Some m" "xs \<noteq> [] \<Longrightarrow> nxt m = Ptr (hd (tl xs @ [h]))"
    using d entry_or_head [of hp h "[]" xs] by auto
  have "\<exists>us. dll hp h (us @ xs)" if "I xs (hp, t)" for hp t xs
    using assms(1) [OF that] by (intro exI [of _ "[]"]) simp
  then show ?thesis
    using for_each_safe_rest [where I = I and body = body and h = h, OF _ assms(2,3) m(2)] n m(1)
    by (simp add: list_for_each_entry_safe_def s)
qed

end
