(* ===== verification/Mrp_Instances.thy ===== *)
theory Mrp_Instances
  imports Linked_List Mrp_Registry
begin

text \<open>
  The list of instances on the heap.  In the code an instance is an object of the heap with an embedded
  \<open>struct list_head\<close>, and \<open>mrp_instances\<close> is the head of a circular list; the other theories keep the
  instances in a HOL list.  Here the functions of \<^verbatim>\<open>state_machine.c\<close> that search or change the list are written
  over the heap, with the loops and operations of \<^verbatim>\<open>list.h\<close>, and shown to simulate the functions of
  \<open>Mrp_Daemon\<close>.
\<close>

section \<open>State and operations\<close>

text \<open>The address of an instance stands for the address of its list node too (\<open>container_of\<close>); \<open>0\<close> is the
  address of the head.\<close>

record idaemon =
  iheap :: "nat lheap"
  iobj :: "nat \<rightharpoonup> inst"
  ilog :: "effect list"
  istale :: "timer list"

definition mrp_instances :: nat where "mrp_instances = 0"

definition idaemon_init :: idaemon where
  "idaemon_init = \<lparr>iheap = [mrp_instances \<mapsto> \<lparr>nxt = Ptr mrp_instances, prv = Ptr mrp_instances\<rparr>],
     iobj = (\<lambda>_. None), ilog = [], istale = []\<rparr>"

definition mrp_find_p :: "u32 \<Rightarrow> u32 \<Rightarrow> idaemon \<Rightarrow> nat option option" where
  "mrp_find_p br nr c = list_for_each_entry (\<lambda>a. do {
     x \<leftarrow> iobj c a;
     Some (if ring_nr (fst x) = nr \<and> ifindex (fst x) = br then Some a else None)
   }) mrp_instances (iheap c)"

definition mrp_get_mrp_p :: "u32 \<Rightarrow> u32 \<Rightarrow> idaemon \<Rightarrow> nat option option" where
  "mrp_get_mrp_p idx peer c = list_for_each_entry (\<lambda>a. do {
     x \<leftarrow> iobj c a;
     Some (if ifindex (fst x) = idx \<and> cfm_peer_mepid (fst x) = peer then Some a else None)
   }) mrp_instances (iheap c)"

definition mrp_get_port_p :: "u32 \<Rightarrow> idaemon \<Rightarrow> (nat \<times> port_ref option) option option" where
  "mrp_get_port_p idx c = list_for_each_entry (\<lambda>a. do {
     (m, pm) \<leftarrow> iobj c a;
     b \<leftarrow> has_ifindex idx (p_port m) pm;
     if b then Some (Some (a, p_port m))
     else do {
       b \<leftarrow> has_ifindex idx (s_port m) pm;
       if b then Some (Some (a, s_port m))
       else do {
         b \<leftarrow> has_ifindex idx (i_port m) pm;
         Some (if b then Some (a, i_port m) else None)
       }
     }
   }) mrp_instances (iheap c)"

text \<open>\<open>malloc\<close> gives the address \<open>a\<close>, and \<open>memset\<close> clears the object and its list node.\<close>

definition mrp_create_p :: "env \<Rightarrow> nat \<Rightarrow> u32 \<Rightarrow> u32 \<Rightarrow> u16 \<Rightarrow> idaemon \<Rightarrow> (int \<times> idaemon) option" where
  "mrp_create_p e a br nr inid c =
    (if \<not> malloc_ok e (ilog c) (sizeof_mrp e) then Some (- ENOMEM, c)
     else do {
       let s = mrp_new e br nr inid (load (mrp_zero, \<lambda>_. None) (ilog c));
       hp \<leftarrow> list_add_tail (Ptr a) (Ptr mrp_instances) ((iheap c)(a \<mapsto> \<lparr>nxt = NULL, prv = NULL\<rparr>));
       Some (0, c\<lparr>iheap := hp, iobj := (iobj c)(a \<mapsto> (mrp s, port s))\<rparr>)
     })"

definition run_at :: "nat \<Rightarrow> (st \<Rightarrow> st option) \<Rightarrow> idaemon \<Rightarrow> idaemon option" where
  "run_at a f c = do {
     x \<leftarrow> iobj c a;
     s \<leftarrow> f (load x (ilog c));
     Some (c\<lparr>iobj := (iobj c)(a \<mapsto> (mrp s, port s)), ilog := log s\<rparr>)
   }"

definition mrp_destroy_p :: "env \<Rightarrow> u32 \<Rightarrow> u32 \<Rightarrow> idaemon \<Rightarrow> idaemon option" where
  "mrp_destroy_p e br nr c = do {
     r \<leftarrow> mrp_find_p br nr c;
     (case r of None \<Rightarrow> Some c
      | Some a \<Rightarrow> do {
          c \<leftarrow> run_at a (destroy_inst e) c;
          x \<leftarrow> iobj c a;
          hp \<leftarrow> list_del (Ptr a) (iheap c);
          Some (c\<lparr>iheap := hp(a := None), iobj := (iobj c)(a := None), istale := istale c @ running (fst x)\<rparr>)
        })
   }"

text \<open>The loop of \<open>mrp_uninit\<close>: the heap of list nodes is the first component of the state of the loop.\<close>

definition mrp_uninit_p :: "env \<Rightarrow> idaemon \<Rightarrow> idaemon option" where
  "mrp_uninit_p e c = map_option snd (list_for_each_entry_safe (\<lambda>a (hp, c). do {
     x \<leftarrow> iobj c a;
     c \<leftarrow> mrp_destroy_p e (ifindex (fst x)) (ring_nr (fst x)) c;
     Some (iheap c, c)
   }) mrp_instances (iheap c, c))"

section \<open>Representation\<close>

definition represents :: "idaemon \<Rightarrow> nat list \<Rightarrow> daemon \<Rightarrow> bool" where
  "represents c xs d \<longleftrightarrow> dll (iheap c) mrp_instances xs \<and> map (iobj c) xs = map Some (insts d) \<and>
     ilog c = dlog d \<and> istale c = stale d"

lemma representsD:
  assumes "represents c xs d"
  shows "dll (iheap c) mrp_instances xs" "length xs = length (insts d)" "distinct xs"
    "\<And>k. k < length (insts d) \<Longrightarrow> iobj c (xs ! k) = Some (insts d ! k)" "ilog c = dlog d" "istale c = stale d"
proof -
  show d: "dll (iheap c) mrp_instances xs" and l: "ilog c = dlog d" "istale c = stale d"
    using assms by (simp_all add: represents_def)
  have m: "map (iobj c) xs = map Some (insts d)" using assms by (simp add: represents_def)
  then show n: "length xs = length (insts d)" by (metis length_map)
  show "distinct xs" using d by (simp add: dll_def)
  fix k assume k: "k < length (insts d)"
  then have "map (iobj c) xs ! k = map Some (insts d) ! k" using m by simp
  then show "iobj c (xs ! k) = Some (insts d ! k)" using k n by simp
qed

text \<open>A search loop over the heap returns the node at the index that the search in the list returns.\<close>

lemma first_of_find:
  assumes "map obj xs = map Some ys"
  shows "first_of (\<lambda>a. do { x \<leftarrow> obj a; Some (if P x then Some a else None) }) xs = Some (map_option ((!) xs) (find_index P ys))"
  using assms
proof (induction xs arbitrary: ys)
  case (Cons x xs)
  then obtain y ys' where "ys = y # ys'" "obj x = Some y" "map obj xs = map Some ys'" by auto
  then show ?case using Cons.IH [of ys'] by (auto simp: option.map_comp comp_def)
qed simp

lemma search_ok:
  assumes "represents c xs d"
  shows "mrp_find_p br nr c = Some (map_option ((!) xs) (mrp_find br nr d))"
    "mrp_get_mrp_p idx peer c = Some (map_option ((!) xs) (mrp_get_mrp idx peer d))"
proof -
  have m: "map (iobj c) xs = map Some (insts d)" using assms by (simp add: represents_def)
  note loop = list_for_each_entry_ok [OF representsD(1) [OF assms]] first_of_find [OF m]
  show "mrp_find_p br nr c = Some (map_option ((!) xs) (mrp_find br nr d))"
    "mrp_get_mrp_p idx peer c = Some (map_option ((!) xs) (mrp_get_mrp idx peer d))"
    unfolding mrp_find_p_def mrp_find_def mrp_get_mrp_p_def mrp_get_mrp_def loop by simp_all
qed

lemma get_port_from_ge: "get_port_from idx n ys = Some (Some (k, p)) \<Longrightarrow> n \<le> k"
proof (induction ys arbitrary: n)
  case (Cons y ys)
  then show ?case by (cases y) (auto split: Option.bind_splits if_splits dest!: Cons.IH)
qed simp

lemma first_of_port:
  assumes "map obj xs = map Some ys"
  shows "first_of (\<lambda>a. do {
     (m, pm) \<leftarrow> obj a;
     b \<leftarrow> has_ifindex idx (p_port m) pm;
     if b then Some (Some (a, p_port m))
     else do {
       b \<leftarrow> has_ifindex idx (s_port m) pm;
       if b then Some (Some (a, s_port m))
       else do {
         b \<leftarrow> has_ifindex idx (i_port m) pm;
         Some (if b then Some (a, i_port m) else None)
       }
     }
   }) xs = map_option (map_option (\<lambda>(k, p). (xs ! (k - n), p))) (get_port_from idx n ys)"
  using assms
proof (induction xs arbitrary: ys n)
  case (Cons x xs)
  then obtain m pm ys' where y: "ys = (m, pm) # ys'" "obj x = Some (m, pm)" "map obj xs = map Some ys'" by auto
  have shift: "map_option (map_option (\<lambda>(k, p). (xs ! (k - Suc n), p))) (get_port_from idx (Suc n) ys') =
      map_option (map_option (\<lambda>(k, p). ((x # xs) ! (k - n), p))) (get_port_from idx (Suc n) ys')"
    by (intro option.map_cong refl) (auto simp: nth_Cons' dest!: get_port_from_ge)
  show ?case using Cons.IH [OF y(3), of "Suc n"] y(1,2) by (auto simp: shift split: Option.bind_splits)
qed simp

lemma mrp_get_port_p_ok:
  assumes "represents c xs d"
  shows "mrp_get_port_p idx c = map_option (map_option (\<lambda>(k, p). (xs ! k, p))) (mrp_get_port idx d)"
proof -
  have m: "map (iobj c) xs = map Some (insts d)" using assms by (simp add: represents_def)
  show ?thesis
    unfolding mrp_get_port_p_def mrp_get_port_def list_for_each_entry_ok [OF representsD(1) [OF assms]]
      first_of_port [OF m, of idx 0] by simp
qed

section \<open>Simulation\<close>

lemma init_represents: "represents idaemon_init [] daemon_init"
  by (simp add: represents_def idaemon_init_def daemon_init_def dll_def link_def)

text \<open>\<open>malloc\<close> gives the address of no live object.\<close>

lemma mrp_create_p_ok:
  assumes "represents c xs d" and "iheap c a = None"
  shows "ok (mrp_create_p e a br nr inid c) (\<lambda>(r, c'). r = fst (mrp_create e br nr inid d) \<and>
    represents c' (if r = 0 then xs @ [a] else xs) (snd (mrp_create e br nr inid d)))"
proof (cases "malloc_ok e (dlog d) (sizeof_mrp e)")
  case False
  then show ?thesis
    using assms(1) by (simp add: mrp_create_p_def mrp_create_def represents_def ENOMEM_def)
next
  case True
  let ?hp = "(iheap c)(a \<mapsto> \<lparr>nxt = NULL, prv = NULL\<rparr>)"
  note r = representsD [OF assms(1)]
  have a: "a \<notin> set (mrp_instances # xs)"
  proof
    assume "a \<in> set (mrp_instances # xs)"
    then consider "a = mrp_instances" | us vs where "xs = us @ a # vs" by (auto dest: split_list)
    then show False using head_pointers [OF r(1)] entry_pointers r(1) assms(2) by cases fastforce+
  qed
  have "dll ?hp mrp_instances xs" by (rule dll_frame [OF r(1)]) (use a in auto)
  then have "ok (list_add_tail (Ptr a) (Ptr mrp_instances) ?hp) (\<lambda>hp'. dll hp' mrp_instances (xs @ [a]))"
    by (rule ok_mono [OF list_add_tail_ok [OF _ _ a]]) simp_all
  then show ?thesis
    using a assms(1) True by (auto simp: mrp_create_p_def mrp_create_def represents_def Let_def ok_def)
qed

lemma run_at_ok:
  assumes "represents c xs d" and "k < length (insts d)" and "run_inst k f d = Some d'"
  shows "\<exists>c'. run_at (xs ! k) f c = Some c' \<and> represents c' xs d' \<and> length (insts d') = length (insts d)"
proof -
  note r = representsD [OF assms(1)]
  obtain s where s: "f (load (insts d ! k) (dlog d)) = Some s" "d' = d\<lparr>insts := (insts d)[k := (mrp s, port s)], dlog := log s\<rparr>"
    using assms(2,3) by (cases "f (load (insts d ! k) (dlog d))") (auto simp: run_inst_def on_inst_def)
  have "map ((iobj c)(xs ! k \<mapsto> y)) xs = map Some ((insts d)[k := y])" for y
    using assms(2) r by (intro nth_equalityI) (auto simp: nth_list_update nth_eq_iff_index_eq)
  then have "represents (c\<lparr>iobj := (iobj c)(xs ! k \<mapsto> (mrp s, port s)), ilog := log s\<rparr>) xs d'"
    using r(1,6) by (simp add: represents_def s(2))
  then show ?thesis
    using r(4) [OF assms(2)] s r(5) by (auto simp: run_at_def)
qed

lemma take_out:
  assumes "represents c xs d" and "k < length (insts d)"
  shows "ok (list_del (Ptr (xs ! k)) (iheap c)) (\<lambda>hp. represents
    (c\<lparr>iheap := hp(xs ! k := None), iobj := (iobj c)(xs ! k := None), istale := istale c @ l\<rparr>) (remove_nth k xs)
    (d\<lparr>stale := stale d @ l, insts := remove_nth k (insts d)\<rparr>))"
proof -
  note r = representsD [OF assms(1)]
  let ?us = "take k xs" and ?vs = "drop (Suc k) xs"
  have xs: "xs = ?us @ xs ! k # ?vs" using assms(2) r(2) by (simp add: id_take_nth_drop)
  have ni: "xs ! k \<notin> set (mrp_instances # ?us @ ?vs)"
    using r(1) unfolding dll_def by (subst (asm) xs) auto
  have "map (iobj c) (?us @ ?vs) = map Some (remove_nth k (insts d))"
    using assms(1) by (simp add: represents_def remove_nth_def take_map [symmetric] drop_map [symmetric])
  then have "map ((iobj c)(xs ! k := None)) (?us @ ?vs) = map Some (remove_nth k (insts d))"
    using ni by simp
  moreover have "ok (list_del (Ptr (xs ! k)) (iheap c)) (\<lambda>hp. dll (hp(xs ! k := None)) mrp_instances (?us @ ?vs))"
  proof -
    have "dll (iheap c) mrp_instances (?us @ xs ! k # ?vs)" using r(1) xs by simp
    then show ?thesis by (rule ok_mono [OF list_del_ok]) (use ni in \<open>auto elim!: dll_frame\<close>)
  qed
  ultimately show ?thesis
    using r(5,6) by (auto simp: represents_def remove_nth_def ok_def)
qed

lemma mrp_destroy_p_ok:
  assumes "represents c xs d" and "mrp_destroy e br nr d = Some d'"
  shows "\<exists>c'. mrp_destroy_p e br nr c = Some c' \<and>
    represents c' (case mrp_find br nr d of None \<Rightarrow> xs | Some k \<Rightarrow> remove_nth k xs) d'"
proof (cases "mrp_find br nr d")
  case None
  then show ?thesis using assms by (simp add: mrp_destroy_p_def mrp_destroy_def search_ok(1) [OF assms(1)])
next
  case (Some k)
  then have k: "k < length (insts d)" by (auto simp: mrp_find_def dest: find_index_Some)
  obtain d1 where d1: "run_inst k (destroy_inst e) d = Some d1"
      "d' = d1\<lparr>stale := stale d1 @ running (fst (insts d1 ! k)), insts := remove_nth k (insts d1)\<rparr>"
    using assms(2) Some by (auto simp: mrp_destroy_def split: Option.bind_splits)
  obtain c1 where c1: "run_at (xs ! k) (destroy_inst e) c = Some c1" "represents c1 xs d1" "k < length (insts d1)"
    using run_at_ok [OF assms(1) k d1(1)] k by auto
  obtain hp where "list_del (Ptr (xs ! k)) (iheap c1) = Some hp" "represents
      (c1\<lparr>iheap := hp(xs ! k := None), iobj := (iobj c1)(xs ! k := None), istale := istale c1 @ running (fst (insts d1 ! k))\<rparr>)
      (remove_nth k xs) d'"
    using take_out [OF c1(2,3)] unfolding d1(2) ok_def by blast
  then show ?thesis
    using Some c1(1) representsD(4) [OF c1(2,3)] by (simp add: mrp_destroy_p_def search_ok(1) [OF assms(1)])
qed

lemma uninit_step:
  assumes "represents c (a # xs) d" and "insts d = x # ys" and "mrp_destroy e (ifindex (fst x)) (ring_nr (fst x)) d = Some d'"
  shows "\<exists>c'. mrp_destroy_p e (ifindex (fst x)) (ring_nr (fst x)) c = Some c' \<and> represents c' xs d' \<and> insts d' = ys"
proof -
  have f: "mrp_find (ifindex (fst x)) (ring_nr (fst x)) d = Some 0" by (simp add: mrp_find_def assms(2))
  have "insts d' = ys"
    using assms(2,3) f by (auto simp: mrp_destroy_def run_inst_def on_inst_def remove_nth_def split: Option.bind_splits)
  then show ?thesis using mrp_destroy_p_ok [OF assms(1,3)] by (simp add: f remove_nth_def)
qed

text \<open>The loop of \<open>mrp_uninit\<close> over the heap, which frees the node it stands on, does what the loop over the keys
  does.\<close>

lemma mrp_uninit_p_ok:
  assumes "represents c xs d" and "mrp_uninit e d = Some d'"
  shows "\<exists>c'. mrp_uninit_p e c = Some c' \<and> represents c' [] d'"
proof -
  let ?key = "\<lambda>x :: inst. case x of (m, _) \<Rightarrow> (ifindex m, ring_nr m)"
  let ?I = "\<lambda>xs (hp, c). \<exists>d. hp = iheap c \<and> represents c xs d \<and> uninit_loop e (map ?key (insts d)) d = Some d'"
  let ?body = "\<lambda>a (hp, c). do { x \<leftarrow> iobj c a; c \<leftarrow> mrp_destroy_p e (ifindex (fst x)) (ring_nr (fst x)) c; Some (iheap c, c) }"
  have "ok (list_for_each_entry_safe ?body mrp_instances (iheap c, c)) (?I [])"
  proof (rule list_for_each_entry_safe_ok [where I = ?I and xs = xs])
    show "dll hp mrp_instances ys" if "?I ys (hp, s)" for hp s ys using that by (auto simp: represents_def)
    show "ok (?body a (hp, s)) (?I ys)" if i: "?I (a # ys) (hp, s)" for a ys hp s
    proof -
      obtain d0 where d0: "represents s (a # ys) d0" "uninit_loop e (map ?key (insts d0)) d0 = Some d'" using i by auto
      then obtain x zs where x: "insts d0 = x # zs" "iobj s a = Some x" by (cases "insts d0") (auto simp: represents_def)
      obtain d1 where d1: "mrp_destroy e (ifindex (fst x)) (ring_nr (fst x)) d0 = Some d1" "uninit_loop e (map ?key zs) d1 = Some d'"
        using d0(2) by (cases x) (auto simp: x(1) split: Option.bind_splits)
      show ?thesis using uninit_step [OF d0(1) x(1) d1(1)] d1(2) x(2) by auto
    qed
    show "?I xs (iheap c, c)" using assms by (auto simp: mrp_uninit_def)
  qed
  then show ?thesis by (auto simp: mrp_uninit_p_def ok_def represents_def)
qed

end
