(* ===== verification/Mrp_Ifdriver.thy ===== *)
theory Mrp_Ifdriver
  imports Mrp_Netlink Mrp_Client
begin

text \<open>
  The two interface drivers behind \<^verbatim>\<open>ifdriver.h\<close>.  \<^verbatim>\<open>ifdriver_netlink.c\<close> turns a request of the state
  machines into a netlink message of nested attributes, \<^verbatim>\<open>ifdriver_kbact.c\<close> into commands of a switch
  tool.  One of them is linked into the daemon; what the daemon relies on is the locale
  \<open>ifdriver\<close>.  A driver function gives its return value and what it sent; \<open>BUG()\<close>, which ends
  the process, is \<open>None\<close>.  \<open>talk\<close> is the answer of the kernel to a message.
\<close>

section \<open>Netlink\<close>

definition NLM_F_REQUEST :: u16 where "NLM_F_REQUEST = 1"
definition RTM_SETLINK :: u16 where "RTM_SETLINK = 19"
definition PF_BRIDGE :: u8 where "PF_BRIDGE = 7"
definition ATTR_AF_SPEC :: u16 where "ATTR_AF_SPEC = 26"
definition ATTR_PROTINFO :: u16 where "ATTR_PROTINFO = 12"
definition IFLA_BRPORT_FLUSH :: u16 where "IFLA_BRPORT_FLUSH = 24"
definition IFLA_BRIDGE_FLAGS :: u16 where "IFLA_BRIDGE_FLAGS = 0"
definition IFLA_BRIDGE_MRP :: u16 where "IFLA_BRIDGE_MRP = 4"
definition BRIDGE_FLAGS_SELF :: u16 where "BRIDGE_FLAGS_SELF = 2"
definition IFLA_BRIDGE_MRP_PORT_STATE :: u16 where "IFLA_BRIDGE_MRP_PORT_STATE = 2"
definition IFLA_BRIDGE_MRP_RING_ROLE :: u16 where "IFLA_BRIDGE_MRP_RING_ROLE = 5"
definition IFLA_BRIDGE_MRP_IN_ROLE :: u16 where "IFLA_BRIDGE_MRP_IN_ROLE = 8"
definition IFLA_BRIDGE_MRP_PORT_STATE_STATE :: u16 where "IFLA_BRIDGE_MRP_PORT_STATE_STATE = 1"
definition IFLA_BRIDGE_MRP_RING_ROLE_RING_ID :: u16 where "IFLA_BRIDGE_MRP_RING_ROLE_RING_ID = 1"
definition IFLA_BRIDGE_MRP_RING_ROLE_ROLE :: u16 where "IFLA_BRIDGE_MRP_RING_ROLE_ROLE = 2"
definition IFLA_BRIDGE_MRP_IN_ROLE_RING_ID :: u16 where "IFLA_BRIDGE_MRP_IN_ROLE_RING_ID = 1"
definition IFLA_BRIDGE_MRP_IN_ROLE_IN_ID :: u16 where "IFLA_BRIDGE_MRP_IN_ROLE_IN_ID = 2"
definition IFLA_BRIDGE_MRP_IN_ROLE_ROLE :: u16 where "IFLA_BRIDGE_MRP_IN_ROLE_ROLE = 3"
definition IFLA_BRIDGE_MRP_IN_ROLE_I_IFINDEX :: u16 where "IFLA_BRIDGE_MRP_IN_ROLE_I_IFINDEX = 4"

definition req_start :: "u32 \<Rightarrow> u16 \<Rightarrow> request" where
  "req_start idx cmd = request_init\<lparr>nlmsg_len := 32, nlmsg_flags := NLM_F_REQUEST, nlmsg_type := cmd,
     ifi_family := PF_BRIDGE, ifi_index := idx\<rparr>"

definition mrp_nl_bridge_prepare :: "u32 \<Rightarrow> u16 \<Rightarrow> u16 \<Rightarrow> (nat \<times> nat \<times> nat \<times> request) option" where
  "mrp_nl_bridge_prepare idx cmd mrp_attr = do {
     (afspec, r) \<leftarrow> addattr_nest sizeof_request ATTR_AF_SPEC (req_start idx cmd);
     (_, r) \<leftarrow> addattr16 sizeof_request IFLA_BRIDGE_FLAGS BRIDGE_FLAGS_SELF r;
     (afmrp, r) \<leftarrow> addattr_nest sizeof_request (IFLA_BRIDGE_MRP OR NLA_F_NESTED) r;
     (af_submrp, r) \<leftarrow> addattr_nest sizeof_request (mrp_attr OR NLA_F_NESTED) r;
     Some (afspec, afmrp, af_submrp, r)
   }"

definition mrp_nl_port_prepare :: "mrp_port \<Rightarrow> u16 \<Rightarrow> u16 \<Rightarrow> (nat \<times> nat \<times> nat \<times> request) option" where
  "mrp_nl_port_prepare p cmd mrp_attr = do {
     (afspec, r) \<leftarrow> addattr_nest sizeof_request ATTR_AF_SPEC (req_start (pifindex p) cmd);
     (afmrp, r) \<leftarrow> addattr_nest sizeof_request (IFLA_BRIDGE_MRP OR NLA_F_NESTED) r;
     (af_submrp, r) \<leftarrow> addattr_nest sizeof_request (mrp_attr OR NLA_F_NESTED) r;
     Some (afspec, afmrp, af_submrp, r)
   }"

definition mrp_nl_terminate :: "(request \<Rightarrow> int) \<Rightarrow> request \<Rightarrow> nat \<Rightarrow> nat \<Rightarrow> nat \<Rightarrow> (int \<times> request list) option" where
  "mrp_nl_terminate talk r afspec afmrp af_submrp = do {
     r \<leftarrow> addattr_nest_end af_submrp r;
     r \<leftarrow> addattr_nest_end afmrp r;
     r \<leftarrow> addattr_nest_end afspec r;
     Some (talk r, [r])
   }"

definition netlink_port_set_state ::
  "(request \<Rightarrow> int) \<Rightarrow> mrp_port \<Rightarrow> br_mrp_port_state_type \<Rightarrow> (int \<times> request list) option" where
  "netlink_port_set_state talk p state = do {
     (afspec, afmrp, af_submrp, r) \<leftarrow> mrp_nl_port_prepare p RTM_SETLINK IFLA_BRIDGE_MRP_PORT_STATE;
     (_, r) \<leftarrow> addattr32 sizeof_request IFLA_BRIDGE_MRP_PORT_STATE_STATE (port_state_code state) r;
     mrp_nl_terminate talk r afspec afmrp af_submrp
   }"

definition netlink_set_ring_role ::
  "(request \<Rightarrow> int) \<Rightarrow> mrp \<Rightarrow> br_mrp_ring_role_type \<Rightarrow> (int \<times> request list) option" where
  "netlink_set_ring_role talk m role = do {
     (afspec, afmrp, af_submrp, r) \<leftarrow> mrp_nl_bridge_prepare (ifindex m) RTM_SETLINK IFLA_BRIDGE_MRP_RING_ROLE;
     let role = (if mra_support m then BR_MRP_RING_ROLE_MRA else role);
     (_, r) \<leftarrow> addattr32 sizeof_request IFLA_BRIDGE_MRP_RING_ROLE_RING_ID (ring_nr m) r;
     (_, r) \<leftarrow> addattr32 sizeof_request IFLA_BRIDGE_MRP_RING_ROLE_ROLE (ring_role_code role) r;
     mrp_nl_terminate talk r afspec afmrp af_submrp
   }"

definition netlink_set_in_role ::
  "(request \<Rightarrow> int) \<Rightarrow> mrp \<Rightarrow> mrp_port \<Rightarrow> br_mrp_in_role_type \<Rightarrow> (int \<times> request list) option" where
  "netlink_set_in_role talk m i role = do {
     (afspec, afmrp, af_submrp, r) \<leftarrow> mrp_nl_bridge_prepare (ifindex m) RTM_SETLINK IFLA_BRIDGE_MRP_IN_ROLE;
     (_, r) \<leftarrow> addattr32 sizeof_request IFLA_BRIDGE_MRP_IN_ROLE_RING_ID (ring_nr m) r;
     (_, r) \<leftarrow> addattr16 sizeof_request IFLA_BRIDGE_MRP_IN_ROLE_IN_ID (in_id m) r;
     (_, r) \<leftarrow> addattr32 sizeof_request IFLA_BRIDGE_MRP_IN_ROLE_I_IFINDEX (pifindex i) r;
     (_, r) \<leftarrow> addattr32 sizeof_request IFLA_BRIDGE_MRP_IN_ROLE_ROLE (in_role_code role) r;
     mrp_nl_terminate talk r afspec afmrp af_submrp
   }"

text \<open>One message is composed and sent for each port; the first refusal ends the function.\<close>

definition netlink_flush ::
  "(request \<Rightarrow> int) \<Rightarrow> mrp_port \<Rightarrow> mrp_port \<Rightarrow> mrp_port option \<Rightarrow> (int \<times> request list) option" where
  "netlink_flush talk p s i = do {
     (protinfo, r) \<leftarrow> addattr_nest sizeof_request (ATTR_PROTINFO OR NLA_F_NESTED) (req_start 0 RTM_SETLINK);
     (_, r) \<leftarrow> addattr 1024 IFLA_BRPORT_FLUSH r;
     r \<leftarrow> addattr_nest_end protinfo r;
     let r1 = r\<lparr>ifi_index := pifindex p\<rparr>;
     if talk r1 < 0 then Some (- 1, [r1])
     else
       let r2 = r\<lparr>ifi_index := pifindex s\<rparr> in
       if talk r2 < 0 then Some (- 1, [r1, r2])
       else (case i of None \<Rightarrow> Some (0, [r1, r2])
         | Some i \<Rightarrow>
             let r3 = r\<lparr>ifi_index := pifindex i\<rparr> in
             if talk r3 < 0 then Some (- 1, [r1, r2, r3]) else Some (0, [r1, r2, r3]))
   }"

section \<open>The switch tool\<close>

text \<open>\<open>exec_cmd\<close> writes the text to the tool's input; its result is ignored by every caller.  \<open>fwrite\<close> counts
  items, so that the result is 0 only for texts of at most one character.\<close>

definition exec_cmd :: "string \<Rightarrow> int \<times> string" where
  "exec_cmd cmd = (if (if length cmd = 0 then 0 else 1) < length cmd then - 1 else 0, cmd)"

definition kbact_port_set_state :: "mrp_port \<Rightarrow> br_mrp_port_state_type \<Rightarrow> (int \<times> string list) option" where
  "kbact_port_set_state p state = do {
     n \<leftarrow> (case state of BR_MRP_PORT_STATE_BLOCKED \<Rightarrow> Some 1
           | BR_MRP_PORT_STATE_DISABLED \<Rightarrow> Some 0
           | BR_MRP_PORT_STATE_FORWARDING \<Rightarrow> Some 3
           | _ \<Rightarrow> None);
     Some (0, [snd (exec_cmd (''cswtool -setstpstatus '' @ pifname p @ '' '' @ dec_of_int n @ nl))])
   }"

definition kbact_set_ring_role :: "mrp \<Rightarrow> br_mrp_ring_role_type \<Rightarrow> (int \<times> string list) option" where
  "kbact_set_ring_role m role = (case role of BR_MRP_RING_ROLE_MRM \<Rightarrow> Some (0, [])
     | BR_MRP_RING_ROLE_MRC \<Rightarrow> Some (0, []) | _ \<Rightarrow> None)"

definition kbact_set_in_role :: "mrp \<Rightarrow> br_mrp_in_role_type \<Rightarrow> (int \<times> string list) option" where
  "kbact_set_in_role m role = (case role of BR_MRP_IN_ROLE_MIM \<Rightarrow> Some (0, [])
     | BR_MRP_IN_ROLE_MIC \<Rightarrow> Some (0, []) | _ \<Rightarrow> None)"

definition kbact_flush :: "mrp_port \<Rightarrow> mrp_port \<Rightarrow> mrp_port option \<Rightarrow> (int \<times> string list) option" where
  "kbact_flush p s i = (
     let f = (\<lambda>q. snd (exec_cmd (''cswtool -atuflushport '' @ pifname q @ nl)))
     in Some (0, [f p, f s] @ (case i of None \<Rightarrow> [] | Some i \<Rightarrow> [f i])))"

text \<open>\<open>ether_ntoa\<close>: the bytes in hexadecimal without leading zeros.\<close>

definition hexchar :: "nat \<Rightarrow> char" where
  "hexchar n = (if n < 10 then char_of (48 + n) else char_of (87 + n))"

definition hex_of_u8 :: "u8 \<Rightarrow> string" where
  "hex_of_u8 b = (if unat b < 16 then [hexchar (unat b)] else [hexchar (unat b div 16), hexchar (unat b mod 16)])"

fun ether_ntoa :: "ether \<Rightarrow> string" where
  "ether_ntoa [] = []"
| "ether_ntoa [b] = hex_of_u8 b"
| "ether_ntoa (b # bs) = hex_of_u8 b @ '':'' @ ether_ntoa bs"

definition kbact_init :: "string list" where
  "kbact_init = map (\<lambda>mac. snd (exec_cmd (''cswtool -atuadd cpu '' @ ether_ntoa mac @ '' 1 6 1'' @ nl)))
     [mrp_test_dmac, mrp_control_dmac, mrp_itest_dmac, mrp_icontrol_dmac]"

definition kbact_uninit :: "string list" where
  "kbact_uninit = map (\<lambda>mac. snd (exec_cmd (''cswtool -atudel cpu '' @ ether_ntoa mac @ nl)))
     [mrp_test_dmac, mrp_control_dmac, mrp_itest_dmac, mrp_icontrol_dmac]"

section \<open>What the daemon relies on\<close>

text \<open>The aliases of \<^verbatim>\<open>ifdriver.h\<close>: the function of the linked driver for each request.  Other effects are
  not requests to the driver.\<close>

definition netlink_driver :: "(request \<Rightarrow> int) \<Rightarrow> effect \<Rightarrow> (int \<times> request list) option" where
  "netlink_driver talk x = (case x of
     Ifdriver_port_set_state p st \<Rightarrow> netlink_port_set_state talk p st
   | Ifdriver_set_ring_role m r \<Rightarrow> netlink_set_ring_role talk m r
   | Ifdriver_set_in_role m i r \<Rightarrow> netlink_set_in_role talk m i r
   | Ifdriver_flush m p s i \<Rightarrow> netlink_flush talk p s i
   | _ \<Rightarrow> Some (0, []))"

definition kbact_driver :: "effect \<Rightarrow> (int \<times> string list) option" where
  "kbact_driver x = (case x of
     Ifdriver_port_set_state p st \<Rightarrow> kbact_port_set_state p st
   | Ifdriver_set_ring_role m r \<Rightarrow> kbact_set_ring_role m r
   | Ifdriver_set_in_role m i r \<Rightarrow> kbact_set_in_role m r
   | Ifdriver_flush m p s i \<Rightarrow> kbact_flush p s i
   | _ \<Rightarrow> Some (0, []))"

text \<open>The requests that the state machines make.\<close>

definition served :: "effect \<Rightarrow> bool" where
  "served x \<longleftrightarrow> (case x of
     Ifdriver_port_set_state p st \<Rightarrow> st \<in> {BR_MRP_PORT_STATE_DISABLED, BR_MRP_PORT_STATE_BLOCKED, BR_MRP_PORT_STATE_FORWARDING}
   | Ifdriver_set_ring_role m r \<Rightarrow> r \<in> {BR_MRP_RING_ROLE_MRM, BR_MRP_RING_ROLE_MRC}
   | Ifdriver_set_in_role m i r \<Rightarrow> r \<in> {BR_MRP_IN_ROLE_MIM, BR_MRP_IN_ROLE_MIC}
   | _ \<Rightarrow> True)"

fun drive :: "(effect \<Rightarrow> (int \<times> 'c list) option) \<Rightarrow> effect list \<Rightarrow> 'c list option" where
  "drive f [] = Some []"
| "drive f (x # xs) = do { (_, c) \<leftarrow> f x; cs \<leftarrow> drive f xs; Some (c @ cs) }"

locale ifdriver =
  fixes driver :: "effect \<Rightarrow> (int \<times> 'c list) option"
  assumes serves: "served x \<Longrightarrow> ok (driver x) (\<lambda>_. True)"
begin

lemma drive_total: "\<forall>x \<in> set xs. served x \<Longrightarrow> ok (drive driver xs) (\<lambda>_. True)"
proof (induction xs)
  case (Cons x xs)
  then show ?case using serves [of x] by (auto simp: ok_def)
qed simp

lemma drive_append:
  "drive driver (xs @ ys) = do { a \<leftarrow> drive driver xs; b \<leftarrow> drive driver ys; Some (a @ b) }"
proof (induction xs)
  case Nil
  then show ?case by (cases "drive driver ys") simp_all
next
  case (Cons x xs)
  then show ?case
    by (cases "driver x"; cases "drive driver xs"; cases "drive driver ys") (auto split: prod.splits)
qed

end

section \<open>The messages of the netlink driver\<close>

lemma req_start_set: "req_start idx cmd = nl_set (req_start idx cmd) []"
  by (simp add: nl_set_def req_start_def request_init_def)

text \<open>Closing three nested attributes, the outermost with other attributes \<open>f\<close> before the second.\<close>

lemma terminate_set:
  assumes "4 dvd length f" and "4 dvd length body" and "12 + length f + length body \<le> 1024"
  shows "mrp_nl_terminate talk (nl_set h (mem16 4 @ mem16 a @ f @ mem16 4 @ mem16 b @ mem16 4 @ mem16 c @ body))
      32 (36 + length f) (40 + length f) =
    (let r = nl_set h (enc_attr (a, f @ enc_attr (b, enc_attr (c, body)))) in Some (talk r, [r]))"
proof -
  have al: "RTA_ALIGN (4 + length body) = 4 + length body" "RTA_ALIGN (8 + length body) = 8 + length body"
    using assms(2) by (auto intro!: RTA_ALIGN_id)
  have d4: "4 dvd Suc (Suc (Suc (Suc (length f))))" using assms(1) by presburger
  have s1: "addattr_nest_end (32 + length (mem16 4 @ mem16 a @ f @ mem16 4 @ mem16 b))
      (nl_set h ((mem16 4 @ mem16 a @ f @ mem16 4 @ mem16 b) @ mem16 4 @ mem16 c @ body)) =
      Some (nl_set h ((mem16 4 @ mem16 a @ f @ mem16 4 @ mem16 b) @ enc_attr (c, body)))"
    by (rule addattr_nest_end_set) (use assms in simp_all)
  have s2: "addattr_nest_end (32 + length (mem16 4 @ mem16 a @ f))
      (nl_set h ((mem16 4 @ mem16 a @ f) @ mem16 4 @ mem16 b @ enc_attr (c, body))) =
      Some (nl_set h ((mem16 4 @ mem16 a @ f) @ enc_attr (b, enc_attr (c, body))))"
    by (rule addattr_nest_end_set) (use assms d4 in \<open>simp_all add: al RTA_ALIGN_mult\<close>)
  have s3: "addattr_nest_end (32 + length ([] :: u8 list)) (nl_set h ([] @ mem16 4 @ mem16 a @ f @ enc_attr (b, enc_attr (c, body)))) =
      Some (nl_set h ([] @ enc_attr (a, f @ enc_attr (b, enc_attr (c, body)))))"
    by (rule addattr_nest_end_set) (use assms in \<open>simp_all add: al RTA_ALIGN_mult\<close>)
  show ?thesis
    using s1 s2 s3 by (simp add: mrp_nl_terminate_def Let_def)
qed

lemma addattrs_set:
  assumes "4 dvd length bs" and "length bs + 8 \<le> 1024"
  shows "addattr32 1056 ty v (nl_set h bs) = Some (0, nl_set h (bs @ enc_attr (ty, mem32 v)))"
    "addattr16 1056 ty w (nl_set h bs) = Some (0, nl_set h (bs @ enc_attr (ty, mem16 w)))"
    "addattr_nest 1056 ty (nl_set h bs) = Some (32 + length bs, nl_set h (bs @ mem16 4 @ mem16 ty))"
  unfolding addattr32_def addattr16_def using assms
  by (auto intro!: addattr_l_set addattr_nest_set simp: RTA_ALIGN_def)

lemma length_enc32 [simp]: "length (enc_attr (ty, mem32 v)) = 8" "length (enc_attr (ty, mem16 w)) = 8"
  by (simp_all add: RTA_ALIGN_def)

definition mrp_attrs :: "u8 list \<Rightarrow> u16 \<Rightarrow> u8 list \<Rightarrow> u8 list" where
  "mrp_attrs f ty body =
     enc_attr (ATTR_AF_SPEC, f @ enc_attr (IFLA_BRIDGE_MRP OR NLA_F_NESTED, enc_attr (ty OR NLA_F_NESTED, body)))"

lemma netlink_port_set_state_eq:
  "netlink_port_set_state talk p state = (let r = nl_set (req_start (pifindex p) RTM_SETLINK)
     (mrp_attrs [] IFLA_BRIDGE_MRP_PORT_STATE (enc_attr (IFLA_BRIDGE_MRP_PORT_STATE_STATE, mem32 (port_state_code state))))
   in Some (talk r, [r]))"
  unfolding netlink_port_set_state_def mrp_nl_port_prepare_def sizeof_request_def
  using terminate_set [of "[]" "enc_attr (IFLA_BRIDGE_MRP_PORT_STATE_STATE, mem32 (port_state_code state))"]
  by (subst req_start_set) (simp add: addattrs_set mrp_attrs_def)

definition self_flags :: "u8 list" where
  "self_flags = enc_attr (IFLA_BRIDGE_FLAGS, mem16 BRIDGE_FLAGS_SELF)"

lemma length_self_flags [simp]: "length self_flags = 8"
  by (simp add: self_flags_def del: length_enc_attr)

lemma netlink_set_ring_role_eq:
  "netlink_set_ring_role talk m role = (let r = nl_set (req_start (ifindex m) RTM_SETLINK)
     (mrp_attrs self_flags IFLA_BRIDGE_MRP_RING_ROLE (enc_attrs
        [(IFLA_BRIDGE_MRP_RING_ROLE_RING_ID, mem32 (ring_nr m)),
         (IFLA_BRIDGE_MRP_RING_ROLE_ROLE, mem32 (ring_role_code (if mra_support m then BR_MRP_RING_ROLE_MRA else role)))]))
   in Some (talk r, [r]))"
  unfolding netlink_set_ring_role_def mrp_nl_bridge_prepare_def sizeof_request_def
  using terminate_set [of self_flags "enc_attrs
        [(IFLA_BRIDGE_MRP_RING_ROLE_RING_ID, mem32 (ring_nr m)),
         (IFLA_BRIDGE_MRP_RING_ROLE_ROLE, mem32 (ring_role_code (if mra_support m then BR_MRP_RING_ROLE_MRA else role)))]"]
  by (subst req_start_set) (simp add: addattrs_set mrp_attrs_def self_flags_def [symmetric] Let_def del: length_enc_attr)

lemma netlink_set_in_role_eq:
  "netlink_set_in_role talk m i role = (let r = nl_set (req_start (ifindex m) RTM_SETLINK)
     (mrp_attrs self_flags IFLA_BRIDGE_MRP_IN_ROLE (enc_attrs
        [(IFLA_BRIDGE_MRP_IN_ROLE_RING_ID, mem32 (ring_nr m)), (IFLA_BRIDGE_MRP_IN_ROLE_IN_ID, mem16 (in_id m)),
         (IFLA_BRIDGE_MRP_IN_ROLE_I_IFINDEX, mem32 (pifindex i)), (IFLA_BRIDGE_MRP_IN_ROLE_ROLE, mem32 (in_role_code role))]))
   in Some (talk r, [r]))"
  unfolding netlink_set_in_role_def mrp_nl_bridge_prepare_def sizeof_request_def
  using terminate_set [of self_flags "enc_attrs
        [(IFLA_BRIDGE_MRP_IN_ROLE_RING_ID, mem32 (ring_nr m)), (IFLA_BRIDGE_MRP_IN_ROLE_IN_ID, mem16 (in_id m)),
         (IFLA_BRIDGE_MRP_IN_ROLE_I_IFINDEX, mem32 (pifindex i)), (IFLA_BRIDGE_MRP_IN_ROLE_ROLE, mem32 (in_role_code role))]"]
  by (subst req_start_set) (simp add: addattrs_set mrp_attrs_def self_flags_def [symmetric] del: length_enc_attr)

lemma netlink_flush_eq:
  "netlink_flush talk p s i = (
     let r = (\<lambda>q. nl_set (req_start (pifindex q) RTM_SETLINK) (enc_attr (ATTR_PROTINFO OR NLA_F_NESTED, enc_attr (IFLA_BRPORT_FLUSH, []))))
     in if talk (r p) < 0 then Some (- 1, [r p])
        else if talk (r s) < 0 then Some (- 1, [r p, r s])
        else (case i of None \<Rightarrow> Some (0, [r p, r s])
          | Some i \<Rightarrow> Some (if talk (r i) < 0 then - 1 else 0, [r p, r s, r i])))"
proof -
  let ?h = "req_start 0 RTM_SETLINK" and ?t = "ATTR_PROTINFO OR NLA_F_NESTED"
  have s1: "addattr_nest 1056 ?t (nl_set ?h []) = Some (32, nl_set ?h (mem16 4 @ mem16 ?t))"
    using addattrs_set(3) [of "[]"] by simp
  have s2: "addattr 1024 IFLA_BRPORT_FLUSH (nl_set ?h (mem16 4 @ mem16 ?t)) =
      Some (0, nl_set ?h (mem16 4 @ mem16 ?t @ enc_attr (IFLA_BRPORT_FLUSH, [])))"
    using addattr_l_set [of "mem16 4 @ mem16 ?t" "[]" 1024] by (simp add: addattr_def)
  have s3: "addattr_nest_end 32 (nl_set ?h (mem16 4 @ mem16 ?t @ enc_attr (IFLA_BRPORT_FLUSH, []))) =
      Some (nl_set ?h (enc_attr (?t, enc_attr (IFLA_BRPORT_FLUSH, []))))"
    using addattr_nest_end_set [of "[]" "enc_attr (IFLA_BRPORT_FLUSH, [])" ?h ?t] by (simp add: RTA_ALIGN_mult)
  have idx: "(nl_set ?h bs)\<lparr>ifi_index := n\<rparr> = nl_set (req_start n RTM_SETLINK) bs" for bs n
    by (simp add: nl_set_def req_start_def)
  show ?thesis
    unfolding netlink_flush_def sizeof_request_def
    by (subst req_start_set) (simp add: s1 s2 s3 idx Let_def split: option.splits)
qed

section \<open>The drivers fulfil the contract\<close>

interpretation netlink: ifdriver "netlink_driver talk"
  by unfold_locales
    (auto simp: netlink_driver_def netlink_port_set_state_eq netlink_set_ring_role_eq netlink_set_in_role_eq netlink_flush_eq
      Let_def split: effect.splits option.splits)

interpretation kbact: ifdriver kbact_driver
  by unfold_locales
    (auto simp: kbact_driver_def served_def kbact_port_set_state_def kbact_set_ring_role_def kbact_set_in_role_def
      kbact_flush_def Let_def split: effect.splits)

section \<open>Reading a message back\<close>

text \<open>Following a path of attribute types through nested attributes.\<close>

fun attr_path :: "u8 list \<Rightarrow> nat \<Rightarrow> int \<Rightarrow> nat list \<Rightarrow> nat option option" where
  "attr_path buf rta len [] = Some None"
| "attr_path buf rta len (t # ts) = do {
     tb \<leftarrow> parse_rtattr_flags buf 64 63 rta len NLA_F_NESTED;
     (case tb t of None \<Rightarrow> Some None
      | Some x \<Rightarrow> if ts = [] then Some (Some x) else do { n \<leftarrow> RTA_PAYLOAD buf x; attr_path buf (x + 4) n ts })
   }"

lemma first_attr_skip:
  "\<forall>u \<in> set us. unat (fst u AND NOT flags) \<noteq> t \<Longrightarrow>
   first_attr flags t p (us @ vs) = first_attr flags t (p + length (enc_attrs us)) vs"
  by (induction us arbitrary: p) (simp_all add: add.assoc)

lemma attr_path_step:
  assumes as: "as = us @ (ty, body) # vs" and ok: "\<forall>a \<in> set as. attr_ok a" and t: "unat (ty AND NOT NLA_F_NESTED) = t" "t \<le> 63"
    and us: "\<forall>u \<in> set us. unat (fst u AND NOT NLA_F_NESTED) \<noteq> t" and body: "4 dvd length body"
  shows "attr_path (pre @ enc_attrs as @ post) (length pre) (int (length (enc_attrs as))) (t # ts) =
    (let hd = pre @ enc_attrs us @ mem16 (of_nat (4 + length body)) @ mem16 ty in
     if ts = [] then Some (Some (length pre + length (enc_attrs us)))
     else attr_path (hd @ body @ enc_attrs vs @ post) (length hd) (int (length body)) ts)"
proof -
  let ?x = "length pre + length (enc_attrs us)" and ?buf = "pre @ enc_attrs as @ post"
  let ?hd = "pre @ enc_attrs us @ mem16 (of_nat (4 + length body)) @ mem16 ty"
  have first: "first_attr NLA_F_NESTED t (length pre) as = Some ?x"
    unfolding as first_attr_skip [OF us] by (simp add: t)
  have buf: "?buf = ?hd @ body @ enc_attrs vs @ post"
    unfolding as by (simp add: enc_attr_aligned [OF body])
  have l: "unat (of_nat (4 + length body) :: u16) = 4 + length body"
    unfolding unat_of_nat using ok by (simp add: as attr_ok_def)
  have "rd16 ?buf ?x = Some (of_nat (4 + length body))"
    unfolding buf using rd16_at [of "pre @ enc_attrs us" "of_nat (4 + length body)"] by simp
  then have pay: "RTA_PAYLOAD ?buf ?x = Some (int (length body))"
    unfolding RTA_PAYLOAD_def by (simp only: option.map l) simp
  show ?thesis
    using parse_rtattr_flags_enc [OF ok, of 63 64 pre post NLA_F_NESTED] first t(2) pay
    by (simp add: Let_def buf add.assoc)
qed

lemma attr_path_into:
  assumes "as = us @ (ty, body) # vs" and "\<forall>a \<in> set as. attr_ok a" and "unat (ty AND NOT NLA_F_NESTED) = t" "t \<le> 63"
    and "\<forall>u \<in> set us. unat (fst u AND NOT NLA_F_NESTED) \<noteq> t" and "4 dvd length body"
    and "front = pre @ enc_attrs us @ mem16 (of_nat (4 + length body)) @ mem16 ty" and "rest = enc_attrs vs @ post"
    and "p = length pre" and "n = int (length (enc_attrs as))"
  shows "attr_path (pre @ enc_attrs as @ post) p n (t # t2 # ts) = attr_path (front @ body @ rest) (length front) (int (length body)) (t2 # ts)"
  using attr_path_step [OF assms(1-6), of pre post "t2 # ts"] assms(7-10)
  by (simp only: Let_def list.simps if_False append_assoc)

lemma attr_path_leaf:
  assumes "as = us @ (ty, body) # vs" and "\<forall>a \<in> set as. attr_ok a" and "unat (ty AND NOT NLA_F_NESTED) = t" "t \<le> 63"
    and "\<forall>u \<in> set us. unat (fst u AND NOT NLA_F_NESTED) \<noteq> t" and "4 dvd length body"
  shows "attr_path (pre @ enc_attrs as @ post) (length pre) (int (length (enc_attrs as))) [t] =
    Some (Some (length pre + length (enc_attrs us)))"
  unfolding attr_path_step [OF assms, of pre post "[]"] by (simp add: Let_def)

declare attr_path.simps [simp del]

definition nl_attr :: "request \<Rightarrow> nat list \<Rightarrow> nat option" where
  "nl_attr r path = do { a \<leftarrow> attr_path (rbuf r) 0 (int (unat (nlmsg_len r)) - 32) path; a }"

definition nl_u32 :: "request \<Rightarrow> nat list \<Rightarrow> u32 option" where
  "nl_u32 r path = do { x \<leftarrow> nl_attr r path; rta_getattr_u32 (rbuf r) x }"

definition nl_u16 :: "request \<Rightarrow> nat list \<Rightarrow> u16 option" where
  "nl_u16 r path = do { x \<leftarrow> nl_attr r path; rta_getattr_u16 (rbuf r) x }"

lemma nested_types:
  "unat (ATTR_AF_SPEC AND NOT NLA_F_NESTED) = 26" "unat ((IFLA_BRIDGE_MRP OR NLA_F_NESTED) AND NOT NLA_F_NESTED) = 4"
  by (simp_all add: ATTR_AF_SPEC_def IFLA_BRIDGE_MRP_def NLA_F_NESTED_def)

lemma length_enc_attrs_dvd: "4 dvd length (enc_attrs as)"
  by (induction as) (simp_all add: RTA_ALIGN_mult)

text \<open>The attribute of type \<open>t'\<close> inside the attribute \<open>t\<close> of a message of the driver.\<close>

lemma mrp_attrs_path:
  fixes h :: request
  assumes f: "f = enc_attrs fs" "\<forall>u \<in> set fs. unat (fst u AND NOT NLA_F_NESTED) \<noteq> 4 \<and> attr_ok u"
    and as: "as = us @ (ty', data) # vs" "\<forall>a \<in> set as. attr_ok a" "4 dvd length data"
      "\<forall>u \<in> set us. unat (fst u AND NOT NLA_F_NESTED) \<noteq> t'" "unat (ty' AND NOT NLA_F_NESTED) = t'" "t' \<le> 63"
    and t: "unat ((ty OR NLA_F_NESTED) AND NOT NLA_F_NESTED) = t" "t \<le> 63"
    and fit: "length f + length (enc_attrs as) \<le> 1000"
  obtains x pre post where "nl_attr (nl_set h (mrp_attrs f ty (enc_attrs as))) [26, 4, t, t'] = Some x"
    "rbuf (nl_set h (mrp_attrs f ty (enc_attrs as))) = pre @ data @ post" "length pre = x + 4"
proof -
  let ?B3 = "enc_attrs as"
  let ?B2 = "enc_attrs [(ty OR NLA_F_NESTED, ?B3)]"
  let ?B1 = "enc_attrs (fs @ [(IFLA_BRIDGE_MRP OR NLA_F_NESTED, ?B2)])"
  let ?B0 = "enc_attrs [(ATTR_AF_SPEC, ?B1)]"
  note dv = length_enc_attrs_dvd
  have al: "length ?B2 = 4 + length ?B3" "length ?B1 = 8 + length f + length ?B3" "length ?B0 = 12 + length f + length ?B3"
    using dv [of as] dv [of fs] by (simp_all add: f(1) RTA_ALIGN_id)
  have small: "attr_ok (a, b)" if "length b \<le> 1024" for a b using that by (simp add: attr_ok_def)
  have B0: "mrp_attrs f ty ?B3 = ?B0" by (simp add: mrp_attrs_def f(1))
  let ?post = "replicate (1024 - length ?B0) 0"
  let ?r = "nl_set h (mrp_attrs f ty ?B3)"
  let ?h1 = "mem16 (of_nat (4 + length ?B1)) @ mem16 ATTR_AF_SPEC"
  let ?h2 = "?h1 @ enc_attrs fs @ mem16 (of_nat (4 + length ?B2)) @ mem16 (IFLA_BRIDGE_MRP OR NLA_F_NESTED)"
  let ?h3 = "?h2 @ mem16 (of_nat (4 + length ?B3)) @ mem16 (ty OR NLA_F_NESTED)"
  have buf: "rbuf ?r = [] @ ?B0 @ ?post" and len: "int (unat (nlmsg_len ?r)) - 32 = int (length ?B0)"
    using fit al(3) by (simp_all only: B0 nl_set_simps append_Nil)
  have "attr_path (rbuf ?r) 0 (int (unat (nlmsg_len ?r)) - 32) [26, 4, t, t'] =
      attr_path (?h1 @ ?B1 @ ?post) (length ?h1) (int (length ?B1)) [4, t, t']"
    unfolding buf len
  proof (rule attr_path_into [where us = "[]" and vs = "[]"])
    show "\<forall>a \<in> set [(ATTR_AF_SPEC, ?B1)]. attr_ok a" using small al(2) fit by simp
  qed (use nested_types dv in simp_all)
  also have "\<dots> = attr_path (?h2 @ ?B2 @ ?post) (length ?h2) (int (length ?B2)) [t, t']"
  proof (rule attr_path_into [where us = fs and vs = "[]"])
    have "attr_ok (IFLA_BRIDGE_MRP OR NLA_F_NESTED, ?B2)" by (rule small) (use al(1) fit in linarith)
    then show "\<forall>a \<in> set (fs @ [(IFLA_BRIDGE_MRP OR NLA_F_NESTED, ?B2)]). attr_ok a" using f(2) by simp
  qed (use nested_types f(2) dv in simp_all)
  also have "\<dots> = attr_path (?h3 @ ?B3 @ ?post) (length ?h3) (int (length ?B3)) [t']"
  proof (rule attr_path_into [where us = "[]" and vs = "[]"])
    show "\<forall>a \<in> set [(ty OR NLA_F_NESTED, ?B3)]. attr_ok a" using small fit by simp
  qed (use t dv in simp_all)
  also have "\<dots> = Some (Some (length ?h3 + length (enc_attrs us)))"
    by (rule attr_path_leaf [OF as(1,2,5,6,4,3)])
  finally have "nl_attr ?r [26, 4, t, t'] = Some (length ?h3 + length (enc_attrs us))"
    by (simp add: nl_attr_def)
  moreover have "rbuf ?r = (?h3 @ enc_attrs us @ mem16 (of_nat (4 + length data)) @ mem16 ty') @ data @ enc_attrs vs @ ?post"
  proof -
    have one: "enc_attrs (ws @ [(a, enc_attrs bs)]) = enc_attrs ws @ mem16 (of_nat (4 + length (enc_attrs bs))) @ mem16 a @ enc_attrs bs" for ws a bs
      by (simp add: enc_attr_aligned [OF dv])
    note one0 = one [of "[]", simplified append_Nil list.map(1) concat.simps(1)]
    have "?B0 = ?h1 @ ?B1" unfolding append_assoc by (rule one0)
    also have "?h1 @ ?B1 = ?h1 @ enc_attrs fs @ mem16 (of_nat (4 + length ?B2)) @ mem16 (IFLA_BRIDGE_MRP OR NLA_F_NESTED) @ ?B2"
      by (rule arg_cong [OF one])
    also have "\<dots> = ?h2 @ ?B2" by (simp only: append_assoc)
    also have "\<dots> = ?h2 @ mem16 (of_nat (4 + length ?B3)) @ mem16 (ty OR NLA_F_NESTED) @ ?B3"
      by (rule arg_cong [OF one0])
    finally have B0_h3: "?B0 = ?h3 @ ?B3" by (simp only: append_assoc)
    have "?B3 = enc_attrs us @ mem16 (of_nat (4 + length data)) @ mem16 ty' @ data @ enc_attrs vs"
      by (simp add: as(1) enc_attr_aligned [OF as(3)])
    then show ?thesis unfolding buf B0_h3 by (simp only: append_Nil append_assoc)
  qed
  ultimately show thesis by (rule that) simp
qed

lemma mrp_attrs_u32:
  assumes "f = enc_attrs fs" "\<forall>u \<in> set fs. unat (fst u AND NOT NLA_F_NESTED) \<noteq> 4 \<and> attr_ok u"
    "as = us @ (ty', mem32 v) # vs" "\<forall>a \<in> set as. attr_ok a"
    "\<forall>u \<in> set us. unat (fst u AND NOT NLA_F_NESTED) \<noteq> t'" "unat (ty' AND NOT NLA_F_NESTED) = t'" "t' \<le> 63"
    "unat ((ty OR NLA_F_NESTED) AND NOT NLA_F_NESTED) = t" "t \<le> 63" "length f + length (enc_attrs as) \<le> 1000"
  shows "nl_u32 (nl_set h (mrp_attrs f ty (enc_attrs as))) [26, 4, t, t'] = Some v"
proof -
  have d: "4 dvd length (mem32 v)" by simp
  obtain x pre post where x: "nl_attr (nl_set h (mrp_attrs f ty (enc_attrs as))) [26, 4, t, t'] = Some x"
    "rbuf (nl_set h (mrp_attrs f ty (enc_attrs as))) = pre @ mem32 v @ post" "length pre = x + 4"
    by (rule mrp_attrs_path [OF assms(1-4) d assms(5-10), where h = h])
  have "rd32 (pre @ mem32 v @ post) (x + 4) = Some v"
    using x(3) [symmetric] by (simp add: rd32_def rdn_def)
  then show ?thesis
    by (simp only: nl_u32_def x(1,2) rta_getattr_u32_def sizeof_rtattr_def Option.bind.simps)
qed

lemma types_unnested:
  "unat ((IFLA_BRIDGE_MRP_PORT_STATE OR NLA_F_NESTED) AND NOT NLA_F_NESTED) = 2"
  "unat ((IFLA_BRIDGE_MRP_RING_ROLE OR NLA_F_NESTED) AND NOT NLA_F_NESTED) = 5"
  "unat ((IFLA_BRIDGE_MRP_IN_ROLE OR NLA_F_NESTED) AND NOT NLA_F_NESTED) = 8"
  "unat (IFLA_BRIDGE_FLAGS AND NOT NLA_F_NESTED) = 0"
  "unat (IFLA_BRIDGE_MRP_PORT_STATE_STATE AND NOT NLA_F_NESTED) = 1"
  "unat (IFLA_BRIDGE_MRP_RING_ROLE_RING_ID AND NOT NLA_F_NESTED) = 1"
  "unat (IFLA_BRIDGE_MRP_RING_ROLE_ROLE AND NOT NLA_F_NESTED) = 2"
  "unat (IFLA_BRIDGE_MRP_IN_ROLE_RING_ID AND NOT NLA_F_NESTED) = 1"
  "unat (IFLA_BRIDGE_MRP_IN_ROLE_IN_ID AND NOT NLA_F_NESTED) = 2"
  "unat (IFLA_BRIDGE_MRP_IN_ROLE_I_IFINDEX AND NOT NLA_F_NESTED) = 4"
  "unat (IFLA_BRIDGE_MRP_IN_ROLE_ROLE AND NOT NLA_F_NESTED) = 3"
  by (simp_all add: IFLA_BRIDGE_MRP_PORT_STATE_def IFLA_BRIDGE_MRP_RING_ROLE_def IFLA_BRIDGE_MRP_IN_ROLE_def IFLA_BRIDGE_FLAGS_def
      IFLA_BRIDGE_MRP_PORT_STATE_STATE_def IFLA_BRIDGE_MRP_RING_ROLE_RING_ID_def IFLA_BRIDGE_MRP_RING_ROLE_ROLE_def
      IFLA_BRIDGE_MRP_IN_ROLE_RING_ID_def IFLA_BRIDGE_MRP_IN_ROLE_IN_ID_def IFLA_BRIDGE_MRP_IN_ROLE_I_IFINDEX_def
      IFLA_BRIDGE_MRP_IN_ROLE_ROLE_def NLA_F_NESTED_def)

lemma req_fields: "nlmsg_type (nl_set (req_start idx cmd) bs) = cmd" "ifi_index (nl_set (req_start idx cmd) bs) = idx"
  by (simp_all add: req_start_def)

lemma attr_ok_small: "attr_ok (ty, mem32 v)" "attr_ok (ty, mem16 w)"
  by (simp_all add: attr_ok_def)

text \<open>The kernel reads from the message of \<open>netlink_port_set_state\<close> the state of the port, and from that of
  \<open>netlink_set_ring_role\<close> the ring and the role, which is auto-manager whenever the instance
  supports it.\<close>

lemma port_state_message:
  "ok (netlink_port_set_state talk p st) (\<lambda>(ret, rs). \<exists>r. rs = [r] \<and> ret = talk r \<and> nlmsg_type r = RTM_SETLINK \<and>
     ifi_index r = pifindex p \<and> nl_u32 r [26, 4, 2, 1] = Some (port_state_code st))"
proof -
  let ?as = "[(IFLA_BRIDGE_MRP_PORT_STATE_STATE, mem32 (port_state_code st))]"
  have "nl_u32 (nl_set h (mrp_attrs [] IFLA_BRIDGE_MRP_PORT_STATE (enc_attrs ?as))) [26, 4, 2, 1] = Some (port_state_code st)" for h
    by (rule mrp_attrs_u32 [where fs = "[]" and us = "[]" and vs = "[]"])
      (simp_all add: types_unnested attr_ok_small del: One_nat_def length_enc_attr, (rule types_unnested)?)
  then show ?thesis
    by (simp add: netlink_port_set_state_eq Let_def req_start_def)
qed

lemma ring_role_message:
  "ok (netlink_set_ring_role talk m role) (\<lambda>(ret, rs). \<exists>r. rs = [r] \<and> ret = talk r \<and> nlmsg_type r = RTM_SETLINK \<and>
     ifi_index r = ifindex m \<and> nl_u32 r [26, 4, 5, 1] = Some (ring_nr m) \<and>
     nl_u32 r [26, 4, 5, 2] = Some (ring_role_code (if mra_support m then BR_MRP_RING_ROLE_MRA else role)))"
proof -
  let ?c = "ring_role_code (if mra_support m then BR_MRP_RING_ROLE_MRA else role)"
  let ?a = "(IFLA_BRIDGE_MRP_RING_ROLE_RING_ID, mem32 (ring_nr m))" and ?b = "(IFLA_BRIDGE_MRP_RING_ROLE_ROLE, mem32 ?c)"
  have a: "nl_u32 (nl_set h (mrp_attrs self_flags IFLA_BRIDGE_MRP_RING_ROLE (enc_attrs [?a, ?b]))) [26, 4, 5, 1] = Some (ring_nr m)" for h
    by (rule mrp_attrs_u32 [where fs = "[(IFLA_BRIDGE_FLAGS, mem16 BRIDGE_FLAGS_SELF)]" and us = "[]" and vs = "[?b]"])
      (simp_all add: types_unnested attr_ok_small self_flags_def del: One_nat_def length_enc_attr, (rule types_unnested)?)
  have b: "nl_u32 (nl_set h (mrp_attrs self_flags IFLA_BRIDGE_MRP_RING_ROLE (enc_attrs [?a, ?b]))) [26, 4, 5, 2] = Some ?c" for h
    by (rule mrp_attrs_u32 [where fs = "[(IFLA_BRIDGE_FLAGS, mem16 BRIDGE_FLAGS_SELF)]" and us = "[?a]" and vs = "[]"])
      (simp_all add: types_unnested attr_ok_small self_flags_def del: One_nat_def length_enc_attr, (rule types_unnested)?)
  show ?thesis
    unfolding netlink_set_ring_role_eq Let_def ok_Some prod.case
    by (intro exI conjI) (rule refl req_fields a b)+
qed

lemma in_role_message:
  "ok (netlink_set_in_role talk m i role) (\<lambda>(ret, rs). \<exists>r. rs = [r] \<and> ret = talk r \<and> nlmsg_type r = RTM_SETLINK \<and>
     ifi_index r = ifindex m \<and> nl_u32 r [26, 4, 8, 1] = Some (ring_nr m) \<and>
     nl_u32 r [26, 4, 8, 4] = Some (pifindex i) \<and> nl_u32 r [26, 4, 8, 3] = Some (in_role_code role))"
proof -
  let ?a = "(IFLA_BRIDGE_MRP_IN_ROLE_RING_ID, mem32 (ring_nr m))" and ?b = "(IFLA_BRIDGE_MRP_IN_ROLE_IN_ID, mem16 (in_id m))"
  let ?c = "(IFLA_BRIDGE_MRP_IN_ROLE_I_IFINDEX, mem32 (pifindex i))" and ?d = "(IFLA_BRIDGE_MRP_IN_ROLE_ROLE, mem32 (in_role_code role))"
  note r = mrp_attrs_u32 [where fs = "[(IFLA_BRIDGE_FLAGS, mem16 BRIDGE_FLAGS_SELF)]" and as = "[?a, ?b, ?c, ?d]"]
  have a: "nl_u32 (nl_set h (mrp_attrs self_flags IFLA_BRIDGE_MRP_IN_ROLE (enc_attrs [?a, ?b, ?c, ?d]))) [26, 4, 8, 1] = Some (ring_nr m)" for h
    by (rule r [where us = "[]" and vs = "[?b, ?c, ?d]"])
      (simp_all add: types_unnested attr_ok_small self_flags_def del: One_nat_def length_enc_attr, (rule types_unnested)?)
  have c: "nl_u32 (nl_set h (mrp_attrs self_flags IFLA_BRIDGE_MRP_IN_ROLE (enc_attrs [?a, ?b, ?c, ?d]))) [26, 4, 8, 4] = Some (pifindex i)" for h
    by (rule r [where us = "[?a, ?b]" and vs = "[?d]"])
      (simp_all add: types_unnested attr_ok_small self_flags_def del: One_nat_def length_enc_attr, (rule types_unnested)?)
  have d: "nl_u32 (nl_set h (mrp_attrs self_flags IFLA_BRIDGE_MRP_IN_ROLE (enc_attrs [?a, ?b, ?c, ?d]))) [26, 4, 8, 3] = Some (in_role_code role)" for h
    by (rule r [where us = "[?a, ?b, ?c]" and vs = "[]"])
      (simp_all add: types_unnested attr_ok_small self_flags_def del: One_nat_def length_enc_attr, (rule types_unnested)?)
  show ?thesis
    unfolding netlink_set_in_role_eq Let_def ok_Some prod.case
    by (intro exI conjI) (rule refl req_fields a c d)+
qed

end
