(* ===== verification/Nl_Message.thy ===== *)
theory Nl_Message
  imports Mrp_Listen
begin

unbundle bit_operations_syntax

text \<open>
  Netlink sockets and messages (\<^verbatim>\<open>libnetlink.c\<close>): opening and closing a socket, receiving a datagram of any length, and
  the layout of messages in a datagram.  What the socket delivers is a list of receptions; a call that finds
  it empty waits.
\<close>

section \<open>Opening\<close>

text \<open>\<open>struct rtnl_handle\<close> with its local address: the members that are used.\<close>

record rtnl_handle =
  r_fd :: int
  r_groups :: u32
  r_pid :: u32
  r_seq :: u32
  r_dump :: u32
  r_proto :: int
  r_flags :: u32

text \<open>The results of the calls: the descriptor, the two options, \<open>bind\<close>, \<open>getsockname\<close> with the groups and port of
  the address and whether its length and family are right, and the time.\<close>

record rtnl_sys =
  s_socket :: int
  s_sndbuf :: int
  s_rcvbuf :: int
  s_bind :: int
  s_getsockname :: int
  s_groups :: u32
  s_pid :: u32
  s_addr_ok :: bool
  s_family_ok :: bool
  s_time :: u32

definition rtnl_open_byproto :: "rtnl_sys \<Rightarrow> u32 \<Rightarrow> int \<Rightarrow> int \<times> rtnl_handle" where
  "rtnl_open_byproto a subscriptions protocol = (
     let rth = \<lparr>r_fd = s_socket a, r_groups = 0, r_pid = 0, r_seq = 0, r_dump = 0, r_proto = protocol, r_flags = 0\<rparr> in
     if r_fd rth < 0 then (- 1, rth)
     else if s_sndbuf a < 0 then (- 1, rth)
     else if s_rcvbuf a < 0 then (- 1, rth)
     else let rth = rth\<lparr>r_groups := subscriptions\<rparr> in
     if s_bind a < 0 then (- 1, rth)
     else if s_getsockname a < 0 then (- 1, rth)
     else let rth = rth\<lparr>r_groups := s_groups a, r_pid := s_pid a\<rparr> in
     if \<not> s_addr_ok a then (- 1, rth)
     else if \<not> s_family_ok a then (- 1, rth)
     else (0, rth\<lparr>r_seq := s_time a\<rparr>))"

definition NETLINK_ROUTE :: int where "NETLINK_ROUTE = 0"

definition rtnl_open :: "rtnl_sys \<Rightarrow> u32 \<Rightarrow> int \<times> rtnl_handle" where
  "rtnl_open a subscriptions = rtnl_open_byproto a subscriptions NETLINK_ROUTE"

definition rtnl_close :: "rtnl_handle \<Rightarrow> rtnl_handle" where
  "rtnl_close rth = (if r_fd rth \<ge> 0 then rth\<lparr>r_fd := - 1\<rparr> else rth)"

definition RTNL_HANDLE_F_LISTEN_ALL_NSID :: u32 where "RTNL_HANDLE_F_LISTEN_ALL_NSID = 1"

definition rtnl_listen_all_nsid :: "int \<Rightarrow> rtnl_handle \<Rightarrow> int \<times> rtnl_handle" where
  "rtnl_listen_all_nsid setsockopt rth =
    (if setsockopt < 0 then (- 1, rth) else (0, rth\<lparr>r_flags := r_flags rth OR RTNL_HANDLE_F_LISTEN_ALL_NSID\<rparr>))"

definition rtnl_add_nl_group :: "(int \<Rightarrow> u32 \<Rightarrow> int) \<Rightarrow> rtnl_handle \<Rightarrow> u32 \<Rightarrow> int" where
  "rtnl_add_nl_group setsockopt rth grp = setsockopt (r_fd rth) grp"

section \<open>Receiving\<close>

definition ENODATA :: int where "ENODATA = 61"
definition NL_ENOMEM :: int where "NL_ENOMEM = 12"

text \<open>What one \<open>recvmsg\<close> gives: an error number, or a datagram with whether its sender's address has the
  right length, whether it was truncated, and the sender's port (0 for the kernel).\<close>

datatype reception = R_error int | R_gram "u8 list" bool bool u32

text \<open>The first reception that is no interruption; \<open>None\<close> while there is none.\<close>

fun rtnl_recvmsg_raw :: "reception list \<Rightarrow> ((int + u8 list \<times> bool \<times> bool \<times> u32) \<times> reception list) option" where
  "rtnl_recvmsg_raw [] = None"
| "rtnl_recvmsg_raw (R_error errno # rs) =
    (if errno = EINTR \<or> errno = EAGAIN then rtnl_recvmsg_raw rs else Some (Inl (- errno), rs))"
| "rtnl_recvmsg_raw (R_gram bs n t pid # rs) =
    (if bs = [] then Some (Inl (- ENODATA), rs) else Some (Inr (bs, n, t, pid), rs))"

text \<open>The first call, with \<open>MSG_PEEK | MSG_TRUNC\<close>, gives the length of the datagram; the second reads it into
  a buffer of that length, but of at least 32768 bytes.  What lies behind the datagram in the buffer
  is what \<open>malloc\<close> left there.\<close>

definition rtnl_recvmsg ::
  "(nat \<Rightarrow> u8 list option) \<Rightarrow> reception list \<Rightarrow> ((int + u8 list \<times> nat \<times> bool \<times> bool \<times> u32) \<times> reception list) option" where
  "rtnl_recvmsg malloc rs = do {
     (r, rs) \<leftarrow> rtnl_recvmsg_raw rs;
     (case r of Inl e \<Rightarrow> Some (Inl e, rs)
      | Inr (peeked, _) \<Rightarrow>
          let len = max (length peeked) 32768 in
          (case malloc len of
             None \<Rightarrow> Some (Inl (- NL_ENOMEM), rs)
           | Some buf \<Rightarrow> do {
               (r, rs) \<leftarrow> rtnl_recvmsg_raw rs;
               (case r of Inl e \<Rightarrow> Some (Inl e, rs)
                | Inr (bs, n, t, pid) \<Rightarrow>
                    let bs = take len bs in Some (Inr (bs @ drop (length bs) buf, length bs, n, t, pid), rs))
             }))
   }"

definition NLMSG_ERROR :: u16 where "NLMSG_ERROR = 2"
definition NLMSG_DONE :: u16 where "NLMSG_DONE = 3"

text \<open>Every call uses up a reception.\<close>

lemma recvmsg_raw_shorter: "rtnl_recvmsg_raw rs = Some (r, rs') \<Longrightarrow> length rs' < length rs"
  by (induction rs rule: rtnl_recvmsg_raw.induct) (auto split: if_splits)

lemma recvmsg_shorter: "rtnl_recvmsg malloc rs = Some (r, rs') \<Longrightarrow> length rs' < length rs"
  by (auto simp: rtnl_recvmsg_def Let_def split: sum.splits option.splits bind_splits
      dest!: recvmsg_raw_shorter)

section \<open>Messages and their layout\<close>

record nlmsg =
  m_type :: u16
  m_flags :: u16
  m_seq :: u32
  m_pid :: u32
  m_data :: "u8 list"

definition enc_nlmsg :: "nlmsg \<Rightarrow> u8 list" where
  "enc_nlmsg m = (let n = 16 + length (m_data m) in
     mem32 (of_nat n) @ mem16 (m_type m) @ mem16 (m_flags m) @ mem32 (m_seq m) @ mem32 (m_pid m) @ m_data m
     @ replicate (NLMSG_ALIGN n - n) 0)"

lemma length_enc_nlmsg: "length (enc_nlmsg m) = NLMSG_ALIGN (16 + length (m_data m))"
  using NLMSG_ALIGN_ge(1) [of "16 + length (m_data m)"] by (simp add: enc_nlmsg_def Let_def)

lemma rd32_at: "length pre = n \<Longrightarrow> rd32 (pre @ mem32 w @ post) n = Some w"
  by (simp add: rd32_def rdn_def)


text \<open>The fields of a message, read at the offsets of \<open>struct nlmsghdr\<close>.\<close>

lemma enc_nlmsg_fields:
  assumes "buf = pre @ enc_nlmsg m @ post" and "h = length pre"
  shows "rd32 buf h = Some (of_nat (16 + length (m_data m)))" "rd16 buf (h + 4) = Some (m_type m)"
    "rd32 buf (h + 8) = Some (m_seq m)" "rd32 buf (h + 12) = Some (m_pid m)"
    "4 \<le> length (m_data m) \<Longrightarrow> rd32 buf (h + 16) = Some (ld32 (take 4 (m_data m)))"
  unfolding assms by (simp_all add: rd32_def rd16_def rdn_def enc_nlmsg_def Let_def)

lemma of_nat_length:
  assumes "16 \<le> n" and "n < 2 ^ 31"
  shows "sint (of_nat n :: u32) = int n" and "sint (of_nat n - 16 :: u32) = int n - 16"
proof -
  have u: "unat (of_nat n :: u32) = n" using assms(2) by (simp add: unat_of_nat)
  show "sint (of_nat n :: u32) = int n" using assms(2) by (subst sint_small) (simp_all only: u)
  have "(of_nat n - 16 :: u32) = of_nat (n - 16)" using assms(1) by (simp add: of_nat_diff)
  moreover have "unat (of_nat (n - 16) :: u32) = n - 16" using assms(2) by (simp add: unat_of_nat)
  ultimately show "sint (of_nat n - 16 :: u32) = int n - 16"
    using assms by (simp add: sint_small)
qed

section \<open>Datagrams that arrive\<close>

text \<open>The datagrams that arrive, each seen once by the call that looks at its length and once by the call that
  reads it.\<close>

definition gram_of :: "u32 \<times> nlmsg list \<Rightarrow> reception" where
  "gram_of g = R_gram (concat (map enc_nlmsg (snd g))) True False (fst g)"

definition arrive :: "(u32 \<times> nlmsg list) list \<Rightarrow> reception list" where
  "arrive gs = concat (map (\<lambda>g. [gram_of g, gram_of g]) gs)"

lemma length_arrive: "length (arrive gs) = 2 * length gs"
  by (induction gs) (simp_all add: arrive_def)

definition malloc_ok :: "(nat \<Rightarrow> u8 list option) \<Rightarrow> bool" where
  "malloc_ok malloc \<longleftrightarrow> (\<forall>n. \<exists>buf. malloc n = Some buf \<and> length buf = n)"

lemma enc_nlmsg_nonempty: "ms \<noteq> [] \<Longrightarrow> concat (map enc_nlmsg ms) \<noteq> []"
  using NLMSG_ALIGN_ge(1) [of "16 + length (m_data (hd ms))"] length_enc_nlmsg [of "hd ms"] by (cases ms) auto

lemma recvmsg_gram:
  assumes "malloc_ok malloc" and "snd g \<noteq> []"
  obtains rest where "rtnl_recvmsg malloc (gram_of g # gram_of g # rs) =
    Some (Inr (concat (map enc_nlmsg (snd g)) @ rest, length (concat (map enc_nlmsg (snd g))), True, False, fst g), rs)"
proof -
  let ?bs = "concat (map enc_nlmsg (snd g))"
  have ne: "?bs \<noteq> []" using assms(2) by (rule enc_nlmsg_nonempty)
  obtain buf where "malloc (max (length ?bs) 32768) = Some buf" using assms(1) unfolding malloc_ok_def by blast
  then show thesis
    using ne by (intro that [of "drop (length ?bs) buf"]) (simp add: rtnl_recvmsg_def gram_of_def)
qed

section \<open>The handle\<close>

text \<open>A handle that was opened is for the routing protocol, has the port that the kernel chose, and numbers its
  requests from the time on; closing twice is closing once.\<close>

lemma rtnl_open_ok:
  assumes "rtnl_open a g = (r, rth)"
  shows "r = 0 \<or> r = - 1" and "r = 0 \<Longrightarrow> 0 \<le> r_fd rth \<and> r_pid rth = s_pid a \<and> r_seq rth = s_time a \<and> r_proto rth = NETLINK_ROUTE"
    and "r = 0 \<longleftrightarrow> 0 \<le> s_socket a \<and> 0 \<le> s_sndbuf a \<and> 0 \<le> s_rcvbuf a \<and> 0 \<le> s_bind a \<and> 0 \<le> s_getsockname a \<and>
      s_addr_ok a \<and> s_family_ok a"
  using assms by (auto simp: rtnl_open_def rtnl_open_byproto_def Let_def split: if_splits)

lemma rtnl_close_twice: "rtnl_close (rtnl_close rth) = rtnl_close rth"
  by (simp add: rtnl_close_def)

end
