(* ===== verification/Mrp_Talk.thy ===== *)
theory Mrp_Talk
  imports Nl_Message
begin

unbundle bit_operations_syntax

text \<open>
  \<open>rtnl_talk\<close> of \<^verbatim>\<open>libnetlink.c\<close>: sending requests and waiting for their answer.  The loop is modelled for any number
  of messages, with and without a place for the answer (\<open>want\<close>); the program sends one message at a time and
  wants no answer but the acknowledgement.  A malformed datagram ends the process.
\<close>

section \<open>The messages of an answer\<close>

definition NLM_F_ACK :: u16 where "NLM_F_ACK = 4"

datatype talk_end = T_done int | T_return int | T_ack u32 | T_answer | T_exit

text \<open>A message is for others when it is not from the kernel, not for this socket, or not numbered like the
  messages sent.  The bound \<open>seq - iovlen\<close> is computed in 64 bits.\<close>

definition not_for :: "nat \<Rightarrow> u32 \<Rightarrow> rtnl_handle \<Rightarrow> u32 \<Rightarrow> u32 \<Rightarrow> u32 \<Rightarrow> bool" where
  "not_for iovlen pid rth seq mpid mseq \<longleftrightarrow>
     pid \<noteq> 0 \<or> mpid \<noteq> r_pid rth \<or> mseq > seq \<or> (ucast mseq :: u64) < ucast seq - of_nat iovlen"

text \<open>The loop over the messages of a datagram: messages for others are passed over, an acknowledgement ends the
  loop, and so does any other message when an answer is wanted; else it is reported and passed over.\<close>

function talk_messages ::
  "bool \<Rightarrow> nat \<Rightarrow> u32 \<Rightarrow> rtnl_handle \<Rightarrow> u32 \<Rightarrow> bool \<Rightarrow> u8 list \<Rightarrow> nat \<Rightarrow> int \<Rightarrow> talk_end option" where
  "talk_messages want iovlen pid rth seq trunc buf h status =
    (if 0 \<le> status \<and> status < int sizeof_nlmsghdr then Some (T_done status)
     else (case rd32 buf h of None \<Rightarrow> None
       | Some nlen \<Rightarrow>
           if sint (nlen - of_nat sizeof_nlmsghdr) < 0 \<or> sint nlen > status
           then Some (if trunc then T_return (- 1) else T_exit)
           else (case (rd32 buf (h + 12), rd32 buf (h + 8), rd16 buf (h + 4)) of
               (Some mpid, Some mseq, Some type) \<Rightarrow>
                 if not_for iovlen pid rth seq mpid mseq \<or> type \<noteq> NLMSG_ERROR \<and> \<not> want
                 then
                   if sint nlen < 0 then None
                   else talk_messages want iovlen pid rth seq trunc buf (h + NLMSG_ALIGN (nat (sint nlen)))
                          (status - int (NLMSG_ALIGN (nat (sint nlen))))
                 else if type = NLMSG_ERROR
                 then (case rd32 buf (h + 16) of None \<Rightarrow> None
                   | Some error \<Rightarrow> Some (if sint (nlen - of_nat sizeof_nlmsghdr) < 20 then T_return (- 1) else T_ack error))
                 else Some T_answer
             | _ \<Rightarrow> None)))"
  by pat_completeness auto

termination talk_messages
proof (relation "measure (\<lambda>(want, iovlen, pid, rth, seq, trunc, buf, h, status). nat status)", goal_cases)
  case prems: (2 want iovlen pid rth seq trunc buf h status nlen)
  have "16 \<le> sint nlen" using prems by (intro sint_sub16) simp_all
  moreover have "sint nlen \<le> status" using prems by simp
  moreover have "nat (sint nlen) \<le> NLMSG_ALIGN (nat (sint nlen))" by (rule NLMSG_ALIGN_ge)
  ultimately show ?case by simp
qed simp

declare talk_messages.simps [simp del]

text \<open>The result with the buffer that \<open>*answer\<close> points to, if it was set.\<close>

datatype talked = Talk_returns int "u8 list option" | Talk_exits | Talk_waits

text \<open>The outer loop; \<open>i\<close> is the number of datagrams before this one.  As many datagrams with an
  acknowledgement are waited for as messages were sent, and the last one gives the result.\<close>

fun talk_loop ::
  "bool \<Rightarrow> nat \<Rightarrow> (nat \<Rightarrow> u8 list option) \<Rightarrow> rtnl_handle \<Rightarrow> u32 \<Rightarrow> nat \<Rightarrow> nat \<Rightarrow> u8 list option \<Rightarrow> reception list \<Rightarrow> talked option" where
  "talk_loop want iovlen malloc rth seq 0 i ans rs = Some Talk_waits"
| "talk_loop want iovlen malloc rth seq (Suc n) i ans rs =
    (case rtnl_recvmsg malloc rs of None \<Rightarrow> Some Talk_waits
     | Some (Inl status, rs) \<Rightarrow> Some (Talk_returns status ans)
     | Some (Inr (buf, len, namelen_ok, trunc, pid), rs) \<Rightarrow>
         if \<not> namelen_ok then Some Talk_exits
         else (case talk_messages want iovlen pid rth seq trunc buf 0 (int len) of None \<Rightarrow> None
           | Some (T_return r) \<Rightarrow> Some (Talk_returns r ans)
           | Some T_exit \<Rightarrow> Some Talk_exits
           | Some T_answer \<Rightarrow> Some (Talk_returns 0 (Some buf))
           | Some (T_ack error) \<Rightarrow>
               let ans = (if want then Some buf else ans) in
               if i + 1 < iovlen then talk_loop want iovlen malloc rth seq n (i + 1) ans rs
               else Some (Talk_returns (if error \<noteq> 0 then - int (i + 1) else 0) ans)
           | Some (T_done status) \<Rightarrow>
               if trunc then talk_loop want iovlen malloc rth seq n (i + 1) ans rs
               else if status \<noteq> 0 then Some Talk_exits
               else talk_loop want iovlen malloc rth seq n (i + 1) ans rs))"

text \<open>The messages get consecutive numbers, and ask for an acknowledgement unless an answer is wanted.  The last
  number is the one to wait for.\<close>

fun talk_number :: "bool \<Rightarrow> rtnl_handle \<Rightarrow> u32 \<Rightarrow> request list \<Rightarrow> rtnl_handle \<times> u32 \<times> (u32 \<times> request) list" where
  "talk_number want rth seq [] = (rth, seq, [])"
| "talk_number want rth seq (n # ns) = (
     let rth = rth\<lparr>r_seq := r_seq rth + 1\<rparr>; seq = r_seq rth;
         n = (if want then n else n\<lparr>nlmsg_flags := nlmsg_flags n OR NLM_F_ACK\<rparr>);
         (rth', seq', l) = talk_number want rth seq ns
     in (rth', seq', (seq, n) # l))"

text \<open>The result, the handle, and the messages as they are sent.  Every turn of the loop uses up a reception, so
  that their number is enough fuel.\<close>

definition rtnl_talk_iov ::
  "(nat \<Rightarrow> u8 list option) \<Rightarrow> int \<Rightarrow> reception list \<Rightarrow> rtnl_handle \<Rightarrow> request list \<Rightarrow> bool \<Rightarrow>
    (talked \<times> rtnl_handle \<times> (u32 \<times> request) list) option" where
  "rtnl_talk_iov malloc sent rs rth ns want = (
     let (rth, seq, l) = talk_number want rth 0 ns in
     if sent < 0 then Some (Talk_returns (- 1) None, rth, l)
     else map_option (\<lambda>t. (t, rth, l)) (talk_loop want (length ns) malloc rth seq (length rs + 1) 0 None rs))"

definition rtnl_talk ::
  "(nat \<Rightarrow> u8 list option) \<Rightarrow> int \<Rightarrow> reception list \<Rightarrow> rtnl_handle \<Rightarrow> request \<Rightarrow> bool \<Rightarrow>
    (talked \<times> rtnl_handle \<times> (u32 \<times> request) list) option" where
  "rtnl_talk malloc sent rs rth n want = rtnl_talk_iov malloc sent rs rth [n] want"

text \<open>The same without a printed report of the error.\<close>

definition rtnl_talk_suppress_rtnl_errmsg ::
  "(nat \<Rightarrow> u8 list option) \<Rightarrow> int \<Rightarrow> reception list \<Rightarrow> rtnl_handle \<Rightarrow> request \<Rightarrow> bool \<Rightarrow>
    (talked \<times> rtnl_handle \<times> (u32 \<times> request) list) option" where
  "rtnl_talk_suppress_rtnl_errmsg malloc sent rs rth n want = rtnl_talk_iov malloc sent rs rth [n] want"

section \<open>The fuel is enough\<close>

lemma talk_loop_fuel:
  assumes "length rs < n" and "length rs < m"
  shows "talk_loop want k malloc rth seq n i ans rs = talk_loop want k malloc rth seq m i ans rs"
  using assms
proof (induction n arbitrary: m i ans rs)
  case (Suc n)
  then obtain m' where m: "m = Suc m'" by (cases m) auto
  have "talk_loop want k malloc rth seq n (i + 1) ans' rs' = talk_loop want k malloc rth seq m' (i + 1) ans' rs'"
    if "rtnl_recvmsg malloc rs = Some (r, rs')" for r rs' ans'
    using recvmsg_shorter [OF that] Suc.prems m by (intro Suc.IH) simp_all
  then show ?case
    unfolding m by (auto simp: Let_def split: option.splits sum.splits talk_end.splits)
qed simp

section \<open>The answer in a list of messages\<close>

text \<open>A message is for this socket and these requests when its number is one of theirs.  The number before the
  first is accepted too; when the counter has just wrapped around, none is.\<close>

definition for_us :: "nat \<Rightarrow> u32 \<Rightarrow> rtnl_handle \<Rightarrow> u32 \<Rightarrow> nlmsg \<Rightarrow> bool" where
  "for_us k pid rth seq m \<longleftrightarrow> pid = 0 \<and> m_pid m = r_pid rth \<and>
     k \<le> unat seq \<and> unat seq - k \<le> unat (m_seq m) \<and> unat (m_seq m) \<le> unat seq"

datatype reply = Ack u32 | Data

fun answer :: "bool \<Rightarrow> nat \<Rightarrow> u32 \<Rightarrow> rtnl_handle \<Rightarrow> u32 \<Rightarrow> nlmsg list \<Rightarrow> reply option" where
  "answer want k pid rth seq [] = None"
| "answer want k pid rth seq (m # ms) =
    (if for_us k pid rth seq m \<and> (m_type m = NLMSG_ERROR \<or> want)
     then Some (if m_type m = NLMSG_ERROR then Ack (ld32 (take 4 (m_data m))) else Data)
     else answer want k pid rth seq ms)"

lemma answer_data: "answer want k pid rth seq ms = Some Data \<Longrightarrow> want"
  by (induction ms) (auto split: if_splits)

text \<open>An acknowledgement holds an error number and the header of the message it answers.\<close>

definition acks_complete :: "nlmsg list \<Rightarrow> bool" where
  "acks_complete ms \<longleftrightarrow> (\<forall>m \<in> set ms. m_type m = NLMSG_ERROR \<longrightarrow> 20 \<le> length (m_data m))"

definition nl_gram_ok :: "u32 \<times> nlmsg list \<Rightarrow> bool" where
  "nl_gram_ok g \<longleftrightarrow> snd g \<noteq> [] \<and> length (concat (map enc_nlmsg (snd g))) < 2 ^ 31 \<and> acks_complete (snd g)"

lemma not_for_iff:
  assumes "k < 2 ^ 32"
  shows "not_for k pid rth seq (m_pid m) (m_seq m) \<longleftrightarrow> \<not> for_us k pid rth seq m"
proof -
  let ?s = "unat seq" and ?m = "unat (m_seq m)"
  have b: "?s < 2 ^ 32" "?m < 2 ^ 32"
    using unsigned_less [of seq, where ?'a = nat] unsigned_less [of "m_seq m", where ?'a = nat] by simp_all
  have u: "unat (ucast w :: u64) = unat w" for w :: u32
    using unsigned_less [of w, where ?'a = nat] by (simp add: unsigned_ucast_eq take_bit_nat_eq_self_iff)
  have uk: "unat (of_nat k :: u64) = k" using assms by (simp add: unat_of_nat)
  have less: "(ucast (m_seq m) :: u64) < ucast seq - of_nat k \<longleftrightarrow> \<not> (k \<le> ?s \<and> ?s - k \<le> ?m)"
  proof (cases "k \<le> ?s")
    case True
    then have "unat (ucast seq - of_nat k :: u64) = ?s - k"
      by (subst unat_sub) (simp_all add: word_le_nat_alt u uk)
    then show ?thesis using True by (simp add: word_less_nat_alt u not_le)
  next
    case False
    then have "unat (ucast seq - of_nat k :: u64) = ?s + 2 ^ 64 - k"
      by (subst unat_sub_if') (simp add: u uk)
    then show ?thesis using False b assms by (simp add: word_less_nat_alt u)
  qed
  show ?thesis
    unfolding not_for_def less for_us_def by (auto simp: word_less_nat_alt)
qed

text \<open>One message of a datagram.\<close>

lemma talk_messages_step:
  assumes buf: "buf = pre @ enc_nlmsg m @ post" "h = length pre" and k: "k < 2 ^ 32"
    and len: "length (enc_nlmsg m) \<le> n" "n < 2 ^ 31"
    and ack: "m_type m = NLMSG_ERROR \<longrightarrow> 20 \<le> length (m_data m)"
  shows "talk_messages want k pid rth seq trunc buf h (int n) =
    (if for_us k pid rth seq m \<and> (m_type m = NLMSG_ERROR \<or> want)
     then Some (if m_type m = NLMSG_ERROR then T_ack (ld32 (take 4 (m_data m))) else T_answer)
     else talk_messages want k pid rth seq trunc buf (h + length (enc_nlmsg m)) (int (n - length (enc_nlmsg m))))"
proof -
  let ?n = "16 + length (m_data m)"
  have le: "?n \<le> n" using NLMSG_ALIGN_ge(1) [of ?n] len by (simp add: length_enc_nlmsg)
  have s: "sint (of_nat ?n :: u32) = int ?n" "sint (of_nat ?n - 16 :: u32) = int ?n - 16"
    using le len(2) by (intro of_nat_length; linarith)+
  note rd = enc_nlmsg_fields [OF buf]
  have c: "\<not> (0 \<le> int n \<and> int n < int sizeof_nlmsghdr)" "\<not> (int ?n - 16 < 0 \<or> int n < int ?n)" "\<not> int ?n < 0"
    using le by simp_all
  show ?thesis
    using ack len(1) rd(5) le
    by (subst talk_messages.simps)
      (simp only: c rd(1-4) s if_False option.case prod.case sizeof_nlmsghdr_def of_nat_numeral not_for_iff [OF k] length_enc_nlmsg nat_int,
       auto simp: of_nat_diff)
qed

lemma talk_messages_enc:
  assumes "buf = pre @ concat (map enc_nlmsg ms) @ post" and "h = length pre" and "k < 2 ^ 32"
    and "n = length (concat (map enc_nlmsg ms))" and "n < 2 ^ 31" and "acks_complete ms"
  shows "talk_messages want k pid rth seq trunc buf h (int n) =
    Some (case answer want k pid rth seq ms of None \<Rightarrow> T_done 0 | Some (Ack e) \<Rightarrow> T_ack e | Some Data \<Rightarrow> T_answer)"
  using assms
proof (induction ms arbitrary: pre h n)
  case Nil
  then show ?case by (simp add: talk_messages.simps)
next
  case (Cons m ms)
  note step = talk_messages_step [of buf pre m "concat (map enc_nlmsg ms) @ post" h k n want pid rth seq trunc]
  have "talk_messages want k pid rth seq trunc buf (h + length (enc_nlmsg m)) (int (n - length (enc_nlmsg m))) =
    Some (case answer want k pid rth seq ms of None \<Rightarrow> T_done 0 | Some (Ack e) \<Rightarrow> T_ack e | Some Data \<Rightarrow> T_answer)"
    using Cons.prems by (intro Cons.IH [of "pre @ enc_nlmsg m"]) (simp_all add: acks_complete_def)
  then show ?case using step Cons.prems by (simp add: acks_complete_def)
qed

section \<open>The answer of a request\<close>

lemma talk_loop_gram:
  assumes "malloc_ok malloc" and "nl_gram_ok g" and "k < 2 ^ 32"
  shows "\<exists>rest. talk_loop want k malloc rth seq (Suc n) i ans (gram_of g # gram_of g # rs) =
    (let buf = concat (map enc_nlmsg (snd g)) @ rest in
     case answer want k (fst g) rth seq (snd g) of
       None \<Rightarrow> talk_loop want k malloc rth seq n (i + 1) ans rs
     | Some Data \<Rightarrow> Some (Talk_returns 0 (Some buf))
     | Some (Ack e) \<Rightarrow>
         let ans = (if want then Some buf else ans) in
         if i + 1 < k then talk_loop want k malloc rth seq n (i + 1) ans rs
         else Some (Talk_returns (if e \<noteq> 0 then - int (i + 1) else 0) ans))"
proof -
  have ne: "snd g \<noteq> []" using assms(2) by (simp add: nl_gram_ok_def)
  obtain rest where r: "rtnl_recvmsg malloc (gram_of g # gram_of g # rs) =
    Some (Inr (concat (map enc_nlmsg (snd g)) @ rest, length (concat (map enc_nlmsg (snd g))), True, False, fst g), rs)"
    using assms(1) ne by (rule recvmsg_gram)
  have m: "talk_messages want k (fst g) rth seq False (concat (map enc_nlmsg (snd g)) @ rest) 0
      (int (length (concat (map enc_nlmsg (snd g))))) =
    Some (case answer want k (fst g) rth seq (snd g) of None \<Rightarrow> T_done 0 | Some (Ack e) \<Rightarrow> T_ack e | Some Data \<Rightarrow> T_answer)"
    using assms(2,3) by (intro talk_messages_enc [of _ "[]" _ rest]) (simp_all add: nl_gram_ok_def)
  show ?thesis
    unfolding talk_loop.simps r option.case sum.case prod.case m
    by (intro exI [of _ rest]) (simp add: Let_def split: option.split reply.split)
qed


lemma talk_loop_ack_gram:
  assumes "malloc_ok malloc" and "nl_gram_ok g" and "k < 2 ^ 32"
  shows "answer False k (fst g) rth seq (snd g) = None \<Longrightarrow>
      talk_loop False k malloc rth seq (Suc n) i ans (gram_of g # gram_of g # rs) = talk_loop False k malloc rth seq n (i + 1) ans rs"
    and "answer False k (fst g) rth seq (snd g) = Some (Ack e) \<Longrightarrow>
      talk_loop False k malloc rth seq (Suc n) i ans (gram_of g # gram_of g # rs) =
      (if i + 1 < k then talk_loop False k malloc rth seq n (i + 1) ans rs
       else Some (Talk_returns (if e \<noteq> 0 then - int (i + 1) else 0) ans))"
  using talk_loop_gram [OF assms, of False rth seq n i ans rs] by (simp_all add: Let_def del: talk_loop.simps)

text \<open>Datagrams without an answer are passed over, with or without a place for the answer.\<close>

lemma talk_loop_quiet:
  assumes "malloc_ok malloc" and "k < 2 ^ 32"
    and "\<forall>g \<in> set gs. nl_gram_ok g \<and> answer want k (fst g) rth seq (snd g) = None"
  shows "talk_loop want k malloc rth seq (n + length gs) i ans (arrive gs @ rs) = talk_loop want k malloc rth seq n (i + length gs) ans rs"
  using assms(3)
proof (induction gs arbitrary: i)
  case (Cons g gs)
  have "talk_loop want k malloc rth seq (Suc (n + length gs)) i ans (gram_of g # gram_of g # arrive gs @ rs) =
      talk_loop want k malloc rth seq (n + length gs) (i + 1) ans (arrive gs @ rs)"
    using talk_loop_gram [OF assms(1) _ assms(2), of g want rth seq "n + length gs" i ans "arrive gs @ rs"] Cons.prems
    by (simp add: Let_def del: talk_loop.simps)
  also have "\<dots> = talk_loop want k malloc rth seq n (i + 1 + length gs) ans rs"
    using Cons.prems by (intro Cons.IH) simp
  finally show ?case by (simp add: arrive_def del: talk_loop.simps)
qed (simp add: arrive_def)

lemma arrive_append: "arrive (gs @ hs) = arrive gs @ arrive hs"
  by (simp add: arrive_def)

text \<open>The answer to one request: what comes before it does not matter.\<close>

lemma rtnl_talk_answer:
  assumes "malloc_ok malloc" and "0 \<le> sent" and "\<forall>g \<in> set (gs @ [g]). nl_gram_ok g"
    and "rth' = rth\<lparr>r_seq := r_seq rth + 1\<rparr>"
    and "\<forall>g \<in> set gs. answer want 1 (fst g) rth' (r_seq rth') (snd g) = None"
    and "answer want 1 (fst g) rth' (r_seq rth') (snd g) = Some a"
  shows "\<exists>rest. rtnl_talk malloc sent (arrive (gs @ [g]) @ rs) rth n want =
    Some (Talk_returns (case a of Data \<Rightarrow> 0 | Ack e \<Rightarrow> if e \<noteq> 0 then - int (length gs + 1) else 0)
        (if want then Some (concat (map enc_nlmsg (snd g)) @ rest) else None), rth',
      [(r_seq rth', if want then n else n\<lparr>nlmsg_flags := nlmsg_flags n OR NLM_F_ACK\<rparr>)])"
proof -
  let ?rs = "arrive (gs @ [g]) @ rs"
  define f where "f = length gs + length rs + 2"
  then have f: "length ?rs + 1 = Suc f + length gs" by (simp add: length_arrive)
  have gram: "?rs = arrive gs @ gram_of g # gram_of g # rs" by (simp add: arrive_append) (simp add: arrive_def)
  have k: "(1::nat) < 2 ^ 32" by simp
  have q: "\<forall>g \<in> set gs. nl_gram_ok g \<and> answer want 1 (fst g) rth' (r_seq rth') (snd g) = None" using assms(3,5) by simp
  have "talk_loop want 1 malloc rth' (r_seq rth') (length ?rs + 1) 0 None ?rs =
      talk_loop want 1 malloc rth' (r_seq rth') (Suc f) (length gs) None (gram_of g # gram_of g # rs)"
    unfolding f unfolding gram using talk_loop_quiet [OF assms(1) k q, of "Suc f" 0 None] by (simp del: talk_loop.simps)
  moreover have "nl_gram_ok g" using assms(3) by simp
  then obtain rest where "talk_loop want 1 malloc rth' (r_seq rth') (Suc f) (length gs) None (gram_of g # gram_of g # rs) =
      Some (Talk_returns (case a of Data \<Rightarrow> 0 | Ack e \<Rightarrow> if e \<noteq> 0 then - int (length gs + 1) else 0)
        (if want then Some (concat (map enc_nlmsg (snd g)) @ rest) else None))"
    using talk_loop_gram [OF assms(1) _ k, of g want rth' "r_seq rth'" f "length gs" None rs] assms(6)
    by (cases a) (auto simp: Let_def simp del: talk_loop.simps dest: answer_data)
  ultimately show ?thesis
    using assms(2,4) by (intro exI [of _ rest]) (simp add: rtnl_talk_def rtnl_talk_iov_def Let_def del: talk_loop.simps)
qed


text \<open>The number 0 is never accepted: \<open>seq - iovlen\<close> wraps around in 64 bits, and a request that gets this number
  waits for ever, whatever the kernel answers.\<close>

lemma seq_zero_not_answered: "0 < k \<Longrightarrow> answer want k pid rth 0 ms = None"
  by (induction ms) (simp_all add: for_us_def)

lemma talk_loop_unanswered:
  assumes "malloc_ok malloc" and "k < 2 ^ 32"
    and "\<forall>g \<in> set gs. nl_gram_ok g \<and> answer want k (fst g) rth seq (snd g) = None"
  shows "talk_loop want k malloc rth seq (length (arrive gs) + 1) i ans (arrive gs) = Some Talk_waits"
  using talk_loop_quiet [OF assms, of "length gs + 1" i ans "[]"]
  by (simp add: length_arrive rtnl_recvmsg_def mult_2)

lemma rtnl_talk_wraps:
  assumes "malloc_ok malloc" and "0 \<le> sent" and "\<forall>g \<in> set gs. nl_gram_ok g" and "r_seq rth = - 1"
  shows "\<exists>rth' n'. rtnl_talk malloc sent (arrive gs) rth n want = Some (Talk_waits, rth', [(0, n')])"
proof -
  have "talk_loop want 1 malloc (rth\<lparr>r_seq := 0\<rparr>) 0 (length (arrive gs) + 1) 0 None (arrive gs) = Some Talk_waits"
    using assms(1,3) by (intro talk_loop_unanswered) (simp_all add: seq_zero_not_answered)
  then show ?thesis
    using assms(2,4) by (simp add: rtnl_talk_def rtnl_talk_iov_def del: talk_loop.simps)
qed

section \<open>Several requests at once\<close>

text \<open>Each of the messages gets an acknowledgement in a datagram of its own; the last one alone decides the result.\<close>

lemma talk_loop_batch:
  assumes "malloc_ok malloc" and "k < 2 ^ 32"
    and "\<forall>g \<in> set (gs @ [g]). nl_gram_ok g" and "\<forall>g \<in> set gs. \<exists>e. answer False k (fst g) rth seq (snd g) = Some (Ack e)"
    and "answer False k (fst g) rth seq (snd g) = Some (Ack e)" and "i + length gs + 1 = k" and "length gs < n"
  shows "talk_loop False k malloc rth seq n i ans (arrive (gs @ [g]) @ rs) = Some (Talk_returns (if e \<noteq> 0 then - int k else 0) ans)"
  using assms(3,4,6,7)
proof (induction gs arbitrary: i n)
  case Nil
  then obtain n' where "n = Suc n'" by (cases n) auto
  then show ?case
    using Nil assms(1,2,5) by (auto simp: arrive_def talk_loop_ack_gram simp del: talk_loop.simps)
next
  case (Cons g' gs)
  then obtain n' where n: "n = Suc n'" by (cases n) auto
  obtain e' where e: "answer False k (fst g') rth seq (snd g') = Some (Ack e')" using Cons.prems(2) by auto
  have "talk_loop False k malloc rth seq n' (i + 1) ans (arrive (gs @ [g]) @ rs) = Some (Talk_returns (if e \<noteq> 0 then - int k else 0) ans)"
    using Cons.prems n by (intro Cons.IH) simp_all
  moreover have "arrive ((g' # gs) @ [g]) @ rs = gram_of g' # gram_of g' # arrive (gs @ [g]) @ rs"
    by (simp add: arrive_def)
  ultimately show ?case
    using talk_loop_ack_gram(2) [OF assms(1) _ assms(2) e, of n' i ans "arrive (gs @ [g]) @ rs"] Cons.prems
    by (simp add: n del: talk_loop.simps)
qed

lemma talk_number_spec:
  "talk_number want rth seq ns = (rth\<lparr>r_seq := r_seq rth + of_nat (length ns)\<rparr>,
     if ns = [] then seq else r_seq rth + of_nat (length ns),
     map (\<lambda>(i, n). (r_seq rth + 1 + of_nat i, if want then n else n\<lparr>nlmsg_flags := nlmsg_flags n OR NLM_F_ACK\<rparr>)) (enumerate 0 ns))"
proof (induction ns arbitrary: rth seq)
  case (Cons n ns)
  have "map (\<lambda>(i, n). (r_seq rth + 1 + 1 + of_nat i, f n)) (enumerate 0 ns) =
      map (\<lambda>(i, n). (r_seq rth + 1 + of_nat i, f n)) (enumerate 1 ns)" for f :: "request \<Rightarrow> request"
    by (rule nth_equalityI) (auto simp: nth_enumerate_eq ac_simps)
  then show ?case
    unfolding talk_number.simps Cons.IH by (simp add: Let_def ac_simps)
qed simp

lemma rtnl_talk_iov_batch:
  assumes "malloc_ok malloc" and "0 \<le> sent" and "length ns = length gs + 1" "length ns < 2 ^ 32"
    and "\<forall>g \<in> set (gs @ [g]). nl_gram_ok g" and "seq = r_seq rth + of_nat (length ns)"
    and "\<forall>g \<in> set gs. \<exists>e. answer False (length ns) (fst g) (rth\<lparr>r_seq := seq\<rparr>) seq (snd g) = Some (Ack e)"
    and "answer False (length ns) (fst g) (rth\<lparr>r_seq := seq\<rparr>) seq (snd g) = Some (Ack e)"
  shows "\<exists>l. rtnl_talk_iov malloc sent (arrive (gs @ [g]) @ rs) rth ns False =
    Some (Talk_returns (if e \<noteq> 0 then - int (length ns) else 0) None, rth\<lparr>r_seq := seq\<rparr>, l)"
proof -
  have ne: "ns \<noteq> []" using assms(3) by auto
  have "talk_loop False (length ns) malloc (rth\<lparr>r_seq := seq\<rparr>) seq (length (arrive (gs @ [g]) @ rs) + 1) 0 None (arrive (gs @ [g]) @ rs) =
    Some (Talk_returns (if e \<noteq> 0 then - int (length ns) else 0) None)"
    using assms by (intro talk_loop_batch [OF assms(1,4,5,7,8)]) (simp_all add: length_arrive)
  then show ?thesis
    using assms(2,6) ne by (simp add: rtnl_talk_iov_def talk_number_spec del: talk_loop.simps)
qed

end
