(* ===== verification/Nl_Driver.thy ===== *)
theory Nl_Driver
  imports Mrp_Ifdriver Mrp_Talk
begin

unbundle bit_operations_syntax

text \<open>
  The netlink driver (\<^verbatim>\<open>ifdriver_netlink.c\<close>) over \<open>rtnl_talk\<close>: its socket is opened when the daemon starts, each request
  of the state machines is one exchange over it, and the result of the driver is the acknowledgement of
  the kernel.
\<close>

section \<open>The socket of the driver\<close>

definition EXIT_FAILURE :: int where "EXIT_FAILURE = 1"

definition ifdriver_netlink_init :: "rtnl_sys \<Rightarrow> int \<times> rtnl_handle" where
  "ifdriver_netlink_init a = (let (r, rth) = rtnl_open a 0 in (if r < 0 then EXIT_FAILURE else 0, rth))"

definition ifdriver_netlink_uninit :: "rtnl_handle \<Rightarrow> rtnl_handle" where
  "ifdriver_netlink_uninit rth = rtnl_close rth"

text \<open>The driver starts only with an open socket that is bound to its port, and closes it at the end.  When a call
  after \<open>socket\<close> fails, the socket stays open.\<close>

lemma netlink_init_opens:
  assumes "ifdriver_netlink_init a = (0, rth)"
  shows "0 \<le> r_fd rth" and "r_pid rth = s_pid a" and "r_seq rth = s_time a" and "r_fd (ifdriver_netlink_uninit rth) = - 1"
  using assms
  by (auto simp: ifdriver_netlink_init_def ifdriver_netlink_uninit_def rtnl_open_def rtnl_open_byproto_def rtnl_close_def
      EXIT_FAILURE_def Let_def split: if_splits)

lemma netlink_init_leaks:
  assumes "0 \<le> s_socket a" and "s_bind a < 0"
  shows "fst (ifdriver_netlink_init a) = EXIT_FAILURE" and "r_fd (snd (ifdriver_netlink_init a)) = s_socket a"
  using assms by (simp_all add: ifdriver_netlink_init_def rtnl_open_def rtnl_open_byproto_def Let_def)

section \<open>Requests over the socket\<close>

text \<open>The number that \<open>rtnl_talk\<close> returns to the driver, when it returns.\<close>

definition talk_over :: "(nat \<Rightarrow> u8 list option) \<Rightarrow> int \<Rightarrow> reception list \<Rightarrow> rtnl_handle \<Rightarrow> request \<Rightarrow> int" where
  "talk_over malloc sent rs rth n = (case rtnl_talk malloc sent rs rth n False of Some (Talk_returns r _, _) \<Rightarrow> r | _ \<Rightarrow> 0)"

lemma talk_over_ack:
  assumes "malloc_ok malloc" and "0 \<le> sent" and "\<forall>g \<in> set (gs @ [g]). nl_gram_ok g"
    and "rth' = rth\<lparr>r_seq := r_seq rth + 1\<rparr>"
    and "\<forall>g \<in> set gs. answer False 1 (fst g) rth' (r_seq rth') (snd g) = None"
    and "answer False 1 (fst g) rth' (r_seq rth') (snd g) = Some (Ack e)"
  shows "talk_over malloc sent (arrive (gs @ [g]) @ rs) rth n = (if e \<noteq> 0 then - int (length gs + 1) else 0)"
    and "rtnl_talk malloc sent (arrive (gs @ [g]) @ rs) rth n False =
      Some (Talk_returns (if e \<noteq> 0 then - int (length gs + 1) else 0) None, rth',
        [(r_seq rth', n\<lparr>nlmsg_flags := nlmsg_flags n OR NLM_F_ACK\<rparr>)])"
  using rtnl_talk_answer [OF assms, of rs n] by (simp_all add: talk_over_def)

text \<open>A port state is reported as set exactly when the kernel acknowledged the request for it.\<close>

lemma port_state_acknowledged:
  assumes "malloc_ok malloc" and "0 \<le> sent" and "\<forall>g \<in> set (gs @ [g]). nl_gram_ok g"
    and "rth' = rth\<lparr>r_seq := r_seq rth + 1\<rparr>"
    and "\<forall>g \<in> set gs. answer False 1 (fst g) rth' (r_seq rth') (snd g) = None"
    and "answer False 1 (fst g) rth' (r_seq rth') (snd g) = Some (Ack e)"
  shows "\<exists>ret n. netlink_port_set_state (talk_over malloc sent (arrive (gs @ [g]) @ rs) rth) p st = Some (ret, [n]) \<and>
    (ret = 0 \<longleftrightarrow> e = 0) \<and> nl_u32 n [26, 4, 2, 1] = Some (port_state_code st)"
  using port_state_message [of "talk_over malloc sent (arrive (gs @ [g]) @ rs) rth" p st] talk_over_ack(1) [OF assms]
  by (auto simp: ok_def)

end
