(* ===== verification/Nl_Dump.thy ===== *)
theory Nl_Dump
  imports Nl_Message
begin

unbundle bit_operations_syntax

text \<open>
  Dumps (\<^verbatim>\<open>libnetlink.c\<close>): asking the kernel for all objects of a kind, and giving the messages of the answer to
  filters until the kernel says that it is done.  A filter is a function of the buffer and the offset of
  the message with a state of its own, as in \<open>Mrp_Listen\<close>; a dump may instead be written to a file.
\<close>

section \<open>Requests\<close>

definition RTM_GETLINK :: u16 where "RTM_GETLINK = 18"
definition RTM_GETADDR :: u16 where "RTM_GETADDR = 22"
definition RTM_GETROUTE :: u16 where "RTM_GETROUTE = 26"
definition RTM_GETNEIGH :: u16 where "RTM_GETNEIGH = 30"
definition RTM_GETRULE :: u16 where "RTM_GETRULE = 34"
definition RTM_GETNEIGHTBL :: u16 where "RTM_GETNEIGHTBL = 66"
definition RTM_GETADDRLABEL :: u16 where "RTM_GETADDRLABEL = 74"
definition RTM_GETNETCONF :: u16 where "RTM_GETNETCONF = 82"
definition RTM_GETMDB :: u16 where "RTM_GETMDB = 86"
definition RTM_GETNSID :: u16 where "RTM_GETNSID = 90"
definition RTM_GETSTATS :: u16 where "RTM_GETSTATS = 94"
definition FAMILY_UNSPEC :: int where "FAMILY_UNSPEC = 0"
definition FAMILY_BRIDGE :: int where "FAMILY_BRIDGE = 7"
definition FAMILY_PACKET :: int where "FAMILY_PACKET = 17"
definition NLM_F_DUMP_REQUEST :: u16 where "NLM_F_DUMP_REQUEST = 0x300 OR 1"
definition DUMP_EINVAL :: int where "DUMP_EINVAL = 22"
definition sizeof_ifinfomsg :: nat where "sizeof_ifinfomsg = 16"
definition sizeof_rtmsg :: nat where "sizeof_rtmsg = 12"
definition sizeof_rtgenmsg :: nat where "sizeof_rtgenmsg = 1"
definition sizeof_br_port_msg :: nat where "sizeof_br_port_msg = 8"
definition sizeof_if_stats_msg :: nat where "sizeof_if_stats_msg = 12"

text \<open>\<open>++rth->seq\<close> and \<open>rth->dump\<close>: the number of the request is the one the dump waits for.\<close>

definition dump_seq :: "rtnl_handle \<Rightarrow> rtnl_handle" where
  "dump_seq rth = rth\<lparr>r_seq := r_seq rth + 1, r_dump := r_seq rth + 1\<rparr>"

text \<open>A request of \<open>reqlen\<close> bytes: the netlink header, the family, which is the first byte of every body, and zeros.
  A filter function may complete it, or refuse with an error.\<close>

definition dump_header :: "nat \<Rightarrow> u16 \<Rightarrow> rtnl_handle \<Rightarrow> u8 list" where
  "dump_header len type rth = mem32 (of_nat len) @ mem16 type @ mem16 NLM_F_DUMP_REQUEST @ mem32 (r_dump rth) @ mem32 0"

definition dump_bytes :: "nat \<Rightarrow> u16 \<Rightarrow> int \<Rightarrow> nat \<Rightarrow> rtnl_handle \<Rightarrow> u8 list" where
  "dump_bytes len type family reqlen rth = dump_header len type rth @ [of_int family] @ replicate (reqlen - 17) 0"

type_synonym req_filter = "u8 list \<Rightarrow> nat \<Rightarrow> int \<times> u8 list"
type_synonym dump_result = "(int \<times> u8 list list) \<times> rtnl_handle"

text \<open>The answer of \<open>send\<close> for the bytes that were sent, or the error of the filter function.\<close>

definition send_filtered ::
  "(u8 list \<Rightarrow> int) \<Rightarrow> req_filter option \<Rightarrow> (u8 list \<Rightarrow> nat) \<Rightarrow> u8 list \<Rightarrow> int \<times> u8 list list" where
  "send_filtered send filter_fn len bs = (
     let (err, bs) = (case filter_fn of None \<Rightarrow> (0, bs) | Some f \<Rightarrow> f bs (length bs)) in
     if err \<noteq> 0 then (err, []) else (send (take (len bs) bs), [take (len bs) bs]))"

definition req_len :: "u8 list \<Rightarrow> nat" where
  "req_len bs = unat (ld32 bs)"

text \<open>The body of the requests whose struct is not among the headers of the program has a parameter for its size.\<close>

definition rtnl_addrdump_req :: "nat \<Rightarrow> (u8 list \<Rightarrow> int) \<Rightarrow> int \<Rightarrow> req_filter option \<Rightarrow> rtnl_handle \<Rightarrow> dump_result" where
  "rtnl_addrdump_req sz send family filter_fn rth = (
     let rth = dump_seq rth in (send_filtered send filter_fn length (dump_bytes (16 + sz) RTM_GETADDR family (16 + sz + 128) rth), rth))"

definition rtnl_addrlbldump_req :: "nat \<Rightarrow> (u8 list \<Rightarrow> int) \<Rightarrow> int \<Rightarrow> rtnl_handle \<Rightarrow> dump_result" where
  "rtnl_addrlbldump_req sz send family rth = (
     let rth = dump_seq rth in (send_filtered send None length (dump_bytes (16 + sz) RTM_GETADDRLABEL family (16 + sz) rth), rth))"

definition rtnl_routedump_req :: "(u8 list \<Rightarrow> int) \<Rightarrow> int \<Rightarrow> req_filter option \<Rightarrow> rtnl_handle \<Rightarrow> dump_result" where
  "rtnl_routedump_req send family filter_fn rth = (
     let rth = dump_seq rth
     in (send_filtered send filter_fn length (dump_bytes (16 + sizeof_rtmsg) RTM_GETROUTE family (16 + sizeof_rtmsg + 128) rth), rth))"

definition rtnl_ruledump_req :: "nat \<Rightarrow> (u8 list \<Rightarrow> int) \<Rightarrow> int \<Rightarrow> rtnl_handle \<Rightarrow> dump_result" where
  "rtnl_ruledump_req sz send family rth = (
     let rth = dump_seq rth in (send_filtered send None length (dump_bytes (16 + sz) RTM_GETRULE family (16 + sz) rth), rth))"

definition rtnl_neighdump_req :: "nat \<Rightarrow> (u8 list \<Rightarrow> int) \<Rightarrow> int \<Rightarrow> req_filter option \<Rightarrow> rtnl_handle \<Rightarrow> dump_result" where
  "rtnl_neighdump_req sz send family filter_fn rth = (
     let rth = dump_seq rth in (send_filtered send filter_fn length (dump_bytes (16 + sz) RTM_GETNEIGH family (16 + sz + 256) rth), rth))"

definition rtnl_neightbldump_req :: "nat \<Rightarrow> (u8 list \<Rightarrow> int) \<Rightarrow> int \<Rightarrow> rtnl_handle \<Rightarrow> dump_result" where
  "rtnl_neightbldump_req sz send family rth = (
     let rth = dump_seq rth in (send_filtered send None length (dump_bytes (16 + sz) RTM_GETNEIGHTBL family (16 + sz) rth), rth))"

definition rtnl_mdbdump_req :: "(u8 list \<Rightarrow> int) \<Rightarrow> int \<Rightarrow> rtnl_handle \<Rightarrow> dump_result" where
  "rtnl_mdbdump_req send family rth = (
     let rth = dump_seq rth
     in (send_filtered send None length (dump_bytes (16 + sizeof_br_port_msg) RTM_GETMDB family (16 + sizeof_br_port_msg) rth), rth))"

definition rtnl_netconfdump_req :: "nat \<Rightarrow> (u8 list \<Rightarrow> int) \<Rightarrow> int \<Rightarrow> rtnl_handle \<Rightarrow> dump_result" where
  "rtnl_netconfdump_req sz send family rth = (
     let rth = dump_seq rth
     in (send_filtered send None length (dump_bytes (16 + NLMSG_ALIGN sz) RTM_GETNETCONF family (16 + NLMSG_ALIGN sz) rth), rth))"

text \<open>These send \<open>nlmsg_len\<close> bytes, as the filter left it, and insist on a filter.\<close>

definition rtnl_nsiddump_req_filter_fn :: "(u8 list \<Rightarrow> int) \<Rightarrow> int \<Rightarrow> req_filter option \<Rightarrow> rtnl_handle \<Rightarrow> dump_result" where
  "rtnl_nsiddump_req_filter_fn send family filter_fn rth = (
     let rth = dump_seq rth in
     ((case filter_fn of None \<Rightarrow> (- DUMP_EINVAL, [])
       | Some _ \<Rightarrow> send_filtered send filter_fn req_len
           (dump_bytes (16 + NLMSG_ALIGN sizeof_rtgenmsg) RTM_GETNSID family (NLMSG_ALIGN (16 + sizeof_rtgenmsg + 1024)) rth)), rth))"

definition RTEXT_FILTER_VF :: u32 where "RTEXT_FILTER_VF = 1"
definition IFLA_EXT_MASK :: u16 where "IFLA_EXT_MASK = 29"

definition linkdump_req :: "(u8 list \<Rightarrow> int) \<Rightarrow> int \<Rightarrow> rtnl_handle \<Rightarrow> dump_result" where
  "linkdump_req send family rth = (
     let rth = dump_seq rth
     in (send_filtered send None length (dump_bytes (16 + sizeof_ifinfomsg) RTM_GETLINK family (16 + sizeof_ifinfomsg) rth), rth))"

definition rtnl_linkdump_req_filter :: "(u8 list \<Rightarrow> int) \<Rightarrow> int \<Rightarrow> u32 \<Rightarrow> rtnl_handle \<Rightarrow> dump_result" where
  "rtnl_linkdump_req_filter send family filt_mask rth = (
     if family = FAMILY_UNSPEC \<or> family = FAMILY_BRIDGE
     then let rth = dump_seq rth
       in (send_filtered send None length
             (dump_bytes (16 + sizeof_ifinfomsg + 8) RTM_GETLINK family (16 + sizeof_ifinfomsg) rth
              @ mem16 8 @ mem16 IFLA_EXT_MASK @ mem32 filt_mask), rth)
     else linkdump_req send family rth)"

definition rtnl_linkdump_req :: "(u8 list \<Rightarrow> int) \<Rightarrow> int \<Rightarrow> rtnl_handle \<Rightarrow> dump_result" where
  "rtnl_linkdump_req send family rth =
    (if family = FAMILY_UNSPEC then rtnl_linkdump_req_filter send family RTEXT_FILTER_VF rth else linkdump_req send family rth)"

definition rtnl_linkdump_req_filter_fn :: "(u8 list \<Rightarrow> int) \<Rightarrow> int \<Rightarrow> req_filter option \<Rightarrow> rtnl_handle \<Rightarrow> dump_result" where
  "rtnl_linkdump_req_filter_fn send family filter_fn rth = (
     if family = FAMILY_UNSPEC \<or> family = FAMILY_PACKET
     then let rth = dump_seq rth
       in ((case filter_fn of None \<Rightarrow> (- DUMP_EINVAL, [])
         | Some _ \<Rightarrow> send_filtered send filter_fn req_len
             (dump_bytes (16 + sizeof_ifinfomsg) RTM_GETLINK family (16 + sizeof_ifinfomsg + 1024) rth)), rth)
     else linkdump_req send family rth)"

text \<open>No filter is a call of a NULL pointer here.\<close>

definition rtnl_fdb_linkdump_req_filter_fn :: "(u8 list \<Rightarrow> int) \<Rightarrow> req_filter option \<Rightarrow> rtnl_handle \<Rightarrow> dump_result option" where
  "rtnl_fdb_linkdump_req_filter_fn send filter_fn rth = (
     let rth = dump_seq rth in
     case filter_fn of None \<Rightarrow> None
     | Some _ \<Rightarrow> Some (send_filtered send filter_fn length
         (dump_bytes (16 + sizeof_ifinfomsg) RTM_GETNEIGH FAMILY_BRIDGE (16 + sizeof_ifinfomsg + 128) rth), rth))"

definition rtnl_statsdump_req_filter :: "(u8 list \<Rightarrow> int) \<Rightarrow> int \<Rightarrow> u32 \<Rightarrow> rtnl_handle \<Rightarrow> dump_result" where
  "rtnl_statsdump_req_filter send family filt_mask rth = (
     let rth = dump_seq rth
     in (send_filtered send None length
           (dump_header (16 + sizeof_if_stats_msg) RTM_GETSTATS rth @ [of_int family] @ replicate 7 0 @ mem32 filt_mask), rth))"

definition rtnl_dump_request :: "(u8 list \<Rightarrow> int) \<Rightarrow> u16 \<Rightarrow> u8 list \<Rightarrow> rtnl_handle \<Rightarrow> dump_result" where
  "rtnl_dump_request send type req rth = (
     let rth = dump_seq rth; bs = dump_header (16 + length req) type rth @ req in ((send bs, [bs]), rth))"

text \<open>A message of the caller, of which flags, port and number are overwritten.\<close>

definition rtnl_dump_request_n :: "(u8 list \<Rightarrow> int) \<Rightarrow> nlmsg \<Rightarrow> rtnl_handle \<Rightarrow> dump_result" where
  "rtnl_dump_request_n send n rth = (
     let rth = dump_seq rth; n = n\<lparr>m_flags := NLM_F_DUMP_REQUEST, m_pid := 0, m_seq := r_dump rth\<rparr>;
         bs = take (16 + length (m_data n)) (enc_nlmsg n)
     in ((send bs, [bs]), rth))"


section \<open>Sending with a check\<close>

definition rtnl_send :: "(u8 list \<Rightarrow> int) \<Rightarrow> u8 list \<Rightarrow> int" where
  "rtnl_send send bs = send bs"

text \<open>\<open>NLMSG_OK\<close> and the loop over the messages that are already waiting; the number set by an error is the second
  result.\<close>

definition NLMSG_OK :: "u8 list \<Rightarrow> nat \<Rightarrow> int \<Rightarrow> u32 option option" where
  "NLMSG_OK buf h len =
    (if len < int sizeof_nlmsghdr then Some None
     else map_option (\<lambda>nlen. if sizeof_nlmsghdr \<le> unat nlen \<and> int (unat nlen) \<le> len then Some nlen else None) (rd32 buf h))"

lemma NLMSG_OK_D:
  assumes "NLMSG_OK buf h len = Some (Some nlen)"
  shows "16 \<le> unat nlen" "int (unat nlen) \<le> len" "16 \<le> len" "rd32 buf h = Some nlen"
  using assms by (auto simp: NLMSG_OK_def split: if_splits)

lemma NLMSG_NEXT_less: "NLMSG_OK buf h len = Some (Some nlen) \<Longrightarrow> nat (len - int (NLMSG_ALIGN (unat nlen))) < nat len"
  using NLMSG_OK_D NLMSG_ALIGN_ge(1) [of "unat nlen"] by fastforce

function send_check_loop :: "u8 list \<Rightarrow> nat \<Rightarrow> int \<Rightarrow> (int \<times> int option) option" where
  "send_check_loop buf h len = (case NLMSG_OK buf h len of None \<Rightarrow> None
     | Some None \<Rightarrow> Some (0, None)
     | Some (Some nlen) \<Rightarrow>
         (case rd16 buf (h + 4) of None \<Rightarrow> None
          | Some type \<Rightarrow>
              if type = NLMSG_ERROR
              then if unat nlen < 16 + 20 then Some (- 1, None)
                   else map_option (\<lambda>e. (- 1, Some (- sint e))) (rd32 buf (h + 16))
              else send_check_loop buf (h + NLMSG_ALIGN (unat nlen)) (len - int (NLMSG_ALIGN (unat nlen)))))"
  by pat_completeness auto

termination send_check_loop
  by (relation "measure (\<lambda>(buf, h, len). nat len)") (auto dest: NLMSG_NEXT_less)

declare send_check_loop.simps [simp del]

text \<open>\<open>recv\<close> looks without waiting at no more than 1024 bytes; \<open>resp\<close> is the buffer before.\<close>

definition rtnl_send_check ::
  "(u8 list \<Rightarrow> int) \<Rightarrow> int + u8 list \<Rightarrow> u8 list \<Rightarrow> u8 list \<Rightarrow> (int \<times> int option) option" where
  "rtnl_send_check send recv resp bs = (
     let status = send bs in
     if status < 0 then Some (status, None)
     else (case recv of
         Inl errno \<Rightarrow> Some (if errno = EAGAIN then 0 else - 1, Some errno)
       | Inr answer \<Rightarrow>
           let answer = take 1024 answer in
           send_check_loop (answer @ drop (length answer) resp) 0 (int (length answer))))"

section \<open>The answer of a dump\<close>

text \<open>The end message holds a status.  \<open>ext_ack\<close> is \<open>nl_dump_ext_ack_done\<close>, which says whether a message of
  the kernel was printed; it is defined in \<open>Nl_Ext_Ack\<close>, over libmnl.\<close>

type_synonym ext_ack_done = "u8 list \<Rightarrow> nat \<Rightarrow> int \<Rightarrow> int"

definition rtnl_dump_done :: "ext_ack_done \<Rightarrow> u8 list \<Rightarrow> nat \<Rightarrow> int option" where
  "rtnl_dump_done ext_ack buf h = (case (rd32 buf (h + 16), rd32 buf h) of
     (Some len, Some nlen) \<Rightarrow>
       Some (if unat nlen < 16 + 4 then - 1
         else if sint len < 0
         then if ext_ack buf h (sint len) \<noteq> 0 then sint len
              else if - sint len = 2 \<or> - sint len = 95 then - 1 else sint len
         else 0)
   | _ \<Rightarrow> None)"

definition NLM_F_DUMP_INTR :: u16 where "NLM_F_DUMP_INTR = 16"

datatype 'd dump_end = D_end int bool "u8 list" 'd | D_done bool "u8 list" 'd | D_return int 'd

text \<open>One filter over the messages of a datagram.  It clears flags in the buffer; with a file to dump to
  (\<open>dump_fp\<close>) it is not called.  The interruption flag and the length that is left go on.\<close>

definition clear_flags :: "u8 list \<Rightarrow> nat \<Rightarrow> u16 \<Rightarrow> u8 list option" where
  "clear_flags buf h nc = map_option (\<lambda>f. take (h + 6) buf @ mem16 (f AND NOT nc) @ drop (h + 8) buf) (rd16 buf (h + 6))"

function dump_messages ::
  "ext_ack_done \<Rightarrow> bool \<Rightarrow> 'd nl_handler \<Rightarrow> u16 \<Rightarrow> u32 \<Rightarrow> rtnl_handle \<Rightarrow> bool \<Rightarrow> u8 list \<Rightarrow> nat \<Rightarrow> int \<Rightarrow> 'd \<Rightarrow> 'd dump_end option" where
  "dump_messages ext dump_fp filter_fn nc pid rth intr buf h msglen d = (case NLMSG_OK buf h msglen of None \<Rightarrow> None
     | Some None \<Rightarrow> Some (D_end msglen intr buf d)
     | Some (Some nlen) \<Rightarrow> (case clear_flags buf h nc of None \<Rightarrow> None
       | Some buf \<Rightarrow> (case (rd32 buf (h + 12), rd32 buf (h + 8), rd16 buf (h + 4), rd16 buf (h + 6)) of
           (Some mpid, Some mseq, Some type, Some flags) \<Rightarrow>
             if pid \<noteq> 0 \<or> mpid \<noteq> r_pid rth \<or> mseq \<noteq> r_dump rth
             then dump_messages ext dump_fp filter_fn nc pid rth intr buf (h + NLMSG_ALIGN (unat nlen))
                    (msglen - int (NLMSG_ALIGN (unat nlen))) d
             else
               let intr = (intr \<or> flags AND NLM_F_DUMP_INTR \<noteq> 0) in
               if type = NLMSG_DONE
               then map_option (\<lambda>err. if err < 0 then D_return (- 1) d else D_done intr buf d) (rtnl_dump_done ext buf h)
               else if type = NLMSG_ERROR then Some (D_return (- 1) d)
               else (case (if dump_fp then Some (0, d) else filter_fn buf h d) of None \<Rightarrow> None
                 | Some (err, d) \<Rightarrow>
                     if err < 0 then Some (D_return err d)
                     else dump_messages ext dump_fp filter_fn nc pid rth intr buf (h + NLMSG_ALIGN (unat nlen))
                            (msglen - int (NLMSG_ALIGN (unat nlen))) d)
         | _ \<Rightarrow> None)))"
  by pat_completeness auto

termination dump_messages
  by (relation "measure (\<lambda>(ext, dump_fp, filter_fn, nc, pid, rth, intr, buf, h, msglen, d). nat msglen)")
    (auto dest: NLMSG_NEXT_less)

declare dump_messages.simps [simp del]

text \<open>The filters one after another over the same datagram, each from its start.\<close>

fun dump_filters ::
  "ext_ack_done \<Rightarrow> bool \<Rightarrow> ('d nl_handler \<times> u16) list \<Rightarrow> u32 \<Rightarrow> rtnl_handle \<Rightarrow> int \<Rightarrow> bool \<Rightarrow> bool \<Rightarrow> u8 list \<Rightarrow> int \<Rightarrow> 'd
    \<Rightarrow> (bool \<times> 'd dump_end) option" where
  "dump_filters ext dump_fp [] pid rth status found_done intr buf msglen d = Some (found_done, D_end msglen intr buf d)"
| "dump_filters ext dump_fp ((filter_fn, nc) # args) pid rth status found_done intr buf msglen d =
    (case dump_messages ext dump_fp filter_fn nc pid rth intr buf 0 status d of None \<Rightarrow> None
     | Some (D_return r d) \<Rightarrow> Some (found_done, D_return r d)
     | Some (D_end msglen intr buf d) \<Rightarrow> dump_filters ext dump_fp args pid rth status found_done intr buf msglen d
     | Some (D_done intr buf d) \<Rightarrow> dump_filters ext dump_fp args pid rth status True intr buf msglen d)"


datatype dumped = Dump_returns int bool | Dump_exits | Dump_waits

text \<open>The outer loop; the second result says whether an interrupted dump is reported.  A file gets the datagram
  with its padding, which is read from the buffer.\<close>

fun dump_loop ::
  "(nat \<Rightarrow> u8 list option) \<Rightarrow> ext_ack_done \<Rightarrow> bool \<Rightarrow> ('d nl_handler \<times> u16) list \<Rightarrow> rtnl_handle \<Rightarrow> nat \<Rightarrow> bool \<Rightarrow> u8 list \<Rightarrow> 'd \<Rightarrow> reception list
    \<Rightarrow> (dumped \<times> u8 list \<times> 'd) option" where
  "dump_loop malloc ext dump_fp args rth 0 intr out d rs = Some (Dump_waits, out, d)"
| "dump_loop malloc ext dump_fp args rth (Suc n) intr out d rs =
    (case rtnl_recvmsg malloc rs of None \<Rightarrow> Some (Dump_waits, out, d)
     | Some (Inl status, rs) \<Rightarrow> Some (Dump_returns status False, out, d)
     | Some (Inr (buf, len, namelen_ok, trunc, pid), rs) \<Rightarrow>
         (case (if dump_fp then map_option ((@) out) (rdn buf 0 (NLMSG_ALIGN len)) else Some out) of None \<Rightarrow> None
          | Some out \<Rightarrow>
              (case dump_filters ext dump_fp args pid rth (int len) False intr buf 0 d of
                 Some (found_done, D_return r d) \<Rightarrow> Some (Dump_returns r False, out, d)
               | Some (found_done, D_end msglen intr buf d) \<Rightarrow>
                   if found_done then Some (Dump_returns 0 intr, out, d)
                   else if trunc then dump_loop malloc ext dump_fp args rth n intr out d rs
                   else if msglen \<noteq> 0 then Some (Dump_exits, out, d)
                   else dump_loop malloc ext dump_fp args rth n intr out d rs
               | _ \<Rightarrow> None)))"

definition rtnl_dump_filter_l ::
  "(nat \<Rightarrow> u8 list option) \<Rightarrow> ext_ack_done \<Rightarrow> bool \<Rightarrow> ('d nl_handler \<times> u16) list \<Rightarrow> rtnl_handle \<Rightarrow> 'd \<Rightarrow> reception list
    \<Rightarrow> (dumped \<times> u8 list \<times> 'd) option" where
  "rtnl_dump_filter_l malloc ext dump_fp args rth d rs = dump_loop malloc ext dump_fp args rth (length rs + 1) False [] d rs"

definition rtnl_dump_filter_nc ::
  "(nat \<Rightarrow> u8 list option) \<Rightarrow> ext_ack_done \<Rightarrow> bool \<Rightarrow> 'd nl_handler \<Rightarrow> u16 \<Rightarrow> rtnl_handle \<Rightarrow> 'd \<Rightarrow> reception list
    \<Rightarrow> (dumped \<times> u8 list \<times> 'd) option" where
  "rtnl_dump_filter_nc malloc ext dump_fp filter_fn nc_flags rth d rs =
     rtnl_dump_filter_l malloc ext dump_fp [(filter_fn, nc_flags)] rth d rs"

section \<open>Requests are numbered\<close>

text \<open>Every request carries the number for which the dump waits afterwards.\<close>

lemma dump_bytes_header:
  assumes "17 \<le> reqlen" and "len < 2 ^ 32"
  shows "length (dump_bytes len type family reqlen rth) = reqlen" "req_len (dump_bytes len type family reqlen rth) = len"
    "rd16 (dump_bytes len type family reqlen rth) 4 = Some type" "rd32 (dump_bytes len type family reqlen rth) 8 = Some (r_dump rth)"
  using assms by (simp_all add: dump_bytes_def dump_header_def req_len_def rd16_def rd32_def rdn_def unat_of_nat)

lemma dump_seq_simps [simp]:
  "r_dump (dump_seq rth) = r_seq rth + 1" "r_seq (dump_seq rth) = r_seq rth + 1" "r_pid (dump_seq rth) = r_pid rth"
  by (simp_all add: dump_seq_def)

section \<open>The answer as a list of messages\<close>

definition own :: "u32 \<Rightarrow> rtnl_handle \<Rightarrow> nlmsg \<Rightarrow> bool" where
  "own pid rth m \<longleftrightarrow> pid = 0 \<and> m_pid m = r_pid rth \<and> m_seq m = r_dump rth"

definition cleared :: "u16 \<Rightarrow> nlmsg \<Rightarrow> nlmsg" where
  "cleared nc m = m\<lparr>m_flags := m_flags m AND NOT nc\<rparr>"

definition done_status :: "nlmsg \<Rightarrow> int" where
  "done_status m = sint (ld32 (take 4 (m_data m)))"

text \<open>What a dump does with the messages of a datagram: it goes on (\<open>None\<close>) or returns.\<close>

fun dump_spec ::
  "(nlmsg \<Rightarrow> 'd \<Rightarrow> int \<times> 'd) \<Rightarrow> u16 \<Rightarrow> u32 \<Rightarrow> rtnl_handle \<Rightarrow> nlmsg list \<Rightarrow> bool \<Rightarrow> 'd \<Rightarrow> int option \<times> bool \<times> 'd" where
  "dump_spec f nc pid rth [] intr d = (None, intr, d)"
| "dump_spec f nc pid rth (m # ms) intr d = (
     let m = cleared nc m in
     if \<not> own pid rth m then dump_spec f nc pid rth ms intr d
     else
       let intr = (intr \<or> m_flags m AND NLM_F_DUMP_INTR \<noteq> 0) in
       if m_type m = NLMSG_DONE then (Some (if done_status m < 0 then - 1 else 0), intr, d)
       else if m_type m = NLMSG_ERROR then (Some (- 1), intr, d)
       else
         let (err, d) = f m d in
         if err < 0 then (Some err, intr, d) else dump_spec f nc pid rth ms intr d)"

text \<open>A filter that reads messages, and messages that can be read.\<close>

definition reads :: "'d nl_handler \<Rightarrow> (nlmsg \<Rightarrow> 'd \<Rightarrow> int \<times> 'd) \<Rightarrow> bool" where
  "reads flt f \<longleftrightarrow> (\<forall>pre m post d. length (m_data m) < 2 ^ 31 \<longrightarrow> flt (pre @ enc_nlmsg m @ post) (length pre) d = Some (f m d))"

definition dump_ok :: "u32 \<times> nlmsg list \<Rightarrow> bool" where
  "dump_ok g \<longleftrightarrow> snd g \<noteq> [] \<and> length (concat (map enc_nlmsg (snd g))) < 2 ^ 31 \<and>
     (\<forall>m \<in> set (snd g). m_type m = NLMSG_DONE \<longrightarrow> 4 \<le> length (m_data m))"

lemma cleared_simps [simp]:
  "m_type (cleared nc m) = m_type m" "m_data (cleared nc m) = m_data m" "own pid rth (cleared nc m) = own pid rth m"
  by (simp_all add: cleared_def own_def)

lemma length_enc_cleared [simp]: "length (enc_nlmsg (cleared nc m)) = length (enc_nlmsg m)"
  by (simp add: length_enc_nlmsg)

lemma NLMSG_OK_enc:
  assumes "buf = pre @ enc_nlmsg m @ post" and "length (enc_nlmsg m) \<le> n" and "n < 2 ^ 31"
  shows "NLMSG_OK buf (length pre) (int n) = Some (Some (of_nat (16 + length (m_data m))))"
    and "unat (of_nat (16 + length (m_data m)) :: u32) = 16 + length (m_data m)"
proof -
  have le: "16 + length (m_data m) \<le> n"
    using NLMSG_ALIGN_ge(1) [of "16 + length (m_data m)"] assms(2) by (simp add: length_enc_nlmsg)
  then show u: "unat (of_nat (16 + length (m_data m)) :: u32) = 16 + length (m_data m)"
    using assms(3) by (simp only: unat_of_nat) simp
  show "NLMSG_OK buf (length pre) (int n) = Some (Some (of_nat (16 + length (m_data m))))"
    using le by (simp only: NLMSG_OK_def enc_nlmsg_fields(1) [OF assms(1) refl] option.map u) simp
qed

lemma clear_flags_enc: "clear_flags (pre @ enc_nlmsg m @ post) (length pre) nc = Some (pre @ enc_nlmsg (cleared nc m) @ post)"
proof -
  let ?n = "16 + length (m_data m)"
  let ?a = "mem32 (of_nat ?n) @ mem16 (m_type m)"
    and ?c = "mem32 (m_seq m) @ mem32 (m_pid m) @ m_data m @ replicate (NLMSG_ALIGN ?n - ?n) 0"
  have e: "enc_nlmsg m = ?a @ mem16 (m_flags m) @ ?c" "enc_nlmsg (cleared nc m) = ?a @ mem16 (m_flags m AND NOT nc) @ ?c"
    by (simp_all add: enc_nlmsg_def Let_def cleared_def)
  show ?thesis
    unfolding e by (simp add: clear_flags_def rd16_def rdn_def)
qed

lemma rd16_flags: "rd16 (pre @ enc_nlmsg m @ post) (length pre + 6) = Some (m_flags m)"
  by (simp add: rd16_def rdn_def enc_nlmsg_def Let_def)

lemma dump_done_enc:
  assumes "4 \<le> length (m_data m)" and "16 + length (m_data m) < 2 ^ 31"
  shows "\<exists>err. rtnl_dump_done ext (pre @ enc_nlmsg m @ post) (length pre) = Some err \<and> (err < 0 \<longleftrightarrow> done_status m < 0)"
proof -
  have u: "unat (of_nat (16 + length (m_data m)) :: u32) = 16 + length (m_data m)"
    using assms(2) by (simp only: unat_of_nat) simp
  note rd = enc_nlmsg_fields [of "pre @ enc_nlmsg m @ post" pre m post "length pre", OF refl refl]
  show ?thesis
    using assms(1) by (simp only: rtnl_dump_done_def rd(1) rd(5) [OF assms(1)] option.case prod.case u done_status_def) auto
qed


text \<open>One filter over the messages of a datagram does what the specification says.\<close>

lemma dump_messages_enc:
  assumes "if dump_fp then f = (\<lambda>m d. (0, d)) else reads filter_fn f" and "buf = pre @ concat (map enc_nlmsg ms) @ post"
    and "n = length (concat (map enc_nlmsg ms))" and "n < 2 ^ 31"
    and "\<forall>m \<in> set ms. m_type m = NLMSG_DONE \<longrightarrow> 4 \<le> length (m_data m)"
  shows "\<exists>buf'. dump_messages ext dump_fp filter_fn nc pid rth intr buf (length pre) (int n) d =
    Some (case dump_spec f nc pid rth ms intr d of
      (None, intr, d) \<Rightarrow> D_end 0 intr buf' d
    | (Some r, intr, d) \<Rightarrow> if r = 0 then D_done intr buf' d else D_return r d)"
  using assms(2-5)
proof (induction ms arbitrary: buf pre n intr d)
  case Nil
  then show ?case by (simp add: dump_messages.simps NLMSG_OK_def)
next
  case (Cons m ms)
  let ?m = "cleared nc m" and ?post = "concat (map enc_nlmsg ms) @ post" and ?l = "16 + length (m_data m)"
  let ?buf = "pre @ enc_nlmsg ?m @ ?post" and ?n = "n - length (enc_nlmsg m)"
  have buf: "buf = pre @ enc_nlmsg m @ ?post" using Cons.prems by simp
  have n: "length (enc_nlmsg m) \<le> n" "?n = length (concat (map enc_nlmsg ms))" "?n < 2 ^ 31" using Cons.prems by auto
  have small: "?l < 2 ^ 31"
    using NLMSG_ALIGN_ge(1) [of ?l] n(1) Cons.prems(3) by (simp add: length_enc_nlmsg)
  note ok = NLMSG_OK_enc [OF buf n(1) Cons.prems(3)]
  have cl: "clear_flags buf (length pre) nc = Some ?buf" unfolding buf by (rule clear_flags_enc)
  have rd: "rd32 ?buf (length pre + 12) = Some (m_pid m)" "rd32 ?buf (length pre + 8) = Some (m_seq m)"
    "rd16 ?buf (length pre + 4) = Some (m_type m)" "rd16 ?buf (length pre + 6) = Some (m_flags ?m)"
    using enc_nlmsg_fields [of ?buf pre ?m ?post "length pre", OF refl refl] rd16_flags [of pre ?m ?post]
    by (simp_all add: cleared_def)
  have IH: "\<exists>buf'. dump_messages ext dump_fp filter_fn nc pid rth intr ?buf (length pre + NLMSG_ALIGN ?l) (int n - int (NLMSG_ALIGN ?l)) d =
      Some (case dump_spec f nc pid rth ms intr d of (None, intr, d) \<Rightarrow> D_end 0 intr buf' d
      | (Some r, intr, d) \<Rightarrow> if r = 0 then D_done intr buf' d else D_return r d)" for intr d
    using Cons.IH [of ?buf "pre @ enc_nlmsg ?m" ?n intr d] Cons.prems n by (simp add: length_enc_nlmsg of_nat_diff)
  note step = dump_messages.simps [of ext dump_fp filter_fn nc pid rth intr buf "length pre" "int n" d,
      unfolded ok option.case cl rd prod.case]
  show ?case
  proof (cases "own pid rth m")
    case False
    then have o: "pid \<noteq> 0 \<or> m_pid m \<noteq> r_pid rth \<or> m_seq m \<noteq> r_dump rth" by (simp add: own_def)
    show ?thesis using IH [of intr d] False by (subst step, subst if_P [OF o]) (simp add: Let_def)
  next
    case own: True
    let ?intr = "intr \<or> m_flags ?m AND NLM_F_DUMP_INTR \<noteq> 0"
    have o: "\<not> (pid \<noteq> 0 \<or> m_pid m \<noteq> r_pid rth \<or> m_seq m \<noteq> r_dump rth)" using own by (simp add: own_def)
    consider (fin) "m_type m = NLMSG_DONE" | (error) "m_type m = NLMSG_ERROR" "m_type m \<noteq> NLMSG_DONE"
      | (data) "m_type m \<noteq> NLMSG_DONE" "m_type m \<noteq> NLMSG_ERROR" by blast
    then show ?thesis
    proof cases
      case fin
      then obtain err where "rtnl_dump_done ext ?buf (length pre) = Some err" "err < 0 \<longleftrightarrow> done_status ?m < 0"
        using dump_done_enc [of ?m ext pre ?post] Cons.prems(4) small by auto
      then show ?thesis using fin own o by (subst step) (simp add: Let_def)
    next
      case error
      then show ?thesis using own o by (subst step) (simp add: Let_def)
    next
      case data
      obtain err d' where f: "f ?m d = (err, d')" by (cases "f ?m d")
      have "(if dump_fp then Some (0, d) else filter_fn ?buf (length pre) d) = Some (err, d')"
      proof (cases dump_fp)
        case False
        then have "reads filter_fn f" using assms(1) by simp
        then show ?thesis using False small f unfolding reads_def by simp
      qed (use assms(1) f in simp)
      then show ?thesis using data own o f IH [of ?intr d'] by (subst step) (simp add: Let_def)
    qed
  qed
qed


section \<open>The whole dump\<close>

text \<open>The same over the datagrams that arrive.\<close>

fun dumps_spec ::
  "(nlmsg \<Rightarrow> 'd \<Rightarrow> int \<times> 'd) \<Rightarrow> u16 \<Rightarrow> rtnl_handle \<Rightarrow> (u32 \<times> nlmsg list) list \<Rightarrow> bool \<Rightarrow> 'd \<Rightarrow> int option \<times> bool \<times> 'd" where
  "dumps_spec f nc rth [] intr d = (None, intr, d)"
| "dumps_spec f nc rth (g # gs) intr d =
    (case dump_spec f nc (fst g) rth (snd g) intr d of
       (None, intr, d) \<Rightarrow> dumps_spec f nc rth gs intr d
     | r \<Rightarrow> r)"

lemma dvd_length_enc: "4 dvd length (concat (map enc_nlmsg ms))"
  by (induction ms) (simp_all add: length_enc_nlmsg NLMSG_ALIGN_def)

lemma dump_loop_gram:
  assumes "malloc_ok malloc" and "if dump_fp then f = (\<lambda>m d. (0, d)) else reads filter_fn f" and "dump_ok g"
  shows "dump_loop malloc ext dump_fp [(filter_fn, nc)] rth (Suc k) intr out d (gram_of g # gram_of g # rs) =
    (let out = (if dump_fp then out @ concat (map enc_nlmsg (snd g)) else out) in
     case dump_spec f nc (fst g) rth (snd g) intr d of
       (None, intr, d) \<Rightarrow> dump_loop malloc ext dump_fp [(filter_fn, nc)] rth k intr out d rs
     | (Some r, intr, d) \<Rightarrow> Some (Dump_returns r (r = 0 \<and> intr), out, d))"
proof -
  let ?bs = "concat (map enc_nlmsg (snd g))"
  have ne: "snd g \<noteq> []" using assms(3) by (simp add: dump_ok_def)
  obtain rest where r: "rtnl_recvmsg malloc (gram_of g # gram_of g # rs) = Some (Inr (?bs @ rest, length ?bs, True, False, fst g), rs)"
    using assms(1) ne by (rule recvmsg_gram)
  obtain buf' where m: "dump_messages ext dump_fp filter_fn nc (fst g) rth intr (?bs @ rest) 0 (int (length ?bs)) d =
    Some (case dump_spec f nc (fst g) rth (snd g) intr d of (None, intr, d) \<Rightarrow> D_end 0 intr buf' d
      | (Some r, intr, d) \<Rightarrow> if r = 0 then D_done intr buf' d else D_return r d)"
    using dump_messages_enc [OF assms(2), of "?bs @ rest" "[]" "snd g" rest "length ?bs" ext nc "fst g" rth intr d] assms(3)
    by (auto simp: dump_ok_def)
  have "NLMSG_ALIGN (length ?bs) = length ?bs"
    using dvd_length_enc [of "snd g"] unfolding NLMSG_ALIGN_def by presburger
  then have "rdn (?bs @ rest) 0 (NLMSG_ALIGN (length ?bs)) = Some ?bs" by (simp add: rdn_def)
  then show ?thesis
    using m unfolding dump_loop.simps r option.case sum.case prod.case
    by (cases dump_fp) (simp_all split: prod.split option.split)
qed

lemma dump_loop_spec:
  assumes "malloc_ok malloc" and "reads filter_fn f" and "\<forall>g \<in> set gs. dump_ok g"
  shows "dump_loop malloc ext False [(filter_fn, nc)] rth (k + length gs) intr out d (arrive gs @ rs) =
    (case dumps_spec f nc rth gs intr d of
       (None, intr, d) \<Rightarrow> dump_loop malloc ext False [(filter_fn, nc)] rth k intr out d rs
     | (Some r, intr, d) \<Rightarrow> Some (Dump_returns r (r = 0 \<and> intr), out, d))"
  using assms(3)
proof (induction gs arbitrary: intr d)
  case (Cons g gs)
  have "arrive (g # gs) @ rs = gram_of g # gram_of g # arrive gs @ rs" by (simp add: arrive_def)
  moreover have "dump_ok g" using Cons.prems by simp
  ultimately have "dump_loop malloc ext False [(filter_fn, nc)] rth (k + length (g # gs)) intr out d (arrive (g # gs) @ rs) =
    (case dump_spec f nc (fst g) rth (snd g) intr d of
       (None, intr, d) \<Rightarrow> dump_loop malloc ext False [(filter_fn, nc)] rth (k + length gs) intr out d (arrive gs @ rs)
     | (Some r, intr, d) \<Rightarrow> Some (Dump_returns r (r = 0 \<and> intr), out, d))"
    using dump_loop_gram [of malloc False f filter_fn g ext nc rth "k + length gs"] assms(1,2) by (simp del: dump_loop.simps)
  then show ?case
    using Cons.IH Cons.prems by (simp del: dump_loop.simps split: prod.split option.split)
qed (simp add: arrive_def)

text \<open>A dump returns what the specification returns; while the specification goes on it waits.\<close>

lemma rtnl_dump_filter_nc_spec:
  assumes "malloc_ok malloc" and "reads filter_fn f" and "\<forall>g \<in> set gs. dump_ok g"
  shows "dumps_spec f nc rth gs False d = (Some r, intr, d') \<Longrightarrow>
      rtnl_dump_filter_nc malloc ext False filter_fn nc rth d (arrive gs @ rs) = Some (Dump_returns r (r = 0 \<and> intr), [], d')"
    and "dumps_spec f nc rth gs False d = (None, intr, d') \<Longrightarrow>
      rtnl_dump_filter_nc malloc ext False filter_fn nc rth d (arrive gs) = Some (Dump_waits, [], d')"
proof -
  have 1: "length (arrive gs @ rs) + 1 = (length gs + length rs + 1) + length gs" "length (arrive gs) + 1 = Suc (length gs) + length gs"
    by (simp_all add: length_arrive)
  note l = dump_loop_spec [OF assms, of ext nc rth]
  show "rtnl_dump_filter_nc malloc ext False filter_fn nc rth d (arrive gs @ rs) = Some (Dump_returns r (r = 0 \<and> intr), [], d')"
    if "dumps_spec f nc rth gs False d = (Some r, intr, d')"
    unfolding rtnl_dump_filter_nc_def rtnl_dump_filter_l_def 1 l that by simp
  show "rtnl_dump_filter_nc malloc ext False filter_fn nc rth d (arrive gs) = Some (Dump_waits, [], d')"
    if "dumps_spec f nc rth gs False d = (None, intr, d')"
    unfolding rtnl_dump_filter_nc_def rtnl_dump_filter_l_def 1
    using l [of "Suc (length gs)" False "[]" d "[]"] that by (simp add: rtnl_recvmsg_def)
qed

text \<open>When the filter accepts everything and the kernel reports no error, the filter has seen, in order, exactly the
  messages of this dump before the end message.\<close>

definition plain :: "nlmsg \<Rightarrow> bool" where
  "plain m \<longleftrightarrow> m_type m \<noteq> NLMSG_DONE \<and> m_type m \<noteq> NLMSG_ERROR"

lemma dump_spec_plain:
  assumes "\<forall>m \<in> set ms. own pid rth m \<longrightarrow> plain m" and "\<forall>m d. 0 \<le> fst (f m d)"
  shows "\<exists>intr'. dump_spec f nc pid rth (ms @ ms') intr d =
    dump_spec f nc pid rth ms' intr' (fold (\<lambda>m d. snd (f (cleared nc m) d)) (filter (own pid rth) ms) d)"
  using assms(1)
proof (induction ms arbitrary: intr d)
  case (Cons m ms)
  have "\<not> fst (f (cleared nc m) d) < 0" using assms(2) by (simp add: not_less)
  then show ?case using Cons by (auto simp: Let_def plain_def case_prod_beta)
qed auto

lemma dumps_spec_plain:
  assumes "\<forall>g \<in> set gs. \<forall>m \<in> set (snd g). own (fst g) rth m \<longrightarrow> plain m" and "\<forall>m d. 0 \<le> fst (f m d)"
  shows "\<exists>intr'. dumps_spec f nc rth (gs @ gs') intr d =
    dumps_spec f nc rth gs' intr' (fold (\<lambda>m d. snd (f (cleared nc m) d)) (concat (map (\<lambda>g. filter (own (fst g) rth) (snd g)) gs)) d)"
  using assms(1)
proof (induction gs arbitrary: intr d)
  case (Cons g gs)
  have "\<forall>m \<in> set (snd g). own (fst g) rth m \<longrightarrow> plain m" using Cons.prems by simp
  then obtain i where "dump_spec f nc (fst g) rth (snd g) intr d =
      (None, i, fold (\<lambda>m d. snd (f (cleared nc m) d)) (filter (own (fst g) rth) (snd g)) d)"
    using dump_spec_plain [OF _ assms(2), of "snd g" "fst g" rth nc "[]" intr d] by auto
  then show ?case using Cons by auto
qed auto

lemma rtnl_dump_delivers:
  assumes "malloc_ok malloc" and "reads filter_fn f" and "\<forall>m d. 0 \<le> fst (f m d)"
    and "\<forall>g \<in> set (gs @ [(0, ms @ e # rest)]). dump_ok g"
    and "\<forall>g \<in> set (gs @ [(0, ms)]). \<forall>m \<in> set (snd g). own (fst g) rth m \<longrightarrow> plain m"
    and "own 0 rth e" and "m_type e = NLMSG_DONE" and "0 \<le> done_status e"
  shows "\<exists>intr. rtnl_dump_filter_nc malloc ext False filter_fn nc rth d (arrive (gs @ [(0, ms @ e # rest)]) @ rs) =
    Some (Dump_returns 0 intr, [],
      fold (\<lambda>m d. snd (f (cleared nc m) d)) (concat (map (\<lambda>g. filter (own (fst g) rth) (snd g)) (gs @ [(0, ms)]))) d)"
proof -
  let ?d = "fold (\<lambda>m d. snd (f (cleared nc m) d)) (concat (map (\<lambda>g. filter (own (fst g) rth) (snd g)) gs)) d"
  obtain i where 1: "dumps_spec f nc rth (gs @ [(0, ms @ e # rest)]) False d = dumps_spec f nc rth [(0, ms @ e # rest)] i ?d"
    using dumps_spec_plain [OF _ assms(3), of gs rth nc "[(0, ms @ e # rest)]" False d] assms(5) by auto
  obtain i' where 2: "dump_spec f nc 0 rth (ms @ e # rest) i ?d =
      dump_spec f nc 0 rth (e # rest) i' (fold (\<lambda>m d. snd (f (cleared nc m) d)) (filter (own 0 rth) ms) ?d)"
    using dump_spec_plain [OF _ assms(3), of ms 0 rth nc "e # rest" i ?d] assms(5) by auto
  have e: "done_status (cleared nc e) = done_status e" by (simp add: done_status_def)
  show ?thesis
    using rtnl_dump_filter_nc_spec(1) [OF assms(1,2,4), of nc rth d 0] 1 2 assms(6-8) e by (auto simp: Let_def)
qed


section \<open>Dumping to a file\<close>

text \<open>With a file the filter is not called, and the file gets every datagram up to the one with the end.\<close>

lemma concat_enc: "concat (map (\<lambda>g. concat (map enc_nlmsg (snd g))) gs) = concat (map enc_nlmsg (concat (map snd gs)))"
  by (induction gs) simp_all

lemma fold_idle: "fold (\<lambda>m d. d) xs d = d"
  by (induction xs) simp_all

lemma dump_loop_file:
  assumes "malloc_ok malloc" and "\<forall>g \<in> set gs. dump_ok g \<and> (\<forall>m \<in> set (snd g). own (fst g) rth m \<longrightarrow> plain m)"
  shows "\<exists>intr'. dump_loop malloc ext True [(filter_fn, nc)] rth (k + length gs) intr out d (arrive gs @ rs) =
    dump_loop malloc ext True [(filter_fn, nc)] rth k intr' (out @ concat (map (\<lambda>g. concat (map enc_nlmsg (snd g))) gs)) d rs"
  using assms(2)
proof (induction gs arbitrary: intr out)
  case (Cons g gs)
  have p: "\<forall>m \<in> set (snd g). own (fst g) rth m \<longrightarrow> plain m" and g: "dump_ok g" using Cons.prems by simp_all
  obtain i where "dump_spec (\<lambda>m d. (0, d)) nc (fst g) rth (snd g) intr d = (None, i, d)"
    using dump_spec_plain [OF p, of "\<lambda>m d. (0, d)" nc "[]" intr d] by (auto simp: fold_idle simp del: dump_spec.simps(2))
  moreover have "arrive (g # gs) @ rs = gram_of g # gram_of g # arrive gs @ rs" by (simp add: arrive_def)
  ultimately have "dump_loop malloc ext True [(filter_fn, nc)] rth (k + length (g # gs)) intr out d (arrive (g # gs) @ rs) =
      dump_loop malloc ext True [(filter_fn, nc)] rth (k + length gs) i (out @ concat (map enc_nlmsg (snd g))) d (arrive gs @ rs)"
    using dump_loop_gram [OF assms(1) _ g, of True "\<lambda>m d. (0, d)" filter_fn ext nc rth "k + length gs" intr out d "arrive gs @ rs"]
    by (simp del: dump_loop.simps)
  then show ?case using Cons.IH [of i "out @ concat (map enc_nlmsg (snd g))"] Cons.prems by (simp del: dump_loop.simps)
qed (simp add: arrive_def, blast)

lemma rtnl_dump_to_file:
  assumes "malloc_ok malloc" and "\<forall>g \<in> set (gs @ [(0, ms @ e # rest)]). dump_ok g"
    and "\<forall>g \<in> set (gs @ [(0, ms)]). \<forall>m \<in> set (snd g). own (fst g) rth m \<longrightarrow> plain m"
    and "own 0 rth e" and "m_type e = NLMSG_DONE" and "0 \<le> done_status e"
  shows "\<exists>intr. rtnl_dump_filter_nc malloc ext True filter_fn nc rth d (arrive (gs @ [(0, ms @ e # rest)]) @ rs) =
    Some (Dump_returns 0 intr, concat (map enc_nlmsg (concat (map snd gs) @ ms @ e # rest)), d)"
proof -
  let ?g = "(0, ms @ e # rest)" and ?out = "concat (map enc_nlmsg (concat (map snd gs)))"
  define k where "k = length gs + length rs + 2"
  have len: "length (arrive (gs @ [?g]) @ rs) + 1 = Suc k + length gs" by (simp add: k_def length_arrive)
  have arr: "arrive (gs @ [?g]) @ rs = arrive gs @ gram_of ?g # gram_of ?g # rs" by (simp add: arrive_def)
  obtain i where 1: "dump_loop malloc ext True [(filter_fn, nc)] rth (Suc k + length gs) False [] d (arrive gs @ gram_of ?g # gram_of ?g # rs) =
      dump_loop malloc ext True [(filter_fn, nc)] rth (Suc k) i ?out d (gram_of ?g # gram_of ?g # rs)"
    using dump_loop_file [OF assms(1), of gs rth ext filter_fn nc "Suc k" False "[]" d "gram_of ?g # gram_of ?g # rs"] assms(2,3)
    by (auto simp: concat_enc simp del: dump_loop.simps)
  obtain i' where 2: "dump_spec (\<lambda>m d. (0, d)) nc 0 rth (ms @ e # rest) i d = dump_spec (\<lambda>m d. (0, d)) nc 0 rth (e # rest) i' d"
    using dump_spec_plain [of ms 0 rth "\<lambda>m d. (0, d)" nc "e # rest" i d] assms(3) by (auto simp: fold_idle simp del: dump_spec.simps(2))
  have e: "done_status (cleared nc e) = done_status e" by (simp add: done_status_def)
  have g: "dump_ok ?g" using assms(2) by simp
  show ?thesis
    unfolding rtnl_dump_filter_nc_def rtnl_dump_filter_l_def len unfolding arr 1
    using dump_loop_gram [OF assms(1) _ g, of True "\<lambda>m d. (0, d)" filter_fn ext nc rth k i ?out d rs] 2 e assms(4-6)
    by (simp add: Let_def del: dump_loop.simps)
qed

end
