(* ===== verification/Nl_File.thy ===== *)
theory Nl_File
  imports Nl_Dump
begin

text \<open>
  \<open>rtnl_from_file\<close> of \<^verbatim>\<open>libnetlink.c\<close>: the messages of a file are given to a handler one after another, as \<open>rtnl_listen\<close> does
  with those of a socket.  The contents of a file is a list of bytes; \<open>bad\<close> says that reading past its end is an
  error instead of the end of the file.
\<close>

section \<open>Reading a file\<close>

definition sizeof_file_buf :: nat where "sizeof_file_buf = 16384"

function from_file :: "'d nl_handler \<Rightarrow> bool \<Rightarrow> u8 list \<Rightarrow> u8 list \<Rightarrow> 'd \<Rightarrow> (int \<times> 'd) option" where
  "from_file handler bad buf inp d =
    (if inp = [] \<and> \<not> bad then Some (0, d)
     else if length inp < sizeof_nlmsghdr then Some (- 1, d)
     else
       let buf = take sizeof_nlmsghdr inp @ drop sizeof_nlmsghdr buf; inp = drop sizeof_nlmsghdr inp in
       (case rd32 buf 0 of None \<Rightarrow> None
        | Some nlen \<Rightarrow>
            let len = sint nlen; l = sint (nlen - of_nat sizeof_nlmsghdr); k = NLMSG_ALIGN (nat l) in
            if l < 0 \<or> len < 0 \<or> int sizeof_file_buf < len then Some (- 1, d)
            else if length inp < k then Some (- 1, d)
            else if length buf < sizeof_nlmsghdr + k then None
            else
              let buf = take sizeof_nlmsghdr buf @ take k inp @ drop (sizeof_nlmsghdr + k) buf in
              (case handler buf 0 d of None \<Rightarrow> None
               | Some (err, d) \<Rightarrow> if err < 0 then Some (err, d) else from_file handler bad buf (drop k inp) d)))"
  by pat_completeness auto

termination from_file
  by (relation "measure (\<lambda>(handler, bad, buf, inp, d). length inp)") auto

declare from_file.simps [simp del]

definition rtnl_from_file :: "'d nl_handler \<Rightarrow> bool \<Rightarrow> u8 list \<Rightarrow> u8 list \<Rightarrow> 'd \<Rightarrow> (int \<times> 'd) option" where
  "rtnl_from_file handler bad buf inp d = from_file handler bad buf inp d"

section \<open>No overrun\<close>

text \<open>On any bytes the loop ends and stays inside of its buffer, so that only the handler can fail.\<close>

lemma aligned_fits:
  fixes nlen :: u32
  assumes "\<not> sint (nlen - 16) < 0" and "\<not> sint nlen < 0" and "\<not> 16384 < sint nlen"
  shows "16 + NLMSG_ALIGN (nat (sint (nlen - 16))) \<le> 16384" and "sint (nlen - 16) = sint nlen - 16"
proof -
  have "16 \<le> sint nlen" using assms by (intro sint_sub16) simp_all
  have "sint (nlen - 16) = signed_take_bit 31 (sint nlen - 16)" by (simp add: sint_word_ariths)
  also have "\<dots> = sint nlen - 16"
    using \<open>16 \<le> sint nlen\<close> assms(3) by (intro signed_take_bit_int_eq_self) simp_all
  finally show e: "sint (nlen - 16) = sint nlen - 16" .
  then show "16 + NLMSG_ALIGN (nat (sint (nlen - 16))) \<le> 16384"
    using assms(3) unfolding NLMSG_ALIGN_def by simp
qed

lemma from_file_safe:
  assumes "\<And>buf d. length buf = sizeof_file_buf \<Longrightarrow> I d \<Longrightarrow> ok (handler buf 0 d) (\<lambda>(r, d'). I d')"
    and "length buf = sizeof_file_buf" and "I d"
  shows "ok (from_file handler bad buf inp d) (\<lambda>(r, d'). I d')"
  using assms(2,3)
proof (induction "length inp" arbitrary: buf inp d rule: less_induct)
  case less
  consider (fin) "inp = [] \<and> \<not> bad" | (short) "\<not> (inp = [] \<and> \<not> bad)" "length inp < 16" | (go) "16 \<le> length inp" by linarith
  then show ?case
  proof cases
    case go
    let ?buf = "take 16 inp @ drop 16 buf" and ?inp = "drop 16 inp"
    have len: "length ?buf = 16384" using less.prems(1) go by (simp add: sizeof_file_buf_def)
    obtain nlen where rd: "rd32 ?buf 0 = Some nlen" using rd_ok(2) [of 0 ?buf] len by (auto simp: ok_def)
    let ?k = "NLMSG_ALIGN (nat (sint (nlen - 16)))"
    let ?buf' = "take 16 ?buf @ take ?k ?inp @ drop (16 + ?k) ?buf"
    note step = from_file.simps [of handler bad buf inp d]
    show ?thesis
    proof (cases "sint (nlen - 16) < 0 \<or> sint nlen < 0 \<or> 16384 < sint nlen \<or> length ?inp < ?k")
      case True
      then show ?thesis using go rd less.prems(2) by (subst step) (auto simp: Let_def sizeof_file_buf_def ok_def)
    next
      case False
      then have fits: "16 + ?k \<le> 16384" using aligned_fits(1) [of nlen] by blast
      have len': "length ?buf' = sizeof_file_buf" using False len fits go by (simp add: sizeof_file_buf_def)
      obtain r d' where h: "handler ?buf' 0 d = Some (r, d')" "I d'"
        using assms(1) [OF len' less.prems(2)] by (auto simp: ok_def)
      have "ok (from_file handler bad ?buf' (drop ?k ?inp) d') (\<lambda>(r, d'). I d')"
        by (rule less.hyps) (use go len' h(2) in \<open>simp_all\<close>)
      then show ?thesis
        using go rd False len fits h less.prems(1) by (subst step) (auto simp: Let_def sizeof_file_buf_def ok_def)
    qed
  qed (use less.prems in \<open>simp_all add: from_file.simps ok_def\<close>)
qed

section \<open>Messages in a file\<close>

text \<open>The messages in order, up to the first that the handler refuses.\<close>

fun feed :: "(nlmsg \<Rightarrow> 'd \<Rightarrow> int \<times> 'd) \<Rightarrow> nlmsg list \<Rightarrow> 'd \<Rightarrow> int \<times> 'd" where
  "feed f [] d = (0, d)"
| "feed f (m # ms) d = (let (err, d) = f m d in if err < 0 then (err, d) else feed f ms d)"

lemma from_file_enc:
  assumes "reads handler f" and "\<forall>m \<in> set ms. 16 + length (m_data m) \<le> sizeof_file_buf" and "length buf = sizeof_file_buf"
  shows "from_file handler False buf (concat (map enc_nlmsg ms)) d = Some (feed f ms d)"
  using assms(2,3)
proof (induction ms arbitrary: buf d)
  case Nil
  then show ?case by (simp add: from_file.simps)
next
  case (Cons m ms)
  let ?l = "16 + length (m_data m)" and ?inp = "concat (map enc_nlmsg (m # ms))" and ?rest = "concat (map enc_nlmsg ms)"
  have l: "?l \<le> 16384" using Cons.prems(1) by (simp add: sizeof_file_buf_def)
  have s: "sint (of_nat ?l :: u32) = int ?l" "sint (of_nat ?l - 16 :: u32) = int ?l - 16"
    by (rule of_nat_length, simp, use l in simp)+
  have al: "NLMSG_ALIGN (length (m_data m)) + 16 = length (enc_nlmsg m)" "NLMSG_ALIGN (length (m_data m)) \<le> 16368"
    using l unfolding length_enc_nlmsg NLMSG_ALIGN_def by presburger+
  have n: "nat (int ?l - 16) = length (m_data m)" by simp
  let ?buf = "take 16 ?inp @ drop 16 buf" and ?k = "NLMSG_ALIGN (length (m_data m))"
  have t: "take 16 ?inp = take 16 (enc_nlmsg m)" "take ?k (drop 16 ?inp) = drop 16 (enc_nlmsg m)" "drop ?k (drop 16 ?inp) = ?rest"
    using al(1) by (simp_all add: add.commute)
  have rd: "rd32 ?buf 0 = Some (of_nat ?l)"
    unfolding t by (simp add: rd32_def rdn_def enc_nlmsg_def Let_def)
  let ?buf' = "take 16 ?buf @ take ?k (drop 16 ?inp) @ drop (16 + ?k) ?buf"
  have buf': "?buf' = [] @ enc_nlmsg m @ drop (16 + ?k) ?buf"
    unfolding t using al(1) by simp
  obtain err d' where f: "f m d = (err, d')" by (cases "f m d")
  have h: "handler ?buf' 0 d = Some (err, d')"
    using reads_def [THEN iffD1, OF assms(1), rule_format, of m "[]" "drop (16 + ?k) ?buf" d] l f
    unfolding buf' by simp
  have len: "length ?buf = 16384" "length ?buf' = sizeof_file_buf"
    using Cons.prems(2) al by (simp_all add: sizeof_file_buf_def buf')
  have g: "\<not> (?inp = [] \<and> \<not> False)" "\<not> length ?inp < 16" "\<not> length (drop 16 ?inp) < ?k" "\<not> 16384 < 16 + ?k"
    "\<not> (int ?l - 16 < 0 \<or> int ?l < 0 \<or> 16384 < int ?l)"
    using al l by auto
  have "from_file handler False buf ?inp d = (if err < 0 then Some (err, d') else from_file handler False ?buf' (drop ?k (drop 16 ?inp)) d')"
    by (subst from_file.simps)
      (simp only: g rd s n h len(1) Let_def sizeof_nlmsghdr_def sizeof_file_buf_def of_nat_numeral option.case prod.case if_False)
  then show ?case
    using Cons.IH [OF _ len(2), of d'] Cons.prems(1) by (simp only: t(3) f feed.simps Let_def prod.case) simp
qed

section \<open>Back from the file\<close>

text \<open>What a dump wrote to a file is read back message by message.\<close>

lemma dumped_file_read_back:
  assumes "malloc_ok malloc" and "\<forall>g \<in> set (gs @ [(0, ms @ e # rest)]). dump_ok g"
    and "\<forall>g \<in> set (gs @ [(0, ms)]). \<forall>m \<in> set (snd g). own (fst g) rth m \<longrightarrow> plain m"
    and "own 0 rth e" and "m_type e = NLMSG_DONE" and "0 \<le> done_status e"
    and "reads handler f" and "\<forall>m \<in> set (concat (map snd gs) @ ms @ e # rest). 16 + length (m_data m) \<le> sizeof_file_buf"
    and "length buf = sizeof_file_buf"
  shows "\<exists>intr out. rtnl_dump_filter_nc malloc ext True filter_fn nc rth d (arrive (gs @ [(0, ms @ e # rest)]) @ rs) =
      Some (Dump_returns 0 intr, out, d) \<and>
    rtnl_from_file handler False buf out x = Some (feed f (concat (map snd gs) @ ms @ e # rest) x)"
  using rtnl_dump_to_file [OF assms(1-6), of ext filter_fn nc d rs] from_file_enc [OF assms(7-9), of x]
  unfolding rtnl_from_file_def by blast

end
