(* ===== verification/Nl_Ext_Ack.thy ===== *)
theory Nl_Ext_Ack
  imports Nl_Dump Mrp_Client
begin

unbundle bit_operations_syntax

text \<open>
  The reports of extended acknowledgements (\<^verbatim>\<open>libnetlink.c\<close>) and of errors: \<open>nl_dump_ext_ack\<close>, \<open>nl_dump_ext_ack_done\<close> and the
  functions that print what they found.  The functions of libmnl are parameters, and so is the highest number of
  an attribute, which comes from the headers of the system.  A result has the lines that are printed; an entry
  beyond the table, or the last character of an empty text, is \<open>None\<close>.
\<close>

section \<open>Definitions\<close>

datatype mnl_attr_data_type = MNL_TYPE_UNSPEC | MNL_TYPE_U32 | MNL_TYPE_NUL_STRING

text \<open>Attributes are offsets into the buffer.\<close>

type_synonym ack_table = "nat \<Rightarrow> nat option"

record libmnl =
  NLMSGERR_ATTR_MAX :: nat
  mnl_attr_type_valid :: "u8 list \<Rightarrow> nat \<Rightarrow> nat \<Rightarrow> int"
  mnl_attr_get_type :: "u8 list \<Rightarrow> nat \<Rightarrow> nat"
  mnl_attr_validate :: "u8 list \<Rightarrow> nat \<Rightarrow> mnl_attr_data_type \<Rightarrow> int"
  mnl_attr_get_str :: "u8 list \<Rightarrow> nat \<Rightarrow> string"
  mnl_attr_get_u32 :: "u8 list \<Rightarrow> nat \<Rightarrow> u32"
  mnl_nlmsg_get_payload_len :: "u8 list \<Rightarrow> nat \<Rightarrow> nat"
  mnl_attr_parse :: "u8 list \<Rightarrow> nat \<Rightarrow> nat \<Rightarrow> (nat \<Rightarrow> ack_table \<Rightarrow> (int \<times> string list \<times> ack_table) option) \<Rightarrow> ack_table \<Rightarrow>
    (int \<times> string list \<times> ack_table) option"

definition MNL_CB_ERROR :: int where "MNL_CB_ERROR = - 1"
definition MNL_CB_OK :: int where "MNL_CB_OK = 1"
definition NLMSGERR_ATTR_MSG :: nat where "NLMSGERR_ATTR_MSG = 1"
definition NLMSGERR_ATTR_OFFS :: nat where "NLMSGERR_ATTR_OFFS = 2"
definition NLM_F_CAPPED :: u16 where "NLM_F_CAPPED = 0x100"
definition NLM_F_ACK_TLVS :: u16 where "NLM_F_ACK_TLVS = 0x200"

definition extack_policy :: "nat \<Rightarrow> mnl_attr_data_type" where
  "extack_policy t =
    (if t = NLMSGERR_ATTR_MSG then MNL_TYPE_NUL_STRING else if t = NLMSGERR_ATTR_OFFS then MNL_TYPE_U32 else MNL_TYPE_UNSPEC)"

definition err_attr_cb :: "libmnl \<Rightarrow> u8 list \<Rightarrow> nat \<Rightarrow> ack_table \<Rightarrow> (int \<times> string list \<times> ack_table) option" where
  "err_attr_cb M buf attr tb = (
     if mnl_attr_type_valid M buf attr (NLMSGERR_ATTR_MAX M) < 0
     then Some (MNL_CB_ERROR, [''Invalid extack attribute''], tb)
     else
       let type = mnl_attr_get_type M buf attr in
       if NLMSGERR_ATTR_MAX M < type then None
       else if mnl_attr_validate M buf attr (extack_policy type) < 0
       then Some (MNL_CB_ERROR, [''extack attribute '' @ dec_of_nat type @ '' failed validation''], tb)
       else Some (MNL_CB_OK, [], tb(type \<mapsto> attr)))"

definition print_ext_ack_msg :: "bool \<Rightarrow> string \<Rightarrow> string list option" where
  "print_ext_ack_msg is_err msg =
    (if msg = [] then None
     else Some [(if is_err then ''Error'' else ''Warning'') @ '': '' @ msg @ (if last msg \<noteq> CHR ''.'' then ''.'' else [])])"

text \<open>The text of the kernel, if there is one that is not empty.\<close>

definition report_msg :: "string option \<Rightarrow> bool \<Rightarrow> string list \<Rightarrow> (int \<times> string list) option" where
  "report_msg msg is_err out = (case msg of
     None \<Rightarrow> Some (0, out)
   | Some s \<Rightarrow>
       if s = [] then Some (0, out)
       else map_option (\<lambda>l. (if is_err then 1 else 0, out @ l)) (print_ext_ack_msg is_err s))"

definition nl_dump_ext_ack ::
  "libmnl \<Rightarrow> (string option \<Rightarrow> u32 \<Rightarrow> nat option \<Rightarrow> int) option \<Rightarrow> u8 list \<Rightarrow> nat \<Rightarrow> (int \<times> string list) option" where
  "nl_dump_ext_ack M errfn buf h = (case (rd16 buf (h + 6), rd32 buf h) of
     (Some flags, Some nlen) \<Rightarrow>
       if flags AND NLM_F_ACK_TLVS = 0 then Some (0, [])
       else
         let err = h + 16; hlen = (if flags AND NLM_F_CAPPED = 0 then 20 + mnl_nlmsg_get_payload_len M buf (err + 4) else 20) in
         (case mnl_attr_parse M buf h hlen (err_attr_cb M buf) Map.empty of None \<Rightarrow> None
          | Some (r, out, tb) \<Rightarrow>
              if r \<noteq> MNL_CB_OK then Some (0, out)
              else
                let msg = map_option (mnl_attr_get_str M buf) (tb NLMSGERR_ATTR_MSG);
                    (off, err_nlh, out) = (case tb NLMSGERR_ATTR_OFFS of None \<Rightarrow> (0, None, out)
                      | Some a \<Rightarrow>
                          let off = mnl_attr_get_u32 M buf a in
                          if off > nlen then (0, None, out @ [''Invalid offset for NLMSGERR_ATTR_OFFS''])
                          else (off, if flags AND NLM_F_CAPPED = 0 then Some (err + 4) else None, out))
                in (case errfn of Some f \<Rightarrow> Some (f msg off err_nlh, out)
                    | None \<Rightarrow> (case rd32 buf err of None \<Rightarrow> None | Some error \<Rightarrow> report_msg msg (error \<noteq> 0) out)))
   | _ \<Rightarrow> None)"

definition nl_dump_ext_ack_done :: "libmnl \<Rightarrow> u8 list \<Rightarrow> nat \<Rightarrow> int \<Rightarrow> (int \<times> string list) option" where
  "nl_dump_ext_ack_done M buf h error = (case mnl_attr_parse M buf h 4 (err_attr_cb M buf) Map.empty of None \<Rightarrow> None
     | Some (r, out, tb) \<Rightarrow>
         if r \<noteq> MNL_CB_OK then Some (0, out)
         else report_msg (map_option (mnl_attr_get_str M buf) (tb NLMSGERR_ATTR_MSG)) (error \<noteq> 0) out)"

text \<open>The two functions that report an error of the kernel; \<open>strerror\<close> is a parameter.  The protocol
  \<open>NETLINK_SOCK_DIAG\<close> is 4.\<close>

definition RTNL_HANDLE_F_SUPPRESS_NLERR :: u32 where "RTNL_HANDLE_F_SUPPRESS_NLERR = 2"

definition rtnl_dump_error :: "(int \<Rightarrow> string) \<Rightarrow> rtnl_handle \<Rightarrow> u8 list \<Rightarrow> nat \<Rightarrow> string list option" where
  "rtnl_dump_error strerror rth buf h = (case rd32 buf h of None \<Rightarrow> None
     | Some nlen \<Rightarrow>
         if unat nlen < 16 + 20 then Some [''ERROR truncated'']
         else (case rd32 buf (h + 16) of None \<Rightarrow> None
           | Some error \<Rightarrow>
               let errno = - sint error in
               if r_proto rth = 4 \<and> (errno = 2 \<or> errno = 95) then Some []
               else if r_flags rth AND RTNL_HANDLE_F_SUPPRESS_NLERR = 0 then Some [''RTNETLINK answers: '' @ strerror errno]
               else Some []))"

definition rtnl_talk_error ::
  "libmnl \<Rightarrow> (int \<Rightarrow> string) \<Rightarrow> (string option \<Rightarrow> u32 \<Rightarrow> nat option \<Rightarrow> int) option \<Rightarrow> u8 list \<Rightarrow> nat \<Rightarrow> string list option" where
  "rtnl_talk_error M strerror errfn buf h = (case nl_dump_ext_ack M errfn buf h of None \<Rightarrow> None
     | Some (r, out) \<Rightarrow>
         if r \<noteq> 0 then Some out
         else map_option (\<lambda>error. out @ [''RTNETLINK answers: '' @ strerror (- sint error)]) (rd32 buf (h + 16)))"

section \<open>What libmnl promises\<close>

text \<open>\<open>mnl_attr_parse\<close> calls the function for the attributes one after another, until it returns something else than
  \<open>MNL_CB_OK\<close>, and propagates the last result; \<open>mnl_attr_type_valid\<close> refuses types above the maximum.\<close>

fun cb_run ::
  "(nat \<Rightarrow> ack_table \<Rightarrow> (int \<times> string list \<times> ack_table) option) \<Rightarrow> nat list \<Rightarrow> ack_table \<Rightarrow> (int \<times> string list \<times> ack_table) option" where
  "cb_run cb [] tb = Some (MNL_CB_OK, [], tb)"
| "cb_run cb (a # as) tb = (case cb a tb of None \<Rightarrow> None
     | Some (r, out, tb) \<Rightarrow>
         if r \<le> 0 then Some (r, out, tb) else map_option (\<lambda>(r, out', tb). (r, out @ out', tb)) (cb_run cb as tb))"

definition libmnl_ok :: "libmnl \<Rightarrow> (u8 list \<Rightarrow> nat \<Rightarrow> nat \<Rightarrow> nat list) \<Rightarrow> bool" where
  "libmnl_ok M attrs \<longleftrightarrow> (\<forall>buf h off cb tb. mnl_attr_parse M buf h off cb tb = cb_run cb (attrs buf h off) tb) \<and>
     (\<forall>buf a mx. 0 \<le> mnl_attr_type_valid M buf a mx \<longrightarrow> mnl_attr_get_type M buf a \<le> mx)"

section \<open>Reports\<close>

text \<open>An attribute that passes the checks, and the last one of a type.\<close>

definition ack_attr_ok :: "libmnl \<Rightarrow> u8 list \<Rightarrow> nat \<Rightarrow> bool" where
  "ack_attr_ok M buf a \<longleftrightarrow> 0 \<le> mnl_attr_type_valid M buf a (NLMSGERR_ATTR_MAX M) \<and>
     0 \<le> mnl_attr_validate M buf a (extack_policy (mnl_attr_get_type M buf a))"

definition last_attr :: "libmnl \<Rightarrow> u8 list \<Rightarrow> nat list \<Rightarrow> ack_table" where
  "last_attr M buf as t = (case filter (\<lambda>a. mnl_attr_get_type M buf a = t) as of [] \<Rightarrow> None | xs \<Rightarrow> Some (last xs))"

lemma err_attr_cb_step:
  assumes "libmnl_ok M attrs"
  shows "ack_attr_ok M buf a \<Longrightarrow> err_attr_cb M buf a tb = Some (MNL_CB_OK, [], tb(mnl_attr_get_type M buf a \<mapsto> a))"
    and "\<not> ack_attr_ok M buf a \<Longrightarrow> \<exists>out. err_attr_cb M buf a tb = Some (MNL_CB_ERROR, out, tb)"
proof -
  have "0 \<le> mnl_attr_type_valid M buf a mx \<Longrightarrow> mnl_attr_get_type M buf a \<le> mx" for mx
    using assms by (simp add: libmnl_ok_def)
  from this [of "NLMSGERR_ATTR_MAX M"]
  show "ack_attr_ok M buf a \<Longrightarrow> err_attr_cb M buf a tb = Some (MNL_CB_OK, [], tb(mnl_attr_get_type M buf a \<mapsto> a))"
    "\<not> ack_attr_ok M buf a \<Longrightarrow> \<exists>out. err_attr_cb M buf a tb = Some (MNL_CB_ERROR, out, tb)"
    by (auto simp: err_attr_cb_def ack_attr_ok_def not_less Let_def)
qed

lemma err_attr_cb_run:
  assumes "libmnl_ok M attrs"
  shows "\<forall>a \<in> set as. ack_attr_ok M buf a \<Longrightarrow> cb_run (err_attr_cb M buf) as tb = Some (MNL_CB_OK, [], tb ++ last_attr M buf as)"
    and "\<not> (\<forall>a \<in> set as. ack_attr_ok M buf a) \<Longrightarrow> \<exists>out tb'. cb_run (err_attr_cb M buf) as tb = Some (MNL_CB_ERROR, out, tb')"
proof -
  note step = err_attr_cb_step [OF assms]
  show "cb_run (err_attr_cb M buf) as tb = Some (MNL_CB_OK, [], tb ++ last_attr M buf as)" if "\<forall>a \<in> set as. ack_attr_ok M buf a"
    using that
  proof (induction as arbitrary: tb)
    case Nil
    then show ?case by (simp add: last_attr_def map_add_def fun_eq_iff)
  next
    case (Cons a as)
    have "tb(mnl_attr_get_type M buf a \<mapsto> a) ++ last_attr M buf as = tb ++ last_attr M buf (a # as)"
      by (auto simp: fun_eq_iff map_add_def last_attr_def split: option.splits list.splits)
    then show ?case using Cons step(1) [of buf a tb] by (simp add: MNL_CB_OK_def)
  qed
  show "\<exists>out tb'. cb_run (err_attr_cb M buf) as tb = Some (MNL_CB_ERROR, out, tb')" if "\<not> (\<forall>a \<in> set as. ack_attr_ok M buf a)"
    using that
  proof (induction as arbitrary: tb)
    case (Cons a as)
    show ?case
    proof (cases "ack_attr_ok M buf a")
      case True
      then obtain out tb' where "cb_run (err_attr_cb M buf) as (tb(mnl_attr_get_type M buf a \<mapsto> a)) = Some (MNL_CB_ERROR, out, tb')"
        using Cons by fastforce
      then show ?thesis using step(1) [OF True, of tb] by (simp add: MNL_CB_OK_def)
    next
      case False
      then show ?thesis using step(2) [OF False, of tb] by (auto simp: MNL_CB_ERROR_def)
    qed
  qed simp
qed

lemma report_msg_total: "\<exists>l. report_msg msg is_err out = Some (if is_err \<and> msg \<notin> {None, Some []} then 1 else 0, out @ l)"
  by (auto simp: report_msg_def print_ext_ack_msg_def split: option.splits)

text \<open>The end message of a dump: the result is 1 exactly for an error with a text in attributes that are all valid.\<close>

lemma nl_dump_ext_ack_done_spec:
  assumes "libmnl_ok M attrs"
  shows "\<exists>out. nl_dump_ext_ack_done M buf h error = Some (
    if error \<noteq> 0 \<and> (\<forall>a \<in> set (attrs buf h 4). ack_attr_ok M buf a) \<and>
      map_option (mnl_attr_get_str M buf) (last_attr M buf (attrs buf h 4) NLMSGERR_ATTR_MSG) \<notin> {None, Some []} then 1 else 0, out)"
proof (cases "\<forall>a \<in> set (attrs buf h 4). ack_attr_ok M buf a")
  case True
  then have "mnl_attr_parse M buf h 4 (err_attr_cb M buf) Map.empty = Some (MNL_CB_OK, [], last_attr M buf (attrs buf h 4))"
    using err_attr_cb_run(1) [OF assms True, of Map.empty] assms by (simp add: libmnl_ok_def)
  then show ?thesis
    using report_msg_total [of "map_option (mnl_attr_get_str M buf) (last_attr M buf (attrs buf h 4) NLMSGERR_ATTR_MSG)" "error \<noteq> 0" "[]"] True
    by (auto simp: nl_dump_ext_ack_done_def)
next
  case False
  then obtain out tb where "mnl_attr_parse M buf h 4 (err_attr_cb M buf) Map.empty = Some (MNL_CB_ERROR, out, tb)"
    using err_attr_cb_run(2) [OF assms False, of Map.empty] assms by (auto simp: libmnl_ok_def)
  then show ?thesis using False by (auto simp: nl_dump_ext_ack_done_def MNL_CB_ERROR_def MNL_CB_OK_def)
qed

text \<open>Without the flag for attributes nothing is printed, and the error of an acknowledgement is reported by its number.\<close>

lemma rtnl_talk_error_plain:
  assumes "buf = pre @ enc_nlmsg m @ post" and "h = length pre" and "m_flags m AND NLM_F_ACK_TLVS = 0" and "4 \<le> length (m_data m)"
  shows "nl_dump_ext_ack M errfn buf h = Some (0, [])"
    and "rtnl_talk_error M strerror errfn buf h = Some [''RTNETLINK answers: '' @ strerror (- sint (ld32 (take 4 (m_data m))))]"
proof -
  have "rd16 buf (h + 6) = Some (m_flags m)"
    unfolding assms(1,2) by (simp add: rd16_def rdn_def enc_nlmsg_def Let_def)
  then show e: "nl_dump_ext_ack M errfn buf h = Some (0, [])"
    using enc_nlmsg_fields(1) [OF assms(1,2)] assms(3) by (simp add: nl_dump_ext_ack_def)
  show "rtnl_talk_error M strerror errfn buf h = Some [''RTNETLINK answers: '' @ strerror (- sint (ld32 (take 4 (m_data m))))]"
    unfolding rtnl_talk_error_def e using enc_nlmsg_fields(5) [OF assms(1,2,4)] by simp
qed

end
