(* ===== verification/Nl_Append.thy ===== *)
theory Nl_Append
  imports Mrp_Netlink
begin

unbundle bit_operations_syntax

text \<open>
  The other functions of \<^verbatim>\<open>libnetlink.c\<close> that append to a message or to an attribute, the attributes that hold a
  struct followed by nested attributes, and the parser for those.
\<close>

section \<open>Appending to a request\<close>

definition mem64 :: "u64 \<Rightarrow> u8 list" where
  "mem64 w = mem32 (ucast w) @ mem32 (ucast (drop_bit 32 w))"

definition ld64 :: "u8 list \<Rightarrow> u64" where
  "ld64 bs = ucast (ld32 bs) OR push_bit 32 (ucast (ld32 (drop 4 bs)))"

definition addattr64 :: "nat \<Rightarrow> u16 \<Rightarrow> u64 \<Rightarrow> request \<Rightarrow> (int \<times> request) option" where
  "addattr64 maxlen type data r = addattr_l maxlen type (mem64 data) r"

text \<open>A C string is its bytes before the terminating zero.\<close>

definition addattrstrz :: "nat \<Rightarrow> u16 \<Rightarrow> u8 list \<Rightarrow> request \<Rightarrow> (int \<times> request) option" where
  "addattrstrz maxlen type str r = addattr_l maxlen type (str @ [0]) r"

definition addraw_l :: "nat \<Rightarrow> u8 list \<Rightarrow> request \<Rightarrow> (int \<times> request) option" where
  "addraw_l maxlen data r = (
     let len = length data in
     if RTA_ALIGN (unat (nlmsg_len r)) + RTA_ALIGN len > maxlen then Some (- 1, r)
     else do {
       r \<leftarrow> rstore (NLMSG_TAIL r) data r;
       r \<leftarrow> rstore (NLMSG_TAIL r + len) (replicate (RTA_ALIGN len - len) 0) r;
       Some (0, r\<lparr>nlmsg_len := of_nat (RTA_ALIGN (unat (nlmsg_len r)) + RTA_ALIGN len)\<rparr>)
     })"

definition addattr_nest_compat :: "nat \<Rightarrow> u16 \<Rightarrow> u8 list \<Rightarrow> request \<Rightarrow> (nat \<times> request) option" where
  "addattr_nest_compat maxlen type data r = do {
     let start = NLMSG_TAIL r;
     (_, r) \<leftarrow> addattr_l maxlen type data r;
     (_, r) \<leftarrow> addattr_nest maxlen type r;
     Some (start, r)
   }"

definition addattr_nest_compat_end :: "nat \<Rightarrow> request \<Rightarrow> request option" where
  "addattr_nest_compat_end start r = do {
     len \<leftarrow> (if sizeof_hdrs \<le> start then rd16 (rbuf r) (start - sizeof_hdrs) else None);
     let nest = start + RTA_ALIGN (unat len);
     r \<leftarrow> rstore start (mem16 (of_nat (NLMSG_TAIL r - start))) r;
     addattr_nest_end nest r
   }"

section \<open>Appending to an attribute\<close>

text \<open>An attribute in a buffer is given by its offset.\<close>

definition wr :: "nat \<Rightarrow> u8 list \<Rightarrow> u8 list \<Rightarrow> u8 list option" where
  "wr off bs buf = (if off + length bs \<le> length buf then Some (take off buf @ bs @ drop (off + length bs) buf) else None)"

definition rta_addattr_l :: "nat \<Rightarrow> nat \<Rightarrow> u16 \<Rightarrow> u8 list \<Rightarrow> u8 list \<Rightarrow> (int \<times> u8 list) option" where
  "rta_addattr_l rta maxlen type data buf = do {
     rlen \<leftarrow> rd16 buf rta;
     let len = sizeof_rtattr + length data;
     if RTA_ALIGN (unat rlen) + RTA_ALIGN len > maxlen then Some (- 1, buf)
     else do {
       let subrta = rta + RTA_ALIGN (unat rlen);
       buf \<leftarrow> wr (subrta + 2) (mem16 type) buf;
       buf \<leftarrow> wr subrta (mem16 (of_nat len)) buf;
       buf \<leftarrow> wr (subrta + sizeof_rtattr) data buf;
       buf \<leftarrow> wr rta (mem16 (of_nat (RTA_ALIGN (unat rlen) + RTA_ALIGN len))) buf;
       Some (0, buf)
     }
   }"

definition rta_addattr32 :: "nat \<Rightarrow> nat \<Rightarrow> u16 \<Rightarrow> u32 \<Rightarrow> u8 list \<Rightarrow> (int \<times> u8 list) option" where
  "rta_addattr32 rta maxlen type data buf = do {
     rlen \<leftarrow> rd16 buf rta;
     let len = sizeof_rtattr + 4;
     if RTA_ALIGN (unat rlen) + len > maxlen then Some (- 1, buf)
     else do {
       let subrta = rta + RTA_ALIGN (unat rlen);
       buf \<leftarrow> wr (subrta + 2) (mem16 type) buf;
       buf \<leftarrow> wr subrta (mem16 (of_nat len)) buf;
       buf \<leftarrow> wr (subrta + sizeof_rtattr) (mem32 data) buf;
       buf \<leftarrow> wr rta (mem16 (of_nat (RTA_ALIGN (unat rlen) + len))) buf;
       Some (0, buf)
     }
   }"

definition rta_addattr8 :: "nat \<Rightarrow> nat \<Rightarrow> u16 \<Rightarrow> u8 \<Rightarrow> u8 list \<Rightarrow> (int \<times> u8 list) option" where
  "rta_addattr8 rta maxlen type data buf = rta_addattr_l rta maxlen type [data] buf"

definition rta_addattr16 :: "nat \<Rightarrow> nat \<Rightarrow> u16 \<Rightarrow> u16 \<Rightarrow> u8 list \<Rightarrow> (int \<times> u8 list) option" where
  "rta_addattr16 rta maxlen type data buf = rta_addattr_l rta maxlen type (mem16 data) buf"

definition rta_addattr64 :: "nat \<Rightarrow> nat \<Rightarrow> u16 \<Rightarrow> u64 \<Rightarrow> u8 list \<Rightarrow> (int \<times> u8 list) option" where
  "rta_addattr64 rta maxlen type data buf = rta_addattr_l rta maxlen type (mem64 data) buf"

definition RTA_TAIL :: "nat \<Rightarrow> u8 list \<Rightarrow> nat option" where
  "RTA_TAIL rta buf = map_option (\<lambda>l. rta + RTA_ALIGN (unat l)) (rd16 buf rta)"

text \<open>The flag is set even when the attribute was refused.\<close>

definition rta_nest :: "nat \<Rightarrow> nat \<Rightarrow> u16 \<Rightarrow> u8 list \<Rightarrow> (nat \<times> u8 list) option" where
  "rta_nest rta maxlen type buf = do {
     nest \<leftarrow> RTA_TAIL rta buf;
     (_, buf) \<leftarrow> rta_addattr_l rta maxlen type [] buf;
     ty \<leftarrow> rd16 buf (nest + 2);
     buf \<leftarrow> wr (nest + 2) (mem16 (ty OR NLA_F_NESTED)) buf;
     Some (nest, buf)
   }"

definition rta_nest_end :: "nat \<Rightarrow> nat \<Rightarrow> u8 list \<Rightarrow> (u16 \<times> u8 list) option" where
  "rta_nest_end rta nest buf = do {
     t \<leftarrow> RTA_TAIL rta buf;
     buf \<leftarrow> wr nest (mem16 (of_nat (t - nest))) buf;
     len \<leftarrow> rd16 buf rta;
     Some (len, buf)
   }"

section \<open>Reading\<close>

definition parse_rtattr_nested :: "u8 list \<Rightarrow> nat \<Rightarrow> nat \<Rightarrow> nat \<Rightarrow> rtattr_table option" where
  "parse_rtattr_nested buf sz mx rta = do {
     n \<leftarrow> RTA_PAYLOAD buf rta;
     parse_rtattr buf sz mx (rta + sizeof_rtattr) n
   }"

definition parse_rtattr_one_nested :: "u8 list \<Rightarrow> u16 \<Rightarrow> nat \<Rightarrow> nat option option" where
  "parse_rtattr_one_nested buf type rta = do {
     n \<leftarrow> RTA_PAYLOAD buf rta;
     parse_rtattr_one buf type (rta + sizeof_rtattr) n
   }"

text \<open>The result and the table; the table is not written when the payload is too short (\<open>tb\<close>).  Both
  comparisons are of unsigned integers: an attribute shorter than its header has a large payload there.\<close>

definition parse_nested_compat :: "u8 list \<Rightarrow> nat \<Rightarrow> nat \<Rightarrow> nat \<Rightarrow> nat \<Rightarrow> rtattr_table \<Rightarrow> (int \<times> rtattr_table) option" where
  "parse_nested_compat buf sz mx rta len tb = do {
     n \<leftarrow> RTA_PAYLOAD buf rta;
     if 0 \<le> n \<and> n < int len then Some (- 1, tb)
     else if n < 0 \<or> n \<ge> int (RTA_ALIGN len + sizeof_rtattr)
     then map_option (\<lambda>tb. (0, tb)) (parse_rtattr_nested buf sz mx (rta + sizeof_rtattr + RTA_ALIGN len))
     else if sz < mx + 1 then None
     else Some (0, \<lambda>_. None)
   }"

definition rta_getattr_be16 :: "u8 list \<Rightarrow> nat \<Rightarrow> u16 option" where
  "rta_getattr_be16 buf rta = map_option be16_to_cpu (rta_getattr_u16 buf rta)"

definition rta_getattr_be32 :: "u8 list \<Rightarrow> nat \<Rightarrow> u32 option" where
  "rta_getattr_be32 buf rta = map_option be32_to_cpu (rta_getattr_u32 buf rta)"

definition rta_getattr_u64 :: "u8 list \<Rightarrow> nat \<Rightarrow> u64 option" where
  "rta_getattr_u64 buf rta = map_option ld64 (rdn buf (rta + sizeof_rtattr) 8)"

definition rta_getattr_s32 :: "u8 list \<Rightarrow> nat \<Rightarrow> int option" where
  "rta_getattr_s32 buf rta = map_option sint (rta_getattr_u32 buf rta)"

definition rta_getattr_s64 :: "u8 list \<Rightarrow> nat \<Rightarrow> int option" where
  "rta_getattr_s64 buf rta = map_option sint (rta_getattr_u64 buf rta)"

text \<open>The string ends at the first zero byte; without one it is read beyond the buffer.\<close>

definition rta_getattr_str :: "u8 list \<Rightarrow> nat \<Rightarrow> u8 list option" where
  "rta_getattr_str buf rta = (
     let bs = drop (rta + sizeof_rtattr) buf in
     if 0 \<in> set bs then Some (takeWhile (\<lambda>b. b \<noteq> 0) bs) else None)"

section \<open>Values come back\<close>

lemma length_mem64 [simp]: "length (mem64 w) = 8"
  by (simp add: mem64_def)

lemma ld64_mem64 [simp]: "ld64 (mem64 w) = w"
proof -
  have "ld64 (mem64 w) = ucast (ucast w :: u32) OR push_bit 32 (ucast (ucast (drop_bit 32 w) :: u32))"
    by (simp add: ld64_def mem64_def)
  also have "\<dots> = w" by (rule bit_word_eqI) (auto simp: bit_simps)
  finally show ?thesis .
qed

lemma enc_attr_payload: "drop (length pre + 4) (pre @ enc_attr a @ post) = pad4 (snd a) @ post"
  by (simp add: enc_attr_def)

lemma getattr_enc:
  "rta_getattr_u64 (pre @ enc_attr (ty, mem64 w) @ post) (length pre) = Some w"
  "rta_getattr_s64 (pre @ enc_attr (ty, mem64 w) @ post) (length pre) = Some (sint w)"
  "rta_getattr_s32 (pre @ enc_attr (ty, mem32 v) @ post) (length pre) = Some (sint v)"
  "rta_getattr_be16 (pre @ enc_attr (ty, mem16 (cpu_to_be16 u)) @ post) (length pre) = Some u"
  "rta_getattr_be32 (pre @ enc_attr (ty, mem32 (cpu_to_be32 v)) @ post) (length pre) = Some v"
  by (simp_all add: rta_getattr_u64_def rta_getattr_s64_def rta_getattr_s32_def rta_getattr_be16_def rta_getattr_be32_def
      rta_getattr_u32_def rta_getattr_u16_def rd16_def rd32_def rdn_def enc_attr_def pad4_def RTA_ALIGN_def)


lemma getattr_str_enc:
  assumes "0 \<notin> set str"
  shows "rta_getattr_str (pre @ enc_attr (ty, str @ [0]) @ post) (length pre) = Some str"
proof -
  have "takeWhile (\<lambda>b. b \<noteq> 0) (str @ 0 # ys) = str" for ys
    using assms by (subst takeWhile_append2) auto
  then show ?thesis by (simp add: rta_getattr_str_def enc_attr_def pad4_def)
qed

section \<open>Appending gives the layout\<close>

lemma addraw_l_set:
  assumes "4 dvd length bs" and "32 + length bs + RTA_ALIGN (length data) \<le> maxlen" "maxlen \<le> 1056"
  shows "addraw_l maxlen data (nl_set r bs) = Some (0, nl_set r (bs @ pad4 data))"
proof -
  let ?n = "length data" and ?r = "nl_set r bs"
  have le: "?n \<le> RTA_ALIGN ?n" "length bs + RTA_ALIGN ?n \<le> 1024" "length bs \<le> 1024"
    using RTA_ALIGN_ge(1) [of ?n] assms by auto
  have al: "RTA_ALIGN (unat (nlmsg_len ?r)) = 32 + length bs" using assms(1) le(3) by simp
  have al32: "RTA_ALIGN (32 + length bs) = 32 + length bs" using assms(1) by (intro RTA_ALIGN_id) simp
  have tail0: "NLMSG_TAIL ?r = 32 + length bs" and tail: "NLMSG_TAIL (?r\<lparr>rbuf := b\<rparr>) = 32 + length bs" for b
    by (simp_all add: NLMSG_TAIL_def al)
  have s1: "rstore (32 + length bs) data ?r = Some (?r\<lparr>rbuf := bs @ data @ replicate (1024 - length bs - ?n) 0\<rparr>)"
    using le by (simp add: rstore_def Let_def)
  have s2: "rstore (32 + length bs + ?n) (replicate (RTA_ALIGN ?n - ?n) 0) (?r\<lparr>rbuf := bs @ data @ replicate (1024 - length bs - ?n) 0\<rparr>) =
      Some (?r\<lparr>rbuf := (bs @ pad4 data) @ replicate (1024 - length (bs @ pad4 data)) 0\<rparr>)"
    using le by (simp add: rstore_def Let_def pad4_def)
  have "addraw_l maxlen data ?r = Some (0, (?r\<lparr>rbuf := (bs @ pad4 data) @ replicate (1024 - length (bs @ pad4 data)) 0\<rparr>)
      \<lparr>nlmsg_len := of_nat (32 + length bs + RTA_ALIGN ?n)\<rparr>)"
    unfolding addraw_l_def Let_def al using assms(2) s1 s2 le tail0 by (simp add: tail al32)
  then show ?thesis by (simp add: nl_set_def add.assoc)
qed

text \<open>A struct followed by nested attributes, all in one attribute.\<close>

lemma nest_compat_set:
  assumes "4 dvd length bs" and "4 dvd length body"
    and "32 + length bs + RTA_ALIGN (4 + length data) + 4 + length body \<le> maxlen" "maxlen \<le> 1056"
  shows "\<exists>start nest. addattr_nest_compat maxlen ty data (nl_set r bs) =
      Some (start, nl_set r (bs @ enc_attr (ty, data) @ mem16 4 @ mem16 ty)) \<and>
    addattr_nest_compat_end start (nl_set r ((bs @ enc_attr (ty, data) @ mem16 4 @ mem16 ty) @ body)) =
      Some (nl_set r (bs @ enc_attr (ty, pad4 data @ enc_attr (ty, body))))"
proof -
  let ?h = "bs @ enc_attr (ty, data)" and ?d = "length (enc_attr (ty, data))"
  have d4: "4 dvd ?d" by (simp add: RTA_ALIGN_mult)
  have a: "4 dvd length ?h" using assms(1) d4 by simp
  have m: "32 + length ?h + 4 + length body \<le> 1056" using assms(3,4) by simp
  have start: "NLMSG_TAIL (nl_set r bs) = 32 + length bs" using assms(1) m by (intro NLMSG_TAIL_set) simp_all
  have 1: "addattr_nest_compat maxlen ty data (nl_set r bs) = Some (32 + length bs, nl_set r (?h @ mem16 4 @ mem16 ty))"
    using addattr_l_set [of bs data maxlen ty r] addattr_nest_set [of ?h maxlen ty r] assms a start
    by (simp add: addattr_nest_compat_def)
  let ?all = "?h @ mem16 4 @ mem16 ty @ body" and ?D = "pad4 data @ mem16 4 @ mem16 ty @ body"
  let ?pre = "bs @ mem16 (of_nat (4 + length ?D)) @ mem16 ty @ pad4 data"
  have pl: "length ?pre = length ?h" by (simp add: RTA_ALIGN_add4)
  have pre: "4 dvd length ?pre" "length ?pre + 4 + length body \<le> 1024"
    using a m unfolding pl by simp_all
  have "length ?all = length ?h + (4 + length body)" by simp
  then have all: "4 dvd length ?all" using dvd_add [OF a dvd_add [OF dvd_refl assms(2)]] by (simp only:)
  have "4 + length data \<le> 1056" using RTA_ALIGN_ge(1) [of "4 + length data"] assms(3,4) by linarith
  then have u: "unat (of_nat (4 + length data) :: u16) = 4 + length data" by (simp only: unat_of_nat) simp
  have len: "rd16 (rbuf (nl_set r ?all)) (length bs) = Some (of_nat (4 + length data))"
    using rd16_at [of bs "of_nat (4 + length data)"] by (simp add: enc_attr_def)
  have tail: "NLMSG_TAIL (nl_set r ?all) = 32 + length ?all" using all m by (intro NLMSG_TAIL_set) simp_all
  have st: "rstore (32 + length bs) (mem16 (of_nat (length ?all - length bs))) (nl_set r ?all) = Some (nl_set r (?pre @ mem16 4 @ mem16 ty @ body))"
    using m by (simp add: rstore_def Let_def nl_set_def enc_attr_def RTA_ALIGN_add4)
  have e: "?pre @ enc_attr (ty, body) = bs @ enc_attr (ty, pad4 data @ enc_attr (ty, body))"
  proof -
    let ?E = "pad4 data @ enc_attr (ty, body)"
    have "4 dvd length ?E" by (simp add: RTA_ALIGN_mult)
    moreover have "length ?E = length ?D" using assms(2) by (simp add: enc_attr_aligned)
    ultimately show ?thesis using enc_attr_aligned [of ?E ty] by simp
  qed
  have "addattr_nest_compat_end (32 + length bs) (nl_set r ?all) = Some (nl_set r (?pre @ enc_attr (ty, body)))"
    using addattr_nest_end_set [OF pre(1) assms(2) pre(2), of r ty] pl len tail st u
    by (simp add: addattr_nest_compat_end_def Let_def RTA_ALIGN_add4 del: nl_set_simps)
  then show ?thesis using 1 unfolding e by simp
qed


section \<open>Parsing a struct with nested attributes\<close>

lemma RTA_PAYLOAD_enc:
  assumes "4 + length (snd a) < 65536"
  shows "RTA_PAYLOAD (pre @ enc_attr a @ post) (length pre) = Some (int (length (snd a)))"
proof -
  have u: "unat (of_nat (4 + length (snd a)) :: u16) = 4 + length (snd a)"
    using assms by (simp only: unat_of_nat) simp
  have "rd16 (pre @ enc_attr a @ post) (length pre) = Some (of_nat (4 + length (snd a)))"
    by (simp only: enc_attr_def append_assoc rd16_at)
  then show ?thesis by (simp only: RTA_PAYLOAD_def option.map u sizeof_rtattr_def) simp
qed

lemma dvd_enc_attrs: "4 dvd length (enc_attrs as)"
  by (induction as) (simp_all add: RTA_ALIGN_mult)

lemma parse_nested_compat_enc:
  assumes "\<forall>a \<in> set as. attr_ok a" and "mx < sz" and "8 + RTA_ALIGN (length data) + length (enc_attrs as) < 65536"
  shows "parse_nested_compat (pre @ enc_attr (ty, pad4 data @ enc_attr (ty', enc_attrs as)) @ post) sz mx (length pre) (length data) tb =
    Some (0, \<lambda>t. if t \<le> mx then first_attr 0 t (length pre + 8 + RTA_ALIGN (length data)) as else None)"
proof -
  let ?in = "enc_attr (ty', enc_attrs as)" and ?L = "mem16 (of_nat (4 + length (pad4 data @ enc_attr (ty', enc_attrs as))))"
  let ?pre = "pre @ ?L @ mem16 ty @ pad4 data"
  have li: "length ?in = 4 + length (enc_attrs as)" using dvd_enc_attrs [of as] by (simp add: RTA_ALIGN_add4)
  have "4 dvd length (pad4 data @ ?in)" by (simp add: RTA_ALIGN_mult)
  then have buf: "pre @ enc_attr (ty, pad4 data @ ?in) @ post = ?pre @ ?in @ post" by (simp only: enc_attr_aligned append_assoc)
  have lp: "length ?pre = length pre + 4 + RTA_ALIGN (length data)" by simp
  have p1: "RTA_PAYLOAD (pre @ enc_attr (ty, pad4 data @ ?in) @ post) (length pre) = Some (int (RTA_ALIGN (length data) + length ?in))"
    using RTA_PAYLOAD_enc [of "(ty, pad4 data @ ?in)" pre post] assms(3) li by simp
  have p2: "RTA_PAYLOAD (?pre @ ?in @ post) (length ?pre) = Some (int (length (enc_attrs as)))"
    using RTA_PAYLOAD_enc [of "(ty', enc_attrs as)" ?pre post] assms(3) by simp
  let ?pre' = "?pre @ mem16 (of_nat (4 + length (enc_attrs as))) @ mem16 ty'"
  have buf': "?pre @ ?in @ post = ?pre' @ enc_attrs as @ post" using dvd_enc_attrs [of as] by (simp add: enc_attr_aligned)
  have lp': "length ?pre' = length ?pre + 4" by simp
  have "parse_rtattr (?pre @ ?in @ post) sz mx (length ?pre + 4) (int (length (enc_attrs as))) =
      Some (\<lambda>t. if t \<le> mx then first_attr 0 t (length ?pre + 4) as else None)"
    unfolding parse_rtattr_def buf' using parse_rtattr_flags_enc [OF assms(1,2), of ?pre' post 0] unfolding lp' .
  then have n: "parse_rtattr_nested (?pre @ ?in @ post) sz mx (length ?pre) =
      Some (\<lambda>t. if t \<le> mx then first_attr 0 t (length ?pre + 4) as else None)"
    unfolding parse_rtattr_nested_def p2 by simp
  have off: "length ?pre + 4 = length pre + 8 + RTA_ALIGN (length data)" by simp
  have o: "length pre + sizeof_rtattr + RTA_ALIGN (length data) = length ?pre" by simp
  have c: "\<not> (0 \<le> int (RTA_ALIGN (length data) + length ?in) \<and> int (RTA_ALIGN (length data) + length ?in) < int (length data))"
    "int (RTA_ALIGN (length data) + length ?in) \<ge> int (RTA_ALIGN (length data) + sizeof_rtattr)"
    using RTA_ALIGN_ge(1) [of "length data"] li by simp_all
  show ?thesis
    unfolding parse_nested_compat_def p1 o unfolding buf n off using c by simp
qed

section \<open>Appending to an attribute gives the layout\<close>

text \<open>An attribute in a buffer with zeros behind it.\<close>

definition room :: "u8 list \<Rightarrow> attr \<Rightarrow> nat \<Rightarrow> u8 list" where
  "room pre a z = pre @ enc_attr a @ replicate z 0"

lemma wr_at: "length bs = length old \<Longrightarrow> n = length pre \<Longrightarrow> wr n bs (pre @ old @ post) = Some (pre @ bs @ post)"
  by (simp add: wr_def)

lemma rd16_room:
  assumes "4 dvd length body" and "4 + length body < 65536"
  shows "rd16 (room pre (ty, body) z) (length pre) = Some (of_nat (4 + length body))"
    and "RTA_ALIGN (unat (of_nat (4 + length body) :: u16)) = 4 + length body"
proof -
  show "rd16 (room pre (ty, body) z) (length pre) = Some (of_nat (4 + length body))"
    by (simp only: room_def enc_attr_def append_assoc rd16_at fst_conv snd_conv)
  have "unat (of_nat (4 + length body) :: u16) = 4 + length body" using assms(2) by (simp only: unat_of_nat) simp
  then show "RTA_ALIGN (unat (of_nat (4 + length body) :: u16)) = 4 + length body" using assms(1) by simp
qed

lemma rta_addattr_l_room:
  assumes "4 dvd length body" and "4 + length body + RTA_ALIGN (4 + length data) \<le> maxlen" and "maxlen < 65536"
    and "RTA_ALIGN (4 + length data) \<le> z"
  shows "rta_addattr_l (length pre) maxlen type data (room pre (ty, body) z) =
    Some (0, room pre (ty, body @ enc_attr (type, data)) (z - RTA_ALIGN (4 + length data)))"
proof -
  let ?n = "length data" and ?L = "mem16 (of_nat (4 + length body))" and ?N = "mem16 (of_nat (4 + length data))"
  let ?H = "pre @ ?L @ mem16 ty @ body" and ?K = "mem16 (of_nat (4 + length body + RTA_ALIGN (4 + ?n)))"
  have z: "4 + ?n \<le> z" using RTA_ALIGN_ge(1) [of "4 + ?n"] assms(4) by linarith
  have buf: "room pre (ty, body) z = ?H @ replicate z 0" using assms(1) by (simp add: room_def enc_attr_aligned)
  have "z = 2 + (2 + (z - 4))" using z by simp
  then have "replicate z (0::u8) = replicate 2 0 @ replicate 2 0 @ replicate (z - 4) 0" by (metis replicate_add)
  then have s1: "wr (length ?H + 2) (mem16 type) (room pre (ty, body) z) = Some (?H @ replicate 2 0 @ mem16 type @ replicate (z - 4) 0)"
    unfolding buf using wr_at [of "mem16 type" "replicate 2 0" "length ?H + 2" "?H @ replicate 2 0" "replicate (z - 4) 0"] by simp
  have s2: "wr (length ?H) ?N (?H @ replicate 2 0 @ mem16 type @ replicate (z - 4) 0) = Some (?H @ ?N @ mem16 type @ replicate (z - 4) 0)"
    by (rule wr_at) simp_all
  have "z - 4 = ?n + (z - 4 - ?n)" using z by simp
  then have "replicate (z - 4) (0::u8) = replicate ?n 0 @ replicate (z - 4 - ?n) 0" by (metis replicate_add)
  then have s3: "wr (length ?H + 4) data (?H @ ?N @ mem16 type @ replicate (z - 4) 0) = Some (?H @ ?N @ mem16 type @ data @ replicate (z - 4 - ?n) 0)"
    using wr_at [of data "replicate ?n 0" "length ?H + 4" "?H @ ?N @ mem16 type" "replicate (z - 4 - ?n) 0"] by simp
  have s4: "wr (length pre) ?K (?H @ ?N @ mem16 type @ data @ replicate (z - 4 - ?n) 0) =
      Some (pre @ ?K @ mem16 ty @ body @ ?N @ mem16 type @ data @ replicate (z - 4 - ?n) 0)"
    unfolding append_assoc by (rule wr_at) simp_all
  have lH: "length pre + (4 + length body) = length ?H" by simp
  have rd: "rd16 (room pre (ty, body) z) (length pre) = Some (of_nat (4 + length body))"
    "RTA_ALIGN (unat (of_nat (4 + length body) :: u16)) = 4 + length body"
    using rd16_room [OF assms(1)] assms(2,3) by simp_all
  have r: "?N @ mem16 type @ data @ replicate (z - 4 - ?n) 0 = enc_attr (type, data) @ replicate (z - RTA_ALIGN (4 + ?n)) 0"
    using assms(4) z RTA_ALIGN_ge(1) [of ?n]
    by (simp add: enc_attr_def pad4_def RTA_ALIGN_add4 replicate_add [symmetric] del: replicate_add)
  have "4 dvd length (body @ enc_attr (type, data))" using assms(1) by (simp add: RTA_ALIGN_mult)
  then have "room pre (ty, body @ enc_attr (type, data)) (z - RTA_ALIGN (4 + ?n)) = pre @ ?K @ mem16 ty @ body @ ?N @ mem16 type @ data @ replicate (z - 4 - ?n) 0"
    unfolding r by (simp add: room_def enc_attr_aligned add.assoc)
  then show ?thesis
    using assms(2) s1 s2 s3 s4 by (simp only: rta_addattr_l_def rd Let_def lH sizeof_rtattr_def Option.bind.simps) simp
qed

lemma rta_addattr_l_refused:
  assumes "4 dvd length body" and "4 + length body < 65536" and "maxlen < 4 + length body + RTA_ALIGN (4 + length data)"
  shows "rta_addattr_l (length pre) maxlen type data (room pre (ty, body) z) = Some (- 1, room pre (ty, body) z)"
  using assms(3) by (simp only: rta_addattr_l_def rd16_room [OF assms(1,2)] Let_def sizeof_rtattr_def Option.bind.simps) simp

lemma rta_addattr32_l: "rta_addattr32 rta maxlen type data buf = rta_addattr_l rta maxlen type (mem32 data) buf"
proof -
  have e: "RTA_ALIGN (sizeof_rtattr + 4) = sizeof_rtattr + 4" by (simp add: RTA_ALIGN_def)
  show ?thesis unfolding rta_addattr32_def rta_addattr_l_def length_mem32 Let_def e ..
qed

text \<open>Opening, filling and closing a nested attribute.\<close>

lemma rta_nest_room:
  assumes "4 dvd length body" and "8 + length body \<le> maxlen" and "maxlen < 65536" and "4 \<le> z"
  shows "rta_nest (length pre) maxlen type (room pre (ty, body) z) =
    Some (length pre + 4 + length body, room pre (ty, body @ enc_attr (type OR NLA_F_NESTED, [])) (z - 4))"
proof -
  let ?L = "mem16 (of_nat (8 + length body))" and ?nest = "length pre + 4 + length body"
  have rd: "rd16 (room pre (ty, body) z) (length pre) = Some (of_nat (4 + length body))"
    "RTA_ALIGN (unat (of_nat (4 + length body) :: u16)) = 4 + length body"
    using rd16_room [OF assms(1)] assms(2,3) by simp_all
  have 1: "rta_addattr_l (length pre) maxlen type [] (room pre (ty, body) z) = Some (0, room pre (ty, body @ enc_attr (type, [])) (z - 4))"
    using rta_addattr_l_room [of body "[]" maxlen z pre type ty] assms by simp
  have r: "room pre (ty, body @ enc_attr (t, [])) (z - 4) = (pre @ ?L @ mem16 ty @ body @ mem16 4) @ mem16 t @ replicate (z - 4) 0" for t
    using assms(1) by (simp add: room_def enc_attr_aligned enc_attr_nil)
  have n: "length (pre @ ?L @ mem16 ty @ body @ mem16 4) = ?nest + 2" by simp
  have 2: "rd16 (room pre (ty, body @ enc_attr (type, [])) (z - 4)) (?nest + 2) = Some type"
    unfolding r n [symmetric] by (rule rd16_at)
  have 3: "wr (?nest + 2) (mem16 (type OR NLA_F_NESTED)) (room pre (ty, body @ enc_attr (type, [])) (z - 4)) =
      Some (room pre (ty, body @ enc_attr (type OR NLA_F_NESTED, [])) (z - 4))"
    unfolding r by (rule wr_at) simp_all
  show ?thesis
    using 2 3 by (simp only: rta_nest_def RTA_TAIL_def rd option.map Option.bind.simps 1 prod.case add.assoc)
qed

lemma rta_nest_end_room:
  assumes "4 dvd length body" and "4 dvd length inner" and "8 + length body + length inner < 65536"
  shows "rta_nest_end (length pre) (length pre + 4 + length body) (room pre (ty, body @ mem16 4 @ mem16 nt @ inner) z) =
    Some (of_nat (8 + length body + length inner), room pre (ty, body @ enc_attr (nt, inner)) z)"
proof -
  let ?b = "body @ mem16 4 @ mem16 nt @ inner" and ?b' = "body @ enc_attr (nt, inner)"
  let ?L = "mem16 (of_nat (8 + length body + length inner))"
  have lb: "length ?b = length body + (4 + length inner)" "length ?b' = length ?b" using assms(2) by (simp_all add: enc_attr_aligned)
  have d: "4 dvd length ?b" "4 dvd length ?b'"
    unfolding lb using dvd_add [OF assms(1) dvd_add [OF dvd_refl assms(2)]] by simp_all
  have len: "4 + length ?b = 8 + length body + length inner" "4 + length ?b < 65536" "4 + length ?b' < 65536"
    using assms(3) lb by simp_all
  have t: "RTA_TAIL (length pre) (room pre (ty, ?b) z) = Some (length pre + (8 + length body + length inner))"
    unfolding RTA_TAIL_def rd16_room(1) [OF d(1) len(2)] option.map rd16_room(2) [OF d(1) len(2)] unfolding len(1) ..
  have "room pre (ty, ?b) z = (pre @ ?L @ mem16 ty @ body) @ mem16 4 @ (mem16 nt @ inner @ replicate z 0)"
    using d(1) len(1) by (simp add: room_def enc_attr_aligned add.assoc)
  moreover have "room pre (ty, ?b') z = (pre @ ?L @ mem16 ty @ body) @ mem16 (of_nat (4 + length inner)) @ (mem16 nt @ inner @ replicate z 0)"
    using d(2) assms(2) by (simp add: room_def enc_attr_aligned add.assoc)
  ultimately have w: "wr (length pre + 4 + length body) (mem16 (of_nat (4 + length inner))) (room pre (ty, ?b) z) = Some (room pre (ty, ?b') z)"
    by (simp only:) (rule wr_at; simp)
  have "length pre + (8 + length body + length inner) - (length pre + 4 + length body) = 4 + length inner" by simp
  then show ?thesis
    using w by (simp only: rta_nest_end_def t Option.bind.simps rd16_room(1) [OF d(2) len(3)]) (simp add: lb(2) assms(2) enc_attr_aligned)
qed

text \<open>When the new attribute is refused for want of space, the flag is set behind the end of the buffer.\<close>

lemma rta_nest_overruns:
  assumes "4 dvd length body" and "4 + length body < 65536" and "maxlen = 4 + length body"
  shows "rta_nest (length pre) maxlen type (room pre (ty, body) 0) = None"
proof -
  have "rta_addattr_l (length pre) maxlen type [] (room pre (ty, body) 0) = Some (- 1, room pre (ty, body) 0)"
    using assms by (intro rta_addattr_l_refused) simp_all
  moreover have "rd16 (room pre (ty, body) 0) (length pre + (4 + length body) + 2) = None"
    using assms(1) by (simp add: rd16_def rdn_def room_def enc_attr_aligned)
  ultimately show ?thesis
    by (simp only: rta_nest_def RTA_TAIL_def rd16_room [OF assms(1,2)] option.map Option.bind.simps prod.case)
qed

end
