(* ===== verification/Mrp_Dbus.thy ===== *)
theory Mrp_Dbus
  imports Mrp_State
begin

text \<open>
  The D-Bus signals of \<^verbatim>\<open>dbus.c\<close>: the text of a signal is built in an allocated buffer with \<open>strcat\<close>, and sent
  through libdbus, whose answers are parameters.  The buffer is modelled byte by byte: a write
  behind its end is a crash.
\<close>

section \<open>C strings in a buffer\<close>

abbreviation NUL :: char where "NUL \<equiv> CHR 0x00"

text \<open>The string that a buffer holds, when it holds one.\<close>

definition c_string :: "char list \<Rightarrow> string option" where
  "c_string buf = (if NUL \<in> set buf then Some (takeWhile (\<lambda>c. c \<noteq> NUL) buf) else None)"

definition poke :: "nat \<Rightarrow> char \<Rightarrow> char list \<Rightarrow> char list option" where
  "poke i c buf = (if i < length buf then Some (buf[i := c]) else None)"

definition strcat :: "char list \<Rightarrow> string \<Rightarrow> char list option" where
  "strcat buf s = do {
     t \<leftarrow> c_string buf;
     let n = length t;
     if n + length s + 1 \<le> length buf then Some (take n buf @ s @ NUL # drop (n + length s + 1) buf) else None
   }"

section \<open>Sending\<close>

text \<open>The calls of libdbus, in order, and its answers: whether the message could be created, the text appended
  and the message sent.\<close>

datatype dbus_call = New_signal string | Append_basic string | Connection_send | Connection_flush | Message_unref

record dbus_lib =
  new_signal_ok :: bool
  append_ok :: bool
  send_ok :: bool

definition dbus_send :: "dbus_lib \<Rightarrow> string \<Rightarrow> string \<Rightarrow> int \<times> dbus_call list" where
  "dbus_send lib type text =
    (if \<not> new_signal_ok lib then (- 1, [New_signal type])
     else if \<not> append_ok lib then (- 1, [New_signal type, Append_basic text])
     else if \<not> send_ok lib then (- 1, [New_signal type, Append_basic text, Connection_send])
     else (0, [New_signal type, Append_basic text, Connection_send, Connection_flush, Message_unref]))"

fun append_args :: "char list \<Rightarrow> string list \<Rightarrow> char list option" where
  "append_args text [] = Some text"
| "append_args text (s # args) = do { text \<leftarrow> strcat text s; text \<leftarrow> strcat text '':''; append_args text args }"

text \<open>\<open>malloc\<close> gives a buffer of the requested size with any contents, or none.\<close>

definition dbus_message_valist ::
  "(nat \<Rightarrow> char list option) \<Rightarrow> dbus_lib \<Rightarrow> string \<Rightarrow> string \<Rightarrow> string \<Rightarrow> string list \<Rightarrow> (int \<times> dbus_call list) option" where
  "dbus_message_valist malloc lib type source event args = (
     let len = (length source + 1) + (length event + 1) + sum_list (map (\<lambda>s. length s + 1) args) in
     case malloc (len + 1) of None \<Rightarrow> Some (- 1, [])
     | Some text \<Rightarrow> do {
         text \<leftarrow> poke 0 NUL text;
         text \<leftarrow> strcat text source;
         text \<leftarrow> strcat text '':'';
         text \<leftarrow> strcat text event;
         text \<leftarrow> strcat text '':'';
         text \<leftarrow> append_args text args;
         text \<leftarrow> poke (len - 1) NUL text;
         t \<leftarrow> c_string text;
         Some (dbus_send lib type t)
       })"

definition dbus_port_event ::
  "(nat \<Rightarrow> char list option) \<Rightarrow> dbus_lib \<Rightarrow> string \<Rightarrow> string \<Rightarrow> string list \<Rightarrow> (int \<times> dbus_call list) option" where
  "dbus_port_event malloc lib prt event args = dbus_message_valist malloc lib ''PortEvent'' prt event args"

fun port_states :: "br_mrp_port_state_type \<Rightarrow> string" where
  "port_states BR_MRP_PORT_STATE_DISABLED = ''Disabled''"
| "port_states BR_MRP_PORT_STATE_BLOCKED = ''Blocking''"
| "port_states BR_MRP_PORT_STATE_FORWARDING = ''Forwarding''"
| "port_states BR_MRP_PORT_STATE_NOT_CONNECTED = ''Unconnected''"

definition dbus_port_state_changed ::
  "(nat \<Rightarrow> char list option) \<Rightarrow> dbus_lib \<Rightarrow> mrp_port \<Rightarrow> br_mrp_port_state_type \<Rightarrow> (int \<times> dbus_call list) option" where
  "dbus_port_state_changed malloc lib p state = dbus_port_event malloc lib (pifname p) ''StateChanged'' [port_states state]"

section \<open>The text of a signal\<close>

text \<open>The buffer holds the string \<open>t\<close>.\<close>

definition holds :: "char list \<Rightarrow> string \<Rightarrow> bool" where
  "holds buf t \<longleftrightarrow> NUL \<notin> set t \<and> (\<exists>rest. buf = t @ NUL # rest)"

lemma c_string_holds: "holds buf t \<Longrightarrow> c_string buf = Some t"
  by (auto simp: holds_def c_string_def takeWhile_append takeWhile_eq_all_conv)

lemma strcat_ok:
  assumes "holds buf t" and "NUL \<notin> set s" and "length t + length s < length buf"
  shows "ok (strcat buf s) (\<lambda>buf'. holds buf' (t @ s) \<and> length buf' = length buf)"
proof -
  obtain rest where r: "buf = t @ NUL # rest" "NUL \<notin> set t" using assms(1) by (auto simp: holds_def)
  show ?thesis
    using assms(2,3) r unfolding strcat_def c_string_holds [OF assms(1)] by (simp add: holds_def Let_def)
qed

lemma append_args_ok:
  assumes "holds buf t" and "\<forall>s \<in> set args. NUL \<notin> set s" and "length t + sum_list (map (\<lambda>s. length s + 1) args) < length buf"
  shows "ok (append_args buf args) (\<lambda>buf'. holds buf' (t @ concat (map (\<lambda>s. s @ '':'') args)) \<and> length buf' = length buf)"
  using assms
proof (induction args arbitrary: buf t)
  case (Cons s args)
  have "ok (strcat buf s) (\<lambda>buf'. holds buf' (t @ s) \<and> length buf' = length buf)"
    using Cons.prems by (intro strcat_ok) simp_all
  then obtain b1 where b1: "strcat buf s = Some b1" "holds b1 (t @ s)" "length b1 = length buf" by (auto simp: ok_def)
  have "ok (strcat b1 '':'') (\<lambda>buf'. holds buf' ((t @ s) @ '':'') \<and> length buf' = length b1)"
    using Cons.prems b1 by (intro strcat_ok) simp_all
  then obtain b2 where b2: "strcat b1 '':'' = Some b2" "holds b2 (t @ s @ '':'')" "length b2 = length buf"
    using b1(3) by (auto simp: ok_def)
  have "ok (append_args b2 args) (\<lambda>buf'. holds buf' ((t @ s @ '':'') @ concat (map (\<lambda>s. s @ '':'') args)) \<and> length buf' = length b2)"
    using Cons.prems b2 by (intro Cons.IH) simp_all
  then show ?case using b1(1) b2 by (simp add: ok_def)
qed simp

lemma drop_last_char:
  assumes "holds buf (t @ [c])"
  shows "ok (poke (length t) NUL buf) (\<lambda>buf'. holds buf' t)"
  using assms by (auto simp: holds_def poke_def list_update_append)

text \<open>The parts are joined by colons, the last of which is dropped; the buffer is large enough for every
  input.\<close>

definition signal_size :: "string \<Rightarrow> string \<Rightarrow> string list \<Rightarrow> nat" where
  "signal_size source event args = (length source + 1) + (length event + 1) + sum_list (map (\<lambda>s. length s + 1) args) + 1"

lemma valist_text:
  assumes m: "malloc (signal_size source event args) = Some text" and l: "length text = signal_size source event args"
    and n: "\<forall>s \<in> set (source # event # args). NUL \<notin> set s"
  shows "dbus_message_valist malloc lib type source event args =
    Some (dbus_send lib type (butlast (concat (map (\<lambda>s. s @ '':'') (source # event # args)))))"
proof -
  let ?len = "(length source + 1) + (length event + 1) + sum_list (map (\<lambda>s. length s + 1) args)"
  let ?all = "concat (map (\<lambda>s. s @ '':'') (source # event # args))"
  have mm: "malloc (?len + 1) = Some text" using m by (simp only: signal_size_def)
  have "holds (text[0 := NUL]) []" using l by (cases "text") (auto simp: holds_def signal_size_def)
  then obtain b where b: "append_args (text[0 := NUL]) (source # event # args) = Some b" "holds b ?all"
    using append_args_ok [of "text[0 := NUL]" "[]" "source # event # args"] n l by (auto simp: ok_def signal_size_def)
  have len: "length ?all = ?len" by (induction args) simp_all
  obtain u where u: "?all = u @ '':''"
    by (cases args rule: rev_cases) (auto simp: append_assoc [symmetric] simp del: append_assoc)
  then have lu: "length u = ?len - 1" "butlast ?all = u" using len by (simp_all del: concat.simps list.map)
  obtain b' where b': "poke (?len - 1) NUL b = Some b'" "c_string b' = Some u"
  proof -
    have "ok (poke (length u) NUL b) (\<lambda>b'. holds b' u)" by (rule drop_last_char) (use b(2) u in simp)
    then show ?thesis using lu(1) that by (auto simp: ok_def dest: c_string_holds)
  qed
  have p0: "poke 0 NUL text = Some (text[0 := NUL])" using l by (simp add: poke_def signal_size_def)
  obtain x y z w where c: "strcat (text[0 := NUL]) source = Some x" "strcat x '':'' = Some y" "strcat y event = Some z"
      "strcat z '':'' = Some w" "append_args w args = Some b"
    using b(1) by (auto split: Option.bind_splits)
  show ?thesis
    unfolding dbus_message_valist_def Let_def mm option.case p0 Option.bind.simps c b' lu(2) ..
qed

end
