(* ===== verification/Hash_List.thy ===== *)
theory Hash_List
  imports Linked_List
begin

text \<open>
  The lists with a single pointer as head of \<^verbatim>\<open>list.h\<close> (\<open>hlist\<close>).  A node points to the next node and to the
  cell that points to it: the \<open>first\<close> of a head or the \<open>next\<close> of another node.  \<open>hlist hp h xs\<close> says that the
  list with head \<open>h\<close> holds the nodes \<open>xs\<close>, and every operation refines one on \<open>xs\<close>.
\<close>

section \<open>Heap\<close>

datatype 'a cell = First 'a | Next 'a | Cell_NULL | Cell_POISON2

record 'a hheap =
  cells :: "'a cell \<rightharpoonup> 'a ptr"
  pprevs :: "'a \<rightharpoonup> 'a cell"

definition get_cell :: "'a cell \<Rightarrow> 'a hheap \<Rightarrow> 'a ptr option" where
  "get_cell c hp = (case c of Cell_NULL \<Rightarrow> None | Cell_POISON2 \<Rightarrow> None | _ \<Rightarrow> cells hp c)"

definition set_cell :: "'a cell \<Rightarrow> 'a ptr \<Rightarrow> 'a hheap \<Rightarrow> 'a hheap option" where
  "set_cell c v hp = map_option (\<lambda>_. hp\<lparr>cells := (cells hp)(c \<mapsto> v)\<rparr>) (get_cell c hp)"

definition set_pprev :: "'a ptr \<Rightarrow> 'a cell \<Rightarrow> 'a hheap \<Rightarrow> 'a hheap option" where
  "set_pprev p v hp = (case p of Ptr a \<Rightarrow> map_option (\<lambda>_. hp\<lparr>pprevs := (pprevs hp)(a \<mapsto> v)\<rparr>) (pprevs hp a) | _ \<Rightarrow> None)"

section \<open>Operations\<close>

definition INIT_HLIST_HEAD :: "'a \<Rightarrow> 'a hheap \<Rightarrow> 'a hheap option" where
  "INIT_HLIST_HEAD h hp = set_cell (First h) NULL hp"

definition INIT_HLIST_NODE :: "'a \<Rightarrow> 'a hheap \<Rightarrow> 'a hheap option" where
  "INIT_HLIST_NODE n hp = do { hp \<leftarrow> set_cell (Next n) NULL hp; set_pprev (Ptr n) Cell_NULL hp }"

definition hlist_unhashed :: "'a \<Rightarrow> 'a hheap \<Rightarrow> bool option" where
  "hlist_unhashed n hp = map_option (\<lambda>c. c = Cell_NULL) (pprevs hp n)"

definition hlist_empty :: "'a \<Rightarrow> 'a hheap \<Rightarrow> bool option" where
  "hlist_empty h hp = map_option (\<lambda>p. p = NULL) (get_cell (First h) hp)"

definition hlist_unlink :: "'a \<Rightarrow> 'a hheap \<Rightarrow> 'a hheap option" where
  "hlist_unlink n hp = do {
     next \<leftarrow> get_cell (Next n) hp;
     pprev \<leftarrow> pprevs hp n;
     hp \<leftarrow> set_cell pprev next hp;
     if next \<noteq> NULL then set_pprev next pprev hp else Some hp
   }"

definition hlist_del :: "'a \<Rightarrow> 'a hheap \<Rightarrow> 'a hheap option" where
  "hlist_del n hp = do {
     hp \<leftarrow> hlist_unlink n hp;
     hp \<leftarrow> set_cell (Next n) LIST_POISON1 hp;
     set_pprev (Ptr n) Cell_POISON2 hp
   }"

definition hlist_del_init :: "'a \<Rightarrow> 'a hheap \<Rightarrow> 'a hheap option" where
  "hlist_del_init n hp = do {
     pprev \<leftarrow> pprevs hp n;
     if pprev \<noteq> Cell_NULL then do { hp \<leftarrow> hlist_unlink n hp; INIT_HLIST_NODE n hp } else Some hp
   }"

definition hlist_add_head :: "'a \<Rightarrow> 'a \<Rightarrow> 'a hheap \<Rightarrow> 'a hheap option" where
  "hlist_add_head n h hp = do {
     first \<leftarrow> get_cell (First h) hp;
     hp \<leftarrow> set_cell (Next n) first hp;
     hp \<leftarrow> (if first \<noteq> NULL then set_pprev first (Next n) hp else Some hp);
     hp \<leftarrow> set_cell (First h) (Ptr n) hp;
     set_pprev (Ptr n) (First h) hp
   }"

definition hlist_add_before :: "'a \<Rightarrow> 'a \<Rightarrow> 'a hheap \<Rightarrow> 'a hheap option" where
  "hlist_add_before n next hp = do {
     pprev \<leftarrow> pprevs hp next;
     hp \<leftarrow> set_pprev (Ptr n) pprev hp;
     hp \<leftarrow> set_cell (Next n) (Ptr next) hp;
     hp \<leftarrow> set_pprev (Ptr next) (Next n) hp;
     set_cell pprev (Ptr n) hp
   }"

definition hlist_add_after :: "'a \<Rightarrow> 'a \<Rightarrow> 'a hheap \<Rightarrow> 'a hheap option" where
  "hlist_add_after n next hp = do {
     p \<leftarrow> get_cell (Next n) hp;
     hp \<leftarrow> set_cell (Next next) p hp;
     hp \<leftarrow> set_cell (Next n) (Ptr next) hp;
     hp \<leftarrow> set_pprev (Ptr next) (Next n) hp;
     p \<leftarrow> get_cell (Next next) hp;
     if p \<noteq> NULL then set_pprev p (Next next) hp else Some hp
   }"

text \<open>\<open>hlist_for_each\<close> with a body that may change the list, and \<open>hlist_for_each_safe\<close>, which reads the next pointer
  before the body.\<close>

partial_function (option) hlist_loop ::
  "('a \<Rightarrow> 's \<Rightarrow> 'a hheap \<Rightarrow> ('s \<times> 'a hheap) option) \<Rightarrow> 'a ptr \<Rightarrow> 's \<Rightarrow> 'a hheap \<Rightarrow> ('s \<times> 'a hheap) option" where
  "hlist_loop body pos s hp = (case pos of Ptr n \<Rightarrow> do {
       (s, hp) \<leftarrow> body n s hp;
       pos \<leftarrow> get_cell (Next n) hp;
       hlist_loop body pos s hp
     }
   | NULL \<Rightarrow> Some (s, hp)
   | _ \<Rightarrow> None)"

partial_function (option) hlist_loop_safe ::
  "('a \<Rightarrow> 's \<Rightarrow> 'a hheap \<Rightarrow> ('s \<times> 'a hheap) option) \<Rightarrow> 'a ptr \<Rightarrow> 's \<Rightarrow> 'a hheap \<Rightarrow> ('s \<times> 'a hheap) option" where
  "hlist_loop_safe body pos s hp = (case pos of Ptr n \<Rightarrow> do {
       next \<leftarrow> get_cell (Next n) hp;
       (s, hp) \<leftarrow> body n s hp;
       hlist_loop_safe body next s hp
     }
   | NULL \<Rightarrow> Some (s, hp)
   | _ \<Rightarrow> None)"

definition hlist_for_each ::
  "('a \<Rightarrow> 's \<Rightarrow> 'a hheap \<Rightarrow> ('s \<times> 'a hheap) option) \<Rightarrow> 'a \<Rightarrow> 's \<Rightarrow> 'a hheap \<Rightarrow> ('s \<times> 'a hheap) option" where
  "hlist_for_each body h s hp = do { pos \<leftarrow> get_cell (First h) hp; hlist_loop body pos s hp }"

definition hlist_for_each_safe ::
  "('a \<Rightarrow> 's \<Rightarrow> 'a hheap \<Rightarrow> ('s \<times> 'a hheap) option) \<Rightarrow> 'a \<Rightarrow> 's \<Rightarrow> 'a hheap \<Rightarrow> ('s \<times> 'a hheap) option" where
  "hlist_for_each_safe body h s hp = do { pos \<leftarrow> get_cell (First h) hp; hlist_loop_safe body pos s hp }"

text \<open>The loops over entries: an entry is named by its node, which \<open>hlist_entry\<close> converts.\<close>

definition hlist_for_each_entry ::
  "('a \<Rightarrow> 's \<Rightarrow> 'a hheap \<Rightarrow> ('s \<times> 'a hheap) option) \<Rightarrow> 'a \<Rightarrow> 's \<Rightarrow> 'a hheap \<Rightarrow> ('s \<times> 'a hheap) option" where
  "hlist_for_each_entry body h s hp = do { pos \<leftarrow> get_cell (First h) hp; hlist_loop body pos s hp }"

definition hlist_for_each_entry_continue ::
  "('a \<Rightarrow> 's \<Rightarrow> 'a hheap \<Rightarrow> ('s \<times> 'a hheap) option) \<Rightarrow> 'a ptr \<Rightarrow> 's \<Rightarrow> 'a hheap \<Rightarrow> ('s \<times> 'a hheap) option" where
  "hlist_for_each_entry_continue body pos s hp = (case pos of Ptr n \<Rightarrow> do {
       pos \<leftarrow> get_cell (Next n) hp;
       hlist_loop body pos s hp
     }
   | _ \<Rightarrow> None)"

definition hlist_for_each_entry_from ::
  "('a \<Rightarrow> 's \<Rightarrow> 'a hheap \<Rightarrow> ('s \<times> 'a hheap) option) \<Rightarrow> 'a ptr \<Rightarrow> 's \<Rightarrow> 'a hheap \<Rightarrow> ('s \<times> 'a hheap) option" where
  "hlist_for_each_entry_from body pos s hp = hlist_loop body pos s hp"

definition hlist_for_each_entry_safe ::
  "('a \<Rightarrow> 's \<Rightarrow> 'a hheap \<Rightarrow> ('s \<times> 'a hheap) option) \<Rightarrow> 'a \<Rightarrow> 's \<Rightarrow> 'a hheap \<Rightarrow> ('s \<times> 'a hheap) option" where
  "hlist_for_each_entry_safe body h s hp = do { pos \<leftarrow> get_cell (First h) hp; hlist_loop_safe body pos s hp }"

section \<open>Lists in the heap\<close>

text \<open>The nodes \<open>xs\<close> from the cell \<open>c\<close> on, up to a last cell that holds \<open>p\<close>.\<close>

fun hseg :: "'a hheap \<Rightarrow> 'a cell \<Rightarrow> 'a list \<Rightarrow> 'a ptr \<Rightarrow> bool" where
  "hseg hp c [] p \<longleftrightarrow> get_cell c hp = Some p"
| "hseg hp c (n # ns) p \<longleftrightarrow> get_cell c hp = Some (Ptr n) \<and> pprevs hp n = Some c \<and> hseg hp (Next n) ns p"

definition hlist :: "'a hheap \<Rightarrow> 'a \<Rightarrow> 'a list \<Rightarrow> bool" where
  "hlist hp h xs \<longleftrightarrow> distinct xs \<and> hseg hp (First h) xs NULL"

definition allocated :: "'a hheap \<Rightarrow> 'a \<Rightarrow> bool" where
  "allocated hp n \<longleftrightarrow> get_cell (Next n) hp \<noteq> None \<and> pprevs hp n \<noteq> None"

definition end_cell :: "'a cell \<Rightarrow> 'a list \<Rightarrow> 'a cell" where
  "end_cell c xs = (if xs = [] then c else Next (last xs))"


text \<open>The two kinds of store.\<close>

definition ucell :: "'a cell \<Rightarrow> 'a ptr \<Rightarrow> 'a hheap \<Rightarrow> 'a hheap" where
  "ucell c v hp = hp\<lparr>cells := (cells hp)(c \<mapsto> v)\<rparr>"

definition upprev :: "'a \<Rightarrow> 'a cell \<Rightarrow> 'a hheap \<Rightarrow> 'a hheap" where
  "upprev a v hp = hp\<lparr>pprevs := (pprevs hp)(a \<mapsto> v)\<rparr>"

lemma pprevs_stores: "pprevs (ucell c v hp) = pprevs hp" "pprevs (upprev a w hp) = (pprevs hp)(a \<mapsto> w)"
  by (simp_all add: ucell_def upprev_def)

lemma get_cell_ucell:
  "get_cell d (ucell (First a) v hp) = (if d = First a then Some v else get_cell d hp)"
  "get_cell d (ucell (Next a) v hp) = (if d = Next a then Some v else get_cell d hp)"
  "get_cell d (upprev b w hp) = get_cell d hp"
  by (auto simp: get_cell_def ucell_def upprev_def split: cell.splits)

lemma get_cell_end:
  "get_cell d (ucell (end_cell (First h) xs) v hp) = (if d = end_cell (First h) xs then Some v else get_cell d hp)"
  by (simp add: end_cell_def get_cell_ucell)

lemma set_cell_Some: "get_cell c hp = Some p \<Longrightarrow> set_cell c v hp = Some (ucell c v hp)"
  by (simp add: set_cell_def ucell_def)

lemma set_pprev_Some: "pprevs hp a = Some c \<Longrightarrow> set_pprev (Ptr a) v hp = Some (upprev a v hp)"
  by (simp add: set_pprev_def upprev_def)

lemmas hstores = pprevs_stores get_cell_ucell get_cell_end set_cell_Some set_pprev_Some

lemma hseg_append:
  "hseg hp c (xs @ n # ys) p \<longleftrightarrow> hseg hp c xs (Ptr n) \<and> pprevs hp n = Some (end_cell c xs) \<and> hseg hp (Next n) ys p"
  by (induction xs arbitrary: c) (auto simp: end_cell_def)

lemma hseg_end: "hseg hp c xs p \<Longrightarrow> get_cell (end_cell c xs) hp = Some p"
  by (induction xs arbitrary: c) (auto simp: end_cell_def split: if_splits)

text \<open>A change of the last cell changes where the nodes lead to, and nothing else matters that is not a cell or
  a back pointer of the nodes.\<close>

lemma hseg_update:
  assumes "hseg hp c xs p" and "distinct xs" and "c \<notin> Next ` set xs"
    and "\<forall>x \<in> set xs. pprevs hp' x = pprevs hp x"
    and "\<forall>d \<in> insert c (Next ` set xs) - {end_cell c xs}. get_cell d hp' = get_cell d hp"
    and "get_cell (end_cell c xs) hp' = Some q"
  shows "hseg hp' c xs q"
  using assms
proof (induction xs arbitrary: c)
  case (Cons x xs)
  have e: "end_cell c (x # xs) = end_cell (Next x) xs" by (simp add: end_cell_def)
  have "end_cell (Next x) xs \<in> Next ` set (x # xs)" by (cases xs rule: rev_cases) (simp_all add: end_cell_def)
  then have "c \<noteq> end_cell (Next x) xs" using Cons.prems(3) by metis
  then have c: "get_cell c hp' = get_cell c hp" using Cons.prems(5) e by simp
  have "hseg hp' (Next x) xs q"
    using Cons.prems e by (intro Cons.IH) auto
  then show ?case using Cons.prems c by simp
qed (simp add: end_cell_def)

lemma hseg_same:
  assumes "hseg hp c xs p" and "\<forall>x \<in> set xs. pprevs hp' x = pprevs hp x"
    and "\<forall>d \<in> insert c (Next ` set xs). get_cell d hp' = get_cell d hp"
  shows "hseg hp' c xs p"
  using assms by (induction xs arbitrary: c) auto

text \<open>What a list operation leaves alone.\<close>

definition others :: "'a hheap \<Rightarrow> 'a hheap \<Rightarrow> 'a \<Rightarrow> 'a set \<Rightarrow> bool" where
  "others hp hp' h A \<longleftrightarrow> (\<forall>d. d \<notin> insert (First h) (Next ` A) \<longrightarrow> get_cell d hp' = get_cell d hp) \<and>
     (\<forall>x. x \<notin> A \<longrightarrow> pprevs hp' x = pprevs hp x)"

lemma others_hlist:
  assumes "others hp hp' h A" and "hlist hp h' ys" and "h' \<noteq> h" and "set ys \<inter> A = {}"
  shows "hlist hp' h' ys"
proof -
  have "hseg hp' (First h') ys NULL"
    by (rule hseg_same [of hp]) (use assms in \<open>auto simp: others_def hlist_def\<close>)
  then show ?thesis using assms(2) by (simp add: hlist_def)
qed

section \<open>Refinement\<close>

lemma hlist_empty_ok: "hlist hp h xs \<Longrightarrow> hlist_empty h hp = Some (xs = [])"
  by (cases xs) (simp_all add: hlist_def hlist_empty_def)

lemma hlist_member_hashed:
  assumes "hlist hp h xs" and "n \<in> set xs"
  shows "hlist_unhashed n hp = Some False" and "allocated hp n"
proof -
  obtain ys zs where "xs = ys @ n # zs" using assms(2) by (meson split_list)
  then have s: "pprevs hp n = Some (end_cell (First h) ys)" "hseg hp (Next n) zs NULL"
    using assms(1) by (simp_all add: hlist_def hseg_append)
  then show "hlist_unhashed n hp = Some False" by (simp add: hlist_unhashed_def end_cell_def)
  have "get_cell (Next n) hp \<noteq> None" using s(2) by (cases zs) simp_all
  then show "allocated hp n" using s(1) by (simp add: allocated_def)
qed

lemma INIT_HLIST_HEAD_ok: "get_cell (First h) hp = Some p \<Longrightarrow> \<exists>hp'. INIT_HLIST_HEAD h hp = Some hp' \<and> hlist hp' h []"
  by (simp add: INIT_HLIST_HEAD_def hstores hlist_def)

lemma hlist_add_head_ok:
  assumes l: "hlist hp h xs" and n: "allocated hp n" "n \<notin> set xs"
  shows "\<exists>hp'. hlist_add_head n h hp = Some hp' \<and> hlist hp' h (n # xs) \<and> others hp hp' h (set (n # xs))"
proof -
  obtain v w where a: "get_cell (Next n) hp = Some v" "pprevs hp n = Some w" using n(1) by (auto simp: allocated_def)
  show ?thesis
  proof (cases xs)
    case Nil
    then show ?thesis using l a
      by (simp add: hlist_add_head_def hlist_def hstores others_def)
  next
    case (Cons m ys)
    let ?hp = "upprev n (First h) (ucell (First h) (Ptr n) (upprev m (Next n) (ucell (Next n) (Ptr m) hp)))"
    have m: "get_cell (First h) hp = Some (Ptr m)" "pprevs hp m = Some (First h)" "hseg hp (Next m) ys NULL"
      using l Cons by (simp_all add: hlist_def)
    have "hlist_add_head n h hp = Some ?hp"
      using a m n(2) Cons by (simp add: hlist_add_head_def hstores)
    moreover have "hseg ?hp (Next m) ys NULL"
      by (rule hseg_same [OF m(3)]) (use n(2) l Cons in \<open>auto simp: hstores hlist_def\<close>)
    then have "hlist ?hp h (n # xs)" using l n(2) Cons by (auto simp: hlist_def hstores)
    ultimately show ?thesis using Cons by (simp add: others_def hstores)
  qed
qed


text \<open>Unlinking leaves the pointers of the node itself, so that both deletions overwrite them next.\<close>

lemma hlist_unlink_ok:
  assumes l: "hlist hp h (xs @ n # ys)"
  shows "\<exists>hp'. hlist_unlink n hp = Some hp' \<and> hlist hp' h (xs @ ys) \<and> allocated hp' n \<and> others hp hp' h (set (xs @ n # ys))"
proof -
  let ?c = "end_cell (First h) xs"
  have d: "distinct xs" "distinct ys" "n \<notin> set xs" "n \<notin> set ys" "set xs \<inter> set ys = {}"
    using l by (auto simp: hlist_def)
  have s: "hseg hp (First h) xs (Ptr n)" "pprevs hp n = Some ?c" "hseg hp (Next n) ys NULL"
    using l by (simp_all add: hlist_def hseg_append)
  note c = hseg_end [OF s(1)]
  have ne: "?c \<noteq> Next n" using d(3) by (auto simp: end_cell_def)
  have upd: "hseg (ucell ?c v hp) (First h) xs v" for v
    by (rule hseg_update [OF s(1) d(1)]) (auto simp: hstores)
  have mem: "?c \<in> insert (First h) (Next ` set xs)" by (auto simp: end_cell_def)
  show ?thesis
  proof (cases ys)
    case Nil
    then show ?thesis
      using s c d upd [of NULL] ne mem by (auto simp: hlist_unlink_def hstores hlist_def allocated_def others_def)
  next
    case (Cons m zs)
    let ?hp = "upprev m ?c (ucell ?c (Ptr m) hp)"
    have m: "get_cell (Next n) hp = Some (Ptr m)" "pprevs hp m = Some (Next n)" "hseg hp (Next m) zs NULL" "m \<noteq> n"
      using s(3) Cons d by auto
    have "hlist_unlink n hp = Some ?hp" using s(2) c m by (simp add: hlist_unlink_def hstores)
    moreover have "hseg ?hp (First h) xs (Ptr m)"
      by (rule hseg_same [OF upd]) (use d Cons in \<open>auto simp: hstores\<close>)
    moreover have "hseg ?hp (Next m) zs NULL"
      by (rule hseg_same [OF m(3)]) (use d Cons mem in \<open>auto simp: hstores\<close>)
    ultimately show ?thesis
      using d Cons m s(2) ne mem by (auto simp: hlist_def hseg_append hstores allocated_def others_def)
  qed
qed

lemma hlist_overwrite:
  assumes "hlist hp h xs" and "n \<notin> set xs" and "allocated hp n"
  shows "\<exists>hp'. do { hp \<leftarrow> set_cell (Next n) v hp; set_pprev (Ptr n) c hp } = Some hp' \<and> hlist hp' h xs \<and>
    pprevs hp' n = Some c \<and> others hp hp' h {n}"
proof -
  obtain a b where ab: "get_cell (Next n) hp = Some a" "pprevs hp n = Some b" using assms(3) by (auto simp: allocated_def)
  have "hseg (upprev n c (ucell (Next n) v hp)) (First h) xs NULL"
    by (rule hseg_same [of hp]) (use assms in \<open>auto simp: hstores hlist_def\<close>)
  then show ?thesis using ab assms(1) by (simp add: hstores hlist_def others_def)
qed

lemma others_trans:
  "others hp hp' h A \<Longrightarrow> others hp' hp'' h B \<Longrightarrow> B \<subseteq> A \<Longrightarrow> others hp hp'' h A"
  by (auto simp: others_def subset_iff image_iff)

lemma hlist_del_ok:
  assumes "hlist hp h (xs @ n # ys)"
  shows "\<exists>hp'. hlist_del n hp = Some hp' \<and> hlist hp' h (xs @ ys) \<and> others hp hp' h (set (xs @ n # ys))"
proof -
  obtain hp1 where 1: "hlist_unlink n hp = Some hp1" "hlist hp1 h (xs @ ys)" "allocated hp1 n"
    "others hp hp1 h (set (xs @ n # ys))"
    using hlist_unlink_ok [OF assms] by auto
  have "n \<notin> set (xs @ ys)" using assms by (auto simp: hlist_def)
  from hlist_overwrite [OF 1(2) this 1(3), of LIST_POISON1 Cell_POISON2]
  show ?thesis using 1(1,4) by (auto simp: hlist_del_def intro: others_trans)
qed

text \<open>\<open>hlist_del_init\<close> may be called again.\<close>

lemma hlist_del_init_ok:
  assumes "hlist hp h (xs @ n # ys)"
  shows "\<exists>hp'. hlist_del_init n hp = Some hp' \<and> hlist hp' h (xs @ ys) \<and> hlist_unhashed n hp' = Some True \<and>
    hlist_del_init n hp' = Some hp' \<and> others hp hp' h (set (xs @ n # ys))"
proof -
  obtain hp1 where 1: "hlist_unlink n hp = Some hp1" "hlist hp1 h (xs @ ys)" "allocated hp1 n"
    "others hp hp1 h (set (xs @ n # ys))"
    using hlist_unlink_ok [OF assms] by auto
  have n: "n \<notin> set (xs @ ys)" using assms by (auto simp: hlist_def)
  have p: "pprevs hp n = Some (end_cell (First h) xs)" "end_cell (First h) xs \<noteq> Cell_NULL"
    using assms by (simp_all add: hlist_def hseg_append end_cell_def)
  from hlist_overwrite [OF 1(2) n 1(3), of NULL Cell_NULL]
  show ?thesis
    using 1(1,4) p by (auto simp: hlist_del_init_def INIT_HLIST_NODE_def hlist_unhashed_def intro: others_trans)
qed

lemma hlist_add_after_ok:
  assumes l: "hlist hp h (xs @ n # ys)" and a: "allocated hp m" "m \<notin> set (xs @ n # ys)"
  shows "\<exists>hp'. hlist_add_after n m hp = Some hp' \<and> hlist hp' h (xs @ n # m # ys) \<and> others hp hp' h (set (m # xs @ n # ys))"
proof -
  obtain v w where v: "get_cell (Next m) hp = Some v" "pprevs hp m = Some w" using a(1) by (auto simp: allocated_def)
  have d: "distinct xs" "distinct ys" "n \<notin> set xs" "n \<notin> set ys" "set xs \<inter> set ys = {}" "m \<noteq> n" "m \<notin> set xs" "m \<notin> set ys"
    using l a(2) by (auto simp: hlist_def)
  have s: "hseg hp (First h) xs (Ptr n)" "pprevs hp n = Some (end_cell (First h) xs)" "hseg hp (Next n) ys NULL"
    using l by (simp_all add: hlist_def hseg_append)
  show ?thesis
  proof (cases ys)
    case Nil
    let ?hp = "upprev m (Next n) (ucell (Next n) (Ptr m) (ucell (Next m) NULL hp))"
    have "hlist_add_after n m hp = Some ?hp" using s v d Nil by (simp add: hlist_add_after_def hstores)
    moreover have "hseg ?hp (First h) xs (Ptr n)"
      by (rule hseg_same [OF s(1)]) (use d in \<open>auto simp: hstores\<close>)
    ultimately show ?thesis
      using d Nil s(2) by (auto simp: hlist_def hseg_append hstores others_def)
  next
    case (Cons k zs)
    let ?hp = "upprev k (Next m) (upprev m (Next n) (ucell (Next n) (Ptr m) (ucell (Next m) (Ptr k) hp)))"
    have k: "get_cell (Next n) hp = Some (Ptr k)" "pprevs hp k = Some (Next n)" "hseg hp (Next k) zs NULL" "k \<noteq> n" "k \<noteq> m"
      using s(3) Cons d by auto
    have "hlist_add_after n m hp = Some ?hp" using s v d k by (simp add: hlist_add_after_def hstores)
    moreover have "hseg ?hp (First h) xs (Ptr n)"
      by (rule hseg_same [OF s(1)]) (use d Cons in \<open>auto simp: hstores\<close>)
    moreover have "hseg ?hp (Next k) zs NULL"
      by (rule hseg_same [OF k(3)]) (use d Cons in \<open>auto simp: hstores\<close>)
    ultimately show ?thesis
      using d Cons s(2) k by (auto simp: hlist_def hseg_append hstores others_def)
  qed
qed

lemma hlist_add_before_ok:
  assumes l: "hlist hp h (xs @ n # ys)" and a: "allocated hp m" "m \<notin> set (xs @ n # ys)"
  shows "\<exists>hp'. hlist_add_before m n hp = Some hp' \<and> hlist hp' h (xs @ m # n # ys) \<and> others hp hp' h (set (m # xs @ n # ys))"
proof -
  let ?c = "end_cell (First h) xs"
  let ?hp = "ucell ?c (Ptr m) (upprev n (Next m) (ucell (Next m) (Ptr n) (upprev m ?c hp)))"
  obtain v w where v: "get_cell (Next m) hp = Some v" "pprevs hp m = Some w" using a(1) by (auto simp: allocated_def)
  have d: "distinct xs" "distinct ys" "n \<notin> set xs" "n \<notin> set ys" "set xs \<inter> set ys = {}" "m \<noteq> n" "m \<notin> set xs" "m \<notin> set ys"
    using l a(2) by (auto simp: hlist_def)
  have s: "hseg hp (First h) xs (Ptr n)" "pprevs hp n = Some ?c" "hseg hp (Next n) ys NULL"
    using l by (simp_all add: hlist_def hseg_append)
  have c: "get_cell ?c hp = Some (Ptr n)" "?c \<noteq> Next m" "?c \<noteq> Next n" "?c \<in> insert (First h) (Next ` set xs)"
    using hseg_end [OF s(1)] d by (auto simp: end_cell_def)
  have "hlist_add_before m n hp = Some ?hp" using s(2) v c d by (simp add: hlist_add_before_def hstores)
  moreover have "hseg ?hp (First h) xs (Ptr m)"
    by (rule hseg_update [OF s(1) d(1)]) (use d in \<open>auto simp: hstores\<close>)
  moreover have "hseg ?hp (Next n) ys NULL"
    by (rule hseg_same [OF s(3)]) (use d c in \<open>auto simp: hstores\<close>)
  ultimately show ?thesis
    using d c by (auto simp: hlist_def hseg_append hstores others_def)
qed


section \<open>Loops\<close>

lemmas hlist_loop_steps [simp] = hlist_loop.simps [of _ "Ptr _"] hlist_loop.simps [of _ NULL]
  hlist_loop_safe.simps [of _ "Ptr _"] hlist_loop_safe.simps [of _ NULL]

lemma hlist_loop_seg:
  assumes "hseg hp c xs NULL"
  shows "\<exists>p. get_cell c hp = Some p \<and> hlist_loop (\<lambda>n s hp. Some (f n s, hp)) p s hp = Some (fold f xs s, hp)"
  using assms
proof (induction xs arbitrary: c s)
  case (Cons x xs)
  then obtain p where "get_cell (Next x) hp = Some p"
    "hlist_loop (\<lambda>n s hp. Some (f n s, hp)) p (f x s) hp = Some (fold f xs (f x s), hp)"
    by (metis hseg.simps(2))
  then show ?case using Cons.prems by simp
qed simp

text \<open>A loop that changes no pointer visits every node in order and ends.\<close>

lemma hlist_for_each_ok:
  assumes "hlist hp h xs"
  shows "hlist_for_each (\<lambda>n s hp. Some (f n s, hp)) h s hp = Some (fold f xs s, hp)"
  using hlist_loop_seg [of hp "First h" xs f s] assms by (auto simp: hlist_def hlist_for_each_def)

text \<open>From a node on, without it or with it; a search that starts over where it stopped misses nothing.\<close>

lemma hlist_for_each_entry_continue_ok:
  assumes "hlist hp h (us @ x # vs)"
  shows "hlist_for_each_entry_continue (\<lambda>n s hp. Some (f n s, hp)) (Ptr x) s hp = Some (fold f vs s, hp)"
    and "hlist_for_each_entry_from (\<lambda>n s hp. Some (f n s, hp)) (Ptr x) s hp = Some (fold f (x # vs) s, hp)"
proof -
  have "hseg hp (Next x) vs NULL" using assms by (simp add: hlist_def hseg_append)
  then show "hlist_for_each_entry_continue (\<lambda>n s hp. Some (f n s, hp)) (Ptr x) s hp = Some (fold f vs s, hp)"
    "hlist_for_each_entry_from (\<lambda>n s hp. Some (f n s, hp)) (Ptr x) s hp = Some (fold f (x # vs) s, hp)"
    using hlist_loop_seg [of hp "Next x" vs f s] hlist_loop_seg [of hp "Next x" vs f "f x s"]
    by (auto simp: hlist_for_each_entry_continue_def hlist_for_each_entry_from_def)
qed

lemma hlist_entries_resume:
  assumes "hlist hp h (us @ x # vs)"
  shows "hlist_for_each_entry (\<lambda>n s hp. Some (f n s, hp)) h s hp =
    hlist_for_each_entry_continue (\<lambda>n s hp. Some (f n s, hp)) (Ptr x) (fold f (us @ [x]) s) hp"
  using hlist_for_each_ok [OF assms, of f s] hlist_for_each_entry_continue_ok(1) [OF assms, of f "fold f (us @ [x]) s"]
  by (simp add: hlist_for_each_entry_def hlist_for_each_def)

text \<open>A safe loop may delete each node that it visits.\<close>

lemma hlist_for_each_safe_del:
  assumes "hlist hp h xs"
  shows "\<exists>hp'. hlist_for_each_safe (\<lambda>n s hp. map_option (\<lambda>hp. (n # s, hp)) (hlist_del n hp)) h s hp = Some (rev xs @ s, hp') \<and>
    hlist hp' h []"
  using assms
proof (induction xs arbitrary: hp s)
  case Nil
  then show ?case by (simp add: hlist_for_each_safe_def hlist_def)
next
  case (Cons x xs)
  obtain hp1 where 1: "hlist_del x hp = Some hp1" "hlist hp1 h xs"
    using hlist_del_ok [of hp h "[]" x xs] Cons.prems by auto
  have "get_cell (First h) hp = Some (Ptr x)" "get_cell (Next x) hp = get_cell (First h) hp1"
    using Cons.prems 1(2) by (cases xs; simp add: hlist_def)+
  then show ?case
    using Cons.IH [OF 1(2), of "x # s"] 1 by (auto simp: hlist_for_each_safe_def bind_eq_Some_conv)
qed

lemma hlist_for_each_entry_safe_del:
  assumes "hlist hp h xs"
  shows "\<exists>hp'. hlist_for_each_entry_safe (\<lambda>n s hp. map_option (\<lambda>hp. (n # s, hp)) (hlist_del n hp)) h s hp = Some (rev xs @ s, hp') \<and>
    hlist hp' h []"
  using hlist_for_each_safe_del [OF assms] by (simp add: hlist_for_each_entry_safe_def hlist_for_each_safe_def)

end
