(* ===== verification/List_Loops.thy ===== *)
theory List_Loops
  imports Linked_List
begin

text \<open>
  The other loops of \<^verbatim>\<open>list.h\<close>: from a given entry on, backwards, and both with a body that may take out the entry it
  is at.  As in \<open>Linked_List\<close>, the body of a plain loop only reads, and may stop the loop with a value; the body
  of a safe loop changes the heap.
\<close>

section \<open>Definitions\<close>

definition list_for_each :: "('a \<Rightarrow> 'b option option) \<Rightarrow> 'a \<Rightarrow> 'a lheap \<Rightarrow> 'b option option" where
  "list_for_each body head hp = do { h \<leftarrow> fetch hp (Ptr head); for_each body head (nxt h) hp }"

partial_function (option) for_each_prev :: "('a \<Rightarrow> 'b option option) \<Rightarrow> 'a \<Rightarrow> 'a ptr \<Rightarrow> 'a lheap \<Rightarrow> 'b option option" where
  "for_each_prev body head pos hp =
    (if pos = Ptr head then Some None
     else (case pos of Ptr a \<Rightarrow> do {
         r \<leftarrow> body a;
         if r \<noteq> None then Some r
         else do { n \<leftarrow> fetch hp pos; for_each_prev body head (prv n) hp }
       } | _ \<Rightarrow> None))"

definition list_for_each_prev :: "('a \<Rightarrow> 'b option option) \<Rightarrow> 'a \<Rightarrow> 'a lheap \<Rightarrow> 'b option option" where
  "list_for_each_prev body head hp = do { h \<leftarrow> fetch hp (Ptr head); for_each_prev body head (prv h) hp }"

definition list_for_each_entry_reverse :: "('a \<Rightarrow> 'b option option) \<Rightarrow> 'a \<Rightarrow> 'a lheap \<Rightarrow> 'b option option" where
  "list_for_each_entry_reverse body head hp = do { h \<leftarrow> fetch hp (Ptr head); for_each_prev body head (prv h) hp }"

definition list_prepare_entry :: "'a ptr \<Rightarrow> 'a \<Rightarrow> 'a ptr" where
  "list_prepare_entry pos head = (if pos \<noteq> NULL then pos else Ptr head)"

definition list_for_each_entry_continue :: "('a \<Rightarrow> 'b option option) \<Rightarrow> 'a ptr \<Rightarrow> 'a \<Rightarrow> 'a lheap \<Rightarrow> 'b option option" where
  "list_for_each_entry_continue body pos head hp = do { p \<leftarrow> fetch hp pos; for_each body head (nxt p) hp }"

definition list_for_each_safe ::
  "('a \<Rightarrow> 'a lheap \<times> 's \<Rightarrow> ('a lheap \<times> 's) option) \<Rightarrow> 'a \<Rightarrow> 'a lheap \<times> 's \<Rightarrow> ('a lheap \<times> 's) option" where
  "list_for_each_safe body head s = do {
     h \<leftarrow> fetch (fst s) (Ptr head);
     p \<leftarrow> fetch (fst s) (nxt h);
     for_each_safe body head (nxt h) (nxt p) s
   }"

definition list_for_each_entry_safe_continue ::
  "('a \<Rightarrow> 'a lheap \<times> 's \<Rightarrow> ('a lheap \<times> 's) option) \<Rightarrow> 'a ptr \<Rightarrow> 'a \<Rightarrow> 'a lheap \<times> 's \<Rightarrow> ('a lheap \<times> 's) option" where
  "list_for_each_entry_safe_continue body pos head s = do {
     p \<leftarrow> fetch (fst s) pos;
     n \<leftarrow> fetch (fst s) (nxt p);
     for_each_safe body head (nxt p) (nxt n) s
   }"

partial_function (option) for_each_safe_prev ::
  "('a \<Rightarrow> 'a lheap \<times> 's \<Rightarrow> ('a lheap \<times> 's) option) \<Rightarrow> 'a \<Rightarrow> 'a ptr \<Rightarrow> 'a ptr \<Rightarrow> 'a lheap \<times> 's \<Rightarrow> ('a lheap \<times> 's) option" where
  "for_each_safe_prev body head pos n s =
    (if pos = Ptr head then Some s
     else (case pos of Ptr a \<Rightarrow> do {
         s \<leftarrow> body a s;
         m \<leftarrow> fetch (fst s) n;
         for_each_safe_prev body head n (prv m) s
       } | _ \<Rightarrow> None))"

definition list_for_each_entry_safe_reverse ::
  "('a \<Rightarrow> 'a lheap \<times> 's \<Rightarrow> ('a lheap \<times> 's) option) \<Rightarrow> 'a \<Rightarrow> 'a lheap \<times> 's \<Rightarrow> ('a lheap \<times> 's) option" where
  "list_for_each_entry_safe_reverse body head s = do {
     h \<leftarrow> fetch (fst s) (Ptr head);
     p \<leftarrow> fetch (fst s) (prv h);
     for_each_safe_prev body head (prv h) (prv p) s
   }"

section \<open>Plain loops\<close>

lemma list_for_each_ok: "dll hp h xs \<Longrightarrow> list_for_each body h hp = first_of body xs"
  using list_for_each_entry_ok unfolding list_for_each_entry_def list_for_each_def .

lemma for_each_prev_from:
  "dll hp h (us @ vs) \<Longrightarrow> for_each_prev body h (Ptr (last (h # us))) hp = first_of body (rev us)"
proof (induction us arbitrary: vs rule: rev_induct)
  case Nil
  then show ?case by (simp add: for_each_prev.simps)
next
  case (snoc u us)
  have d: "dll hp h (us @ u # vs)" using snoc.prems by simp
  then have u: "u \<noteq> h" by (auto simp: dll_def)
  obtain n where n: "hp u = Some n" "prv n = Ptr (last (h # us))" using entry_pointers [OF d] by blast
  have "for_each_prev body h (Ptr (last (h # us))) hp = first_of body (rev us)"
    by (rule snoc.IH [OF d])
  then show ?case
    using u n by (subst for_each_prev.simps) (auto split: Option.bind_splits)
qed

lemma list_for_each_entry_reverse_ok:
  assumes "dll hp h xs"
  shows "list_for_each_entry_reverse body h hp = first_of body (rev xs)" and "list_for_each_prev body h hp = first_of body (rev xs)"
  using head_pointers [OF assms] for_each_prev_from [of hp h xs "[]" body] assms
  by (auto simp: list_for_each_entry_reverse_def list_for_each_prev_def)

text \<open>From an entry on, or from the head when there is none.\<close>

lemma list_for_each_entry_continue_ok:
  shows "dll hp h (us @ x # vs) \<Longrightarrow> list_for_each_entry_continue body (list_prepare_entry (Ptr x) h) h hp = first_of body vs"
    and "dll hp h vs \<Longrightarrow> list_for_each_entry_continue body (list_prepare_entry NULL h) h hp = first_of body vs"
proof -
  show "list_for_each_entry_continue body (list_prepare_entry (Ptr x) h) h hp = first_of body vs" if "dll hp h (us @ x # vs)"
    using entry_pointers [OF that] for_each_from [of hp h "us @ [x]" vs body] that
    by (auto simp: list_for_each_entry_continue_def list_prepare_entry_def)
  show "list_for_each_entry_continue body (list_prepare_entry NULL h) h hp = first_of body vs" if "dll hp h vs"
    using head_pointers [OF that] for_each_from [of hp h "[]" vs body] that
    by (auto simp: list_for_each_entry_continue_def list_prepare_entry_def)
qed

section \<open>Safe loops\<close>

lemma list_for_each_entry_safe_continue_ok:
  assumes "\<And>hp s xs. I xs (hp, s) \<Longrightarrow> \<exists>us. dll hp h (us @ xs)"
    and "\<And>a xs hp s. I (a # xs) (hp, s) \<Longrightarrow> ok (body a (hp, s)) (I xs)"
    and "I xs (hp, s)" and "dll hp h (us @ x # xs)"
  shows "ok (list_for_each_entry_safe_continue body (Ptr x) h (hp, s)) (I [])"
proof -
  obtain n where n: "hp x = Some n" "nxt n = Ptr (hd (xs @ [h]))" using entry_pointers [OF assms(4)] by blast
  obtain m where m: "hp (hd (xs @ [h])) = Some m" "xs \<noteq> [] \<Longrightarrow> nxt m = Ptr (hd (tl xs @ [h]))"
    using assms(4) entry_or_head [of hp h "us @ [x]" xs] by auto
  show ?thesis
    using for_each_safe_rest [where I = I and body = body and h = h, OF assms(1-3) m(2)] n m(1)
    by (simp add: list_for_each_entry_safe_continue_def)
qed

lemma list_for_each_safe_ok:
  assumes "\<And>hp s xs. I xs (hp, s) \<Longrightarrow> dll hp h xs"
    and "\<And>a xs hp s. I (a # xs) (hp, s) \<Longrightarrow> ok (body a (hp, s)) (I xs)" and "I xs s"
  shows "ok (list_for_each_safe body h s) (I [])"
  using list_for_each_entry_safe_ok [where I = I and body = body and h = h, OF assms] unfolding list_for_each_entry_safe_def list_for_each_safe_def .

text \<open>Backwards, \<open>I xs\<close> says that the nodes still to visit are \<open>xs\<close> in this order.\<close>

lemma entry_or_head_prev:
  assumes "dll hp h (rev xs @ vs)"
  obtains m where "hp (hd (xs @ [h])) = Some m" "xs \<noteq> [] \<Longrightarrow> prv m = Ptr (hd (tl xs @ [h]))"
proof (cases xs)
  case Nil
  then show ?thesis using head_pointers [OF assms] that by auto
next
  case (Cons y ys)
  have "last (h # rev ys) = hd (ys @ [h])" by (cases ys) simp_all
  then show ?thesis using entry_pointers [of hp h "rev ys" y vs] assms Cons that by auto
qed

lemma for_each_safe_prev_rest:
  assumes "\<And>hp s xs. I xs (hp, s) \<Longrightarrow> \<exists>vs. dll hp h (rev xs @ vs)"
    and "\<And>a xs hp s. I (a # xs) (hp, s) \<Longrightarrow> ok (body a (hp, s)) (I xs)"
    and "I xs s" and "xs \<noteq> [] \<Longrightarrow> n = Ptr (hd (tl xs @ [h]))"
  shows "ok (for_each_safe_prev body h (Ptr (hd (xs @ [h]))) n s) (I [])"
  using assms(3,4)
proof (induction xs arbitrary: n s)
  case Nil
  then show ?case by (simp add: for_each_safe_prev.simps)
next
  case (Cons a xs)
  obtain hp t where s: "s = (hp, t)" by (cases s)
  obtain vs where "dll hp h (rev (a # xs) @ vs)" using assms(1) Cons.prems(1) unfolding s by blast
  then have a: "a \<noteq> h" by (auto simp: dll_def)
  have n: "n = Ptr (hd (xs @ [h]))" using Cons.prems(2) by simp
  obtain hp' t' where b: "body a s = Some (hp', t')" "I xs (hp', t')"
    using assms(2) Cons.prems(1) by (fastforce simp: s ok_def)
  obtain vs' where d: "dll hp' h (rev xs @ vs')" using assms(1) b(2) by blast
  obtain m where m: "hp' (hd (xs @ [h])) = Some m" "xs \<noteq> [] \<Longrightarrow> prv m = Ptr (hd (tl xs @ [h]))"
    using d that by (rule entry_or_head_prev)
  have "ok (for_each_safe_prev body h n (prv m) (hp', t')) (I [])"
    unfolding n by (rule Cons.IH [OF b(2) m(2)])
  then show ?case
    using a b(1) m(1) n by (subst for_each_safe_prev.simps) simp
qed

lemma list_for_each_entry_safe_reverse_ok:
  assumes "\<And>hp s xs. I xs (hp, s) \<Longrightarrow> \<exists>vs. dll hp h (rev xs @ vs)"
    and "\<And>a xs hp s. I (a # xs) (hp, s) \<Longrightarrow> ok (body a (hp, s)) (I xs)"
    and "I xs (hp, s)" and "dll hp h (rev xs)"
  shows "ok (list_for_each_entry_safe_reverse body h (hp, s)) (I [])"
proof -
  have "last (h # rev xs) = hd (xs @ [h])" by (cases xs) simp_all
  then obtain n where n: "hp h = Some n" "prv n = Ptr (hd (xs @ [h]))" using head_pointers [OF assms(4)] by auto
  obtain m where m: "hp (hd (xs @ [h])) = Some m" "xs \<noteq> [] \<Longrightarrow> prv m = Ptr (hd (tl xs @ [h]))"
    using assms(4) entry_or_head_prev [of hp h xs "[]"] by auto
  show ?thesis
    using for_each_safe_prev_rest [where I = I and body = body and h = h, OF assms(1-3) m(2)] n m(1)
    by (simp add: list_for_each_entry_safe_reverse_def)
qed

text \<open>The loop that empties a list, in both directions, with \<open>list_del\<close> as its body.\<close>

lemma empty_by_loop:
  assumes "dll hp h xs"
  shows "ok (list_for_each_safe (\<lambda>a (hp, s). map_option (\<lambda>hp. (hp, a # s)) (list_del (Ptr a) hp)) h (hp, []))
      (\<lambda>(hp', s). dll hp' h [] \<and> s = rev xs)"
    and "ok (list_for_each_entry_safe_reverse (\<lambda>a (hp, s). map_option (\<lambda>hp. (hp, a # s)) (list_del (Ptr a) hp)) h (hp, []))
      (\<lambda>(hp', s). dll hp' h [] \<and> s = xs)"
proof -
  let ?body = "\<lambda>a (hp, s). map_option (\<lambda>hp. (hp, a # s)) (list_del (Ptr a) hp)"
  have 1: "ok (?body a (hp, s)) (\<lambda>(hp', s'). dll hp' h (us @ vs) \<and> s' = a # s)" if "dll hp h (us @ a # vs)" for a hp s us vs
    using list_del_ok [OF that] by (auto simp: ok_def)
  show "ok (list_for_each_safe ?body h (hp, [])) (\<lambda>(hp', s). dll hp' h [] \<and> s = rev xs)"
    using list_for_each_safe_ok [where I = "\<lambda>ys (hp, s). dll hp h ys \<and> rev s @ ys = xs" and body = ?body and h = h and xs = xs and s = "(hp, [])"]
      1 [of _ "[]"] assms by (fastforce simp: ok_def)
  show "ok (list_for_each_entry_safe_reverse ?body h (hp, [])) (\<lambda>(hp', s). dll hp' h [] \<and> s = xs)"
    using list_for_each_entry_safe_reverse_ok [where I = "\<lambda>ys (hp, s). dll hp h (rev ys) \<and> rev ys @ s = xs" and body = ?body and h = h
        and xs = "rev xs" and hp = hp and s = "[]"] 1 [of _ _ _ "[]"] assms
    by (fastforce simp: ok_def intro: exI [of _ "[]"])
qed

end
