(* ===== verification/Ratelimit.thy ===== *)
theory Ratelimit
  imports Utils
begin

text \<open>
  The rate limiter of the log macros (\<^verbatim>\<open>utils.c\<close>) over a sequence of calls: it never prints more than
  \<open>burst\<close> messages in one window, and every message that it suppressed is either still counted in the
  state or has been reported by a line with the number of suppressed messages.
\<close>

text \<open>A call with the three clock values it may read; the result lists whether each call printed and
  the number in the line it reported.\<close>

fun rl_run :: "ratelimit_state \<Rightarrow> (timespec \<times> timespec \<times> timespec) list \<Rightarrow> (bool \<times> int option) list \<times> ratelimit_state" where
  "rl_run rs [] = ([], rs)"
| "rl_run rs ((t1, t2, t3) # ts) =
    (let (b, rs', msg) = ratelimit rs t1 t2 t3; (out, rs'') = rl_run rs' ts in ((b, msg) # out, rs''))"

definition suppressed :: "(bool \<times> int option) list \<Rightarrow> int" where
  "suppressed out = int (length (filter (\<lambda>(b, _). \<not> b) out))"

definition reported :: "(bool \<times> int option) list \<Rightarrow> int" where
  "reported out = sum_list (map (\<lambda>(_, msg). case msg of None \<Rightarrow> 0 | Some n \<Rightarrow> n) out)"

definition printed_in :: "(bool \<times> int option) list \<Rightarrow> int" where
  "printed_in out = int (length (filter fst out))"

lemma rl_run_reports:
  assumes "interval_s rs \<noteq> 0" and "rl_run rs ts = (out, rs')"
  shows "missed rs + suppressed out = reported out + missed rs'"
  using assms
proof (induction ts arbitrary: rs out)
  case (Cons t ts)
  obtain t1 t2 t3 where t: "t = (t1, t2, t3)" by (cases t)
  obtain b rs1 msg where r: "ratelimit rs t1 t2 t3 = (b, rs1, msg)" by (rule prod_cases3)
  obtain o1 where o: "rl_run rs1 ts = (o1, rs')" "out = (b, msg) # o1"
    using Cons.prems(2) by (auto simp: t r split: prod.splits)
  have one: "interval_s rs1 = interval_s rs"
    "missed rs + (if b then 0 else 1) = (case msg of None \<Rightarrow> 0 | Some n \<Rightarrow> n) + missed rs1"
    using r Cons.prems(1) by (auto simp: ratelimit_def Let_def split: if_splits)
  then have "missed rs1 + suppressed o1 = reported o1 + missed rs'"
    using Cons.IH [OF _ o(1)] Cons.prems(1) by simp
  then show ?case
    using one(2) by (auto simp: o(2) suppressed_def reported_def split: if_splits)
qed (simp add: suppressed_def reported_def)

text \<open>No call of a window ends it.\<close>

definition in_window :: "ratelimit_state \<Rightarrow> (timespec \<times> timespec \<times> timespec) list \<Rightarrow> bool" where
  "in_window rs ts \<longleftrightarrow> tv_sec (begin_t rs) \<noteq> 0 \<and> (\<forall>(t1, t2, t3) \<in> set ts. \<not> time_is_before (begin_t rs) (interval_s rs) t2)"

lemma rl_run_burst:
  assumes "interval_s rs \<noteq> 0" and "in_window rs ts" and "printed rs \<le> burst rs" and "rl_run rs ts = (out, rs')"
  shows "printed rs + printed_in out \<le> burst rs"
  using assms
proof (induction ts arbitrary: rs out)
  case (Cons t ts)
  obtain t1 t2 t3 where t: "t = (t1, t2, t3)" by (cases t)
  obtain b rs1 msg where r: "ratelimit rs t1 t2 t3 = (b, rs1, msg)" by (rule prod_cases3)
  obtain o1 where o: "rl_run rs1 ts = (o1, rs')" "out = (b, msg) # o1"
    using Cons.prems(4) by (auto simp: t r split: prod.splits)
  have w: "tv_sec (begin_t rs) \<noteq> 0" "\<not> time_is_before (begin_t rs) (interval_s rs) t2"
    using Cons.prems(2) by (auto simp: in_window_def t)
  have one: "interval_s rs1 = interval_s rs" "burst rs1 = burst rs" "begin_t rs1 = begin_t rs"
    "printed rs1 = printed rs + (if b then 1 else 0)" "printed rs1 \<le> burst rs1"
    using r w Cons.prems(1,3) by (auto simp: ratelimit_def Let_def split: if_splits)
  then have "printed rs1 + printed_in o1 \<le> burst rs1"
    using Cons.IH [OF _ _ _ o(1)] Cons.prems(1,2) by (simp add: in_window_def)
  then show ?case using one by (simp add: o(2) printed_in_def split: if_splits)
qed (simp add: printed_in_def)

end
