(* ===== verification/Mrp_Log.thy ===== *)
theory Mrp_Log
  imports Mrp_Client Ratelimit
begin

text \<open>
  The log macros of \<^verbatim>\<open>utils.h\<close>.  A call gives the lines that it prints: none, when the debug level is too low or the
  rate limiter suppresses it.  The formatted arguments are one string, and the name of the program, of the
  calling function and its place are parameters.
\<close>

record site =
  NAME :: string
  s_func :: string
  s_file :: string
  s_line :: nat

text \<open>\<open>%ld.%09ld\<close>\<close>

definition pad9 :: "string \<Rightarrow> string" where
  "pad9 s = replicate (9 - length s) (CHR ''0'') @ s"

definition stamp :: "timespec \<Rightarrow> string" where
  "stamp t = dec_of_int (tv_sec t) @ ''.'' @ pad9 (dec_of_int (tv_nsec t)) @ '' ''"

definition newline :: string where "newline = [CHR 0x0A]"

definition message :: "int \<Rightarrow> site \<Rightarrow> timespec \<Rightarrow> int \<Rightarrow> string \<Rightarrow> string list" where
  "message debug_level w t layout str =
    (if layout = 0 then [''['' @ NAME w @ ''] '' @ str @ newline]
     else if layout = 1 \<or> layout = 2
     then if debug_level < layout then []
          else [stamp t @ ''['' @ NAME w @ ''] '' @ s_func w @ '': '' @ str @ newline]
     else if debug_level \<ge> layout then []
          else [stamp t @ ''['' @ NAME w @ ''](''@ s_file w @ ''@'' @ dec_of_nat (s_line w) @ '') '' @ s_func w @ '': '' @ str @ newline])"

definition pr_err :: "int \<Rightarrow> site \<Rightarrow> timespec \<Rightarrow> string \<Rightarrow> string list" where
  "pr_err dl w t str = message dl w t 0 str"

definition pr_warn :: "int \<Rightarrow> site \<Rightarrow> timespec \<Rightarrow> string \<Rightarrow> string list" where
  "pr_warn dl w t str = message dl w t 0 str"

definition pr_info :: "int \<Rightarrow> site \<Rightarrow> timespec \<Rightarrow> string \<Rightarrow> string list" where
  "pr_info dl w t str = message dl w t 0 str"

definition pr_debug :: "int \<Rightarrow> site \<Rightarrow> timespec \<Rightarrow> string \<Rightarrow> string list" where
  "pr_debug dl w t str = message dl w t 1 str"

definition pr_debug_v :: "int \<Rightarrow> site \<Rightarrow> timespec \<Rightarrow> string \<Rightarrow> string list" where
  "pr_debug_v dl w t str = message dl w t 2 str"

text \<open>With a rate limiter of its own for each place; the line of the limiter about suppressed messages does not
  depend on the debug level.\<close>

definition ratelimit_line :: "site \<Rightarrow> int \<Rightarrow> string" where
  "ratelimit_line w n = ''['' @ NAME w @ ''] '' @ s_func w @ '': '' @ dec_of_int n @ '' messages suppressed'' @ newline"

definition message_ratelimit ::
  "int \<Rightarrow> site \<Rightarrow> timespec \<times> timespec \<times> timespec \<times> timespec \<Rightarrow> int \<Rightarrow> string \<Rightarrow> ratelimit_state \<Rightarrow> string list \<times> ratelimit_state" where
  "message_ratelimit dl w ts layout str rs = (
     let (t1, t2, t3, t) = ts; (b, rs, msg) = ratelimit rs t1 t2 t3
     in ((case msg of None \<Rightarrow> [] | Some n \<Rightarrow> [ratelimit_line w n]) @ (if b then message dl w t layout str else []), rs))"

definition pr_warn_ratelimit where
  "pr_warn_ratelimit dl w ts str rs = message_ratelimit dl w ts 0 str rs"

definition pr_debug_ratelimit where
  "pr_debug_ratelimit dl w ts str rs = message_ratelimit dl w ts 1 str rs"

text \<open>A failed check prints its condition, and ends the process (\<open>None\<close>) when it is fatal.\<close>

definition check_failed :: "int \<Rightarrow> site \<Rightarrow> timespec \<Rightarrow> string \<Rightarrow> bool \<Rightarrow> string list \<times> unit option" where
  "check_failed dl w t condition do_exit =
     (pr_err dl w t (''fatal error in '' @ s_func w @ ''(): '' @ condition), if do_exit then None else Some ())"

definition check_on :: "int \<Rightarrow> site \<Rightarrow> timespec \<Rightarrow> bool \<Rightarrow> string \<Rightarrow> bool \<Rightarrow> string list \<times> unit option" where
  "check_on dl w t cond condition do_exit = (if cond then check_failed dl w t condition do_exit else ([], Some ()))"

definition BUG_ON where "BUG_ON dl w t cond condition = check_on dl w t cond condition True"
definition WARN_ON where "WARN_ON dl w t cond condition = check_on dl w t cond condition False"

section \<open>What is printed\<close>

lemma message_levels:
  "length (pr_err dl w t str) = 1" "length (pr_warn dl w t str) = 1" "length (pr_info dl w t str) = 1"
  "pr_debug dl w t str \<noteq> [] \<longleftrightarrow> 1 \<le> dl" "pr_debug_v dl w t str \<noteq> [] \<longleftrightarrow> 2 \<le> dl"
  by (auto simp: pr_err_def pr_warn_def pr_info_def pr_debug_def pr_debug_v_def message_def)

text \<open>The layouts above 2 are printed at the lower levels only.\<close>

lemma message_other_layouts: "layout \<notin> {0, 1, 2} \<Longrightarrow> message dl w t layout str \<noteq> [] \<longleftrightarrow> dl < layout"
  by (auto simp: message_def)

lemma checks:
  "snd (BUG_ON dl w t cond c) = None \<longleftrightarrow> cond" "snd (WARN_ON dl w t cond c) = Some ()"
  "fst (BUG_ON dl w t cond c) \<noteq> [] \<longleftrightarrow> cond" "fst (WARN_ON dl w t cond c) \<noteq> [] \<longleftrightarrow> cond"
  using message_levels(1) [of dl w t]
  by (auto simp: BUG_ON_def WARN_ON_def check_on_def check_failed_def dest: arg_cong [of _ _ length])

text \<open>The lines of a sequence of rate limited calls: in one window no more than \<open>burst\<close> messages come out, and no
  line about suppressed ones.\<close>

fun log_run ::
  "int \<Rightarrow> site \<Rightarrow> int \<Rightarrow> ratelimit_state \<Rightarrow> ((timespec \<times> timespec \<times> timespec \<times> timespec) \<times> string) list \<Rightarrow> string list \<times> ratelimit_state" where
  "log_run dl w layout rs [] = ([], rs)"
| "log_run dl w layout rs ((ts, str) # cs) =
    (let (l, rs) = message_ratelimit dl w ts layout str rs; (l', rs) = log_run dl w layout rs cs in (l @ l', rs))"

definition log_times :: "((timespec \<times> timespec \<times> timespec \<times> timespec) \<times> string) list \<Rightarrow> (timespec \<times> timespec \<times> timespec) list" where
  "log_times cs = map (\<lambda>((t1, t2, t3, t), str). (t1, t2, t3)) cs"

lemma message_one: "length (message dl w t layout str) \<le> 1"
  by (simp add: message_def)

lemma log_run_lines:
  assumes "rl_run rs (log_times cs) = (out, rs')"
  shows "snd (log_run dl w layout rs cs) = rs' \<and>
    length (fst (log_run dl w layout rs cs)) \<le> length (filter fst out) + length (filter (\<lambda>x. snd x \<noteq> None) out)"
  using assms
proof (induction cs arbitrary: rs out)
  case (Cons c cs)
  obtain t1 t2 t3 t str where c: "c = ((t1, t2, t3, t), str)" by (metis prod.collapse)
  obtain b rs1 msg where r: "ratelimit rs t1 t2 t3 = (b, rs1, msg)" by (rule prod_cases3)
  obtain o1 where o: "rl_run rs1 (log_times cs) = (o1, rs')" "out = (b, msg) # o1"
    using Cons.prems by (auto simp: c r log_times_def split: prod.splits)
  show ?case
    using Cons.IH [OF o(1)] message_one [of dl w t layout str]
    by (auto simp: c r o(2) message_ratelimit_def split: prod.splits option.splits)
qed (simp add: log_times_def)

lemma rl_run_window_quiet:
  assumes "interval_s rs \<noteq> 0" and "in_window rs ts" and "rl_run rs ts = (out, rs')"
  shows "filter (\<lambda>x. snd x \<noteq> None) out = []"
  using assms
proof (induction ts arbitrary: rs out)
  case (Cons t ts)
  obtain t1 t2 t3 where t: "t = (t1, t2, t3)" by (cases t)
  obtain b rs1 msg where r: "ratelimit rs t1 t2 t3 = (b, rs1, msg)" by (rule prod_cases3)
  obtain o1 where o: "rl_run rs1 ts = (o1, rs')" "out = (b, msg) # o1"
    using Cons.prems(3) by (auto simp: t r split: prod.splits)
  have "tv_sec (begin_t rs) \<noteq> 0" "\<not> time_is_before (begin_t rs) (interval_s rs) t2"
    using Cons.prems(2) by (auto simp: in_window_def t)
  then have one: "msg = None" "interval_s rs1 = interval_s rs" "begin_t rs1 = begin_t rs"
    using r Cons.prems(1) by (auto simp: ratelimit_def Let_def split: if_splits)
  then show ?case
    using Cons.IH [OF _ _ o(1)] Cons.prems(1,2) by (simp add: o(2) in_window_def)
qed simp

lemma log_run_burst:
  assumes "interval_s rs \<noteq> 0" and "in_window rs (log_times cs)" and "printed rs \<le> burst rs"
  shows "printed rs + int (length (fst (log_run dl w layout rs cs))) \<le> burst rs"
proof -
  obtain out rs' where r: "rl_run rs (log_times cs) = (out, rs')" by (cases "rl_run rs (log_times cs)")
  have "length (fst (log_run dl w layout rs cs)) \<le> length (filter fst out)"
    using log_run_lines [OF r, of dl w layout] unfolding rl_run_window_quiet [OF assms(1,2) r] by simp
  moreover have "printed rs + int (length (filter fst out)) \<le> burst rs"
    using rl_run_burst [OF assms r] by (simp add: printed_in_def)
  ultimately show ?thesis by linarith
qed

end
