(* ===== verification/Spec2Isabelle.thy ===== *)
theory Spec2Isabelle
  imports Mrp_Example Mrp_Process Mrp_Instances Nl_Driver Nl_File Nl_Ext_Ack Nl_Append Mrp_Dbus Hash_List List_Loops Mrp_Log
begin

text \<open>
  \<^bold>\<open>The program.\<close>  \<^verbatim>\<open>umrp\<close> is a user space daemon for the Media Redundancy Protocol (IEC 62439-2): Ethernet rings
  in which one node, the ring manager (MRM), keeps one of its two ring ports blocked as long as the ring
  is closed, while clients (MRC) pass frames on and report their links; an auto-manager (MRA) elects the
  manager; a second, similar protocol (MIM and MIC) supervises an interconnection between two rings.
  \<^verbatim>\<open>mrp_server\<close> is the daemon and \<^verbatim>\<open>mrp\<close> its command line client.  Every event of the daemon is a call of one
  handler by the event loop, which runs to its end: a frame from the packet socket, the expiry of a
  timer, a datagram with link notifications of the kernel, or a control message of the client.

  \<^bold>\<open>Theories and sources.\<close>
  \<^item> \<open>Prelude\<close>: bytes, words and byte order; \<open>ok m Q\<close>, which says that a computation does not crash and its
    result satisfies \<open>Q\<close>; the locale \<open>codec\<close>, the contract of a struct and its layout in memory.
  \<^item> \<open>Utils\<close>, \<open>Ratelimit\<close>, \<open>Mrp_Log\<close>: \<^verbatim>\<open>utils.c\<close>, \<^verbatim>\<open>utils.h\<close> (addresses, frame buffers, the rate limiter of the log, the
    log macros with the lines that they print).
  \<^item> \<open>Mrp_Types\<close>, \<open>Mrp_Pdu\<close>: the enumerations of \<^verbatim>\<open>mrp_bridge.h\<close> and \<^verbatim>\<open>utils.h\<close>, and the headers of \<^verbatim>\<open>pdu.h\<close> with their
    layouts; every header is an interpretation of \<open>codec\<close>.
  \<^item> \<open>Mrp_State\<close>: \<open>struct mrp\<close> and \<open>struct mrp_port\<close> of \<^verbatim>\<open>state_machine.h\<close> as the records \<open>mrp\<close> and \<open>mrp_port\<close>.
    The state \<open>st\<close> of an instance has the record, the memory of its port objects (a map from the three objects
    that an instance may own, so that the two pointers \<open>p_port\<close> and \<open>s_port\<close> can be swapped and a NULL or
    freed port is \<open>None\<close>), and the log of effects (frames, driver requests, timer calls), in order.
    The environment \<open>env\<close> holds what the code asks the system: memory, clock, interfaces, driver results,
    libev, and the contents of uninitialised memory.
  \<^item> \<open>Mrp_Send\<close>, \<open>Mrp_Timer\<close>, \<open>Mrp_Expire\<close>, \<open>Mrp_Ring\<close>, \<open>Mrp_Inter\<close>, \<open>Mrp_Forward\<close>, \<open>Mrp_Link\<close>, \<open>Mrp_Config\<close>:
    \<^verbatim>\<open>state_machine.c\<close> and \<^verbatim>\<open>timer.c\<close>, one definition for each function, in the order of the calls: composing
    frames, starting and stopping timers, their expiry, reception of ring and of interconnection frames,
    dropping and forwarding, link changes, recovery profiles and roles.
  \<^item> \<open>Mrp_Daemon\<close>: the list of instances (\<open>mrp_find\<close>, \<open>mrp_add\<close>, \<open>mrp_del\<close>, \<open>mrp_get\<close>, \<open>mrp_uninit\<close>,
    \<open>mrp_recv\<close>, \<open>mrp_get_port\<close>).  A timer that runs when its instance is freed goes to the list \<open>stale\<close>.
  \<^item> \<open>Mrp_Netlink\<close>, \<open>Mrp_Listen\<close>, \<open>Mrp_Server\<close>: attributes and \<open>rtnl_listen\<close> of \<^verbatim>\<open>libnetlink.c\<close>, and
    \<open>netlink_listen\<close> of \<^verbatim>\<open>server_cmds.c\<close>.
  \<^item> \<open>Nl_Message\<close>, \<open>Mrp_Talk\<close>: \<open>rtnl_open\<close>, \<open>rtnl_recvmsg\<close> and \<open>rtnl_talk\<close> of \<^verbatim>\<open>libnetlink.c\<close>, which send the requests of
    the netlink driver; \<open>Nl_Driver\<close> puts the driver on top of them.
  \<^item> \<open>Nl_Dump\<close>, \<open>Nl_File\<close>, \<open>Nl_Ext_Ack\<close>, \<open>Nl_Append\<close>: the rest of \<^verbatim>\<open>libnetlink.c\<close>, most of which the programs link but do not
    call: the requests for a dump, the loop over its answer, reading an answer from a file, the reports of
    errors with the texts of the kernel (over libmnl, whose functions are parameters), and the other
    functions that append, nest and read attributes.
  \<^item> \<open>Mrp_Ctl\<close>, \<open>Mrp_Client\<close>: the control protocol of \<^verbatim>\<open>utils.h\<close> and \<^verbatim>\<open>server_socket.c\<close>, and the client \<^verbatim>\<open>mrp.c\<close>.
  \<^item> \<open>Mrp_Ifdriver\<close>: \<^verbatim>\<open>ifdriver_netlink.c\<close> and \<^verbatim>\<open>ifdriver_kbact.c\<close>; both interpret the locale \<open>ifdriver\<close>.
  \<^item> \<open>Mrp_Dbus\<close>: \<^verbatim>\<open>dbus.c\<close>, the signals of changes of port states.
  \<^item> \<open>Mrp_System\<close>: the filter of \<^verbatim>\<open>packet.c\<close>, and the daemon as a transition system (\<open>step\<close>, \<open>reachable\<close>).
  \<^item> \<open>Mrp_Main\<close>: \<open>main\<close> of both programs: options, the order of the initialisations and of the clean-up
    (\<^verbatim>\<open>mrp_server.c\<close>, \<^verbatim>\<open>server_socket.c\<close>, \<^verbatim>\<open>server_cmds.c\<close>, \<^verbatim>\<open>packet.c\<close>), and the client from its command line to the answer.
  \<^item> \<open>Mrp_Process\<close>: the addresses of the control sockets, the descriptor of the client, signals and the clock.
  \<^item> \<open>Linked_List\<close>, \<open>List_Loops\<close>, \<open>Hash_List\<close>, \<open>Mrp_Instances\<close>: the two kinds of lists of \<^verbatim>\<open>list.h\<close> on a heap of nodes
    with all their loops, and the functions of \<^verbatim>\<open>state_machine.c\<close> that search and change the list of instances, over these pointers.

  A crash (a NULL or freed object, a store outside of an array, a mutex taken twice) is the value \<open>None\<close>;
  an error that the code returns is a number or a branch of a sum type.  Machine integers are words
  of their width; \<open>int\<close> stands for C integers that are only compared or returned.

  \<^bold>\<open>What is shown.\<close>
  \<^item> \<open>Mrp_Send_Spec\<close>: every composing function equals one specification, \<open>send_pdu\<close>, of the layout it sends.
  \<^item> \<open>Mrp_Wp\<close>, \<open>Mrp_Inv\<close>, \<open>Mrp_Inv_Recv\<close>, \<open>Mrp_Inv_Link\<close>, \<open>Mrp_Inv_Timer\<close>, \<open>Mrp_Inv_Config\<close>: the invariant
    \<open>mrp_inv\<close> of an instance, and that every handler keeps it and does not crash.
  \<^item> \<open>Mrp_Daemon_Inv\<close>, \<open>Mrp_Events\<close>, \<open>Mrp_Registry\<close>, \<open>Mrp_Add\<close>, \<open>Mrp_System\<close>: the invariant of the daemon, the
    registry that the list of instances implements (the locale \<open>registry\<close>), and safety of every
    reachable state.
  \<^item> \<open>Mrp_Protocol\<close>, \<open>Mrp_Relay\<close>, \<open>Mrp_Elect\<close>: what the protocol achieves: detection of failures after a known
    number of expiries, the table that forwarding implements, the manager's recognition of its own frames,
    the recovery times, the election.
  \<^item> \<open>Mrp_Talk\<close>, \<open>Nl_Driver\<close>, \<open>Nl_Dump\<close>, \<open>Nl_File\<close>: over datagrams that are laid out as messages, the loops over bytes
    equal functions on lists of messages (\<open>answer\<close>, \<open>dump_spec\<close>, \<open>feed\<close>); \<open>Nl_Append\<close>: what is appended is
    read back, and what does not fit is refused.
  \<^item> \<open>Linked_List\<close>, \<open>List_Loops\<close>, \<open>Hash_List\<close>, \<open>Mrp_Instances\<close>: every operation on pointers refines one on sequences
    (\<open>dll\<close>, \<open>hlist\<close>), and the heap of instances simulates the list of \<open>Mrp_Daemon\<close> (\<open>represents\<close>).
  \<^item> \<open>Mrp_Example\<close>: the environment, instances, frames and messages at which the theorems are applied below.

  \<^bold>\<open>Bounds and fuel.\<close>  \<open>bpf_run\<close> has the number of instructions of the program as fuel, which is enough because
  classic BPF jumps forward only; \<open>talk_loop\<close> and \<open>dump_loop\<close> have one more than the number of receptions,
  each turn using up at least one (\<open>talk_loop_fuel\<close>).  The loops of the netlink parsers, of \<open>rtnl_listen\<close> and of
  \<open>rtnl_from_file\<close> are functions with
  termination proofs; the loops of \<^verbatim>\<open>list.h\<close> are partial functions, shown to return on every well formed
  list.  Reachability (\<open>step\<close>, \<open>reachable\<close>) admits frames that the socket filter passes, well
  formed datagrams without reports of CFM peers (those overrun an array: \<open>peer_report_overruns\<close>), and
  control messages whose answer has no negative length (\<open>control_overruns\<close>), with at most 20 instances
  when \<open>getmrp\<close> is called (the same theorem) and, when the flag of \<open>step\<close> is set, with ring check mode only:
  an instance in link check mode may leave a timer behind when it is deleted.

  \<^bold>\<open>Limits of the model.\<close>  The answer of \<open>malloc\<close> depends on the log and the size only.  The coherence of the ring
  ports is not claimed for auto-managers: \<open>mrp_mrc_ring_test_expired\<close> makes a client a manager without
  stopping its link timers.  The log macros are modelled by themselves; the lines that a handler prints are not
  part of its effects.

  \<^bold>\<open>Not modelled.\<close>  The system calls themselves, whose results are parameters;
  \<open>cfm_netlink\<close> and libmnl (libraries: calls of the first are effects in the log, those of the second parameters);
  the texts of \<open>usage\<close> and \<open>pr_version\<close>; the copies of kernel headers beyond the
  constants in use, which are declarations without code.
\<close>

unbundle bit_operations_syntax

section \<open>The daemon\<close>

text \<open>(C1) The daemon does not crash.  From every state that it can reach by frames that pass the socket
  filter, timers, well formed link notifications and control messages that add instances in ring check
  mode, the next such event is handled: no NULL pointer or freed object is used, no array is
  overrun, no mutex is taken twice, and no timer is left that belongs to a deleted
  instance.\<close>

theorem never_crashes:
  assumes "reachable e True d" and "libev_timers e" and "hwaddr_ok e" and "step e True d r"
  shows "\<exists>d'. r = Some d' \<and> daemon_inv d' \<and> stale d' = []"
  using reachable_inv [OF assms(1-3)] step_keeps [OF _ assms(2-4)] by (auto simp: ok_def keeps_def)

theorem never_crashes_witness: "\<exists>d'. Some demo_d = Some d' \<and> daemon_inv d' \<and> stale d' = []"
  by (rule never_crashes [OF reachable.init demo_env_libev demo_env_hwaddr demo_step])

text \<open>(C2) In every reachable state the forwarding states of the ports are those that the state machines
  stand for.  A manager of a ring has its secondary port blocked unless it is in the state of an open
  ring, so that a closed ring is not a loop; a client has both ring ports forwarding exactly when it
  passes frames; the interconnection port forwards exactly in the states of an open
  interconnection.  (The ring ports of an auto-manager are not covered.)\<close>

theorem reachable_coherent:
  assumes "reachable e True d" and "libev_timers e" and "hwaddr_ok e" and "(m, pm) \<in> set (insts d)"
  shows "(ring_role m = BR_MRP_RING_ROLE_MRM \<or> ring_role m = BR_MRP_RING_ROLE_MRC) \<and>
    (\<not> mra_support m \<longrightarrow>
      (ring_role m = BR_MRP_RING_ROLE_MRM \<longrightarrow>
        fwd (p_port m) pm = (mrm_state m \<noteq> MRP_MRM_STATE_AC_STAT1) \<and> fwd (s_port m) pm = (mrm_state m = MRP_MRM_STATE_CHK_RO)) \<and>
      (ring_role m = BR_MRP_RING_ROLE_MRC \<longrightarrow>
        fwd (p_port m) pm = (mrc_state m \<noteq> MRP_MRC_STATE_AC_STAT1) \<and> fwd (s_port m) pm = (mrc_state m = MRP_MRC_STATE_PT_IDLE))) \<and>
    (in_role m = BR_MRP_IN_ROLE_MIM \<longrightarrow> fwd (i_port m) pm = (mim_state m = MRP_MIM_STATE_CHK_IO)) \<and>
    (in_role m = BR_MRP_IN_ROLE_MIC \<longrightarrow> fwd (i_port m) pm = (mic_state m = MRP_MIC_STATE_IP_IDLE))"
proof -
  have "mrp_inv (cfg m) (load (m, pm) [])"
    using reachable_inv [OF assms(1-3)] assms(4) by (auto simp: daemon_inv_def all_good_def good_def)
  then have "ring_inv_st (load (m, pm) [])" "in_inv_st (load (m, pm) [])"
    by (rule inv_ring, rule inv_inter)
  then show ?thesis
    unfolding ring_inv_def in_inv_def load_def
    by (cases "mrm_state m"; cases "mrc_state m") auto
qed

theorem reachable_coherent_witness:
  "let (m, pm) = hd (insts demo_d) in ring_role m = BR_MRP_RING_ROLE_MRM \<or> ring_role m = BR_MRP_RING_ROLE_MRC"
proof -
  obtain m pm where x: "hd (insts demo_d) = (m, pm)" by (cases "hd (insts demo_d)")
  then have "(m, pm) \<in> set (insts demo_d)" using demo_insts(1) by (metis list.set_intros(1))
  from reachable_coherent [OF demo_reachable demo_env_libev demo_env_hwaddr this] show ?thesis by (simp add: x)
qed



text \<open>(C8) Adding, finding and deleting: an instance that was added is found at the end of the list where no
  instance was found before, a second addition of its key is refused with \<open>EINVAL\<close> and changes nothing,
  and its deletion succeeds, brings back the keys of before and makes a second deletion fail.\<close>

theorem add_find_delete:
  assumes "daemon_inv d" and "libev_timers e" and "hwaddr_ok e" and "args_ok e a" and "args_ok e b"
    and "mrp_add e a d = Some (0, d')" and "a_br b = a_br a" and "a_ring_nr b = a_ring_nr a"
  shows "mrp_find (a_br a) (a_ring_nr a) d = None \<and> mrp_find (a_br a) (a_ring_nr a) d' = Some (length (insts d)) \<and>
    mrp_add e b d' = Some (- EINVAL, d') \<and>
    (\<exists>d''. mrp_del e (a_br a) (a_ring_nr a) d' = Some (0, d'') \<and> keys d'' = keys d \<and>
      mrp_find (a_br a) (a_ring_nr a) d'' = None \<and> mrp_del e (a_br a) (a_ring_nr a) d'' = Some (- EINVAL, d''))"
proof -
  have d: "daemon_inv d \<and> libev_timers e \<and> hwaddr_ok e" using assms(1-3) by simp
  note add = instances.find_after_add [OF d assms(4,6)] and twice = instances.add_twice [OF d assms(4,6,5)]
  obtain d'' where del: "mrp_del e (a_br a) (a_ring_nr a) d' = Some (0, d'')" "keys d'' = keys d"
    using instances.add_del [OF d assms(4,6)] by (auto simp: arg_key_def)
  have d': "daemon_inv d' \<and> libev_timers e \<and> hwaddr_ok e"
    using mrp_add_inv [OF assms(1-4)] assms(2,3,6) by (auto simp: ok_def)
  have dk: "mrp_del e (fst (arg_key a)) (snd (arg_key a)) d' = Some (0, d'')" using del(1) by (simp add: arg_key_def)
  show ?thesis
    using add(1,2) twice del instances.del_find(2,4) [OF d' dk] assms(7,8) by (simp add: arg_key_def keys_ikey)
qed

theorem add_find_delete_witness:
  "mrp_find 1 1 daemon_init = None \<and> mrp_find 1 1 demo_d = Some 0 \<and> mrp_add demo_env demo_args demo_d = Some (- 22, demo_d)"
  using add_find_delete [OF daemon_inv_init demo_env_libev demo_env_hwaddr demo_args_ok demo_args_ok demo_add(1) refl refl]
  by (simp add: demo_args_def daemon_init_def EINVAL_def)



text \<open>(C21) When the daemon ends, every instance is destroyed; as long as all of them were in ring check mode,
  none of their timers is left running.\<close>

theorem uninit_cleans_up:
  assumes "daemon_inv d" and "libev_timers e" and "rc_only d" and "stale d = []"
  shows "\<exists>d'. mrp_uninit e d = Some d' \<and> insts d' = [] \<and> stale d' = []"
  using mrp_uninit_inv [OF assms(1), of e] assms(2-4) by (auto simp: ok_def)

theorem uninit_cleans_up_witness: "\<exists>d'. mrp_uninit demo_env demo_d = Some d' \<and> insts d' = [] \<and> stale d' = []"
proof -
  have "daemon_inv demo_d \<and> rc_only demo_d \<and> stale demo_d = []"
    by (rule reachable_inv [OF demo_reachable demo_env_libev demo_env_hwaddr])
  then show ?thesis using uninit_cleans_up [OF _ demo_env_libev] by blast
qed

section \<open>Events of an instance\<close>

text \<open>(C7) Receiving any frame that holds at least an Ethernet header and fits the receive buffer
  does not crash the daemon and keeps the invariant of the instance: its port pointers name
  live ports, the forwarding states of the ports are those of its state machines, and the
  mutex is released.\<close>

theorem recv_keeps_invariant:
  assumes "mrp_inv K s" and "\<not> lock (mrp s)" and "libev_timers e" and "live p (port s)"
    and "length buf = 2048" and "14 \<le> unat n" and "unat n \<le> 2048"
  shows "\<exists>s'. mrp_recv_port e p buf n s = Some s' \<and> mrp_inv K s' \<and> \<not> lock (mrp s')"
  using mrp_recv_port_inv [OF assms] by (rule okD)

theorem recv_keeps_invariant_witness:
  "\<exists>s'. mrp_recv_port demo_env (Some PORT_PRIMARY) (demo_test_frame demo_mac) 60 demo_mrm = Some s' \<and>
     mrp_inv (cfg (mrp demo_mrm)) s' \<and> \<not> lock (mrp s')"
  by (rule recv_keeps_invariant [OF demo_mrm_inv demo_unlocked(1) demo_env_libev])
    (simp_all add: live_def slot_ok_def demo_defs)

text \<open>(C9) The expiry of any timer that runs does not crash the daemon and keeps the invariant of the
  instance.\<close>

theorem expiry_keeps_invariant:
  assumes "mrp_inv K s" and "\<not> lock (mrp s)" and "libev_timers e" and "active (work t (mrp s))"
  shows "\<exists>s'. timer_expired e t s = Some s' \<and> mrp_inv K s' \<and> \<not> lock (mrp s')"
  using timer_expired_inv [OF assms] by (rule okD)

theorem expiry_keeps_invariant_witness:
  "\<exists>s'. timer_expired demo_env Ring_test demo_mrm = Some s' \<and> mrp_inv (cfg (mrp demo_mrm)) s' \<and> \<not> lock (mrp s')"
  by (rule expiry_keeps_invariant [OF demo_mrm_inv demo_unlocked(1) demo_env_libev])
    (simp add: demo_defs)

text \<open>(C10) The link of a port going up or down drives all four state machines without a crash and keeps the
  invariant, in every state of the machines and for every port.\<close>

theorem link_change_keeps_invariant:
  assumes "mrp_inv K s" and "libev_timers e" and "live p (port s)"
  shows "\<exists>s'. mrp_port_link_change e p up s = Some s' \<and> mrp_inv K s'"
  using mrp_port_link_change_inv [OF assms] by (rule okD)

theorem link_change_keeps_invariant_witness:
  "\<exists>s'. mrp_port_link_change demo_env (Some PORT_INTER) False demo_mrc = Some s' \<and> mrp_inv (cfg (mrp demo_mrc)) s'"
  by (rule link_change_keeps_invariant [OF demo_mrc_inv demo_env_libev])
    (simp add: live_def slot_ok_def demo_defs)

text \<open>(C11) Listening to the kernel: whatever datagrams are waiting, as long as they are well formed and hold
  no report of a CFM peer, the loop returns, the process does not exit, and the invariant of the
  daemon is kept.\<close>

theorem listening_keeps_invariant:
  assumes "daemon_inv d" and "libev_timers e" and "\<forall>r \<in> set rs. gram_ok link_ok (length buf) r"
  shows "\<exists>err d'. netlink_rcv e rs buf d = Some (Returns err d') \<and> daemon_inv d'"
proof -
  have "keeps False d d" by (rule steady_keeps [OF assms(1) steady_refl [OF inv_all_good [OF assms(1)]]])
  then show ?thesis
    using links.listen_inv [where e = e and ?d0.0 = d and d = d and rc = False, OF _ assms(3)] assms(1,2)
    by (auto simp: netlink_rcv_def ok_def keeps_def)
qed

theorem listening_keeps_invariant_witness:
  "\<exists>err d'. netlink_rcv demo_env [Rcv demo_link_down True False] (replicate 2048 0) demo_d = Some (Returns err d') \<and> daemon_inv d'"
  by (rule listening_keeps_invariant [OF demo_add(2) demo_env_libev]) (simp add: demo_link_down_ok)

text \<open>(C39) The report of a CFM peer overruns an array: \<open>netlink_listen\<close> gives \<open>parse_rtattr_flags\<close> an array of five
  entries to clear ten of, so that every link notification with such a report is undefined
  behaviour.\<close>

theorem peer_report_overruns:
  assumes "daemon_inv d" and "msg_fits buf h" and "\<not> quiet buf h" and "\<not> ignored buf h"
  shows "netlink_listen e buf h d = None"
  by (rule netlink_listen_overflow [OF assms])

theorem peer_report_overruns_witness: "netlink_listen demo_env demo_peer_report 0 demo_d = None"
  by (rule peer_report_overruns [OF demo_add(2) demo_peer_report_link(1) demo_peer_report_not_quiet demo_peer_report_link(2)])

section \<open>The ring and interconnection protocol\<close>

text \<open>(C12) A manager recognises its own test frame: the bytes that \<open>mrp_send_ring_test\<close> composed, received on a
  ring port, take the manager to the state of a closed ring, block its secondary port when the
  ring was open, and restart the count of lost test frames.\<close>

theorem own_test_frame_closes_ring:
  assumes "mrp_send_ring_test e0 p0 s0 = Some s1" and "log s1 = log s0 @ [Packet_send idx bs]" and "port_ok p0 s0"
    and "length (domain (mrp s0)) = 16" and "macaddr (mrp s0) = macaddr (mrp s)"
    and "mrp_inv K s" and "\<not> lock (mrp s)" and "libev_timers e" and "p \<in> {p_port (mrp s), s_port (mrp s)}"
    and "ring_role (mrp s) = BR_MRP_RING_ROLE_MRM" and "mrm_state (mrp s) \<noteq> MRP_MRM_STATE_AC_STAT1"
    and "pst p (port s) \<noteq> BR_MRP_PORT_STATE_DISABLED" and "length (bs @ rest) = 2048"
  shows "\<exists>s'. mrp_recv_port e p (bs @ rest) (of_nat (length bs)) s = Some s' \<and> mrm_state (mrp s') = MRP_MRM_STATE_CHK_RC \<and>
    (mrm_state (mrp s) = MRP_MRM_STATE_CHK_RO \<longrightarrow> pst (s_port (mrp s')) (port s') = BR_MRP_PORT_STATE_BLOCKED) \<and>
    ring_test_curr (mrp s') = 0 \<and> ring_test_curr_max (mrp s') = ring_test_conf_max (mrp s) - 1"
proof -
  have "test_frame (mrp s0) bs" using sent_test_frame [OF assms(3,4,1)] assms(2) by auto
  from own_test_frame [OF assms(6-12) this assms(5,13)] show ?thesis by (auto simp: ok_def)
qed

theorem own_test_frame_closes_ring_witness:
  "\<exists>bs s'. mrp_recv_port demo_env (Some PORT_SECONDARY) (bs @ replicate 1988 0) (of_nat (length bs)) demo_mrm = Some s' \<and>
     mrm_state (mrp s') = MRP_MRM_STATE_CHK_RC \<and> ring_test_curr (mrp s') = 0 \<and> ring_test_curr_max (mrp s') = 4"
proof -
  have p: "port_ok (Some PORT_PRIMARY) demo_mrm" by (simp add: port_ok_def deref_def demo_defs)
  have dm: "length (domain (mrp demo_mrm)) = 16" by (simp add: demo_defs)
  obtain s1 idx bs where s1: "mrp_send_ring_test demo_env (Some PORT_PRIMARY) demo_mrm = Some s1"
    "log s1 = log demo_mrm @ [Packet_send idx bs]"
    unfolding mrp_send_ring_test_eq [OF p dm]
    by (simp add: send_pdu_def Let_def packet_send_def emit_def mrp_next_seq_def demo_env_def deref_mrp_def deref_def demo_defs)
  have "test_frame (mrp demo_mrm) bs" using sent_test_frame [OF p dm s1(1)] s1(2) by auto
  then obtain q t sq uuid where "bs = pad60 (eth (pmacaddr q) mrp_test_dmac @
      pdu (tlv_code BR_MRP_TLV_HEADER_RING_TEST) 18 (enc_rt (ring_test_hdr (mrp demo_mrm) t q)) sq uuid)"
      "length (pmacaddr q) = 6" "length uuid = 16"
    unfolding test_frame_def by blast
  then have l: "length (bs @ replicate 1988 0) = 2048" by (simp add: pad60_def length_pdu mrp_test_dmac_def)
  show ?thesis
    using own_test_frame_closes_ring [OF s1 p dm refl demo_mrm_inv demo_unlocked(1) demo_env_libev, of "Some PORT_SECONDARY" "replicate 1988 0"] l
    by (fastforce simp: demo_defs pst_def)
qed

text \<open>(C3) Detection of a ring failure: a manager of a closed ring that tolerates \<open>n\<close> more lost test frames and
  hears none keeps the ring closed for \<open>n\<close> expiries of the test timer, and with the next one it is in the
  state of an open ring and both its ring ports forward.\<close>

theorem ring_failure_opens_ring:
  assumes "watching K n s" and "\<not> c_mra_support K"
  shows "(\<exists>s'. expiries (mrp_ring_test_expired e) (Suc n) s = Some s' \<and> ring_open K s') \<and>
    (\<forall>m \<le> n. \<exists>s'. expiries (mrp_ring_test_expired e) m s = Some s' \<and> watching K (n - m) s')"
  using ring_failure_detected [OF assms, where e = e] by (metis okD)

theorem ring_failure_opens_ring_witness:
  "\<exists>s'. expiries (mrp_ring_test_expired demo_env) 6 demo_mrm = Some s' \<and> ring_open (cfg (mrp demo_mrm)) s'"
proof -
  have "watching (cfg (mrp demo_mrm)) 5 demo_mrm" using demo_mrm_inv demo_unlocked by (simp add: watching_def demo_defs)
  moreover have "\<not> c_mra_support (cfg (mrp demo_mrm))" by (simp add: demo_defs)
  moreover have "Suc 5 = 6" by simp
  ultimately show ?thesis using ring_failure_opens_ring by metis
qed

text \<open>(C13) The time from the last test frame that came back to the opening of the ring: with a recovery
  profile that allows \<open>Suc n\<close> lost frames, the ring is opened by exactly \<open>Suc n\<close> expiries after that
  frame.\<close>

theorem failure_after_last_frame:
  assumes "mrp_inv K s" and "\<not> lock (mrp s)" and "libev_timers e" and "p \<in> {p_port (mrp s), s_port (mrp s)}"
    and "ring_role (mrp s) = BR_MRP_RING_ROLE_MRM" and "mrm_state (mrp s) \<noteq> MRP_MRM_STATE_AC_STAT1"
    and "pst p (port s) \<noteq> BR_MRP_PORT_STATE_DISABLED" and "test_frame m bs" and "macaddr m = macaddr (mrp s)"
    and "length (bs @ rest) = 2048" and "unat (ring_test_conf_max (mrp s)) = Suc n" and "\<not> c_mra_support K"
  shows "\<exists>s1. mrp_recv_port e p (bs @ rest) (of_nat (length bs)) s = Some s1 \<and>
    (\<exists>s'. expiries (mrp_ring_test_expired e) (Suc n) s1 = Some s' \<and> ring_open K s') \<and>
    (\<forall>k \<le> n. \<exists>s'. expiries (mrp_ring_test_expired e) k s1 = Some s' \<and> mrm_state (mrp s') = MRP_MRM_STATE_CHK_RC)"
proof -
  obtain s1 where s1: "mrp_recv_port e p (bs @ rest) (of_nat (length bs)) s = Some s1" "watching K n s1"
    using own_test_rearms [OF assms(1-11)] by (auto simp: ok_def)
  note f = ring_failure_detected [OF s1(2) assms(12), where e = e]
  have "\<exists>s'. expiries (mrp_ring_test_expired e) k s1 = Some s' \<and> mrm_state (mrp s') = MRP_MRM_STATE_CHK_RC" if "k \<le> n" for k
    using okD [OF f(2) [OF that]] by (auto simp: watching_def)
  then show ?thesis using s1(1) okD [OF f(1)] by blast
qed

theorem failure_after_last_frame_witness:
  "\<exists>s1. mrp_recv_port demo_env (Some PORT_PRIMARY) (demo_test_frame demo_mac) 60 demo_mrm = Some s1 \<and>
    (\<exists>s'. expiries (mrp_ring_test_expired demo_env) 5 s1 = Some s' \<and> ring_open (cfg (mrp demo_mrm)) s')"
proof -
  have f: "test_frame (mrp demo_mrm) (take 60 (demo_test_frame demo_mac))" by (rule demo_test_frame_own)
  have l: "take 60 (demo_test_frame demo_mac) @ drop 60 (demo_test_frame demo_mac) = demo_test_frame demo_mac"
    "length (demo_test_frame demo_mac) = 2048" by (simp_all add: demo_mac_def)
  have "Suc 4 = 5" by simp
  then show ?thesis
    using failure_after_last_frame [OF demo_mrm_inv demo_unlocked(1) demo_env_libev _ _ _ _ f refl,
        of "Some PORT_PRIMARY" "drop 60 (demo_test_frame demo_mac)" 4] l
    by (fastforce simp: demo_defs pst_def)
qed



text \<open>(C14) Detection of an interconnection failure: an interconnection manager of a closed interconnection
  that tolerates \<open>n\<close> more lost frames keeps its port blocked for \<open>n\<close> expiries and opens it with the
  next.\<close>

theorem in_failure_opens_port:
  assumes "in_watching K n s" and "libev_timers e"
  shows "(\<exists>s'. expiries (mrp_in_test_expired e) (Suc n) s = Some s' \<and> in_open K s') \<and>
    (\<forall>m \<le> n. \<exists>s'. expiries (mrp_in_test_expired e) m s = Some s' \<and> in_watching K (n - m) s')"
  using in_failure_detected [OF assms] by (metis okD)

theorem in_failure_opens_port_witness:
  "\<exists>s'. expiries (mrp_in_test_expired demo_env) 9 demo_mrc = Some s' \<and> in_open (cfg (mrp demo_mrc)) s'"
proof -
  have "in_watching (cfg (mrp demo_mrc)) 8 demo_mrc"
    using demo_mrc_inv demo_unlocked by (simp add: in_watching_def demo_defs ms_def)
  moreover have "Suc 8 = 9" by simp
  ultimately show ?thesis using in_failure_opens_port [OF _ demo_env_libev] by metis
qed



text \<open>(C6) The election of auto-managers has one winner: among the managers of a ring, whose addresses differ,
  there is exactly one whose test frames every other finds better than its own.\<close>

theorem election_has_one_winner:
  assumes "finite M" and "M \<noteq> {}" and "\<And>m. m \<in> M \<Longrightarrow> length (macaddr m) = 6" and "inj_on macaddr M"
  shows "\<exists>!w. w \<in> M \<and> (\<forall>m \<in> M. m \<noteq> w \<longrightarrow> (\<exists>t q. mrp_better_than_own m (ring_test_hdr w t q)))"
  using election [OF assms] by (simp add: beats_def)

theorem election_has_one_winner_witness:
  "\<exists>!w. w \<in> {mrp demo_mrm, (mrp demo_mrm)\<lparr>macaddr := replicate 6 1\<rparr>} \<and>
    (\<forall>m \<in> {mrp demo_mrm, (mrp demo_mrm)\<lparr>macaddr := replicate 6 1\<rparr>}. m \<noteq> w \<longrightarrow> (\<exists>t q. mrp_better_than_own m (ring_test_hdr w t q)))"
  by (rule election_has_one_winner) (auto simp: demo_defs)

section \<open>Frames\<close>





text \<open>(C26) A disabled port, and a blocked ring port for frames other than those of the ring protocol and the
  announcements of an interconnection, drop every frame: the state is unchanged and nothing is sent.\<close>

theorem blocked_port_drops:
  assumes "live p (port s)" and "ty = tlv_of (tlv_type (mrp_get_tlv_hdr (drop 14 buf)))"
    and "pst p (port s) = BR_MRP_PORT_STATE_DISABLED \<or>
      pst p (port s) = BR_MRP_PORT_STATE_BLOCKED \<and> p \<noteq> Some PORT_INTER \<and>
      (ty = BR_MRP_TLV_HEADER_IN_TEST \<or> ty = BR_MRP_TLV_HEADER_IN_LINK_STATUS \<or> \<not> mrp_is_ring_frame ty \<and> \<not> mrp_is_in_frame ty)"
  shows "mrp_recv_port e p buf n s = Some s"
proof -
  obtain r q where q: "p = Some r" "deref p s = Some q" "pstate q = pst p (port s)" "pmrp q" "prole q = port_role_of r"
    using live_deref [OF assms(1)] assms(1) by (auto simp: live_def)
  have "mrp_should_drop q ty"
    using assms(3) q(1,3,4,5) by (cases r) (auto simp: mrp_should_drop_def mrp_is_ring_port_def mrp_is_ring_frame_def mrp_is_in_frame_def)
  then show ?thesis using q(2) assms(2) by (simp add: mrp_recv_port_def)
qed

theorem blocked_port_drops_witness:
  "mrp_recv_port demo_env (Some PORT_SECONDARY) (replicate 2048 0) 60 demo_mrm = Some demo_mrm"
  by (rule blocked_port_drops [OF _ refl])
    (simp_all add: live_def slot_ok_def demo_defs pst_def mrp_get_tlv_hdr_def dec_tlv_def tlv_of_def mrp_is_ring_frame_def mrp_is_in_frame_def)

text \<open>(C24) Every function that composes a frame equals its layout: the Ethernet header, the version, the TLV of
  the frame with its body, the common TLV with the next sequence number, the end TLV, and padding to 60
  bytes, sent when the memory is available and the link of the port is up.\<close>

theorem composed_frames:
  assumes "port_ok p s" and "length (domain (mrp s)) = 16"
  shows "mrp_send_ring_test e p s = send_pdu e p mrp_test_dmac BR_MRP_TLV_HEADER_RING_TEST 18
        (\<lambda>q. enc_rt (ring_test_hdr (mrp s) (time_ms (clock e (log s))) q)) s \<and>
    mrp_send_ring_topo e p iv s = send_pdu e p mrp_control_dmac BR_MRP_TLV_HEADER_RING_TOPO 10
        (\<lambda>q. enc_rtopo (ring_topo_hdr (mrp s) iv)) s \<and>
    mrp_send_ring_link e p up iv s = send_pdu e p mrp_control_dmac
        (if up then BR_MRP_TLV_HEADER_RING_LINK_UP else BR_MRP_TLV_HEADER_RING_LINK_DOWN) 12
        (\<lambda>q. enc_rlink (ring_link_hdr (mrp s) iv q)) s \<and>
    mrp_send_test_mgr_nack e p sa s = send_pdu e p mrp_test_dmac BR_MRP_TLV_HEADER_OPTION 24 (\<lambda>_. nack_body (mrp s) sa) s \<and>
    mrp_send_test_prop e p s = send_pdu e p mrp_test_dmac BR_MRP_TLV_HEADER_OPTION 24 (\<lambda>_. prop_body (mrp s)) s \<and>
    mrp_send_in_test e p s = send_pdu e p mrp_itest_dmac BR_MRP_TLV_HEADER_IN_TEST 18
        (\<lambda>q. enc_it (in_test_hdr (mrp s) (time_ms (clock e (log s))) q)) s \<and>
    mrp_send_in_topo e p iv s = send_pdu e p mrp_icontrol_dmac BR_MRP_TLV_HEADER_IN_TOPO 10
        (\<lambda>q. enc_itopo (in_topo_hdr (mrp s) iv)) s \<and>
    mrp_send_in_link e p up iv s = send_pdu e p mrp_icontrol_dmac
        (if up then BR_MRP_TLV_HEADER_IN_LINK_UP else BR_MRP_TLV_HEADER_IN_LINK_DOWN) 12
        (\<lambda>q. enc_ilink (in_link_hdr (mrp s) iv q)) s \<and>
    mrp_send_in_link_status e p s = send_pdu e p mrp_icontrol_dmac BR_MRP_TLV_HEADER_IN_LINK_STATUS 10
        (\<lambda>q. enc_ils (in_link_status_hdr (mrp s) q)) s"
  by (intro conjI send_eqs [OF assms])

theorem composed_frames_witness:
  "mrp_send_ring_test demo_env (Some PORT_PRIMARY) demo_mrc = send_pdu demo_env (Some PORT_PRIMARY) mrp_test_dmac
     BR_MRP_TLV_HEADER_RING_TEST 18 (\<lambda>q. enc_rt (ring_test_hdr (mrp demo_mrc) 5000 q)) demo_mrc \<and>
   mrp_send_in_topo demo_env (Some PORT_PRIMARY) 20000 demo_mrc = send_pdu demo_env (Some PORT_PRIMARY) mrp_icontrol_dmac
     BR_MRP_TLV_HEADER_IN_TOPO 10 (\<lambda>q. enc_itopo (in_topo_hdr (mrp demo_mrc) 20000)) demo_mrc"
  using composed_frames [of "Some PORT_PRIMARY" demo_mrc demo_env]
  by (simp add: port_ok_def deref_def demo_defs demo_env_def time_ms_def)


section \<open>Control protocol and client\<close>



text \<open>(C23) \<open>getmrp\<close> shows the instances: for up to 20 of them the client gets one entry for each, in the order of
  the list, with its keys, ports, roles, priority and states, and the daemon is unchanged.\<close>

theorem getmrp_shows_instances:
  assumes "daemon_inv d" and "length (insts d) \<le> 20"
  shows "\<exists>zs. client_getmrp e j outbuf d = Some (Inr (length (insts d), zs), d) \<and> length zs = length (insts d) \<and>
    (\<forall>i < length (insts d). status_shows (insts d ! i) (zs ! i))"
  by (rule client_getmrp_eq [OF assms])

theorem getmrp_shows_instances_witness:
  "\<exists>zs. client_getmrp demo_env 0 [] demo_d = Some (Inr (1, zs), demo_d) \<and> length zs = 1 \<and> st_ring_nr (zs ! 0) = 1"
proof -
  have n: "length (insts demo_d) = 1" using demo_insts(1) by (metis length_Cons list.size(3) One_nat_def)
  have k: "ring_nr (fst (insts demo_d ! 0)) = 1" using demo_insts by (metis ikey_def nth_Cons_0 snd_conv)
  from getmrp_shows_instances [OF demo_add(2), of demo_env 0 "[]"] n
  obtain zs where "client_getmrp demo_env 0 [] demo_d = Some (Inr (1, zs), demo_d)" "length zs = 1"
    "status_shows (insts demo_d ! 0) (zs ! 0)" by auto
  then show ?thesis using k by (auto simp: status_shows_def Let_def)
qed



text \<open>(C40) Two ways to make the daemon write outside of its memory through the control socket: a negative length of
  the answer passes the check of the size and reaches \<open>memset\<close>, and with more than 20 instances, which nothing
  prevents, \<open>getmrp\<close> runs over the array of the answer.\<close>

theorem control_overruns:
  shows "(length msg = 16 + nat (sint (h_lin (dec_hdr msg))) \<longrightarrow> 0 \<le> sint (h_lin (dec_hdr msg)) \<longrightarrow>
      0 \<le> sint (h_cmd (dec_hdr msg)) \<longrightarrow> sint (h_lout (dec_hdr msg)) < 0 \<longrightarrow> ctl_rcv_handler e msg 0 outbuf d = None) \<and>
    (20 < length (insts d) \<longrightarrow> client_getmrp e j outbuf d = None)"
  using ctl_negative_lout getmrp_too_many by blast

theorem control_overruns_witness:
  "ctl_rcv_handler demo_env (enc_hdr \<lparr>h_cmd = CMD_CODE_getmrp, h_lin = 0, h_lout = - 1, h_res = 0\<rparr>) 0 [] demo_d = None \<and>
   client_getmrp demo_env 0 [] (demo_d\<lparr>insts := replicate 21 (hd (insts demo_d))\<rparr>) = None"
  using hdr.dec_enc [of "\<lparr>h_cmd = CMD_CODE_getmrp, h_lin = 0, h_lout = - 1, h_res = 0\<rparr>"]
    hdr.enc_length [of "\<lparr>h_cmd = CMD_CODE_getmrp, h_lin = 0, h_lout = - 1, h_res = 0\<rparr>"]
    control_overruns [of "enc_hdr \<lparr>h_cmd = CMD_CODE_getmrp, h_lin = 0, h_lout = - 1, h_res = 0\<rparr>" demo_env "[]" demo_d 0]
    control_overruns [of "[]" demo_env "[]" "demo_d\<lparr>insts := replicate 21 (hd (insts demo_d))\<rparr>" 0]
  by (simp add: CMD_CODE_getmrp_def)

section \<open>Netlink and interface drivers\<close>

text \<open>(C27) The attribute parser reads what is laid out: for any list of attributes of less than 64 KiB each, every
  entry of the table is the offset of the first attribute of its type, with the flag bits
  removed, and the entries above the maximum are empty.\<close>

theorem parser_finds_attributes:
  assumes "\<forall>a \<in> set as. attr_ok a" and "mx < sz"
  shows "parse_rtattr_flags (pre @ enc_attrs as @ post) sz mx (length pre) (int (length (enc_attrs as))) flags =
    Some (\<lambda>t. if t \<le> mx then first_attr flags t (length pre) as else None)"
  by (rule parse_rtattr_flags_enc [OF assms])

theorem parser_finds_attributes_witness:
  "\<exists>tb. parse_rtattr_flags (enc_attr (3, [101, 0]) @ enc_attr (26 OR 0x8000, mem32 1) @ enc_attr (26, [])) 56 55 0 20 NLA_F_NESTED = Some tb \<and>
    tb 3 = Some 0 \<and> tb 26 = Some 8 \<and> tb 4 = None"
  using parser_finds_attributes [of "[(3, [101, 0]), (26 OR 0x8000, mem32 1), (26, [])]" 55 56 "[]" "[]" NLA_F_NESTED]
  by (simp add: attr_ok_def RTA_ALIGN_def NLA_F_NESTED_def)



text \<open>(C35) A dump is complete: when the kernel's answer ends without an error, \<open>rtnl_dump_filter_nc\<close> returns 0 and the
  filter has seen exactly the messages of this dump before the end message, once each, in order and with
  the flags cleared that were asked for; those for others are left out.  When the answer is written to a file
  instead, \<open>rtnl_from_file\<close> gives every message of the answer to its handler, in order.\<close>

theorem dump_is_complete:
  assumes "malloc_ok malloc" and "reads filter_fn f" and "\<forall>m d. 0 \<le> fst (f m d)"
    and "\<forall>g \<in> set (gs @ [(0, qs @ e # rest)]). dump_ok g"
    and "\<forall>g \<in> set (gs @ [(0, qs)]). \<forall>m \<in> set (snd g). own (fst g) rth m \<longrightarrow> plain m"
    and "own 0 rth e" and "m_type e = NLMSG_DONE" and "0 \<le> done_status e"
    and "\<forall>m \<in> set (concat (map snd gs) @ qs @ e # rest). 16 + length (m_data m) \<le> sizeof_file_buf"
    and "length buf = sizeof_file_buf"
  shows "(\<exists>intr. rtnl_dump_filter_nc malloc ext False filter_fn nc rth d (arrive (gs @ [(0, qs @ e # rest)]) @ rs) =
      Some (Dump_returns 0 intr, [],
        fold (\<lambda>m d. snd (f (cleared nc m) d)) (concat (map (\<lambda>g. filter (own (fst g) rth) (snd g)) (gs @ [(0, qs)]))) d)) \<and>
    (\<exists>intr out. rtnl_dump_filter_nc malloc ext True filter_fn nc rth d (arrive (gs @ [(0, qs @ e # rest)]) @ rs) =
      Some (Dump_returns 0 intr, out, d) \<and>
      rtnl_from_file filter_fn False buf out x = Some (feed f (concat (map snd gs) @ qs @ e # rest) x))"
  by (rule conjI [OF rtnl_dump_delivers [OF assms(1-8)] dumped_file_read_back [OF assms(1,4-8,2,9,10)]])

theorem dump_is_complete_witness:
  "let flt = (\<lambda>buf h ts. map_option (\<lambda>t. (0, ts @ [t])) (rd16 buf (h + 4)));
       msg = (\<lambda>t s data. \<lparr>m_type = t, m_flags = 2, m_seq = s, m_pid = 100, m_data = data\<rparr>)
   in \<exists>intr. rtnl_dump_filter_nc (\<lambda>n. Some (replicate n 0)) (\<lambda>_ _ _. 0) False flt 0
       \<lparr>r_fd = 3, r_groups = 0, r_pid = 100, r_seq = 8, r_dump = 8, r_proto = 0, r_flags = 0\<rparr> []
       (arrive [(0, [msg 16 8 [1, 2], msg 17 7 []]), (0, [msg 20 8 [], msg NLMSG_DONE 8 (mem32 0)])]) =
     Some (Dump_returns 0 intr, [], [16, 20])"
proof -
  let ?flt = "\<lambda>buf h ts. map_option (\<lambda>t. (0, ts @ [t])) (rd16 buf (h + 4))"
  let ?f = "\<lambda>m ts. (0, ts @ [m_type m])"
  let ?msg = "\<lambda>t s data. \<lparr>m_type = t, m_flags = 2, m_seq = s, m_pid = 100, m_data = data\<rparr>"
  have "reads ?flt ?f" by (simp add: reads_def enc_nlmsg_fields(2) [OF refl refl])
  from dump_is_complete [OF _ this, of "\<lambda>n. Some (replicate n 0)" "[(0, [?msg 16 8 [1, 2], ?msg 17 7 []])]" "[?msg 20 8 []]"
      "?msg NLMSG_DONE 8 (mem32 0)" "[]" "\<lparr>r_fd = 3, r_groups = 0, r_pid = 100, r_seq = 8, r_dump = 8, r_proto = 0, r_flags = 0\<rparr>"
      "replicate sizeof_file_buf 0" "\<lambda>_ _ _. 0" 0 "[]" "[]" "[]"]
  show ?thesis
    by (simp add: Let_def malloc_ok_def dump_ok_def length_enc_nlmsg NLMSG_ALIGN_def own_def plain_def done_status_def
        NLMSG_ERROR_def NLMSG_DONE_def sizeof_file_buf_def)
qed



text \<open>(C29) Composing a request: an attribute that fits is appended in its layout, padded to four bytes, and the
  length of the message grows accordingly; one that does not fit is refused with \<open>-1\<close> and nothing is
  written.\<close>

theorem attribute_appended_or_refused:
  assumes "4 dvd length bs" and "length bs \<le> 1024" and "maxlen \<le> 1056"
  shows "addattr_l maxlen ty data (nl_set r bs) =
    (if 32 + length bs + RTA_ALIGN (4 + length data) \<le> maxlen then Some (0, nl_set r (bs @ enc_attr (ty, data)))
     else Some (- 1, nl_set r bs))"
  using addattr_l_set [OF assms(1) _ assms(3)] addattr_l_refused [OF assms(1,2)] by simp

theorem attribute_appended_or_refused_witness:
  "addattr_l 40 3 (mem32 7) (nl_set request_init []) = Some (0, nl_set request_init (enc_attr (3, mem32 7))) \<and>
    addattr_l 39 3 (mem32 7) (nl_set request_init []) = Some (- 1, nl_set request_init [])"
  using attribute_appended_or_refused [of "[]" 40 3 "mem32 7" request_init] attribute_appended_or_refused [of "[]" 39 3 "mem32 7" request_init]
  by (simp add: RTA_ALIGN_def)

text \<open>(C30) The messages of the netlink driver: one request of type \<open>RTM_SETLINK\<close> for the port or the bridge, from
  which the parser reads, under the kernel's attribute numbers, the state of the port, the ring and its
  role (auto-manager whenever the instance supports it), and the ring, port and role of the
  interconnection.\<close>

theorem driver_messages:
  "(\<exists>r. netlink_port_set_state talk p st = Some (talk r, [r]) \<and> nlmsg_type r = RTM_SETLINK \<and>
      ifi_index r = pifindex p \<and> nl_u32 r [26, 4, 2, 1] = Some (port_state_code st)) \<and>
   (\<exists>r. netlink_set_ring_role talk m role = Some (talk r, [r]) \<and> nlmsg_type r = RTM_SETLINK \<and>
      ifi_index r = ifindex m \<and> nl_u32 r [26, 4, 5, 1] = Some (ring_nr m) \<and>
      nl_u32 r [26, 4, 5, 2] = Some (ring_role_code (if mra_support m then BR_MRP_RING_ROLE_MRA else role))) \<and>
   (\<exists>r. netlink_set_in_role talk m i irole = Some (talk r, [r]) \<and> nlmsg_type r = RTM_SETLINK \<and>
      ifi_index r = ifindex m \<and> nl_u32 r [26, 4, 8, 1] = Some (ring_nr m) \<and>
      nl_u32 r [26, 4, 8, 4] = Some (pifindex i) \<and> nl_u32 r [26, 4, 8, 3] = Some (in_role_code irole))"
  using port_state_message [of talk p st] ring_role_message [of talk m role] in_role_message [of talk m i irole]
  by (auto simp: ok_def)



text \<open>(C32) The socket filter passes exactly the frames that hold a whole Ethernet header with the type of MRP.\<close>

theorem filter_passes_mrp:
  "bpf_run (length mrp_filter) mrp_filter 0 0 pkt \<noteq> 0 \<longleftrightarrow> 14 \<le> length pkt \<and> be16_to_cpu (ld16 (drop 12 pkt)) = 0x88e3"
  using accepted_iff [of pkt] by (simp add: accepted_def)

section \<open>Utilities\<close>



section \<open>Linked lists\<close>

text \<open>(C19) The operations of \<^verbatim>\<open>list.h\<close> on pointers implement those on sequences: for two lists without common nodes
  and a node that is in neither, adding at the front and at the end, deleting (which poisons the node and
  leaves the other list alone), moving to the other list, and joining one list into the other do not crash
  and give the expected sequences; the test for emptiness is right; and a loop ends and visits the
  nodes in order.\<close>

theorem list_operations_refine:
  assumes "dll hp h (us @ x # vs)" and "dll hp k ys" and "set (h # us @ x # vs) \<inter> set (k # ys) = {}"
    and "hp new \<noteq> None" and "new \<notin> set (k # ys)"
  shows "(\<exists>hp'. list_add (Ptr new) (Ptr k) hp = Some hp' \<and> dll hp' k (new # ys)) \<and>
    (\<exists>hp'. list_add_tail (Ptr new) (Ptr k) hp = Some hp' \<and> dll hp' k (ys @ [new])) \<and>
    (\<exists>hp'. list_del (Ptr x) hp = Some hp' \<and> dll hp' h (us @ vs) \<and> dll hp' k ys \<and>
      hp' x = Some \<lparr>nxt = LIST_POISON1, prv = LIST_POISON2\<rparr>) \<and>
    (\<exists>hp'. list_move_tail (Ptr x) (Ptr k) hp = Some hp' \<and> dll hp' h (us @ vs) \<and> dll hp' k (ys @ [x])) \<and>
    (\<exists>hp'. list_splice_init (Ptr h) (Ptr k) hp = Some hp' \<and> dll hp' k ((us @ x # vs) @ ys) \<and> dll hp' h []) \<and>
    list_empty (Ptr k) hp = Some (ys = []) \<and> list_for_each_entry body k hp = first_of body ys \<and>
    list_for_each_entry_reverse body k hp = first_of body (rev ys) \<and>
    list_for_each_entry_continue body (list_prepare_entry (Ptr x) h) h hp = first_of body vs"
proof -
  obtain hp' where d: "list_del (Ptr x) hp = Some hp'" "dll hp' h (us @ vs)" "hp' x = Some \<lparr>nxt = LIST_POISON1, prv = LIST_POISON2\<rparr>"
      "untouched hp hp' (h # us @ x # vs)"
    using list_del_ok [OF assms(1)] by (auto simp: ok_def)
  then show ?thesis
    using dll_untouched [OF assms(2) d(4) assms(3)] okD [OF list_add_ok [OF assms(2,4,5)]] okD [OF list_add_tail_ok [OF assms(2,4,5)]]
      okD [OF list_move_ok(2) [OF assms(1-3)]] okD [OF list_splice_ok(2) [OF assms(1-3)]]
      list_empty_ok [OF assms(2)] list_for_each_entry_ok [OF assms(2)] list_for_each_entry_reverse_ok(1) [OF assms(2)]
      list_for_each_entry_continue_ok(1) [OF assms(1)] by blast
qed

theorem list_operations_refine_witness:
  "let hp = [0 \<mapsto> \<lparr>nxt = Ptr 1, prv = Ptr 1\<rparr>, 1 \<mapsto> \<lparr>nxt = Ptr 0, prv = Ptr 0\<rparr>, 2 \<mapsto> \<lparr>nxt = Ptr 2, prv = Ptr 2\<rparr>,
      3 \<mapsto> \<lparr>nxt = NULL, prv = NULL\<rparr>] in
    \<exists>hp'. list_move_tail (Ptr (1 :: nat)) (Ptr 2) hp = Some hp' \<and> dll hp' 0 [] \<and> dll hp' 2 [1]"
proof -
  let ?hp = "[0 \<mapsto> \<lparr>nxt = Ptr 1, prv = Ptr 1\<rparr>, 1 \<mapsto> \<lparr>nxt = Ptr 0, prv = Ptr 0\<rparr>, 2 \<mapsto> \<lparr>nxt = Ptr 2, prv = Ptr 2\<rparr>,
      3 \<mapsto> \<lparr>nxt = NULL, prv = NULL\<rparr>] :: nat lheap"
  have "dll ?hp 0 ([] @ 1 # [])" "dll ?hp 2 []" by (simp_all add: dll_def link_def)
  from list_operations_refine [OF this, of 3 "\<lambda>_. Some (None :: unit option)"] show ?thesis by (simp add: Let_def)
qed

text \<open>(C18) The list of instances on the heap simulates the sequence of instances: searching with \<open>list_for_each_entry\<close>
  finds the object at the same place, creating an instance at a fresh address appends it, destroying one
  takes it out and frees it, and the safe loop of \<open>mrp_uninit\<close>, which frees the node it stands on,
  ends with an empty list in the same state.\<close>

theorem instance_list_simulates:
  assumes "represents c xs d"
  shows "mrp_find_p br nr c = Some (map_option ((!) xs) (mrp_find br nr d)) \<and>
    mrp_get_mrp_p br peer c = Some (map_option ((!) xs) (mrp_get_mrp br peer d)) \<and>
    mrp_get_port_p idx c = map_option (map_option (\<lambda>(k, p). (xs ! k, p))) (mrp_get_port idx d) \<and>
    (\<forall>a. iheap c a = None \<longrightarrow> (\<exists>r c' d'. mrp_create e br nr i d = (r, d') \<and> mrp_create_p e a br nr i c = Some (r, c') \<and>
      represents c' (if r = 0 then xs @ [a] else xs) d')) \<and>
    (\<forall>d'. mrp_destroy e br nr d = Some d' \<longrightarrow> (\<exists>c'. mrp_destroy_p e br nr c = Some c' \<and>
      represents c' (case mrp_find br nr d of None \<Rightarrow> xs | Some k \<Rightarrow> remove_nth k xs) d')) \<and>
    (\<forall>d'. mrp_uninit e d = Some d' \<longrightarrow> (\<exists>c'. mrp_uninit_p e c = Some c' \<and> represents c' [] d'))"
proof (intro conjI allI impI)
  show "\<exists>r c' d'. mrp_create e br nr i d = (r, d') \<and> mrp_create_p e a br nr i c = Some (r, c') \<and>
      represents c' (if r = 0 then xs @ [a] else xs) d'" if "iheap c a = None" for a
    using okD [OF mrp_create_p_ok [OF assms that, of e br nr i]] by (cases "mrp_create e br nr i d") auto
qed (use search_ok [OF assms] mrp_get_port_p_ok [OF assms] mrp_destroy_p_ok [OF assms] mrp_uninit_p_ok [OF assms] in blast)+

theorem instance_list_simulates_witness:
  "\<exists>c d. mrp_create_p demo_env 1 1 1 0 idaemon_init = Some (0, c) \<and> mrp_create demo_env 1 1 0 daemon_init = (0, d) \<and>
    represents c [1] d \<and> mrp_find_p 1 1 c = Some (map_option ((!) [1]) (mrp_find 1 1 d))"
proof -
  have a: "iheap idaemon_init 1 = None" by (simp add: idaemon_init_def mrp_instances_def)
  have z: "fst (mrp_create demo_env 1 1 0 daemon_init) = 0" by (simp add: mrp_create_def demo_env_def Let_def)
  obtain r c d where c: "mrp_create demo_env 1 1 0 daemon_init = (r, d)" "mrp_create_p demo_env 1 1 1 0 idaemon_init = Some (r, c)"
      "represents c (if r = 0 then [] @ [1] else []) d"
    using instance_list_simulates [OF init_represents, of 1 1 0 0 demo_env 0] a by blast
  then have "represents c [1] d" using z by simp
  from instance_list_simulates [OF this, of 1 1] this c z show ?thesis by auto
qed

section \<open>Start, stop and signals\<close>



text \<open>(C38) The signal of a change of a port state carries the name of the port, the event and the state, joined by
  colons; the buffer that is allocated for it is never overrun.\<close>

theorem dbus_signal_text:
  assumes "malloc (signal_size (pifname p) ''StateChanged'' [port_states state]) = Some buf"
    and "length buf = signal_size (pifname p) ''StateChanged'' [port_states state]" and "NUL \<notin> set (pifname p)"
  shows "dbus_port_state_changed malloc lib p state =
    Some (dbus_send lib ''PortEvent'' (pifname p @ '':StateChanged:'' @ port_states state))"
proof -
  have "NUL \<notin> set (port_states state)" by (cases state) simp_all
  then have "\<forall>s \<in> set (pifname p # ''StateChanged'' # [port_states state]). NUL \<notin> set s" using assms(3) by simp
  from valist_text [where malloc = malloc, OF assms(1,2) this] show ?thesis
    by (simp add: dbus_port_state_changed_def dbus_port_event_def butlast_append)
qed

theorem dbus_signal_text_witness:
  "dbus_port_state_changed (\<lambda>n. Some (replicate n CHR ''x'')) \<lparr>new_signal_ok = True, append_ok = True, send_ok = True\<rparr>
     (demo_port BR_MRP_PORT_ROLE_PRIMARY BR_MRP_PORT_STATE_FORWARDING 2) BR_MRP_PORT_STATE_BLOCKED =
   Some (0, [New_signal ''PortEvent'', Append_basic ''eth:StateChanged:Blocking'', Connection_send, Connection_flush, Message_unref])"
  using dbus_signal_text [of "\<lambda>n. Some (replicate n CHR ''x'')" "demo_port BR_MRP_PORT_ROLE_PRIMARY BR_MRP_PORT_STATE_FORWARDING 2"
      BR_MRP_PORT_STATE_BLOCKED]
  by (simp add: demo_port_def dbus_send_def)

end
